(* ===== verification/Prelude.thy ===== *)
theory Prelude
  imports Complex_Main "HOL-Library.Word"
begin

text \<open>
  Shared types, machine arithmetic, Rust string operations and generic lemmas of the
  development.

  Conventions used by every theory:
  \<^item> \<open>u8\<close> .. \<open>u64\<close> are machine words; \<open>as_i64\<close> is the Rust cast \<open>u64 as i64\<close>.
  \<^item> A \<open>timestamp\<close> (chrono \<open>DateTime<Utc>\<close>) is the instant in nanoseconds since the epoch
    and a \<open>duration\<close> (chrono \<open>Duration\<close>) a signed number of nanoseconds. The truncating
    readers \<open>num_milliseconds\<close> and \<open>num_seconds\<close> of chrono are parameters of the
    definitions that use them; \<open>whole_units\<close> states their documented behaviour.
  \<^item> A \<open>decimal\<close> (rust_decimal \<open>Decimal\<close>) is its numeric value; only its documented
    numeric order and equality are used directly, its arithmetic is a parameter.
  \<^item> A Rust \<open>String\<close> is the list of its UTF-8 bytes, one \<open>char\<close> per byte, so
    \<open>length\<close> is Rust's \<open>len\<close>.
\<close>

section \<open>Collections of the development\<close>

named_theorems model_defs \<open>non-recursive definitions of the model, for unfolding\<close>
named_theorems frame_rules \<open>what an operation leaves unchanged\<close>

section \<open>Machine integers\<close>

type_synonym u8 = "8 word"
type_synonym u16 = "16 word"
type_synonym u32 = "32 word"
type_synonym u64 = "64 word"

type_synonym timestamp = int
type_synonym duration = int
type_synonym decimal = rat

definition as_i64 :: "u64 \<Rightarrow> int" where
  "as_i64 w = sint w"

definition i64_as_u64 :: "int \<Rightarrow> u64" where
  "i64_as_u64 i = word_of_int i"

definition u32_saturating_sub :: "u32 \<Rightarrow> u32 \<Rightarrow> u32" where
  "u32_saturating_sub a b = (if a \<le> b then 0 else a - b)"

lemma as_i64_small: "uint w < 2 ^ 63 \<Longrightarrow> as_i64 w = uint w"
  unfolding as_i64_def
  by (simp add: sint_uint signed_take_bit_int_eq_self_iff) (rule order_trans [of _ 0], simp_all)

lemma uint_small_nonneg: "0 \<le> i \<Longrightarrow> i < 2 ^ 64 \<Longrightarrow> uint (i64_as_u64 i) = i"
  unfolding i64_as_u64_def by (simp add: uint_word_of_int)

lemma uint_pos: "uint w \<noteq> 0 \<Longrightarrow> 0 < uint w"
  by (rule order.not_eq_order_implies_strict) simp_all

lemma unat_u8_less: "unat (x :: u8) < 256"
proof -
  have "unat x < 2 ^ LENGTH(8)" by (rule unsigned_less)
  then show ?thesis by simp
qed

lemma unat_saturating_sub: "unat (u32_saturating_sub a b) = unat a - unat b"
proof (cases "a \<le> b")
  case True
  then show ?thesis by (simp add: u32_saturating_sub_def word_le_nat_alt)
next
  case False
  then have "b \<le> a" by simp
  with False show ?thesis by (simp add: u32_saturating_sub_def unat_sub)
qed

text \<open>Rust's unsigned \<open>+\<close> with overflow checks: \<open>None\<close> stands for the panic.\<close>

definition u32_add :: "u32 \<Rightarrow> u32 \<Rightarrow> u32 option" where
  "u32_add a b = (if unat a + unat b < 2 ^ 32 then Some (a + b) else None)"

lemma u32_add_Some: "u32_add a b = Some c \<Longrightarrow> unat c = unat a + unat b"
  by (auto simp: u32_add_def unat_word_ariths split: if_splits)

section \<open>Whole units of a duration\<close>

text \<open>
  chrono documents \<open>num_milliseconds\<close> and \<open>num_seconds\<close> as the number of whole units of
  the duration (truncating towards zero). \<open>trunc_units\<close> is one function with that
  behaviour, used to instantiate the parameter in witnesses.
\<close>

definition whole_units :: "int \<Rightarrow> (duration \<Rightarrow> int) \<Rightarrow> bool" where
  "whole_units u f \<longleftrightarrow>
     (\<forall>d. (0 \<le> d \<longrightarrow> f d * u \<le> d \<and> d < (f d + 1) * u) \<and>
          (d < 0 \<longrightarrow> d \<le> f d * u \<and> (f d - 1) * u < d))"

definition trunc_units :: "int \<Rightarrow> duration \<Rightarrow> int" where
  "trunc_units u d = (if 0 \<le> d then d div u else - ((- d) div u))"

lemma whole_units_trunc:
  assumes "0 < u"
  shows "whole_units u (trunc_units u)"
proof -
  have bounds: "(x div u) * u \<le> x \<and> x < (x div u + 1) * u" for x :: int
  proof -
    have "(x div u) * u + x mod u = x" by (rule div_mult_mod_eq)
    moreover have "0 \<le> x mod u" "x mod u < u" using assms by simp_all
    ultimately have "(x div u) * u \<le> x" "x < (x div u) * u + u" by linarith+
    then show ?thesis by (simp add: distrib_right)
  qed
  have "d \<le> - ((- d) div u) * u \<and> (- ((- d) div u) - 1) * u < d" for d
    using bounds [of "- d"] by (simp add: algebra_simps)
  with bounds show ?thesis by (simp add: whole_units_def trunc_units_def)
qed

lemma whole_units_mono:
  assumes "whole_units u f" and "0 < u" and "c \<le> d"
  shows "f c \<le> f d"
proof (rule ccontr)
  assume "\<not> f c \<le> f d"
  then have le: "f d + 1 \<le> f c" by simp
  have *: "(f d + 1) * u \<le> f c * u" and **: "f d * u \<le> (f c - 1) * u"
    using le assms(2) by (simp_all add: mult_right_mono)
  consider "0 \<le> c" | "c < 0" "0 \<le> d" | "d < 0" using assms(3) by linarith
  then show False
  proof cases
    case 1
    then have "f c * u \<le> c" "d < (f d + 1) * u"
      using assms(1,3) by (auto simp: whole_units_def)
    with * assms(3) show False by linarith
  next
    case 2
    then have "(f c - 1) * u < c" "d < (f d + 1) * u"
      using assms(1) by (auto simp: whole_units_def)
    then have "(f c - 1) * u < 0" "0 < (f d + 1) * u" using 2 by linarith+
    then have "f c - 1 < 0" "0 < f d + 1"
      using assms(2) by (simp_all add: mult_less_0_iff zero_less_mult_iff)
    with le show False by linarith
  next
    case 3
    then have "d \<le> f d * u" "(f c - 1) * u < c"
      using assms(1,3) by (auto simp: whole_units_def)
    with ** assms(3) show False by linarith
  qed
qed

lemma whole_units_exact:
  assumes "whole_units u f" and "0 < u"
  shows "f (k * u) = k"
proof (cases "0 \<le> k * u")
  case True
  then have "f (k * u) * u \<le> k * u" and "k * u < (f (k * u) + 1) * u"
    using assms(1) by (auto simp: whole_units_def)
  with assms(2) have "f (k * u) \<le> k" and "k < f (k * u) + 1" by simp_all
  then show ?thesis by simp
next
  case False
  then have "k * u \<le> f (k * u) * u" and "(f (k * u) - 1) * u < k * u"
    using assms(1) by (auto simp: whole_units_def)
  with assms(2) have "k \<le> f (k * u)" and "f (k * u) - 1 < k" by simp_all
  then show ?thesis by simp
qed

section \<open>Hash iteration\<close>

text \<open>The order in which a hash map or set yields its keys: each key once, in some order.\<close>

definition hash_iteration :: "('k set \<Rightarrow> 'k list) \<Rightarrow> bool" where
  "hash_iteration iter \<longleftrightarrow> (\<forall>S. finite S \<longrightarrow> set (iter S) = S \<and> distinct (iter S))"

lemma hash_iteration_finite:
  "hash_iteration iter \<Longrightarrow> finite S \<Longrightarrow> set (iter S) = S"
  "hash_iteration iter \<Longrightarrow> finite S \<Longrightarrow> distinct (iter S)"
  by (simp_all add: hash_iteration_def)

section \<open>Results\<close>

text \<open>
  \<open>Result<A, E>\<close> is \<open>'e + 'a\<close> with \<open>Inl\<close> for \<open>Err\<close>; \<open>and_then\<close> is the \<open>?\<close> operator.
\<close>

definition and_then :: "'e + 'a \<Rightarrow> ('a \<Rightarrow> 'e + 'b) \<Rightarrow> 'e + 'b" where
  "and_then r f = (case r of Inl e \<Rightarrow> Inl e | Inr a \<Rightarrow> f a)"

definition ok_or :: "'a option \<Rightarrow> 'e \<Rightarrow> 'e + 'a" where
  "ok_or v e = (case v of None \<Rightarrow> Inl e | Some a \<Rightarrow> Inr a)"

definition is_ok :: "'e + 'a \<Rightarrow> bool" where
  "is_ok r = (case r of Inl _ \<Rightarrow> False | Inr _ \<Rightarrow> True)"

lemma and_then_simps [simp]:
  "and_then (Inl e) f = Inl e"
  "and_then (Inr a) f = f a"
  by (simp_all add: and_then_def)

lemma and_then_Inr_iff: "and_then r f = Inr b \<longleftrightarrow> (\<exists>a. r = Inr a \<and> f a = Inr b)"
  by (cases r) auto

lemma ok_or_simps [simp]:
  "ok_or None e = Inl e"
  "ok_or (Some a) e = Inr a"
  by (simp_all add: ok_or_def)

lemma ok_or_Inr_iff: "ok_or v e = Inr a \<longleftrightarrow> v = Some a"
  by (cases v) auto

lemma is_ok_simps [simp]: "is_ok (Inr a)" "\<not> is_ok (Inl e)"
  by (simp_all add: is_ok_def)

end
