(* ===== verification/RustStrings.thy ===== *)
theory RustStrings
  imports Prelude
begin

text \<open>
  The string operations of the Rust standard library that the program uses, on UTF-8 byte
  strings: ASCII classes and case, character counting, \<open>trim\<close>, \<open>contains\<close>, \<open>join\<close>,
  \<open>starts_with\<close>, and the \<open>Display\<close> of integers and hexadecimal bytes.
\<close>

section \<open>Characters\<close>

definition is_ascii_digit :: "char \<Rightarrow> bool" where
  "is_ascii_digit c \<longleftrightarrow> 48 \<le> (of_char c :: nat) \<and> (of_char c :: nat) \<le> 57"

definition is_ascii_alphanumeric :: "char \<Rightarrow> bool" where
  "is_ascii_alphanumeric c \<longleftrightarrow> is_ascii_digit c
     \<or> (65 \<le> (of_char c :: nat) \<and> (of_char c :: nat) \<le> 90)
     \<or> (97 \<le> (of_char c :: nat) \<and> (of_char c :: nat) \<le> 122)"

text \<open>A byte 10xxxxxx continues a character; \<open>chars().count()\<close> counts the others.\<close>

definition is_continuation_byte :: "char \<Rightarrow> bool" where
  "is_continuation_byte c \<longleftrightarrow> 128 \<le> (of_char c :: nat) \<and> (of_char c :: nat) < 192"

definition chars_count :: "string \<Rightarrow> nat" where
  "chars_count s = length (filter (\<lambda>c. \<not> is_continuation_byte c) s)"

text \<open>The first character of \<open>s\<close> some byte of which fails \<open>p\<close>, as its UTF-8 bytes.\<close>

fun find_char_not :: "(char \<Rightarrow> bool) \<Rightarrow> string \<Rightarrow> string option" where
  "find_char_not p [] = None"
| "find_char_not p (c # s) =
     (if p c then find_char_not p s else Some (c # takeWhile is_continuation_byte s))"

fun nat_to_string :: "nat \<Rightarrow> string" where
  "nat_to_string n =
     (if n < 10 then [char_of (48 + n)]
      else nat_to_string (n div 10) @ [char_of (48 + n mod 10)])"

declare nat_to_string.simps [simp del]

definition int_to_string :: "int \<Rightarrow> string" where
  "int_to_string i = (if i < 0 then ''-'' @ nat_to_string (nat (- i)) else nat_to_string (nat i))"

section \<open>Case, search and joining\<close>

definition to_ascii_lowercase_char :: "char \<Rightarrow> char" where
  "to_ascii_lowercase_char c =
     (if 65 \<le> (of_char c :: nat) \<and> (of_char c :: nat) \<le> 90
      then char_of ((of_char c :: nat) + 32) else c)"

definition to_ascii_lowercase :: "string \<Rightarrow> string" where
  "to_ascii_lowercase s = map to_ascii_lowercase_char s"

definition starts_with :: "string \<Rightarrow> string \<Rightarrow> bool" where
  "starts_with s p \<longleftrightarrow> take (length p) s = p"

fun str_contains :: "string \<Rightarrow> string \<Rightarrow> bool" where
  "str_contains [] p = (p = [])"
| "str_contains (c # s) p = (starts_with (c # s) p \<or> str_contains s p)"

fun str_join :: "string \<Rightarrow> string list \<Rightarrow> string" where
  "str_join sep [] = []"
| "str_join sep [s] = s"
| "str_join sep (s # t # ss) = s @ sep @ str_join sep (t # ss)"

section \<open>Trimming\<close>

text \<open>
  The UTF-8 encodings of the characters with the Unicode property \<open>White_Space\<close>. No
  encoding ends another one's, so \<open>trim_end\<close> can look at the reversed bytes.
\<close>

definition white_space :: "string list" where
  "white_space = map (map char_of)
     ([[9], [10], [11], [12], [13], [32], [194, 133], [194, 160], [225, 154, 128]]
      @ map (\<lambda>b. [226, 128, b]) [128..<139]
      @ [[226, 128, 168], [226, 128, 169], [226, 128, 175], [226, 129, 159],
         [227, 128, 128 :: nat]])"

definition strip_one :: "string list \<Rightarrow> string \<Rightarrow> string option" where
  "strip_one ws s = (case List.find (starts_with s) ws of
     None \<Rightarrow> None | Some w \<Rightarrow> (if w = [] then None else Some (drop (length w) s)))"

lemma strip_one_shorter:
  assumes "strip_one ws s = Some t"
  shows "length t < length s"
proof -
  obtain w where w: "List.find (starts_with s) ws = Some w" and "w \<noteq> []" and t: "t = drop (length w) s"
    using assms by (auto simp: strip_one_def split: option.splits if_splits)
  from w have "take (length w) s = w" by (auto simp: find_Some_iff starts_with_def)
  with \<open>w \<noteq> []\<close> have "s \<noteq> []" by auto
  with \<open>w \<noteq> []\<close> show ?thesis by (simp add: t)
qed

function strip_all :: "string list \<Rightarrow> string \<Rightarrow> string" where
  "strip_all ws s = (case strip_one ws s of None \<Rightarrow> s | Some t \<Rightarrow> strip_all ws t)"
  by pat_completeness auto
termination by (relation "measure (\<lambda>(ws, s). length s)") (auto dest: strip_one_shorter)

declare strip_all.simps [simp del]

definition trim_start :: "string \<Rightarrow> string" where
  "trim_start s = strip_all white_space s"

definition trim_end :: "string \<Rightarrow> string" where
  "trim_end s = rev (strip_all (map rev white_space) (rev s))"

definition trim :: "string \<Rightarrow> string" where
  "trim s = trim_end (trim_start s)"

section \<open>Hexadecimal\<close>

definition hex_digit :: "nat \<Rightarrow> char" where
  "hex_digit n = (if n < 10 then char_of (48 + n) else char_of (87 + n))"

text \<open>The format \<open>{:02x}\<close> of a byte.\<close>

definition hex_byte :: "u8 \<Rightarrow> string" where
  "hex_byte b = [hex_digit (unat b div 16), hex_digit (unat b mod 16)]"

definition hex_string :: "u8 list \<Rightarrow> string" where
  "hex_string bs = concat (map hex_byte bs)"

section \<open>Decimal numerals\<close>

definition digits_value :: "nat \<Rightarrow> string \<Rightarrow> nat" where
  "digits_value a s = foldl (\<lambda>a c. a * 10 + (of_char c - 48)) a s"

lemma digits_value_nat_to_string: "digits_value 0 (nat_to_string n) = n"
proof (induction n rule: nat_to_string.induct)
  case (1 n)
  then show ?case
    by (cases "n < 10") (simp_all add: nat_to_string.simps [of n] digits_value_def)
qed

lemma nat_to_string_digits: "\<forall>c \<in> set (nat_to_string n). is_ascii_digit c"
proof (induction n rule: nat_to_string.induct)
  case (1 n)
  then show ?case
    by (cases "n < 10") (auto simp: nat_to_string.simps [of n] is_ascii_digit_def)
qed

lemma nat_to_string_nonempty [simp]: "nat_to_string n \<noteq> []"
  by (simp add: nat_to_string.simps)

section \<open>Facts\<close>

lemma find_char_not_None: "find_char_not p s = None \<longleftrightarrow> (\<forall>c \<in> set s. p c)"
  by (induction s) auto

lemma chars_count_ascii: "\<forall>c \<in> set s. \<not> is_continuation_byte c \<Longrightarrow> chars_count s = length s"
  by (simp add: chars_count_def)

lemma chars_count_le: "chars_count s \<le> length s"
  by (simp add: chars_count_def)

lemma strip_all_Nil [simp]: "strip_all ws [] = []"
proof -
  have "strip_one ws [] = None"
    by (auto simp: strip_one_def starts_with_def find_Some_iff split: option.splits)
  then show ?thesis by (simp add: strip_all.simps)
qed

lemma trim_Nil [simp]: "trim [] = []"
  by (simp add: trim_def trim_start_def trim_end_def)

lemma to_ascii_lowercase_Nil [simp]: "to_ascii_lowercase [] = []"
  by (simp add: to_ascii_lowercase_def)

lemma to_ascii_lowercase_idem: "to_ascii_lowercase (to_ascii_lowercase s) = to_ascii_lowercase s"
  by (simp add: to_ascii_lowercase_def to_ascii_lowercase_char_def)

lemma int_to_string_inject: "0 \<le> i \<Longrightarrow> 0 \<le> j \<Longrightarrow> int_to_string i = int_to_string j \<longleftrightarrow> i = j"
  by (auto simp: int_to_string_def dest: arg_cong [of _ _ "digits_value 0"]
      simp: digits_value_nat_to_string)

end
