(* ===== verification/Identifiers.thy ===== *)
theory Identifiers
  imports RustStrings
begin

text \<open>
  Identifier newtypes of \<open>broker-core/src/ids.rs\<close>: broker-native ids (non-empty strings,
  exact), the import of legacy numeric ids, and the client order id, either checked or
  derived from the first twelve bytes of the strategy request's UUID in base 32.
\<close>

section \<open>The newtypes\<close>

text \<open>A \<open>Uuid\<close> is its sixteen big-endian bytes.\<close>

datatype strategy_request_id = StrategyRequestId "u8 list"

fun uuid_bytes :: "strategy_request_id \<Rightarrow> u8 list" where
  "uuid_bytes (StrategyRequestId u) = u"

definition uuid_wf :: "strategy_request_id \<Rightarrow> bool" where
  "uuid_wf r \<longleftrightarrow> length (uuid_bytes r) = 16"

datatype broker_account_id = BrokerAccountId string
datatype broker_order_id = BrokerOrderId string
datatype broker_stop_order_id = BrokerStopOrderId string
datatype broker_trade_id = BrokerTradeId string
datatype client_order_id = ClientOrderId string

fun account_id_str :: "broker_account_id \<Rightarrow> string" where
  "account_id_str (BrokerAccountId s) = s"

fun broker_order_id_str :: "broker_order_id \<Rightarrow> string" where
  "broker_order_id_str (BrokerOrderId s) = s"

fun broker_trade_id_str :: "broker_trade_id \<Rightarrow> string" where
  "broker_trade_id_str (BrokerTradeId s) = s"

fun client_order_id_str :: "client_order_id \<Rightarrow> string" where
  "client_order_id_str (ClientOrderId s) = s"

section \<open>Broker-native and legacy ids\<close>

datatype broker_order_id_import_error =
    EmptyBrokerNativeId
  | NonPositiveLegacyAlorId int

datatype broker_stop_order_id_import_error = EmptyBrokerNativeStopId

datatype broker_trade_id_import_error = EmptyBrokerNativeTradeId

definition order_id_from_broker_native_exact ::
    "string \<Rightarrow> broker_order_id_import_error + broker_order_id" where
  "order_id_from_broker_native_exact value =
     (if value = [] then Inl EmptyBrokerNativeId else Inr (BrokerOrderId value))"

definition stop_order_id_from_broker_native_exact ::
    "string \<Rightarrow> broker_stop_order_id_import_error + broker_stop_order_id" where
  "stop_order_id_from_broker_native_exact value =
     (if value = [] then Inl EmptyBrokerNativeStopId else Inr (BrokerStopOrderId value))"

definition trade_id_from_broker_native_exact ::
    "string \<Rightarrow> broker_trade_id_import_error + broker_trade_id" where
  "trade_id_from_broker_native_exact value =
     (if value = [] then Inl EmptyBrokerNativeTradeId else Inr (BrokerTradeId value))"

definition try_from_legacy_alor_numeric ::
    "int \<Rightarrow> broker_order_id_import_error + broker_order_id" where
  "try_from_legacy_alor_numeric value =
     (if value \<le> 0 then Inl (NonPositiveLegacyAlorId value)
      else Inr (BrokerOrderId (int_to_string value)))"

text \<open>
  The serde visitor: which \<open>visit_*\<close> method the deserializer calls is a constructor.
\<close>

datatype id_token = VisitStr string | VisitI64 int | VisitU64 u64

text \<open>\<open>E::custom\<close> keeps the message only: one constructor per message.\<close>

datatype id_deserialize_error =
    CustomImport broker_order_id_import_error
  | CustomExceedsI64 u64

definition map_import_err ::
    "broker_order_id_import_error + 'a \<Rightarrow> id_deserialize_error + 'a" where
  "map_import_err r = (case r of Inl e \<Rightarrow> Inl (CustomImport e) | Inr a \<Rightarrow> Inr a)"

fun deserialize_broker_order_id_legacy_numeric_or_string ::
    "id_token \<Rightarrow> id_deserialize_error + broker_order_id" where
  "deserialize_broker_order_id_legacy_numeric_or_string (VisitStr value) =
     map_import_err (order_id_from_broker_native_exact value)"
| "deserialize_broker_order_id_legacy_numeric_or_string (VisitI64 value) =
     map_import_err (try_from_legacy_alor_numeric value)"
| "deserialize_broker_order_id_legacy_numeric_or_string (VisitU64 value) =
     (if uint value < 2 ^ 63 then map_import_err (try_from_legacy_alor_numeric (uint value))
      else Inl (CustomExceedsI64 value))"

section \<open>Client order ids\<close>

definition client_order_id_max_len :: nat where
  "client_order_id_max_len = 20"

datatype client_order_id_error =
    EmptyClientOrderId
  | ClientOrderIdTooLong nat nat
  | ClientOrderIdUnsupportedCharacter string

definition client_order_id_char_ok :: "char \<Rightarrow> bool" where
  "client_order_id_char_ok c \<longleftrightarrow> is_ascii_alphanumeric c \<or> c = CHR ''-'' \<or> c = CHR ''_''"

definition validate_client_order_id :: "string \<Rightarrow> client_order_id_error + unit" where
  "validate_client_order_id value =
     (if value = [] then Inl EmptyClientOrderId
      else let len = chars_count value in
        if client_order_id_max_len < len
        then Inl (ClientOrderIdTooLong client_order_id_max_len len)
        else case find_char_not client_order_id_char_ok value of
               Some ch \<Rightarrow> Inl (ClientOrderIdUnsupportedCharacter ch)
             | None \<Rightarrow> Inr ())"

definition client_order_id_new :: "string \<Rightarrow> client_order_id_error + client_order_id" where
  "client_order_id_new value =
     and_then (validate_client_order_id value) (\<lambda>_. Inr (ClientOrderId value))"

definition base32_alphabet :: string where
  "base32_alphabet = ''0123456789ABCDEFGHJKMNPQRSTVWXYZ''"

text \<open>The inner loop \<open>while bits >= 5\<close>: the bits left over and the characters pushed.\<close>

fun drain_bits :: "u16 \<Rightarrow> nat \<Rightarrow> nat \<times> string" where
  "drain_bits buffer bits =
     (if 5 \<le> bits
      then (let index = unat (and (drop_bit (bits - 5) buffer) 31);
                (left, output) = drain_bits buffer (bits - 5)
            in (left, base32_alphabet ! index # output))
      else (bits, []))"

declare drain_bits.simps [simp del]

fun encode_bytes :: "u8 list \<Rightarrow> u16 \<Rightarrow> nat \<Rightarrow> u16 \<times> nat \<times> string" where
  "encode_bytes [] buffer bits = (buffer, bits, [])"
| "encode_bytes (byte # bytes) buffer bits =
     (let buffer' = or (push_bit 8 buffer) (ucast byte);
          (bits', output) = drain_bits buffer' (bits + 8);
          (buffer'', bits'', output') = encode_bytes bytes buffer' bits'
      in (buffer'', bits'', output @ output'))"

definition encode_uuid_prefix_base32 :: "u8 list \<Rightarrow> string" where
  "encode_uuid_prefix_base32 bytes =
     (let (buffer, bits, output) = encode_bytes (take 12 bytes) 0 0
      in if 0 < bits
         then output @ [base32_alphabet ! unat (and (push_bit (5 - bits) buffer) 31)]
         else output)"

definition client_order_id_from_strategy_request :: "strategy_request_id \<Rightarrow> client_order_id" where
  "client_order_id_from_strategy_request request_id =
     ClientOrderId (encode_uuid_prefix_base32 (uuid_bytes request_id))"

section \<open>Correctness\<close>

subsection \<open>Base 32\<close>

definition digit_of :: "char \<Rightarrow> nat" where
  "digit_of c = length (takeWhile (\<lambda>x. x \<noteq> c) base32_alphabet)"

lemma base32_length [simp]: "length base32_alphabet = 32"
  by (simp add: base32_alphabet_def)

lemma digit_of_nth: "i < 32 \<Longrightarrow> digit_of (base32_alphabet ! i) = i"
proof -
  have "\<forall>i \<in> set [0..<32]. digit_of (base32_alphabet ! i) = i" by code_simp
  then show "i < 32 \<Longrightarrow> digit_of (base32_alphabet ! i) = i" by simp
qed

lemma alphabet_ok: "i < 32 \<Longrightarrow> client_order_id_char_ok (base32_alphabet ! i) \<and> \<not> is_continuation_byte (base32_alphabet ! i)"
proof -
  have "\<forall>i \<in> set [0..<32]. client_order_id_char_ok (base32_alphabet ! i) \<and> \<not> is_continuation_byte (base32_alphabet ! i)" by code_simp
  then show "i < 32 \<Longrightarrow> client_order_id_char_ok (base32_alphabet ! i) \<and> \<not> is_continuation_byte (base32_alphabet ! i)" by simp
qed

lemma unat_and_31: "unat (and w 31 :: u16) = unat w mod 32"
proof -
  have "and w 31 = take_bit 5 w" by (simp add: take_bit_eq_mask mask_eq_exp_minus_1)
  then have "unat (and w 31) = take_bit 5 (unat w)" by (simp only: unsigned_take_bit_eq)
  then show ?thesis by (simp add: take_bit_eq_mod)
qed

lemma unat_shift_in:
  assumes "bits \<le> 8"
  shows "unat (or (push_bit 8 buffer) (ucast byte) :: u16) mod 2 ^ (bits + 8)
    = (unat buffer mod 2 ^ bits) * 256 + unat (byte :: u8)"
proof -
  have "or (push_bit 8 buffer) (ucast byte) = push_bit 8 buffer + (ucast byte :: u16)"
    by (rule disjunctive_add [symmetric]) (auto simp: bit_simps dest: bit_imp_le_length)
  moreover have "unat (push_bit 8 buffer) = unat buffer * 256 mod 65536"
    by (simp add: push_bit_eq_mult unat_word_ariths mult.commute)
  moreover have "unat (ucast byte :: u16) = unat byte"
    by (simp add: unsigned_ucast_eq take_bit_nat_eq_self_iff order.strict_trans [OF unat_u8_less])
  ultimately have "unat (or (push_bit 8 buffer) (ucast byte) :: u16)
      = (unat buffer * 256 mod 65536 + unat byte) mod 65536"
    by (simp add: unat_word_ariths)
  also have "\<dots> = (unat buffer * 256 + unat byte) mod 65536" by (simp add: mod_simps)
  finally have "unat (or (push_bit 8 buffer) (ucast byte) :: u16) mod 2 ^ (bits + 8)
      = (unat buffer * 256 + unat byte) mod 65536 mod 2 ^ (bits + 8)" by simp
  also have "\<dots> = (unat buffer * 256 + unat byte) mod (256 * 2 ^ bits)"
  proof -
    have "(2::nat) ^ (bits + 8) dvd 2 ^ 16" using assms by (intro le_imp_power_dvd) simp
    then show ?thesis by (simp add: mod_mod_cancel power_add mult.commute)
  qed
  also have "\<dots> = 256 * ((unat buffer * 256 + unat byte) div 256 mod 2 ^ bits) + (unat buffer * 256 + unat byte) mod 256"
    by (rule mod_mult2_eq)
  also have "\<dots> = (unat buffer mod 2 ^ bits) * 256 + unat byte"
    using unat_u8_less [of byte] by simp
  finally show ?thesis .
qed

definition base32_value :: "nat \<Rightarrow> string \<Rightarrow> nat" where
  "base32_value a s = foldl (\<lambda>a c. a * 32 + digit_of c) a s"

definition bytes_value :: "nat \<Rightarrow> u8 list \<Rightarrow> nat" where
  "bytes_value a bs = foldl (\<lambda>a b. a * 256 + unat b) a bs"

lemma drain_bits_spec:
  "drain_bits buffer bits = (left, output) \<Longrightarrow>
     left = bits mod 5 \<and> length output = bits div 5 \<and>
     set output \<subseteq> set base32_alphabet \<and>
     base32_value a output * 2 ^ left + unat buffer mod 2 ^ left = a * 2 ^ bits + unat buffer mod 2 ^ bits"
proof (induction bits arbitrary: left "output" a rule: less_induct)
  case (less bits)
  show ?case
  proof (cases "5 \<le> bits")
    case False
    with less.prems show ?thesis by (simp add: drain_bits.simps [of buffer bits] base32_value_def)
  next
    case True
    define k where "k = bits - 5"
    with True have bits: "bits = k + 5" by simp
    let ?i = "unat (and (drop_bit k buffer) 31)"
    obtain output' where rec: "drain_bits buffer k = (left, output')"
      and out: "output = base32_alphabet ! ?i # output'"
      using less.prems True by (auto simp: drain_bits.simps [of buffer bits] k_def Let_def split: prod.splits)
    have i: "?i = unat buffer div 2 ^ k mod 32"
      by (simp only: unat_and_31 unat_drop_bit_eq) (simp add: drop_bit_eq_div)
    then have "?i < 32" by simp
    have IH: "left = k mod 5 \<and> length output' = k div 5 \<and> set output' \<subseteq> set base32_alphabet \<and>
       base32_value (a * 32 + ?i) output' * 2 ^ left + unat buffer mod 2 ^ left
        = (a * 32 + ?i) * 2 ^ k + unat buffer mod 2 ^ k"
      by (rule less.IH [OF _ rec]) (simp add: bits)
    have "unat buffer mod 2 ^ bits = 2 ^ k * ?i + unat buffer mod 2 ^ k"
      using mod_mult2_eq [of "unat buffer" "2 ^ k" 32] by (simp add: bits i power_add)
    moreover have "base32_value a output = base32_value (a * 32 + ?i) output'"
      using \<open>?i < 32\<close> by (simp add: out base32_value_def digit_of_nth)
    moreover have "base32_alphabet ! ?i \<in> set base32_alphabet" using \<open>?i < 32\<close> by simp
    ultimately show ?thesis using IH by (auto simp: out bits algebra_simps power_add)
  qed
qed

lemma bytes_value_Cons: "bytes_value a (b # bs) = bytes_value (a * 256 + unat b) bs"
  by (simp add: bytes_value_def)

lemma base32_value_append: "base32_value a (s @ t) = base32_value (base32_value a s) t"
  by (simp add: base32_value_def)

lemma encode_bytes_spec:
  assumes "encode_bytes bytes buffer bits = (buffer', bits', out)" and "bits < 5"
  shows "bits' = (bits + 8 * length bytes) mod 5 \<and> length out = (bits + 8 * length bytes) div 5 \<and>
     set out \<subseteq> set base32_alphabet \<and>
     base32_value a out * 2 ^ bits' + unat buffer' mod 2 ^ bits'
       = bytes_value (a * 2 ^ bits + unat buffer mod 2 ^ bits) bytes"
  using assms
proof (induction bytes arbitrary: buffer bits out a)
  case Nil
  then show ?case by (simp add: base32_value_def bytes_value_def)
next
  case (Cons byte bytes)
  let ?buffer = "or (push_bit 8 buffer) (ucast byte) :: u16"
  obtain left first rest where drain: "drain_bits ?buffer (bits + 8) = (left, first)"
    and rec: "encode_bytes bytes ?buffer left = (buffer', bits', rest)" and out: "out = first @ rest"
    using Cons.prems(1) by (auto simp: Let_def split: prod.splits)
  have d: "left = (bits + 8) mod 5" "length first = (bits + 8) div 5" "set first \<subseteq> set base32_alphabet"
    "base32_value a first * 2 ^ left + unat ?buffer mod 2 ^ left
       = a * 2 ^ (bits + 8) + unat ?buffer mod 2 ^ (bits + 8)"
    using drain_bits_spec [OF drain, of a] by auto
  from d(1) have "left < 5" by simp
  from Cons.IH [OF rec this, of "base32_value a first"]
  have IH: "bits' = (left + 8 * length bytes) mod 5" "length rest = (left + 8 * length bytes) div 5"
    "set rest \<subseteq> set base32_alphabet"
    "base32_value (base32_value a first) rest * 2 ^ bits' + unat buffer' mod 2 ^ bits'
      = bytes_value (base32_value a first * 2 ^ left + unat ?buffer mod 2 ^ left) bytes"
    by auto
  have "a * 2 ^ (bits + 8) + unat ?buffer mod 2 ^ (bits + 8)
      = (a * 2 ^ bits + unat buffer mod 2 ^ bits) * 256 + unat byte"
    using Cons.prems(2) unat_shift_in [of bits buffer byte] by (simp add: power_add algebra_simps)
  with IH(4) d(4) have val: "base32_value a out * 2 ^ bits' + unat buffer' mod 2 ^ bits'
      = bytes_value (a * 2 ^ bits + unat buffer mod 2 ^ bits) (byte # bytes)"
    by (simp add: out base32_value_append bytes_value_Cons)
  have "bits' = (bits + 8 * length (byte # bytes)) mod 5"
    unfolding IH(1) d(1) by (simp add: mod_simps algebra_simps)
  moreover have "length out = (bits + 8 * length (byte # bytes)) div 5"
    unfolding out length_append IH(2) d(2) d(1) by simp presburger
  ultimately show ?case using val d(3) IH(3) by (simp add: out)
qed

lemma bytes_value_inject:
  "length xs = length ys \<Longrightarrow> bytes_value a xs = bytes_value b ys \<Longrightarrow> a = b \<and> xs = ys"
proof (induction xs ys arbitrary: a b rule: list_induct2)
  case Nil
  then show ?case by (simp add: bytes_value_def)
next
  case (Cons x xs y ys)
  then have "a * 256 + unat x = b * 256 + unat y" and eq: "xs = ys"
    by (auto simp: bytes_value_Cons)
  moreover have "unat x < 256" "unat y < 256" using unat_u8_less [of x] unat_u8_less [of y] by simp_all
  moreover have "(a * 256 + unat x) div 256 = a" "(b * 256 + unat y) div 256 = b"
    using calculation(3,4) by simp_all
  ultimately have "a = b" by metis
  with \<open>a * 256 + unat x = b * 256 + unat y\<close> have "unat x = unat y" by simp
  with eq \<open>a = b\<close> show ?case by (simp add: word_unat_eq_iff)
qed

lemma encode_uuid_prefix_spec:
  assumes "length bytes = 16"
  shows "length (encode_uuid_prefix_base32 bytes) = 20"
    and "set (encode_uuid_prefix_base32 bytes) \<subseteq> set base32_alphabet"
    and "\<exists>b buffer. encode_uuid_prefix_base32 bytes
         = b @ [base32_alphabet ! unat (and (push_bit 4 buffer) 31 :: u16)]
       \<and> base32_value 0 b * 2 + unat buffer mod 2 = bytes_value 0 (take 12 bytes)"
proof -
  obtain buffer bits out where enc: "encode_bytes (take 12 bytes) 0 0 = (buffer, bits, out)"
    by (metis surj_pair)
  have spec: "bits = (0 + 8 * length (take 12 bytes)) mod 5 \<and> length out = (0 + 8 * length (take 12 bytes)) div 5 \<and>
     set out \<subseteq> set base32_alphabet \<and>
     base32_value 0 out * 2 ^ bits + unat buffer mod 2 ^ bits
       = bytes_value (0 * 2 ^ 0 + unat (0 :: u16) mod 2 ^ 0) (take 12 bytes)"
    by (rule encode_bytes_spec [OF enc]) simp
  have bits: "bits = 1" using spec assms by simp
  have out: "length out = 19" "set out \<subseteq> set base32_alphabet" using spec assms by simp_all
  have val: "base32_value 0 out * 2 + unat buffer mod 2 = bytes_value 0 (take 12 bytes)"
    using spec bits by simp
  have "unat (and (push_bit 4 buffer) 31) < 32" by (simp add: unat_and_31)
  then have "base32_alphabet ! unat (and (push_bit 4 buffer) 31) \<in> set base32_alphabet" by simp
  moreover have "encode_uuid_prefix_base32 bytes
      = out @ [base32_alphabet ! unat (and (push_bit 4 buffer) 31)]"
    by (simp add: encode_uuid_prefix_base32_def enc bits)
  ultimately show "length (encode_uuid_prefix_base32 bytes) = 20"
    "set (encode_uuid_prefix_base32 bytes) \<subseteq> set base32_alphabet"
    "\<exists>b buffer. encode_uuid_prefix_base32 bytes
         = b @ [base32_alphabet ! unat (and (push_bit 4 buffer) 31 :: u16)]
       \<and> base32_value 0 b * 2 + unat buffer mod 2 = bytes_value 0 (take 12 bytes)"
    using out val by auto
qed

lemma digit_of_last:
  "digit_of (base32_alphabet ! unat (and (push_bit 4 buffer) 31 :: u16)) = 16 * (unat buffer mod 2)"
proof -
  have "unat (and (push_bit 4 buffer) 31) = unat (push_bit 4 buffer) mod 32" by (rule unat_and_31)
  also have "unat (push_bit 4 buffer) = unat buffer * 16 mod 65536"
    by (simp add: push_bit_eq_mult unat_word_ariths mult.commute)
  also have "unat buffer * 16 mod 65536 mod 32 = 16 * (unat buffer mod 2)"
    by (simp add: mod_mod_cancel mult_mod_right mult.commute)
  finally have "unat (and (push_bit 4 buffer) 31) = 16 * (unat buffer mod 2)" .
  then show ?thesis by (simp add: digit_of_nth)
qed

lemma encode_uuid_prefix_inject:
  assumes "length b1 = 16" "length b2 = 16"
    and "encode_uuid_prefix_base32 b1 = encode_uuid_prefix_base32 b2"
  shows "take 12 b1 = take 12 b2"
proof -
  from encode_uuid_prefix_spec(3) [OF assms(1)] obtain o1 x1 where
    1: "encode_uuid_prefix_base32 b1 = o1 @ [base32_alphabet ! unat (and (push_bit 4 x1) 31 :: u16)]"
      "base32_value 0 o1 * 2 + unat x1 mod 2 = bytes_value 0 (take 12 b1)" by blast
  from encode_uuid_prefix_spec(3) [OF assms(2)] obtain o2 x2 where
    2: "encode_uuid_prefix_base32 b2 = o2 @ [base32_alphabet ! unat (and (push_bit 4 x2) 31 :: u16)]"
      "base32_value 0 o2 * 2 + unat x2 mod 2 = bytes_value 0 (take 12 b2)" by blast
  from assms(3) 1(1) 2(1) have "o1 = o2"
    and "base32_alphabet ! unat (and (push_bit 4 x1) 31) = base32_alphabet ! unat (and (push_bit 4 x2) 31)"
    by simp_all
  then have "unat x1 mod 2 = unat x2 mod 2"
    using digit_of_last [of x1] digit_of_last [of x2] by simp
  with \<open>o1 = o2\<close> 1(2) 2(2) have "bytes_value 0 (take 12 b1) = bytes_value 0 (take 12 b2)" by simp
  then show ?thesis using bytes_value_inject [of "take 12 b1" "take 12 b2" 0 0] assms by simp
qed

lemma in_alphabet: "c \<in> set base32_alphabet \<Longrightarrow> client_order_id_char_ok c \<and> \<not> is_continuation_byte c"
  using alphabet_ok by (auto simp: in_set_conv_nth)

lemma client_order_id_new_Inr_iff:
  "client_order_id_new s = Inr c \<longleftrightarrow>
     c = ClientOrderId s \<and> s \<noteq> [] \<and> length s \<le> 20 \<and> (\<forall>x \<in> set s. client_order_id_char_ok x)"
proof -
  have ascii: "\<not> is_continuation_byte x" if "client_order_id_char_ok x" for x
    using that by (auto simp: client_order_id_char_ok_def is_ascii_alphanumeric_def
        is_ascii_digit_def is_continuation_byte_def)
  then have "(\<forall>x \<in> set s. client_order_id_char_ok x) \<Longrightarrow> chars_count s = length s"
    by (simp add: chars_count_ascii)
  then show ?thesis
    by (cases "find_char_not client_order_id_char_ok s")
      (auto simp: client_order_id_new_def validate_client_order_id_def
        client_order_id_max_len_def find_char_not_None [symmetric] Let_def)
qed

subsection \<open>Properties\<close>

text \<open>Importing broker order ids: whatever token the deserializer meets, an accepted id is
  non-empty, an accepted number is positive and its decimal digits read back as that number,
  so distinct numbers import as distinct ids, and a string is kept as it is.\<close>

theorem broker_order_id_import:
  "deserialize_broker_order_id_legacy_numeric_or_string token = Inr b \<longleftrightarrow>
     broker_order_id_str b \<noteq> [] \<and>
     (case token of
        VisitStr s \<Rightarrow> broker_order_id_str b = s
      | VisitI64 i \<Rightarrow> 0 < i \<and> broker_order_id_str b = nat_to_string (nat i)
          \<and> digits_value 0 (broker_order_id_str b) = nat i
      | VisitU64 w \<Rightarrow> 0 < uint w \<and> uint w < 2 ^ 63 \<and> broker_order_id_str b = nat_to_string (unat w)
          \<and> digits_value 0 (broker_order_id_str b) = unat w)"
  by (cases b; cases token)
    (auto simp: map_import_err_def order_id_from_broker_native_exact_def
      try_from_legacy_alor_numeric_def int_to_string_def digits_value_nat_to_string
      intro: uint_pos split: sum.splits)

text \<open>The client order id derived from a request UUID is always one that
  \<open>ClientOrderId::new\<close> accepts (non-empty, at most 20 characters, allowed characters).\<close>

theorem derived_client_order_id_valid:
  "uuid_wf r \<Longrightarrow>
     client_order_id_new (client_order_id_str (client_order_id_from_strategy_request r))
       = Inr (client_order_id_from_strategy_request r)"
proof -
  assume "uuid_wf r"
  then have l: "length (uuid_bytes r) = 16" by (simp add: uuid_wf_def)
  let ?s = "encode_uuid_prefix_base32 (uuid_bytes r)"
  have "\<forall>c \<in> set ?s. client_order_id_char_ok c \<and> \<not> is_continuation_byte c"
    using encode_uuid_prefix_spec(2) [OF l] in_alphabet by blast
  then have "chars_count ?s = 20" "find_char_not client_order_id_char_ok ?s = None" "?s \<noteq> []"
    using encode_uuid_prefix_spec(1) [OF l] by (auto simp: chars_count_ascii find_char_not_None)
  then show ?thesis
    by (simp add: client_order_id_new_def validate_client_order_id_def client_order_id_max_len_def
        client_order_id_from_strategy_request_def)
qed

theorem derived_client_order_id_valid_witness:
  "uuid_wf (StrategyRequestId (map word_of_nat [0..<16])) \<and>
   client_order_id_new (client_order_id_str (client_order_id_from_strategy_request
       (StrategyRequestId (map word_of_nat [0..<16]))))
     = Inr (client_order_id_from_strategy_request (StrategyRequestId (map word_of_nat [0..<16])))"
proof -
  have "uuid_wf (StrategyRequestId (map word_of_nat [0..<16]))" by (simp add: uuid_wf_def)
  then show ?thesis using derived_client_order_id_valid by blast
qed

text \<open>C6: Two request UUIDs get the same client order id exactly when their first twelve
  bytes agree: the base-32 encoding loses none of the 96 bits it reads, and the last four
  bytes of the UUID never reach the broker.\<close>

theorem derived_client_order_id_collision:
  assumes "uuid_wf r1" "uuid_wf r2"
  shows "client_order_id_from_strategy_request r1 = client_order_id_from_strategy_request r2
     \<longleftrightarrow> take 12 (uuid_bytes r1) = take 12 (uuid_bytes r2)"
proof
  assume "client_order_id_from_strategy_request r1 = client_order_id_from_strategy_request r2"
  then show "take 12 (uuid_bytes r1) = take 12 (uuid_bytes r2)"
    using assms encode_uuid_prefix_inject [of "uuid_bytes r1" "uuid_bytes r2"]
    by (simp add: client_order_id_from_strategy_request_def uuid_wf_def)
next
  assume "take 12 (uuid_bytes r1) = take 12 (uuid_bytes r2)"
  then show "client_order_id_from_strategy_request r1 = client_order_id_from_strategy_request r2"
    by (simp add: client_order_id_from_strategy_request_def encode_uuid_prefix_base32_def)
qed

theorem derived_client_order_id_collision_witness:
  "client_order_id_from_strategy_request (StrategyRequestId (replicate 12 1 @ [1, 2, 3, 4]))
     = client_order_id_from_strategy_request (StrategyRequestId (replicate 12 1 @ [5, 6, 7, 8]))
   \<and> client_order_id_from_strategy_request (StrategyRequestId (replicate 16 1))
     \<noteq> client_order_id_from_strategy_request (StrategyRequestId (replicate 11 1 @ replicate 5 2))"
proof -
  have wf: "uuid_wf (StrategyRequestId (replicate 12 1 @ [1, 2, 3, 4]))"
    "uuid_wf (StrategyRequestId (replicate 12 1 @ [5, 6, 7, 8]))"
    "uuid_wf (StrategyRequestId (replicate 16 1))"
    "uuid_wf (StrategyRequestId (replicate 11 1 @ replicate 5 2))"
    by (simp_all add: uuid_wf_def)
  have "take 12 (replicate 16 (1 :: u8)) \<noteq> take 12 (replicate 11 1 @ replicate 5 2)"
    by (simp add: numeral_eq_Suc)
  then show ?thesis
    using derived_client_order_id_collision [OF wf(1,2)] derived_client_order_id_collision [OF wf(3,4)]
    by simp
qed

end
