(* ===== verification/Contracts.thy ===== *)
theory Contracts
  imports Identifiers
begin

text \<open>
  The broker-neutral data of \<open>broker-core\<close>: instruments, orders, trades, accounts, market
  data, commands with their acknowledgements, and broker readiness. Plain data types; the
  behaviour lives in the component theories. Record fields carry a short prefix of the
  struct they belong to.
\<close>

section \<open>Instruments (\<open>instrument.rs\<close>, \<open>broker.rs\<close>)\<close>

datatype exchange = Moex | OtherExchange string

datatype market = Futures | Options | Stocks | Currency | Funds | OtherMarket string

record instrument_id =
  ins_symbol :: string
  ins_venue_symbol :: "string option"
  ins_exchange :: exchange
  ins_market :: market

type_synonym price = decimal
type_synonym quantity = decimal
type_synonym money = decimal

datatype broker_kind = Alor | Finam | Sim | OtherBroker string

section \<open>Orders and trades (\<open>order.rs\<close>)\<close>

datatype order_side = Buy | Sell

datatype order_type = Market | Limit | Stop | StopLimit | TakeProfit | TakeProfitLimit

datatype time_in_force = Day | GoodTillCancel | GoodTillDate | FillOrKill | ImmediateOrCancel

datatype order_status =
    New | Working | PartiallyFilled | Filled | Canceled | Rejected | Expired
  | UnknownStatus string

record redacted_value_fingerprint =
  fp_len :: nat
  fp_sha256 :: string

record order =
  ord_account_id :: broker_account_id
  ord_order_id :: "broker_order_id option"
  ord_client_order_id :: "client_order_id option"
  ord_broker_client_order_id_fingerprint :: "redacted_value_fingerprint option"
  ord_instrument :: instrument_id
  ord_side :: order_side
  ord_order_type :: order_type
  ord_status :: order_status
  ord_qty :: quantity
  ord_filled_qty :: quantity
  ord_limit_price :: "price option"
  ord_stop_price :: "price option"
  ord_comment_fingerprint :: "redacted_value_fingerprint option"
  ord_comment :: "string option"
  ord_source_ts :: "timestamp option"
  ord_received_ts :: timestamp

record trade =
  trd_account_id :: broker_account_id
  trd_trade_id :: broker_trade_id
  trd_order_id :: "broker_order_id option"
  trd_client_order_id :: "client_order_id option"
  trd_broker_client_order_id_fingerprint :: "redacted_value_fingerprint option"
  trd_instrument :: instrument_id
  trd_side :: order_side
  trd_qty :: quantity
  trd_price :: price
  trd_gross_amount :: "money option"
  trd_commission :: "money option"
  trd_source_ts :: timestamp
  trd_received_ts :: timestamp

section \<open>Market data (\<open>event.rs\<close>)\<close>

datatype market_data_source_kind =
  UnknownSource | HistoricalPoll | ReadOnlyPoll | LiveStream | Recovery

record bar =
  bar_instrument :: instrument_id
  bar_source_kind :: market_data_source_kind
  bar_timeframe_sec :: u32
  bar_open_ts :: timestamp
  bar_close_ts :: timestamp
  bar_open :: price
  bar_high :: price
  bar_low :: price
  bar_close :: price
  bar_volume :: quantity
  bar_is_final :: bool

section \<open>Commands (\<open>command.rs\<close>)\<close>

record place_order =
  po_request_id :: strategy_request_id
  po_created_ts :: timestamp
  po_ttl_ms :: "u64 option"
  po_account_id :: broker_account_id
  po_client_order_id :: client_order_id
  po_instrument :: instrument_id
  po_side :: order_side
  po_order_type :: order_type
  po_qty :: quantity
  po_limit_price :: "price option"
  po_time_in_force :: time_in_force
  po_comment :: "string option"

record cancel_order =
  co_request_id :: strategy_request_id
  co_created_ts :: timestamp
  co_ttl_ms :: "u64 option"
  co_account_id :: broker_account_id
  co_order_id :: broker_order_id
  co_client_order_id :: "client_order_id option"

datatype broker_command = PlaceOrder place_order | CancelOrder cancel_order

datatype command_ack_status =
    AckAccepted | AckSubmitted | AckDuplicate | AckExpired | AckRecovered | AckRejected
  | AckError | AckTimeout | AckUnknownPending

datatype command_ack_reason_code =
    FeatureDisabled | SyntheticSubmitted | LocalValidationRejected | BrokerRejectedReason
  | TransportTimeoutReason | TimeoutUnknownPendingReason | CancelTimeoutUnknownPendingReason
  | RecoveredByBrokerTruth | ReconciliationRequiredReason | DuplicateCommand | ExpiredCommand
  | ManualInterventionRequiredReason | DryRunOnly | RateLimitedReason
  | BrokerMaintenanceReason | TradingWindowClosed | ResponseDecodeErrorReason
  | UnauthorizedReason

datatype command_ack_reason = CommandAckReason command_ack_reason_code

record command_ack =
  ack_request_id :: strategy_request_id
  ack_client_order_id :: "client_order_id option"
  ack_broker_order_id :: "broker_order_id option"
  ack_status :: command_ack_status
  ack_reason :: "command_ack_reason option"
  ack_received_ts :: timestamp

record replace_order =
  ro_request_id :: strategy_request_id
  ro_created_ts :: timestamp
  ro_ttl_ms :: "u64 option"
  ro_account_id :: broker_account_id
  ro_order_id :: broker_order_id
  ro_client_order_id :: "client_order_id option"
  ro_new_qty :: "quantity option"
  ro_new_limit_price :: "price option"

record replace_order_feature_disabled =
  rd_request_id :: strategy_request_id
  rd_order_id :: broker_order_id
  rd_reason :: command_ack_reason_code

definition feature_disabled :: "replace_order \<Rightarrow> replace_order_feature_disabled" where
  "feature_disabled r =
     \<lparr> rd_request_id = ro_request_id r, rd_order_id = ro_order_id r, rd_reason = FeatureDisabled \<rparr>"

text \<open>\<open>CancelOrderBuilderInput\<close> has the fields of \<open>CancelOrder\<close>.\<close>

definition build_cancel_command :: "cancel_order \<Rightarrow> broker_command" where
  "build_cancel_command input = CancelOrder
     \<lparr> co_request_id = co_request_id input, co_created_ts = co_created_ts input,
       co_ttl_ms = co_ttl_ms input, co_account_id = co_account_id input,
       co_order_id = co_order_id input, co_client_order_id = co_client_order_id input \<rparr>"

section \<open>Readiness (\<open>readiness.rs\<close>)\<close>

datatype readiness_phase =
    Starting | AuthPending | AuthReady | ReferenceDataLoading | StreamsConnecting
  | StreamsSubscribed | SnapshotsLoading | Reconciliation | LiveReady | Degraded
  | Blocked | Stopped

datatype readiness_reason =
    MissingToken | AuthExpired | AccountUnavailable | ReferenceDataNotLoaded
  | InstrumentMapNotValidated | ScheduleNotLoaded | PositionsNotLoaded | OrdersNotLoaded
  | TradesNotLoaded | FirstLiveBarMissing | MarketDataNotLive | MarketDataSessionUnknown
  | RedisUnavailable | ClockSkew | ReconciliationStale | UnknownOpenOrders
  | OperatorLiveArmMissing | BrokerMaintenance | RateLimited | TransportDisconnected
  | OperatorPaused | OtherReadinessReason string

record broker_readiness =
  br_phase :: readiness_phase
  br_reasons :: "readiness_reason list"
  br_checked_ts :: timestamp

end
