(* ===== verification/CommentPolicy.thy ===== *)
theory CommentPolicy
  imports Contracts
begin

text \<open>
  Outgoing order comments (\<open>order_path.rs\<close>): the comment policy, the token check that keeps
  secrets out of comments, and the redacted fingerprint. SHA-256 is a parameter \<open>sha256\<close>
  giving the digest bytes of a string.
\<close>

section \<open>Definitions\<close>

datatype comment_policy_mode = CommentDisabled | SanitizedDeterministic

record outgoing_order_comment_policy =
  ocp_mode :: comment_policy_mode
  ocp_max_len :: nat

definition default_comment_policy :: outgoing_order_comment_policy where
  "default_comment_policy = \<lparr> ocp_mode = CommentDisabled, ocp_max_len = 64 \<rparr>"

record outgoing_comment_intent =
  oci_strategy_id :: string
  oci_intent_class :: string
  oci_client_order_id :: client_order_id

record outgoing_order_comment =
  ooc_value :: string
  ooc_fingerprint :: redacted_value_fingerprint

datatype outgoing_comment_error =
    EmptyToken
  | UnsupportedCharacter string
  | ForbiddenWord string
  | CommentTooLong nat nat

definition comment_char_ok :: "char \<Rightarrow> bool" where
  "comment_char_ok c \<longleftrightarrow> is_ascii_alphanumeric c \<or> c = CHR ''_'' \<or> c = CHR ''-''"

definition forbidden_words :: "string list" where
  "forbidden_words = [''secret'', ''jwt'', ''token'', ''account'', ''operator'', ''broker'']"

definition validate_comment_token :: "string \<Rightarrow> outgoing_comment_error + unit" where
  "validate_comment_token value =
     (if value = [] then Inl EmptyToken
      else case find_char_not comment_char_ok value of
        Some ch \<Rightarrow> Inl (UnsupportedCharacter ch)
      | None \<Rightarrow>
         (case List.find (str_contains (to_ascii_lowercase value)) forbidden_words of
            Some forbidden \<Rightarrow> Inl (ForbiddenWord forbidden)
          | None \<Rightarrow> Inr ()))"

definition fingerprint_redacted_value ::
    "(string \<Rightarrow> u8 list) \<Rightarrow> string \<Rightarrow> redacted_value_fingerprint" where
  "fingerprint_redacted_value sha256 value =
     \<lparr> fp_len = length value, fp_sha256 = hex_string (sha256 value) \<rparr>"

definition comment_value :: "outgoing_comment_intent \<Rightarrow> string" where
  "comment_value intent =
     ''strategy='' @ oci_strategy_id intent @ '';intent='' @ oci_intent_class intent
       @ '';cid='' @ client_order_id_str (oci_client_order_id intent)"

definition build_comment ::
    "(string \<Rightarrow> u8 list) \<Rightarrow> outgoing_order_comment_policy \<Rightarrow> outgoing_comment_intent
       \<Rightarrow> outgoing_comment_error + outgoing_order_comment option" where
  "build_comment sha256 policy intent =
     (case ocp_mode policy of
        CommentDisabled \<Rightarrow> Inr None
      | SanitizedDeterministic \<Rightarrow>
          and_then (validate_comment_token (oci_strategy_id intent)) (\<lambda>_.
          and_then (validate_comment_token (oci_intent_class intent)) (\<lambda>_.
            let value = comment_value intent in
            if ocp_max_len policy < length value
            then Inl (CommentTooLong (ocp_max_len policy) (length value))
            else Inr (Some
              \<lparr> ooc_value = value, ooc_fingerprint = fingerprint_redacted_value sha256 value \<rparr>))))"

section \<open>Facts\<close>

lemma validate_comment_token_Inr:
  "validate_comment_token s = Inr () \<longleftrightarrow>
     s \<noteq> [] \<and> (\<forall>c \<in> set s. comment_char_ok c) \<and>
     (\<forall>w \<in> set forbidden_words. \<not> str_contains (to_ascii_lowercase s) w)"
proof -
  have "List.find (str_contains (to_ascii_lowercase s)) forbidden_words = None \<longleftrightarrow>
      (\<forall>w \<in> set forbidden_words. \<not> str_contains (to_ascii_lowercase s) w)"
    by (auto simp: find_None_iff)
  then show ?thesis
    by (cases "List.find (str_contains (to_ascii_lowercase s)) forbidden_words")
      (auto simp: validate_comment_token_def find_char_not_None [symmetric] split: option.splits)
qed

lemma build_comment_Some:
  assumes "build_comment sha256 policy intent = Inr (Some c)"
  shows "ocp_mode policy = SanitizedDeterministic"
    and "validate_comment_token (oci_strategy_id intent) = Inr ()"
    and "validate_comment_token (oci_intent_class intent) = Inr ()"
    and "ooc_value c = comment_value intent"
    and "length (ooc_value c) \<le> ocp_max_len policy"
    and "ooc_fingerprint c = fingerprint_redacted_value sha256 (ooc_value c)"
  using assms
  by (auto simp: build_comment_def and_then_Inr_iff Let_def split: comment_policy_mode.splits if_splits)

text \<open>The three parts of a comment can be read back: no token contains a separator.\<close>

lemma token_no_separator: "validate_comment_token s = Inr () \<Longrightarrow> CHR '';'' \<notin> set s"
  by (auto simp: validate_comment_token_Inr comment_char_ok_def is_ascii_alphanumeric_def
      is_ascii_digit_def)

lemma split_at_separator:
  "x \<notin> set a \<Longrightarrow> x \<notin> set b \<Longrightarrow> a @ x # c = b @ x # d \<longleftrightarrow> a = b \<and> c = d"
  by (induction a arbitrary: b) (case_tac b; auto)+

lemma comment_value_inject:
  assumes "validate_comment_token (oci_strategy_id i) = Inr ()"
    and "validate_comment_token (oci_intent_class i) = Inr ()"
    and "validate_comment_token (oci_strategy_id j) = Inr ()"
    and "validate_comment_token (oci_intent_class j) = Inr ()"
    and "comment_value i = comment_value j"
  shows "i = j"
proof -
  have "oci_strategy_id i = oci_strategy_id j \<and> oci_intent_class i = oci_intent_class j
     \<and> client_order_id_str (oci_client_order_id i) = client_order_id_str (oci_client_order_id j)"
    using assms(5) token_no_separator [OF assms(1)] token_no_separator [OF assms(2)]
      token_no_separator [OF assms(3)] token_no_separator [OF assms(4)]
    by (simp add: comment_value_def split_at_separator)
  then show ?thesis
    by (cases "oci_client_order_id i"; cases "oci_client_order_id j") simp
qed

end
