(* ===== verification/OrderPath.thy ===== *)
theory OrderPath
  imports CommentPolicy
begin

text \<open>
  The order-path state machine of \<open>broker-core/src/order_path.rs\<close>: one record per strategy
  request, moved by events from the recorded intent through submission, cancellation and
  recovery to a terminal state. \<open>transition\<close> is \<open>OrderPathRecord::transition\<close>; the two
  attempt counters are \<open>u32\<close> whose overflow panics (\<open>AttemptCountOverflow\<close>).
\<close>

section \<open>States, events and records\<close>

datatype order_path_command_kind = PlaceCommand | CancelCommand

datatype order_path_state =
    IntentRecorded | LocalRejected | SubmitInFlight | Submitted
  | SubmittedPendingBrokerOrderId | TimeoutUnknownPending | RecoveredByClientOrderId
  | BrokerRejected | CancelRequested | CancelSubmitted | CancelTimeoutUnknownPending
  | CancelRecoveredTerminal | Terminal | ManualInterventionRequired

datatype order_path_event =
    LocalReject | BeginSubmit | SubmitAccepted | SubmitAcceptedWithoutBrokerOrderId
  | SubmitTimedOut | RecoverByClientOrderId | RequireManualIntervention | BrokerReject
  | RequestCancel | CancelAccepted | CancelRejected | CancelTimedOut
  | RecoverCancelTerminal | MarkTerminal

datatype order_path_error_kind =
    LocalValidation | BrokerRejectedError | TransportTimeout | RateLimitedError
  | BrokerMaintenanceError | ResponseDecodeError | UnauthorizedError
  | ReconciliationRequired | DurableStoreUnavailable | UnknownError

datatype order_path_reconciliation_source =
  ByClientOrderId | ByBrokerOrderId | OrderSnapshot | TradeSnapshot | ManualOperator

record order_path_record =
  opr_request_id :: strategy_request_id
  opr_client_order_id :: client_order_id
  opr_broker_order_id :: "broker_order_id option"
  opr_command_kind :: order_path_command_kind
  opr_account_id :: broker_account_id
  opr_instrument :: instrument_id
  opr_side :: "order_side option"
  opr_order_type :: "order_type option"
  opr_qty :: "quantity option"
  opr_limit_price :: "price option"
  opr_time_in_force :: "time_in_force option"
  opr_created_ts :: timestamp
  opr_last_update_ts :: timestamp
  opr_submit_attempt_count :: u32
  opr_cancel_attempt_count :: u32
  opr_state :: order_path_state
  opr_last_ack_status :: "command_ack_status option"
  opr_last_error_kind :: "order_path_error_kind option"
  opr_last_reconciliation_source :: "order_path_reconciliation_source option"
  opr_outgoing_comment_fingerprint :: "redacted_value_fingerprint option"

definition from_place_order ::
    "place_order \<Rightarrow> timestamp \<Rightarrow> outgoing_order_comment option \<Rightarrow> order_path_record" where
  "from_place_order order now outgoing_comment =
     \<lparr> opr_request_id = po_request_id order,
       opr_client_order_id = po_client_order_id order,
       opr_broker_order_id = None,
       opr_command_kind = PlaceCommand,
       opr_account_id = po_account_id order,
       opr_instrument = po_instrument order,
       opr_side = Some (po_side order),
       opr_order_type = Some (po_order_type order),
       opr_qty = Some (po_qty order),
       opr_limit_price = po_limit_price order,
       opr_time_in_force = Some (po_time_in_force order),
       opr_created_ts = po_created_ts order,
       opr_last_update_ts = now,
       opr_submit_attempt_count = 0,
       opr_cancel_attempt_count = 0,
       opr_state = IntentRecorded,
       opr_last_ack_status = None,
       opr_last_error_kind = None,
       opr_last_reconciliation_source = None,
       opr_outgoing_comment_fingerprint = map_option ooc_fingerprint outgoing_comment \<rparr>"

section \<open>The transition table\<close>

definition next_order_path_state ::
    "order_path_state \<Rightarrow> order_path_event \<Rightarrow> order_path_state option" where
  "next_order_path_state state event = (case (state, event) of
     (IntentRecorded, LocalReject) \<Rightarrow> Some LocalRejected
   | (IntentRecorded, BeginSubmit) \<Rightarrow> Some SubmitInFlight
   | (SubmitInFlight, SubmitAccepted) \<Rightarrow> Some Submitted
   | (SubmitInFlight, SubmitAcceptedWithoutBrokerOrderId) \<Rightarrow> Some SubmittedPendingBrokerOrderId
   | (SubmitInFlight, SubmitTimedOut) \<Rightarrow> Some TimeoutUnknownPending
   | (SubmitInFlight, RequireManualIntervention) \<Rightarrow> Some ManualInterventionRequired
   | (TimeoutUnknownPending, RecoverByClientOrderId) \<Rightarrow> Some RecoveredByClientOrderId
   | (SubmittedPendingBrokerOrderId, RecoverByClientOrderId) \<Rightarrow> Some RecoveredByClientOrderId
   | (SubmittedPendingBrokerOrderId, RequireManualIntervention) \<Rightarrow> Some ManualInterventionRequired
   | (TimeoutUnknownPending, RequireManualIntervention) \<Rightarrow> Some ManualInterventionRequired
   | (SubmitInFlight, BrokerReject) \<Rightarrow> Some BrokerRejected
   | (Submitted, BrokerReject) \<Rightarrow> Some BrokerRejected
   | (Submitted, RequestCancel) \<Rightarrow> Some CancelRequested
   | (RecoveredByClientOrderId, RequestCancel) \<Rightarrow> Some CancelRequested
   | (CancelRequested, CancelAccepted) \<Rightarrow> Some CancelSubmitted
   | (CancelRequested, CancelRejected) \<Rightarrow> Some ManualInterventionRequired
   | (CancelSubmitted, CancelRejected) \<Rightarrow> Some ManualInterventionRequired
   | (CancelRequested, RequireManualIntervention) \<Rightarrow> Some ManualInterventionRequired
   | (CancelSubmitted, RequireManualIntervention) \<Rightarrow> Some ManualInterventionRequired
   | (CancelRequested, CancelTimedOut) \<Rightarrow> Some CancelTimeoutUnknownPending
   | (CancelSubmitted, CancelTimedOut) \<Rightarrow> Some CancelTimeoutUnknownPending
   | (CancelTimeoutUnknownPending, RecoverCancelTerminal) \<Rightarrow> Some CancelRecoveredTerminal
   | (ManualInterventionRequired, RecoverCancelTerminal) \<Rightarrow> Some CancelRecoveredTerminal
   | (CancelTimeoutUnknownPending, RequireManualIntervention) \<Rightarrow> Some ManualInterventionRequired
   | (Submitted, MarkTerminal) \<Rightarrow> Some Terminal
   | (RecoveredByClientOrderId, MarkTerminal) \<Rightarrow> Some Terminal
   | (CancelRequested, MarkTerminal) \<Rightarrow> Some Terminal
   | (CancelSubmitted, MarkTerminal) \<Rightarrow> Some Terminal
   | (CancelTimeoutUnknownPending, MarkTerminal) \<Rightarrow> Some Terminal
   | (CancelRecoveredTerminal, MarkTerminal) \<Rightarrow> Some Terminal
   | (BrokerRejected, MarkTerminal) \<Rightarrow> Some Terminal
   | (LocalRejected, MarkTerminal) \<Rightarrow> Some Terminal
   | _ \<Rightarrow> None)"

definition is_terminal_order_path_state :: "order_path_state \<Rightarrow> bool" where
  "is_terminal_order_path_state state = (case state of
     Terminal \<Rightarrow> True | CancelRecoveredTerminal \<Rightarrow> True
   | LocalRejected \<Rightarrow> True | BrokerRejected \<Rightarrow> True | _ \<Rightarrow> False)"

datatype order_path_transition_error =
    InvalidTransition order_path_state order_path_event
  | AttemptCountOverflow

text \<open>The \<open>match event\<close> of \<open>transition\<close>; \<open>None\<close> is the panic of \<open>+= 1\<close>.\<close>

fun apply_event :: "order_path_event \<Rightarrow> order_path_record \<Rightarrow> order_path_record option" where
  "apply_event BeginSubmit r =
     map_option (\<lambda>n. r \<lparr> opr_submit_attempt_count := n, opr_last_ack_status := Some AckAccepted \<rparr>)
       (u32_add (opr_submit_attempt_count r) 1)"
| "apply_event SubmitAccepted r = Some (r \<lparr> opr_last_ack_status := Some AckSubmitted \<rparr>)"
| "apply_event SubmitAcceptedWithoutBrokerOrderId r =
     Some (r \<lparr> opr_last_ack_status := Some AckUnknownPending,
               opr_last_error_kind := Some ReconciliationRequired \<rparr>)"
| "apply_event SubmitTimedOut r =
     Some (r \<lparr> opr_last_ack_status := Some AckTimeout,
               opr_last_error_kind := Some TransportTimeout \<rparr>)"
| "apply_event RecoverByClientOrderId r =
     Some (r \<lparr> opr_last_ack_status := Some AckRecovered,
               opr_last_reconciliation_source := Some ByClientOrderId \<rparr>)"
| "apply_event LocalReject r =
     Some (r \<lparr> opr_last_ack_status := Some AckRejected,
               opr_last_error_kind := Some LocalValidation \<rparr>)"
| "apply_event BrokerReject r =
     Some (r \<lparr> opr_last_ack_status := Some AckRejected,
               opr_last_error_kind := Some BrokerRejectedError \<rparr>)"
| "apply_event RequestCancel r =
     map_option (\<lambda>n. r \<lparr> opr_cancel_attempt_count := n, opr_last_ack_status := Some AckAccepted \<rparr>)
       (u32_add (opr_cancel_attempt_count r) 1)"
| "apply_event CancelAccepted r = Some (r \<lparr> opr_last_ack_status := Some AckSubmitted \<rparr>)"
| "apply_event CancelRejected r =
     Some (r \<lparr> opr_last_ack_status := Some AckRejected,
               opr_last_error_kind := Some BrokerRejectedError \<rparr>)"
| "apply_event CancelTimedOut r =
     Some (r \<lparr> opr_last_ack_status := Some AckTimeout,
               opr_last_error_kind := Some TransportTimeout \<rparr>)"
| "apply_event RecoverCancelTerminal r =
     Some (r \<lparr> opr_last_ack_status := Some AckRecovered,
               opr_last_reconciliation_source := Some OrderSnapshot \<rparr>)"
| "apply_event RequireManualIntervention r =
     Some (r \<lparr> opr_last_ack_status := Some AckUnknownPending,
               opr_last_error_kind := Some ReconciliationRequired \<rparr>)"
| "apply_event MarkTerminal r = Some r"

definition transition ::
    "order_path_record \<Rightarrow> order_path_event \<Rightarrow> timestamp
       \<Rightarrow> order_path_transition_error + order_path_record" where
  "transition r event now =
     (case next_order_path_state (opr_state r) event of
        None \<Rightarrow> Inl (InvalidTransition (opr_state r) event)
      | Some next \<Rightarrow>
          (case apply_event event r of
             None \<Rightarrow> Inl AttemptCountOverflow
           | Some r' \<Rightarrow> Inr (r' \<lparr> opr_state := next, opr_last_update_ts := now \<rparr>)))"

definition recover_after_restart ::
    "order_path_record \<Rightarrow> timestamp \<Rightarrow> order_path_transition_error + order_path_record" where
  "recover_after_restart r now =
     (if opr_state r = SubmitInFlight then transition r SubmitTimedOut now else Inr r)"

definition synthetic_ack ::
    "order_path_record \<Rightarrow> command_ack_status \<Rightarrow> command_ack_reason option \<Rightarrow> timestamp
       \<Rightarrow> command_ack" where
  "synthetic_ack r status reason now =
     \<lparr> ack_request_id = opr_request_id r,
       ack_client_order_id = Some (opr_client_order_id r),
       ack_broker_order_id = opr_broker_order_id r,
       ack_status = status,
       ack_reason = reason,
       ack_received_ts = now \<rparr>"

text \<open>A script of events, as the callers apply them: the first failure ends it.\<close>

fun run_events ::
    "(order_path_event \<times> timestamp) list \<Rightarrow> order_path_record
       \<Rightarrow> order_path_transition_error + order_path_record" where
  "run_events [] r = Inr r"
| "run_events ((event, now) # es) r = and_then (transition r event now) (run_events es)"

section \<open>Facts about one transition\<close>

text \<open>Every accepted step lowers the rank: the table has no cycle.\<close>

fun state_rank :: "order_path_state \<Rightarrow> nat" where
  "state_rank IntentRecorded = 9"
| "state_rank SubmitInFlight = 8"
| "state_rank TimeoutUnknownPending = 7"
| "state_rank SubmittedPendingBrokerOrderId = 7"
| "state_rank RecoveredByClientOrderId = 6"
| "state_rank Submitted = 6"
| "state_rank CancelRequested = 5"
| "state_rank CancelSubmitted = 4"
| "state_rank CancelTimeoutUnknownPending = 3"
| "state_rank ManualInterventionRequired = 2"
| "state_rank CancelRecoveredTerminal = 1"
| "state_rank LocalRejected = 1"
| "state_rank BrokerRejected = 1"
| "state_rank Terminal = 0"

text \<open>The submissions and cancels that a state has behind it, at most.\<close>

definition submits_made :: "order_path_state \<Rightarrow> nat" where
  "submits_made s = (if s = IntentRecorded then 0 else 1)"

fun cancels_made :: "order_path_state \<Rightarrow> nat" where
  "cancels_made IntentRecorded = 0"
| "cancels_made SubmitInFlight = 0"
| "cancels_made TimeoutUnknownPending = 0"
| "cancels_made SubmittedPendingBrokerOrderId = 0"
| "cancels_made RecoveredByClientOrderId = 0"
| "cancels_made Submitted = 0"
| "cancels_made _ = 1"

lemma next_state_rank: "next_order_path_state s e = Some t \<Longrightarrow> state_rank t < state_rank s"
  by (cases s; cases e; simp add: next_order_path_state_def; hypsubst; simp)

lemma next_state_counts:
  assumes "next_order_path_state s e = Some t"
  shows "submits_made s + of_bool (e = BeginSubmit) \<le> submits_made t"
    and "cancels_made s + of_bool (e = RequestCancel) \<le> cancels_made t"
  using assms
  by (cases s; cases e; simp add: next_order_path_state_def; hypsubst; simp add: submits_made_def)+

lemma next_state_terminal_class:
  "next_order_path_state s e = Some t \<Longrightarrow> is_terminal_order_path_state s \<Longrightarrow> t = Terminal"
  by (cases s; cases e) (simp_all add: next_order_path_state_def is_terminal_order_path_state_def)

lemma made_le_one: "submits_made s \<le> 1" "cancels_made s \<le> 1"
  by (simp add: submits_made_def) (cases s; simp)

lemma apply_event_frame [frame_rules]:
  assumes "apply_event e r = Some r'"
  shows "opr_request_id r' = opr_request_id r" "opr_client_order_id r' = opr_client_order_id r"
    "opr_broker_order_id r' = opr_broker_order_id r" "opr_command_kind r' = opr_command_kind r"
    "opr_account_id r' = opr_account_id r" "opr_instrument r' = opr_instrument r"
    "opr_side r' = opr_side r" "opr_order_type r' = opr_order_type r" "opr_qty r' = opr_qty r"
    "opr_limit_price r' = opr_limit_price r" "opr_time_in_force r' = opr_time_in_force r"
    "opr_created_ts r' = opr_created_ts r"
    "opr_outgoing_comment_fingerprint r' = opr_outgoing_comment_fingerprint r"
  using assms by (cases e; auto)+

lemma apply_event_counts:
  assumes "apply_event e r = Some r'"
  shows "unat (opr_submit_attempt_count r')
      = unat (opr_submit_attempt_count r) + of_bool (e = BeginSubmit)"
    and "unat (opr_cancel_attempt_count r')
      = unat (opr_cancel_attempt_count r) + of_bool (e = RequestCancel)"
  using assms by (cases e; auto dest: u32_add_Some)+

lemma apply_event_Some:
  assumes "unat (opr_submit_attempt_count r) < 2 ^ 32 - 1" "unat (opr_cancel_attempt_count r) < 2 ^ 32 - 1"
  shows "\<exists>r'. apply_event e r = Some r'"
  using assms by (cases e) (auto simp: u32_add_def)

lemma transition_Inr_iff:
  "transition r e now = Inr r' \<longleftrightarrow>
     (\<exists>t q. next_order_path_state (opr_state r) e = Some t \<and> apply_event e r = Some q
        \<and> r' = q \<lparr> opr_state := t, opr_last_update_ts := now \<rparr>)"
  by (auto simp: transition_def split: option.splits)

lemma transition_Inr [elim]:
  assumes "transition r e now = Inr r'"
  obtains t q where "next_order_path_state (opr_state r) e = Some t" "apply_event e r = Some q"
    "r' = q \<lparr> opr_state := t, opr_last_update_ts := now \<rparr>"
  using assms by (auto simp: transition_Inr_iff)

lemma transition_frame [frame_rules]:
  assumes "transition r e now = Inr r'"
  shows "opr_request_id r' = opr_request_id r" "opr_client_order_id r' = opr_client_order_id r"
    "opr_broker_order_id r' = opr_broker_order_id r" "opr_account_id r' = opr_account_id r"
    "opr_instrument r' = opr_instrument r" "opr_last_update_ts r' = now"
  using assms by (auto elim!: transition_Inr simp: apply_event_frame)

lemma transition_state:
  "transition r e now = Inr r' \<Longrightarrow> next_order_path_state (opr_state r) e = Some (opr_state r')"
  by (auto elim!: transition_Inr)

lemma transition_counts:
  assumes "transition r e now = Inr r'"
  shows "unat (opr_submit_attempt_count r')
      = unat (opr_submit_attempt_count r) + of_bool (e = BeginSubmit)"
    and "unat (opr_cancel_attempt_count r')
      = unat (opr_cancel_attempt_count r) + of_bool (e = RequestCancel)"
  using assms by (auto elim!: transition_Inr dest: apply_event_counts simp del: apply_event.simps)

text \<open>The counters of a record never exceed what its state has behind it.\<close>

definition attempts_bounded :: "order_path_record \<Rightarrow> bool" where
  "attempts_bounded r \<longleftrightarrow>
     unat (opr_submit_attempt_count r) \<le> submits_made (opr_state r) \<and>
     unat (opr_cancel_attempt_count r) \<le> cancels_made (opr_state r)"

lemma attempts_bounded_from_place_order [simp]: "attempts_bounded (from_place_order order now c)"
  by (simp add: attempts_bounded_def from_place_order_def)

lemma attempts_bounded_transition:
  assumes "attempts_bounded r" "transition r e now = Inr r'"
  shows "attempts_bounded r'"
  using assms next_state_counts [OF transition_state [OF assms(2)]] transition_counts [OF assms(2)]
  by (simp add: attempts_bounded_def)

lemma attempts_bounded_le_one:
  assumes "attempts_bounded r"
  shows "unat (opr_submit_attempt_count r) \<le> 1" "unat (opr_cancel_attempt_count r) \<le> 1"
  using assms made_le_one [of "opr_state r"] by (simp_all add: attempts_bounded_def)

lemma transition_no_overflow:
  assumes "attempts_bounded r"
  shows "transition r e now =
    (case next_order_path_state (opr_state r) e of
       None \<Rightarrow> Inl (InvalidTransition (opr_state r) e)
     | Some t \<Rightarrow> Inr (the (apply_event e r) \<lparr> opr_state := t, opr_last_update_ts := now \<rparr>))"
proof -
  obtain q where "apply_event e r = Some q"
    using apply_event_Some [of r e] attempts_bounded_le_one [OF assms] by force
  then show ?thesis by (simp add: transition_def split: option.splits)
qed

lemma attempts_bounded_run:
  "run_events es r = Inr r' \<Longrightarrow> attempts_bounded r \<Longrightarrow> attempts_bounded r'"
  by (induction es r rule: run_events.induct)
    (auto simp: and_then_Inr_iff dest: attempts_bounded_transition)

lemma run_events_rank:
  "run_events es r = Inr r' \<Longrightarrow> length es + state_rank (opr_state r') \<le> state_rank (opr_state r)"
proof (induction es r rule: run_events.induct)
  case (2 e now es r)
  then obtain q where q: "transition r e now = Inr q" "run_events es q = Inr r'"
    by (auto simp: and_then_Inr_iff)
  with 2 have "length es + state_rank (opr_state r') \<le> state_rank (opr_state q)" by blast
  with next_state_rank [OF transition_state [OF q(1)]] show ?case by simp
qed simp

lemma run_events_no_overflow:
  "attempts_bounded r \<Longrightarrow> run_events es r \<noteq> Inl AttemptCountOverflow"
proof (induction es r rule: run_events.induct)
  case (2 e now es r)
  show ?case
  proof (cases "next_order_path_state (opr_state r) e")
    case None
    then show ?thesis by (simp add: transition_def)
  next
    case (Some t)
    then obtain q where "transition r e now = Inr q"
      using transition_no_overflow [OF "2.prems"] by simp
    with 2 attempts_bounded_transition show ?thesis by auto
  qed
qed simp

text \<open>The events that close a record from each state.\<close>

fun closing_events :: "order_path_state \<Rightarrow> order_path_event list" where
  "closing_events IntentRecorded = [LocalReject, MarkTerminal]"
| "closing_events SubmitInFlight = [BrokerReject, MarkTerminal]"
| "closing_events TimeoutUnknownPending = [RecoverByClientOrderId, MarkTerminal]"
| "closing_events SubmittedPendingBrokerOrderId = [RecoverByClientOrderId, MarkTerminal]"
| "closing_events ManualInterventionRequired = [RecoverCancelTerminal, MarkTerminal]"
| "closing_events Terminal = []"
| "closing_events _ = [MarkTerminal]"

section \<open>Everything that happens to a stored record\<close>

text \<open>
  The steps a record takes in the program: an event, the recovery after a restart, and the
  assignment of the broker order id once the broker reports it.
\<close>

inductive order_path_step :: "order_path_record \<Rightarrow> order_path_record \<Rightarrow> bool" where
  step_event: "transition r e now = Inr r' \<Longrightarrow> order_path_step r r'"
| step_restart: "recover_after_restart r now = Inr r' \<Longrightarrow> order_path_step r r'"
| step_broker_id: "opr_broker_order_id r = None \<Longrightarrow>
     order_path_step r (r \<lparr> opr_broker_order_id := Some b \<rparr>)"

inductive_cases order_path_stepE: "order_path_step r r'"

inductive order_path_reachable :: "order_path_record \<Rightarrow> order_path_record \<Rightarrow> bool" where
  reachable_refl: "order_path_reachable r r"
| reachable_step: "order_path_reachable r q \<Longrightarrow> order_path_step q q' \<Longrightarrow> order_path_reachable r q'"

text \<open>The attempts that were really made, state by state.\<close>

fun attempts_exact :: "order_path_state \<Rightarrow> nat \<Rightarrow> nat \<Rightarrow> bool" where
  "attempts_exact IntentRecorded s c = (s = 0 \<and> c = 0)"
| "attempts_exact LocalRejected s c = (s = 0 \<and> c = 0)"
| "attempts_exact SubmitInFlight s c = (s = 1 \<and> c = 0)"
| "attempts_exact Submitted s c = (s = 1 \<and> c = 0)"
| "attempts_exact SubmittedPendingBrokerOrderId s c = (s = 1 \<and> c = 0)"
| "attempts_exact TimeoutUnknownPending s c = (s = 1 \<and> c = 0)"
| "attempts_exact RecoveredByClientOrderId s c = (s = 1 \<and> c = 0)"
| "attempts_exact BrokerRejected s c = (s = 1 \<and> c = 0)"
| "attempts_exact CancelRequested s c = (s = 1 \<and> c = 1)"
| "attempts_exact CancelSubmitted s c = (s = 1 \<and> c = 1)"
| "attempts_exact CancelTimeoutUnknownPending s c = (s = 1 \<and> c = 1)"
| "attempts_exact CancelRecoveredTerminal s c = (s = 1 \<and> c \<le> 1)"
| "attempts_exact ManualInterventionRequired s c = (s = 1 \<and> c \<le> 1)"
| "attempts_exact Terminal s c = (c \<le> s \<and> s \<le> 1)"

definition record_attempts_exact :: "order_path_record \<Rightarrow> bool" where
  "record_attempts_exact r \<longleftrightarrow>
     attempts_exact (opr_state r) (unat (opr_submit_attempt_count r)) (unat (opr_cancel_attempt_count r))"

lemma attempts_exact_next:
  "attempts_exact s n c \<Longrightarrow> next_order_path_state s e = Some t \<Longrightarrow>
     attempts_exact t (n + of_bool (e = BeginSubmit)) (c + of_bool (e = RequestCancel))"
  by (cases s; cases e; simp add: next_order_path_state_def; hypsubst; simp)

lemma record_attempts_exact_transition:
  assumes "record_attempts_exact r" "transition r e now = Inr r'"
  shows "record_attempts_exact r'"
  using attempts_exact_next [OF _ transition_state [OF assms(2)]] assms
  by (simp add: record_attempts_exact_def transition_counts)

lemma order_path_step_invariant:
  assumes "order_path_step r r'"
  shows "record_attempts_exact r \<Longrightarrow> record_attempts_exact r'"
    and "opr_request_id r' = opr_request_id r \<and> opr_client_order_id r' = opr_client_order_id r
       \<and> opr_account_id r' = opr_account_id r \<and> opr_instrument r' = opr_instrument r"
    and "opr_broker_order_id r = Some b \<Longrightarrow> opr_broker_order_id r' = Some b"
    and "is_terminal_order_path_state (opr_state r) \<Longrightarrow> is_terminal_order_path_state (opr_state r')"
  using assms
  by (auto elim!: order_path_stepE simp: recover_after_restart_def transition_frame record_attempts_exact_transition
      split: if_splits)
    (auto simp: record_attempts_exact_def is_terminal_order_path_state_def dest: next_state_terminal_class
      dest!: transition_state)

lemma order_path_reachable_invariant:
  "order_path_reachable r0 r \<Longrightarrow>
     (record_attempts_exact r0 \<longrightarrow> record_attempts_exact r) \<and>
     opr_request_id r = opr_request_id r0 \<and> opr_client_order_id r = opr_client_order_id r0 \<and>
     opr_account_id r = opr_account_id r0 \<and> opr_instrument r = opr_instrument r0 \<and>
     (\<forall>b. opr_broker_order_id r0 = Some b \<longrightarrow> opr_broker_order_id r = Some b) \<and>
     (is_terminal_order_path_state (opr_state r0) \<longrightarrow> is_terminal_order_path_state (opr_state r))"
  by (induction rule: order_path_reachable.induct) (auto simp: order_path_step_invariant)

lemma run_events_reachable: "run_events es r = Inr r' \<Longrightarrow> order_path_reachable r r'"
proof -
  have "order_path_reachable r0 r \<Longrightarrow> run_events es r = Inr r' \<Longrightarrow> order_path_reachable r0 r'" for r0
    by (induction es r rule: run_events.induct)
      (auto simp: and_then_Inr_iff dest: reachable_step [OF _ step_event])
  then show "run_events es r = Inr r' \<Longrightarrow> order_path_reachable r r'"
    using reachable_refl by blast
qed

section \<open>Properties\<close>

text \<open>C2: From a freshly recorded intent, every script of events that the state machine
  accepts has at most nine steps and sends at most one submission and at most one cancel:
  no sequence of broker answers, timeouts and recoveries makes a record submit twice.
  No script at all overflows an attempt counter.\<close>

theorem order_path_no_duplicate_attempts:
  "run_events es (from_place_order order now comment) \<noteq> Inl AttemptCountOverflow \<and>
   (run_events es (from_place_order order now comment) = Inr r \<longrightarrow>
      length es \<le> 9 \<and>
      unat (opr_submit_attempt_count r) \<le> 1 \<and> unat (opr_cancel_attempt_count r) \<le> 1 \<and>
      opr_client_order_id r = po_client_order_id order)"
proof -
  let ?r0 = "from_place_order order now comment"
  have client: "run_events es q = Inr r \<Longrightarrow> opr_client_order_id r = opr_client_order_id q" for q
    by (induction es q rule: run_events.induct)
      (auto simp: and_then_Inr_iff transition_frame)
  have "opr_state ?r0 = IntentRecorded" "opr_client_order_id ?r0 = po_client_order_id order"
    by (simp_all add: from_place_order_def)
  then show ?thesis
    using run_events_rank [of es ?r0 r] attempts_bounded_run [of es ?r0 r, THEN attempts_bounded_le_one(1)]
      attempts_bounded_run [of es ?r0 r, THEN attempts_bounded_le_one(2)] client [of ?r0]
      run_events_no_overflow [of ?r0 es]
    by auto
qed

definition sample_place_order :: place_order where
  "sample_place_order =
     \<lparr> po_request_id = StrategyRequestId (replicate 16 7), po_created_ts = 0,
       po_ttl_ms = Some 5000, po_account_id = BrokerAccountId ''A'',
       po_client_order_id = ClientOrderId ''C1'',
       po_instrument = \<lparr> ins_symbol = ''IMOEXF'', ins_venue_symbol = None,
                         ins_exchange = Moex, ins_market = Futures \<rparr>,
       po_side = Buy, po_order_type = Limit, po_qty = 1, po_limit_price = Some 3000,
       po_time_in_force = Day, po_comment = None \<rparr>"

definition cancel_script :: "(order_path_event \<times> timestamp) list" where
  "cancel_script = [(BeginSubmit, 1), (SubmitTimedOut, 2), (RecoverByClientOrderId, 3),
     (RequestCancel, 4), (CancelAccepted, 5), (CancelTimedOut, 6),
     (RequireManualIntervention, 7), (RecoverCancelTerminal, 8), (MarkTerminal, 9)]"

theorem order_path_no_duplicate_attempts_witness:
  "\<exists>r. run_events cancel_script (from_place_order sample_place_order 0 None) = Inr r \<and>
     unat (opr_submit_attempt_count r) \<le> 1 \<and> unat (opr_cancel_attempt_count r) \<le> 1"
proof -
  obtain r where "run_events cancel_script (from_place_order sample_place_order 0 None) = Inr r"
    by (simp add: cancel_script_def sample_place_order_def from_place_order_def transition_def
        next_order_path_state_def u32_add_def)
  with order_path_no_duplicate_attempts [of cancel_script sample_place_order 0 None r]
  show ?thesis by blast
qed

text \<open>The guard under which the gateway lets broker truth close an order by \<open>RecoverCancelTerminal\<close>: a
  cancel was attempted, and either timed out or left the record under manual intervention for
  want of reconciliation. The state machine itself does not check it.\<close>

definition cancel_recovery_eligible :: "order_path_record \<Rightarrow> bool" where
  "cancel_recovery_eligible r \<longleftrightarrow>
     0 < opr_cancel_attempt_count r \<and>
     (case opr_state r of
        CancelTimeoutUnknownPending \<Rightarrow> True
      | ManualInterventionRequired \<Rightarrow> opr_last_error_kind r = Some ReconciliationRequired
      | _ \<Rightarrow> False)"

fun run_guarded :: "(order_path_event \<times> timestamp) list \<Rightarrow> order_path_record \<Rightarrow> order_path_record option" where
  "run_guarded [] r = Some r"
| "run_guarded ((event, now) # es) r =
     (if event = RecoverCancelTerminal \<and> \<not> cancel_recovery_eligible r then None
      else case transition r event now of Inl e \<Rightarrow> None | Inr r' \<Rightarrow> run_guarded es r')"

lemma guarded_closing:
  assumes "opr_state r \<noteq> ManualInterventionRequired \<or> cancel_recovery_eligible r"
  shows "\<exists>r'. run_guarded (map (\<lambda>e. (e, now)) (closing_events (opr_state r))) r = Some r' \<and> opr_state r' = Terminal"
  using assms by (cases "opr_state r") (simp_all add: transition_def next_order_path_state_def)

lemma guarded_stuck:
  assumes "opr_state r = ManualInterventionRequired" "\<not> cancel_recovery_eligible r"
    and "run_guarded es r = Some r'"
  shows "r' = r"
  using assms
proof (cases es)
  case (Cons p es')
  obtain e now where p: "p = (e, now)" by (cases p)
  have "transition r e now = Inl (InvalidTransition (opr_state r) e)" if "e \<noteq> RecoverCancelTerminal"
    using that assms(1) by (cases e) (simp_all add: transition_def next_order_path_state_def)
  then show ?thesis using assms Cons p by (cases "e = RecoverCancelTerminal") auto
qed simp

text \<open>C3: Which records can still be closed. When \<open>RecoverCancelTerminal\<close> is used as the gateway uses it,
  only for a record whose cancel is uncertain, a record can reach \<open>Terminal\<close> unless it is under
  manual intervention for anything else, and then no script of events closes it; a record that
  can be closed can be closed within two events.\<close>

theorem order_path_always_closable:
  "(\<nexists>es r'. run_guarded es r = Some r' \<and> opr_state r' = Terminal)
     = (opr_state r = ManualInterventionRequired \<and> \<not> cancel_recovery_eligible r)
   \<and> (\<exists>es r'. run_guarded es r = Some r' \<and> opr_state r' = Terminal)
     = (\<exists>es r'. length es \<le> 2 \<and> run_guarded es r = Some r' \<and> opr_state r' = Terminal)"
proof (cases "opr_state r = ManualInterventionRequired \<and> \<not> cancel_recovery_eligible r")
  case True
  then have "opr_state r' \<noteq> Terminal" if "run_guarded es r = Some r'" for es r'
    using guarded_stuck that by fastforce
  with True show ?thesis by blast
next
  case False
  have "length (closing_events (opr_state r)) \<le> 2" by (cases "opr_state r") simp_all
  then have "\<exists>es r'. length es \<le> 2 \<and> run_guarded es r = Some r' \<and> opr_state r' = Terminal"
    using guarded_closing [of r 0] False by (metis length_map)
  with False show ?thesis by blast
qed

text \<open>C4: The life of an order ends. The transitions are well-founded: whatever events arrive at
  whatever times, only finitely many are ever accepted, from any record at all; and a record
  that accepts no event any more is one in \<open>Terminal\<close>.\<close>

theorem order_path_terminates:
  "wf {(r', r). \<exists>e now. transition r e now = Inr r'}
   \<and> (\<exists>e. next_order_path_state (opr_state r) e \<noteq> None) = (opr_state r \<noteq> Terminal)"
proof
  have "{(r', r). \<exists>e now. transition r e now = Inr r'} \<subseteq> measure (state_rank \<circ> opr_state)"
    using next_state_rank [OF transition_state] by auto
  then show "wf {(r', r). \<exists>e now. transition r e now = Inr r'}" by (rule wf_subset [OF wf_measure])
  show "(\<exists>e. next_order_path_state (opr_state r) e \<noteq> None) = (opr_state r \<noteq> Terminal)"
  proof
    assume "\<exists>e. next_order_path_state (opr_state r) e \<noteq> None"
    then show "opr_state r \<noteq> Terminal" by (auto dest: next_state_rank)
  next
    assume "opr_state r \<noteq> Terminal"
    then show "\<exists>e. next_order_path_state (opr_state r) e \<noteq> None"
      by (cases "hd (closing_events (opr_state r))"; cases "opr_state r")
        (auto simp: next_order_path_state_def intro: exI [of _ "hd (closing_events (opr_state r))"])
  qed
qed

text \<open>C5: Recovery after a restart never fails and never leaves a submission in flight: such a
  record becomes \<open>TimeoutUnknownPending\<close> with a timeout acknowledgement and no further
  submission, any other record is returned as it is, and recovering again changes nothing.\<close>

theorem recover_after_restart_safe:
  "\<exists>r'. recover_after_restart r now = Inr r'
      \<and> r' = (if opr_state r = SubmitInFlight
              then r \<lparr> opr_state := TimeoutUnknownPending, opr_last_update_ts := now,
                       opr_last_ack_status := Some AckTimeout,
                       opr_last_error_kind := Some TransportTimeout \<rparr>
              else r)
      \<and> opr_state r' \<noteq> SubmitInFlight
      \<and> next_order_path_state (opr_state r') BeginSubmit
          = (if opr_state r = IntentRecorded then Some SubmitInFlight else None)
      \<and> recover_after_restart r' later = Inr r'"
  by (cases "opr_state r")
    (simp_all add: recover_after_restart_def transition_def next_order_path_state_def)

text \<open>C1: Whatever happens to a recorded intent (events, restarts, a broker order id arriving
  at any time), the attempts counted are those its state implies: nothing was sent while it
  is an intent or was rejected locally, exactly one submission once it left for the broker,
  exactly one cancel while a cancel is open; its identity never changes, and it never leaves
  the terminal class.\<close>

theorem order_path_reachable_attempts:
  assumes "order_path_reachable (from_place_order order now comment) r"
  shows "attempts_exact (opr_state r) (unat (opr_submit_attempt_count r)) (unat (opr_cancel_attempt_count r))
    \<and> opr_request_id r = po_request_id order \<and> opr_client_order_id r = po_client_order_id order
    \<and> (\<forall>r'. order_path_reachable r r' \<longrightarrow> is_terminal_order_path_state (opr_state r)
          \<longrightarrow> is_terminal_order_path_state (opr_state r'))"
  using order_path_reachable_invariant [OF assms] order_path_reachable_invariant [of r]
  by (auto simp: record_attempts_exact_def from_place_order_def)

theorem order_path_reachable_attempts_witness:
  "\<exists>r. run_events cancel_script (from_place_order sample_place_order 0 None) = Inr r \<and>
     attempts_exact (opr_state r) (unat (opr_submit_attempt_count r)) (unat (opr_cancel_attempt_count r))
     \<and> is_terminal_order_path_state (opr_state r)"
proof -
  obtain r where r: "run_events cancel_script (from_place_order sample_place_order 0 None) = Inr r"
    and t: "is_terminal_order_path_state (opr_state r)"
    by (simp add: cancel_script_def sample_place_order_def from_place_order_def transition_def
        next_order_path_state_def u32_add_def is_terminal_order_path_state_def)
  note reach = run_events_reachable [OF r]
  from order_path_reachable_attempts [OF reach] show ?thesis using r t by blast
qed

end
