(* ===== verification/OrderStore.thy ===== *)
theory OrderStore
  imports OrderPath "HOL-Library.List_Lexorder" "HOL-Library.Char_ord"
begin

text \<open>
  The order-path stores of \<open>order_path.rs\<close>: the trait \<open>OrderPathStore\<close>, the in-memory store
  with its two secondary indexes, the JSON-file store on top of it, and the recovery of a
  record by its client order id, which is generic over the trait. A \<open>HashMap\<close> is a map; its
  iteration order is a parameter \<open>iter\<close> that lists the keys. The JSON codec is a pair of
  parameters, and each file-system call of \<open>persist\<close> may fail as an \<open>io_fault\<close> says.
\<close>

section \<open>Errors\<close>

datatype order_path_store_error =
    DuplicateStrategyRequestId strategy_request_id
  | DuplicateClientOrderId client_order_id
  | DuplicateBrokerOrderId broker_order_id
  | RecordNotFound strategy_request_id
  | ClientOrderIdChanged strategy_request_id
  | BrokerOrderIdChanged strategy_request_id
  | TerminalStateOverwrite strategy_request_id
  | UpdatedTimestampRegressed strategy_request_id
  | StoreIo string
  | WriterLockUnavailable string
  | SchemaVersionMismatch int int
  | StoreSqlite string
  | StoreSerialization string

datatype operator_disarm_signal =
    GatewayDegradedSignal | OrderPathStoreLockUncertain | OrderPathStoreMigrationMismatch
  | OrderPathStoreUnavailable | RuntimeBridgeDeadLetter | UnknownPendingOrder
  | AcceptedWithoutBrokerOrderId | CancelBrokerOrderIdMismatch
  | CancelTimeoutUnknownPendingSignal | OrderEndpointRateLimited | OrderEndpointMaintenance
  | OrderEndpointDecodeError | OrderEndpointUnauthorized | ReconciliationConflictSignal
  | ReconciliationStaleSignal | RestartRecovery

fun store_error_disarm_signal :: "order_path_store_error \<Rightarrow> operator_disarm_signal" where
  "store_error_disarm_signal (WriterLockUnavailable _) = OrderPathStoreLockUncertain"
| "store_error_disarm_signal (SchemaVersionMismatch _ _) = OrderPathStoreMigrationMismatch"
| "store_error_disarm_signal _ = OrderPathStoreUnavailable"

section \<open>The in-memory store\<close>

record in_memory_store =
  ims_by_request_id :: "strategy_request_id \<rightharpoonup> order_path_record"
  ims_request_by_client_id :: "client_order_id \<rightharpoonup> strategy_request_id"
  ims_request_by_broker_id :: "broker_order_id \<rightharpoonup> strategy_request_id"

definition empty_store :: in_memory_store where
  "empty_store = \<lparr> ims_by_request_id = Map.empty, ims_request_by_client_id = Map.empty,
     ims_request_by_broker_id = Map.empty \<rparr>"

definition mem_insert_intent ::
    "in_memory_store \<Rightarrow> order_path_record \<Rightarrow> order_path_store_error + in_memory_store" where
  "mem_insert_intent s r =
     (if ims_by_request_id s (opr_request_id r) \<noteq> None
      then Inl (DuplicateStrategyRequestId (opr_request_id r))
      else if ims_request_by_client_id s (opr_client_order_id r) \<noteq> None
      then Inl (DuplicateClientOrderId (opr_client_order_id r))
      else case opr_broker_order_id r of
        Some b \<Rightarrow>
          (if ims_request_by_broker_id s b \<noteq> None then Inl (DuplicateBrokerOrderId b)
           else Inr \<lparr> ims_by_request_id = (ims_by_request_id s)(opr_request_id r \<mapsto> r),
             ims_request_by_client_id =
               (ims_request_by_client_id s)(opr_client_order_id r \<mapsto> opr_request_id r),
             ims_request_by_broker_id = (ims_request_by_broker_id s)(b \<mapsto> opr_request_id r) \<rparr>)
      | None \<Rightarrow>
          Inr \<lparr> ims_by_request_id = (ims_by_request_id s)(opr_request_id r \<mapsto> r),
             ims_request_by_client_id =
               (ims_request_by_client_id s)(opr_client_order_id r \<mapsto> opr_request_id r),
             ims_request_by_broker_id = ims_request_by_broker_id s \<rparr>)"

definition get_by_request_id ::
    "in_memory_store \<Rightarrow> strategy_request_id \<Rightarrow> order_path_record option" where
  "get_by_request_id s request_id = ims_by_request_id s request_id"

definition get_by_client_order_id ::
    "in_memory_store \<Rightarrow> client_order_id \<Rightarrow> order_path_record option" where
  "get_by_client_order_id s c =
     Option.bind (ims_request_by_client_id s c) (ims_by_request_id s)"

definition get_by_broker_order_id ::
    "in_memory_store \<Rightarrow> broker_order_id \<Rightarrow> order_path_record option" where
  "get_by_broker_order_id s b =
     Option.bind (ims_request_by_broker_id s b) (ims_by_request_id s)"

text \<open>
  The broker order id an update assigns for the first time, and that id when another
  request already owns it.
\<close>

definition new_broker_order_id ::
    "order_path_record \<Rightarrow> order_path_record \<Rightarrow> broker_order_id option" where
  "new_broker_order_id existing r =
     (if opr_broker_order_id existing = None then opr_broker_order_id r else None)"

definition taken_broker_order_id ::
    "in_memory_store \<Rightarrow> order_path_record \<Rightarrow> order_path_record \<Rightarrow> broker_order_id option" where
  "taken_broker_order_id s existing r =
     (case new_broker_order_id existing r of
        None \<Rightarrow> None
      | Some b \<Rightarrow> (case ims_request_by_broker_id s b of
           None \<Rightarrow> None
         | Some mapped \<Rightarrow> (if mapped \<noteq> opr_request_id r then Some b else None)))"

definition mem_update_record ::
    "in_memory_store \<Rightarrow> order_path_record \<Rightarrow> order_path_store_error + in_memory_store" where
  "mem_update_record s r =
     (case ims_by_request_id s (opr_request_id r) of
        None \<Rightarrow> Inl (RecordNotFound (opr_request_id r))
      | Some existing \<Rightarrow>
         if opr_client_order_id existing \<noteq> opr_client_order_id r
         then Inl (ClientOrderIdChanged (opr_request_id r))
         else if opr_broker_order_id existing \<noteq> None
            \<and> opr_broker_order_id r \<noteq> opr_broker_order_id existing
         then Inl (BrokerOrderIdChanged (opr_request_id r))
         else case taken_broker_order_id s existing r of
           Some b \<Rightarrow> Inl (DuplicateBrokerOrderId b)
         | None \<Rightarrow>
             if is_terminal_order_path_state (opr_state existing)
                \<and> \<not> is_terminal_order_path_state (opr_state r)
             then Inl (TerminalStateOverwrite (opr_request_id r))
             else if opr_last_update_ts r < opr_last_update_ts existing
             then Inl (UpdatedTimestampRegressed (opr_request_id r))
             else Inr (s \<lparr> ims_request_by_broker_id :=
                     (case new_broker_order_id existing r of
                        Some b \<Rightarrow> (ims_request_by_broker_id s)(b \<mapsto> opr_request_id r)
                      | None \<Rightarrow> ims_request_by_broker_id s),
                   ims_by_request_id := (ims_by_request_id s)(opr_request_id r \<mapsto> r) \<rparr>))"

definition mem_all_records ::
    "(strategy_request_id set \<Rightarrow> strategy_request_id list) \<Rightarrow> in_memory_store
       \<Rightarrow> order_path_record list" where
  "mem_all_records iter s =
     List.map_filter (ims_by_request_id s) (iter (dom (ims_by_request_id s)))"

text \<open>\<open>get_mut_by_request_id\<close> with the change its caller makes through the reference.\<close>

definition with_mut_by_request_id ::
    "in_memory_store \<Rightarrow> strategy_request_id \<Rightarrow> (order_path_record \<Rightarrow> order_path_record)
       \<Rightarrow> in_memory_store" where
  "with_mut_by_request_id s request_id change =
     (case ims_by_request_id s request_id of
        None \<Rightarrow> s
      | Some r \<Rightarrow> s \<lparr> ims_by_request_id := (ims_by_request_id s)(request_id \<mapsto> change r) \<rparr>)"

text \<open>The trait methods: the store afterwards and the result.\<close>

definition stored ::
    "'s \<Rightarrow> order_path_store_error + 's \<Rightarrow> 's \<times> (order_path_store_error + unit)" where
  "stored s res = (case res of Inl e \<Rightarrow> (s, Inl e) | Inr s' \<Rightarrow> (s', Inr ()))"

definition mem_store_insert_intent ::
    "in_memory_store \<Rightarrow> order_path_record \<Rightarrow> in_memory_store \<times> (order_path_store_error + unit)" where
  "mem_store_insert_intent s r = stored s (mem_insert_intent s r)"

definition mem_store_update_record ::
    "in_memory_store \<Rightarrow> order_path_record \<Rightarrow> in_memory_store \<times> (order_path_store_error + unit)" where
  "mem_store_update_record s r = stored s (mem_update_record s r)"

section \<open>Recovery by client order id, over any store\<close>

datatype order_path_reconciliation_error =
    RecordNotFoundByClientOrderId client_order_id
  | BrokerOrderIdAlreadySet strategy_request_id
  | BrokerOrderIdMismatch strategy_request_id
  | StateNotRecoverableByClientOrderId strategy_request_id order_path_state
  | ReconciliationStore order_path_store_error
  | ReconciliationTransition order_path_transition_error

definition recover_order_path_by_client_order_id ::
    "('s \<Rightarrow> client_order_id \<Rightarrow> order_path_record option)
     \<Rightarrow> ('s \<Rightarrow> order_path_record \<Rightarrow> 's \<times> (order_path_store_error + unit))
     \<Rightarrow> 's \<Rightarrow> client_order_id \<Rightarrow> broker_order_id \<Rightarrow> timestamp
     \<Rightarrow> 's \<times> (order_path_reconciliation_error + order_path_record)" where
  "recover_order_path_by_client_order_id load_by_client_order_id update_record store c b now =
     (case load_by_client_order_id store c of
        None \<Rightarrow> (store, Inl (RecordNotFoundByClientOrderId c))
      | Some r \<Rightarrow>
         (case opr_broker_order_id r of
            Some existing \<Rightarrow>
              (if existing = b then (store, Inr r)
               else (store, Inl (BrokerOrderIdMismatch (opr_request_id r))))
          | None \<Rightarrow>
             (if opr_state r \<noteq> SubmittedPendingBrokerOrderId \<and> opr_state r \<noteq> TimeoutUnknownPending
              then (store, Inl (StateNotRecoverableByClientOrderId (opr_request_id r) (opr_state r)))
              else case transition (r \<lparr> opr_broker_order_id := Some b \<rparr>) RecoverByClientOrderId now of
                Inl e \<Rightarrow> (store, Inl (ReconciliationTransition e))
              | Inr r' \<Rightarrow>
                 (case update_record store r' of
                    (store', Inl e) \<Rightarrow> (store', Inl (ReconciliationStore e))
                  | (store', Inr _) \<Rightarrow> (store', Inr r')))))"

section \<open>What a store promises\<close>

text \<open>How an accepted update may differ from the record it replaces.\<close>

definition record_successor :: "order_path_record \<Rightarrow> order_path_record \<Rightarrow> bool" where
  "record_successor old new \<longleftrightarrow>
     opr_request_id new = opr_request_id old \<and>
     opr_client_order_id new = opr_client_order_id old \<and>
     (opr_broker_order_id old \<noteq> None \<longrightarrow> opr_broker_order_id new = opr_broker_order_id old) \<and>
     (is_terminal_order_path_state (opr_state old) \<longrightarrow> is_terminal_order_path_state (opr_state new)) \<and>
     opr_last_update_ts old \<le> opr_last_update_ts new"

lemma record_successor_refl [simp]: "record_successor r r"
  by (simp add: record_successor_def)

lemma record_successor_trans: "record_successor p q \<Longrightarrow> record_successor q r \<Longrightarrow> record_successor p r"
  by (auto simp: record_successor_def)

text \<open>Any sequence of calls of the two mutating trait methods, accepted or refused.\<close>

inductive store_run ::
    "('s \<Rightarrow> order_path_record \<Rightarrow> 's \<times> (order_path_store_error + unit))
     \<Rightarrow> ('s \<Rightarrow> order_path_record \<Rightarrow> 's \<times> (order_path_store_error + unit)) \<Rightarrow> 's \<Rightarrow> 's \<Rightarrow> bool"
  for insert_intent update_record where
  run_start: "store_run insert_intent update_record s s"
| run_insert: "store_run insert_intent update_record s t \<Longrightarrow> insert_intent t r = (t', res) \<Longrightarrow>
     store_run insert_intent update_record s t'"
| run_update: "store_run insert_intent update_record s t \<Longrightarrow> update_record t r = (t', res) \<Longrightarrow>
     store_run insert_intent update_record s t'"

text \<open>
  The contract of the trait: the two secondary lookups find exactly the records that carry
  the id, an accepted call changes the one record it is given, and a refused call at least
  keeps the store well-formed. \<open>grow\<close> relates the records before and after any call.
\<close>

locale order_path_store =
  fixes inv :: "'s \<Rightarrow> bool"
    and load_by_request_id :: "'s \<Rightarrow> strategy_request_id \<Rightarrow> order_path_record option"
    and load_by_client_order_id :: "'s \<Rightarrow> client_order_id \<Rightarrow> order_path_record option"
    and load_by_broker_order_id :: "'s \<Rightarrow> broker_order_id \<Rightarrow> order_path_record option"
    and insert_intent :: "'s \<Rightarrow> order_path_record \<Rightarrow> 's \<times> (order_path_store_error + unit)"
    and update_record :: "'s \<Rightarrow> order_path_record \<Rightarrow> 's \<times> (order_path_store_error + unit)"
  assumes load_key: "inv s \<Longrightarrow> load_by_request_id s i = Some r \<Longrightarrow> opr_request_id r = i"
    and load_client: "inv s \<Longrightarrow> load_by_client_order_id s c = Some r \<longleftrightarrow>
          load_by_request_id s (opr_request_id r) = Some r \<and> opr_client_order_id r = c"
    and load_broker: "inv s \<Longrightarrow> load_by_broker_order_id s b = Some r \<longleftrightarrow>
          load_by_request_id s (opr_request_id r) = Some r \<and> opr_broker_order_id r = Some b"
    and insert_ok: "inv s \<Longrightarrow> insert_intent s r = (s', Inr u) \<Longrightarrow>
          load_by_request_id s (opr_request_id r) = None \<and>
          load_by_request_id s' = (load_by_request_id s)(opr_request_id r \<mapsto> r)"
    and update_ok: "inv s \<Longrightarrow> update_record s r = (s', Inr u) \<Longrightarrow>
          load_by_request_id s' = (load_by_request_id s)(opr_request_id r \<mapsto> r)"
    and insert_grows: "inv s \<Longrightarrow> insert_intent s r = (s', res) \<Longrightarrow> inv s' \<and>
          (\<forall>i q. load_by_request_id s i = Some q \<longrightarrow>
             (\<exists>q'. load_by_request_id s' i = Some q' \<and> record_successor q q'))"
    and update_grows: "inv s \<Longrightarrow> update_record s r = (s', res) \<Longrightarrow> inv s' \<and>
          (\<forall>i q. load_by_request_id s i = Some q \<longrightarrow>
             (\<exists>q'. load_by_request_id s' i = Some q' \<and> record_successor q q'))"
begin

lemma client_owner_unique:
  "inv s \<Longrightarrow> load_by_request_id s i = Some p \<Longrightarrow> load_by_request_id s j = Some q \<Longrightarrow>
     opr_client_order_id p = opr_client_order_id q \<Longrightarrow> i = j"
  by (metis load_client load_key option.inject)

lemma broker_owner_unique:
  "inv s \<Longrightarrow> load_by_request_id s i = Some p \<Longrightarrow> load_by_request_id s j = Some q \<Longrightarrow>
     opr_broker_order_id p = Some b \<Longrightarrow> opr_broker_order_id q = Some b \<Longrightarrow> i = j"
  by (metis load_broker load_key option.inject)

lemma run_grows:
  assumes "store_run insert_intent update_record s t" and "inv s"
  shows "inv t \<and> (\<forall>i q. load_by_request_id s i = Some q \<longrightarrow>
           (\<exists>q'. load_by_request_id t i = Some q' \<and> record_successor q q'))"
  using assms
proof (induction rule: store_run.induct)
  case (run_insert s t r t' res)
  then show ?case using insert_grows [of t r t' res] record_successor_trans by blast
next
  case (run_update s t r t' res)
  then show ?case using update_grows [of t r t' res] record_successor_trans by blast
qed auto

abbreviation recover where
  "recover \<equiv> recover_order_path_by_client_order_id load_by_client_order_id update_record"

lemma recover_ok:
  assumes "inv s" and "recover s c b now = (s', Inr r)"
  shows "inv s' \<and> opr_client_order_id r = c \<and> opr_broker_order_id r = Some b
    \<and> load_by_client_order_id s' c = Some r \<and> load_by_broker_order_id s' b = Some r
    \<and> (\<forall>i. i \<noteq> opr_request_id r \<longrightarrow> load_by_request_id s' i = load_by_request_id s i)"
proof -
  from assms(2) obtain r0 where r0: "load_by_client_order_id s c = Some r0"
    by (auto simp: recover_order_path_by_client_order_id_def split: option.splits)
  from load_client [OF assms(1)] r0
  have at: "load_by_request_id s (opr_request_id r0) = Some r0" "opr_client_order_id r0 = c" by auto
  show ?thesis
  proof (cases "opr_broker_order_id r0")
    case (Some b')
    with assms(2) r0 have "s' = s" "r = r0" "b' = b"
      by (auto simp: recover_order_path_by_client_order_id_def split: if_splits)
    with Some r0 at assms(1) show ?thesis by (simp add: load_broker)
  next
    case None
    with assms(2) r0 have t: "transition (r0 \<lparr> opr_broker_order_id := Some b \<rparr>) RecoverByClientOrderId now = Inr r"
      and u: "update_record s r = (s', Inr ())"
      by (auto simp: recover_order_path_by_client_order_id_def split: if_splits sum.splits prod.splits)
    have "inv s'" using update_grows [OF assms(1) u] by simp
    moreover have "load_by_request_id s' = (load_by_request_id s)(opr_request_id r \<mapsto> r)"
      by (rule update_ok [OF assms(1) u])
    ultimately show ?thesis
      using transition_frame [OF t] at by (simp add: load_client load_broker)
  qed
qed

lemma recover_again:
  assumes "inv s" and "recover s c b now = (s', Inr r)"
  shows "recover s' c b later = (s', Inr r)"
  using recover_ok [OF assms]
  by (simp add: recover_order_path_by_client_order_id_def)

end

text \<open>A store whose refused updates leave every record as it was.\<close>

locale atomic_order_path_store = order_path_store +
  assumes update_refused: "inv s \<Longrightarrow> update_record s r = (s', Inl e) \<Longrightarrow>
      load_by_request_id s' = load_by_request_id s"
begin

lemma recover_refused:
  assumes "inv s" and "recover s c b now = (s', Inl e)"
  shows "load_by_request_id s' = load_by_request_id s"
  using assms
  by (auto simp: recover_order_path_by_client_order_id_def update_refused
      split: option.splits if_splits sum.splits prod.splits)

end

section \<open>The in-memory store keeps the contract\<close>

definition store_inv :: "in_memory_store \<Rightarrow> bool" where
  "store_inv s \<longleftrightarrow>
     finite (dom (ims_by_request_id s)) \<and>
     (\<forall>i r. ims_by_request_id s i = Some r \<longrightarrow> opr_request_id r = i) \<and>
     (\<forall>c i. ims_request_by_client_id s c = Some i \<longleftrightarrow>
        (\<exists>r. ims_by_request_id s i = Some r \<and> opr_client_order_id r = c)) \<and>
     (\<forall>b i. ims_request_by_broker_id s b = Some i \<longleftrightarrow>
        (\<exists>r. ims_by_request_id s i = Some r \<and> opr_broker_order_id r = Some b))"

lemma store_inv_empty [simp]: "store_inv empty_store"
  by (simp add: store_inv_def empty_store_def)

lemma mem_insert_intent_Inr_iff:
  "mem_insert_intent s r = Inr s' \<longleftrightarrow>
     ims_by_request_id s (opr_request_id r) = None \<and>
     ims_request_by_client_id s (opr_client_order_id r) = None \<and>
     (\<forall>b. opr_broker_order_id r = Some b \<longrightarrow> ims_request_by_broker_id s b = None) \<and>
     s' = \<lparr> ims_by_request_id = (ims_by_request_id s)(opr_request_id r \<mapsto> r),
            ims_request_by_client_id =
              (ims_request_by_client_id s)(opr_client_order_id r \<mapsto> opr_request_id r),
            ims_request_by_broker_id = (case opr_broker_order_id r of
               Some b \<Rightarrow> (ims_request_by_broker_id s)(b \<mapsto> opr_request_id r)
             | None \<Rightarrow> ims_request_by_broker_id s) \<rparr>"
  by (auto simp: mem_insert_intent_def split: option.splits if_splits)

lemma mem_update_record_Inr_iff:
  "mem_update_record s r = Inr s' \<longleftrightarrow>
     (\<exists>old. ims_by_request_id s (opr_request_id r) = Some old \<and>
        opr_client_order_id old = opr_client_order_id r \<and>
        (opr_broker_order_id old \<noteq> None \<longrightarrow> opr_broker_order_id r = opr_broker_order_id old) \<and>
        taken_broker_order_id s old r = None \<and>
        (is_terminal_order_path_state (opr_state old) \<longrightarrow> is_terminal_order_path_state (opr_state r)) \<and>
        opr_last_update_ts old \<le> opr_last_update_ts r \<and>
        s' = s \<lparr> ims_request_by_broker_id :=
                  (case new_broker_order_id old r of
                     Some b \<Rightarrow> (ims_request_by_broker_id s)(b \<mapsto> opr_request_id r)
                   | None \<Rightarrow> ims_request_by_broker_id s),
                 ims_by_request_id := (ims_by_request_id s)(opr_request_id r \<mapsto> r) \<rparr>)"
  by (auto simp: mem_update_record_def not_less split: option.splits if_splits)

lemma store_inv_key: "store_inv s \<Longrightarrow> ims_by_request_id s i = Some r \<Longrightarrow> opr_request_id r = i"
  by (simp add: store_inv_def)

lemma store_inv_insert:
  assumes "store_inv s" and "mem_insert_intent s r = Inr s'"
  shows "store_inv s'"
proof -
  from assms(1) have keys: "\<forall>i r. ims_by_request_id s i = Some r \<longrightarrow> opr_request_id r = i"
    and fin: "finite (dom (ims_by_request_id s))"
    and clients: "\<forall>c i. ims_request_by_client_id s c = Some i \<longleftrightarrow>
        (\<exists>r. ims_by_request_id s i = Some r \<and> opr_client_order_id r = c)"
    and brokers: "\<forall>b i. ims_request_by_broker_id s b = Some i \<longleftrightarrow>
        (\<exists>r. ims_by_request_id s i = Some r \<and> opr_broker_order_id r = Some b)"
    by (simp_all add: store_inv_def)
  from assms(2) have new: "ims_by_request_id s (opr_request_id r) = None"
    "ims_request_by_client_id s (opr_client_order_id r) = None"
    "\<forall>b. opr_broker_order_id r = Some b \<longrightarrow> ims_request_by_broker_id s b = None"
    and s': "s' = \<lparr> ims_by_request_id = (ims_by_request_id s)(opr_request_id r \<mapsto> r),
            ims_request_by_client_id =
              (ims_request_by_client_id s)(opr_client_order_id r \<mapsto> opr_request_id r),
            ims_request_by_broker_id = (case opr_broker_order_id r of
               Some b \<Rightarrow> (ims_request_by_broker_id s)(b \<mapsto> opr_request_id r)
             | None \<Rightarrow> ims_request_by_broker_id s) \<rparr>"
    by (auto simp: mem_insert_intent_Inr_iff)
  have nc: "opr_client_order_id q \<noteq> opr_client_order_id r" if "ims_by_request_id s i = Some q" for i q
    using clients new(2) that by (metis option.distinct(1))
  have nb: "opr_broker_order_id q \<noteq> Some b" if "ims_by_request_id s i = Some q" "opr_broker_order_id r = Some b" for i q b
    using brokers new(3) that by (metis option.distinct(1))
  show ?thesis
    unfolding store_inv_def s'
    using keys fin clients brokers new nc nb
    by (auto split: option.splits if_splits)
qed

lemma store_inv_update:
  assumes "store_inv s" and "mem_update_record s r = Inr s'"
  shows "store_inv s'"
proof -
  from assms(2) obtain old where old: "ims_by_request_id s (opr_request_id r) = Some old"
    "opr_client_order_id old = opr_client_order_id r"
    "opr_broker_order_id old \<noteq> None \<longrightarrow> opr_broker_order_id r = opr_broker_order_id old"
    "taken_broker_order_id s old r = None"
    and s': "s' = s \<lparr> ims_request_by_broker_id :=
                  (case new_broker_order_id old r of
                     Some b \<Rightarrow> (ims_request_by_broker_id s)(b \<mapsto> opr_request_id r)
                   | None \<Rightarrow> ims_request_by_broker_id s),
                 ims_by_request_id := (ims_by_request_id s)(opr_request_id r \<mapsto> r) \<rparr>"
    by (auto simp: mem_update_record_Inr_iff)
  from assms(1) have keys: "\<forall>i r. ims_by_request_id s i = Some r \<longrightarrow> opr_request_id r = i"
    and fin: "finite (dom (ims_by_request_id s))"
    and clients: "\<forall>c i. ims_request_by_client_id s c = Some i \<longleftrightarrow>
        (\<exists>r. ims_by_request_id s i = Some r \<and> opr_client_order_id r = c)"
    and brokers: "\<forall>b i. ims_request_by_broker_id s b = Some i \<longleftrightarrow>
        (\<exists>r. ims_by_request_id s i = Some r \<and> opr_broker_order_id r = Some b)"
    by (simp_all add: store_inv_def)
  have brokers': "ims_request_by_broker_id s' b = Some i \<longleftrightarrow>
      (\<exists>q. ims_by_request_id s' i = Some q \<and> opr_broker_order_id q = Some b)" for b i
  proof (cases "opr_broker_order_id old")
    case (Some b')
    with old s' brokers show ?thesis by (auto simp: new_broker_order_id_def)
  next
    case None
    show ?thesis
    proof (cases "opr_broker_order_id r")
      case None': None
      with None old s' brokers show ?thesis by (auto simp: new_broker_order_id_def)
    next
      case (Some b')
      with None old(4) have free: "ims_request_by_broker_id s b' = Some j \<Longrightarrow> j = opr_request_id r" for j
        by (auto simp: taken_broker_order_id_def new_broker_order_id_def split: option.splits if_splits)
      with None Some old s' brokers show ?thesis
        by (auto simp: new_broker_order_id_def)
    qed
  qed
  have "ims_request_by_client_id s' = ims_request_by_client_id s" by (simp add: s')
  moreover have "(\<exists>q. ims_by_request_id s' i = Some q \<and> opr_client_order_id q = c) \<longleftrightarrow>
      (\<exists>q. ims_by_request_id s i = Some q \<and> opr_client_order_id q = c)" for i c
    using old(1,2) by (auto simp: s')
  ultimately show ?thesis
    unfolding store_inv_def using keys fin clients brokers' by (auto simp: s')
qed

lemma mem_load_client:
  "store_inv s \<Longrightarrow> get_by_client_order_id s c = Some r \<longleftrightarrow>
     get_by_request_id s (opr_request_id r) = Some r \<and> opr_client_order_id r = c"
  by (auto simp: store_inv_def get_by_client_order_id_def get_by_request_id_def Option.bind_eq_Some_conv)

lemma mem_load_broker:
  "store_inv s \<Longrightarrow> get_by_broker_order_id s b = Some r \<longleftrightarrow>
     get_by_request_id s (opr_request_id r) = Some r \<and> opr_broker_order_id r = Some b"
  by (auto simp: store_inv_def get_by_broker_order_id_def get_by_request_id_def Option.bind_eq_Some_conv)

lemma stored_Inr: "stored s res = (s', Inr u) \<longleftrightarrow> res = Inr s'"
  by (auto simp: stored_def split: sum.splits)

lemma stored_Inl: "stored s res = (s', Inl e) \<longleftrightarrow> res = Inl e \<and> s' = s"
  by (auto simp: stored_def split: sum.splits)

lemma mem_insert_grows:
  assumes "store_inv s" "mem_insert_intent s r = Inr s'" "ims_by_request_id s i = Some q"
  shows "\<exists>q'. ims_by_request_id s' i = Some q' \<and> record_successor q q'"
  using assms by (auto simp: mem_insert_intent_Inr_iff)

lemma mem_update_grows:
  assumes "store_inv s" "mem_update_record s r = Inr s'" "ims_by_request_id s i = Some q"
  shows "\<exists>q'. ims_by_request_id s' i = Some q' \<and> record_successor q q'"
  using assms store_inv_key [OF assms(1,3)]
  by (auto simp: mem_update_record_Inr_iff record_successor_def)

interpretation mem: atomic_order_path_store store_inv get_by_request_id get_by_client_order_id
  get_by_broker_order_id mem_store_insert_intent mem_store_update_record
proof (unfold_locales, goal_cases)
  case (4 s r s' u)
  then show ?case
    by (auto simp: mem_store_insert_intent_def stored_Inr mem_insert_intent_Inr_iff get_by_request_id_def)
next
  case (5 s r s' u)
  then show ?case
    by (auto simp: mem_store_update_record_def stored_Inr mem_update_record_Inr_iff get_by_request_id_def)
next
  case (6 s r s' res)
  then show ?case
    using store_inv_insert [of s r s'] mem_insert_grows [of s r s']
    by (cases res) (auto simp: mem_store_insert_intent_def stored_Inr stored_Inl get_by_request_id_def)
next
  case (7 s r s' res)
  then show ?case
    using store_inv_update [of s r s'] mem_update_grows [of s r s']
    by (cases res) (auto simp: mem_store_update_record_def stored_Inr stored_Inl get_by_request_id_def)
qed (auto simp: mem_load_client mem_load_broker store_inv_key get_by_request_id_def
    mem_store_update_record_def stored_Inl)

section \<open>Properties\<close>

text \<open>C7: Whatever sequence of inserts and updates an in-memory store has taken, accepted or
  refused, its indexes are exact and every record it ever held is still there under its
  request id, with the same client order id, the broker order id once assigned, not moved
  out of the terminal class and not back in time; so no two requests ever share a client
  order id or a broker order id.\<close>

theorem mem_store_history:
  assumes "store_run mem_store_insert_intent mem_store_update_record empty_store s"
    and "store_run mem_store_insert_intent mem_store_update_record s t"
  shows "store_inv t
    \<and> (\<forall>i q. get_by_request_id s i = Some q \<longrightarrow>
          (\<exists>q'. get_by_request_id t i = Some q' \<and> record_successor q q'))
    \<and> (\<forall>i j p q. get_by_request_id t i = Some p \<longrightarrow> get_by_request_id t j = Some q \<longrightarrow>
          opr_client_order_id p = opr_client_order_id q
          \<or> (\<exists>b. opr_broker_order_id p = Some b \<and> opr_broker_order_id q = Some b) \<longrightarrow> i = j)"
proof -
  have s: "store_inv s" using mem.run_grows [OF assms(1)] by simp
  with mem.run_grows [OF assms(2)] show ?thesis
    using mem.client_owner_unique [of t] mem.broker_owner_unique [of t] by auto
qed

theorem mem_store_history_witness:
  "\<exists>t. mem_store_insert_intent empty_store (from_place_order sample_place_order 0 None) = (t, Inr ())
     \<and> store_inv t \<and> get_by_request_id t (po_request_id sample_place_order) \<noteq> None"
proof -
  let ?r = "from_place_order sample_place_order 0 None"
  obtain t where t: "mem_store_insert_intent empty_store ?r = (t, Inr ())"
    and l: "get_by_request_id t (po_request_id sample_place_order) \<noteq> None"
    by (simp add: mem_store_insert_intent_def stored_def mem_insert_intent_def empty_store_def
        from_place_order_def get_by_request_id_def)
  have "store_run mem_store_insert_intent mem_store_update_record empty_store t"
    by (rule run_insert) (rule run_start, rule t)
  from mem_store_history [OF run_start this] t l show ?thesis by blast
qed

text \<open>Recovery by client order id in a well-formed store: when it succeeds, the record found
  by the client id now carries the broker id and is found by it too, no other record
  changed, and running the recovery again returns the same record and leaves the store as
  it is; when it fails, the store is as it was.\<close>

theorem mem_recovery_by_client_order_id:
  assumes "store_inv s"
    and "recover_order_path_by_client_order_id get_by_client_order_id mem_store_update_record
           s c b now = (s', res)"
  shows "case res of
      Inl e \<Rightarrow> get_by_request_id s' = get_by_request_id s
    | Inr r \<Rightarrow> store_inv s' \<and> opr_client_order_id r = c \<and> opr_broker_order_id r = Some b
        \<and> get_by_client_order_id s' c = Some r \<and> get_by_broker_order_id s' b = Some r
        \<and> (\<forall>i. i \<noteq> opr_request_id r \<longrightarrow> get_by_request_id s' i = get_by_request_id s i)
        \<and> recover_order_path_by_client_order_id get_by_client_order_id mem_store_update_record
             s' c b later = (s', Inr r)"
  using assms mem.recover_ok [of s c b now s'] mem.recover_again [of s c b now s']
    mem.recover_refused [of s c b now s']
  by (cases res) auto

definition pending_record :: order_path_record where
  "pending_record = (from_place_order sample_place_order 0 None)
     \<lparr> opr_state := SubmittedPendingBrokerOrderId, opr_submit_attempt_count := 1 \<rparr>"

definition pending_store :: in_memory_store where
  "pending_store =
     \<lparr> ims_by_request_id = [po_request_id sample_place_order \<mapsto> pending_record],
       ims_request_by_client_id = [po_client_order_id sample_place_order \<mapsto> po_request_id sample_place_order],
       ims_request_by_broker_id = Map.empty \<rparr>"

theorem mem_recovery_by_client_order_id_witness:
  "\<exists>s' r. recover_order_path_by_client_order_id get_by_client_order_id mem_store_update_record
       pending_store (ClientOrderId ''C1'') (BrokerOrderId ''9'') 5 = (s', Inr r)
     \<and> opr_state r = RecoveredByClientOrderId
     \<and> get_by_broker_order_id s' (BrokerOrderId ''9'') = Some r"
proof -
  have inv: "store_inv pending_store"
    by (auto simp: store_inv_def pending_store_def pending_record_def from_place_order_def
        sample_place_order_def split: if_splits)
  obtain s' r where rec: "recover_order_path_by_client_order_id get_by_client_order_id mem_store_update_record
       pending_store (ClientOrderId ''C1'') (BrokerOrderId ''9'') 5 = (s', Inr r)"
    and st: "opr_state r = RecoveredByClientOrderId"
    by (simp add: recover_order_path_by_client_order_id_def pending_store_def pending_record_def
        from_place_order_def sample_place_order_def get_by_client_order_id_def transition_def
        next_order_path_state_def mem_store_update_record_def stored_def mem_update_record_def
        taken_broker_order_id_def new_broker_order_id_def is_terminal_order_path_state_def)
  with mem_recovery_by_client_order_id [OF inv rec] show ?thesis by auto
qed

text \<open>The state machine and the store agree: in a well-formed store, the result of any
  accepted event on a stored record, at a time not before its last update, is accepted as
  an update of that record.\<close>

theorem mem_update_accepts_transition:
  assumes "store_inv s" and "get_by_request_id s i = Some r"
    and "transition r e now = Inr r'" and "opr_last_update_ts r \<le> now"
  shows "\<exists>s'. mem_store_update_record s r' = (s', Inr ()) \<and> get_by_request_id s' i = Some r'"
proof -
  note frame = transition_frame [OF assms(3)]
  have key: "opr_request_id r = i"
    using assms(1,2) store_inv_key by (simp add: get_by_request_id_def)
  have "is_terminal_order_path_state (opr_state r) \<Longrightarrow> opr_state r' = Terminal"
    using next_state_terminal_class transition_state [OF assms(3)] by blast
  moreover have "taken_broker_order_id s r r' = None"
    by (simp add: taken_broker_order_id_def new_broker_order_id_def frame)
  ultimately show ?thesis
    using assms frame key
    by (auto simp: mem_store_update_record_def stored_def mem_update_record_def get_by_request_id_def
        is_terminal_order_path_state_def)
qed

theorem mem_update_accepts_transition_witness:
  "\<exists>s' r'. transition pending_record RecoverByClientOrderId 5 = Inr r'
     \<and> mem_store_update_record pending_store r' = (s', Inr ())"
proof -
  have inv: "store_inv pending_store"
    by (auto simp: store_inv_def pending_store_def pending_record_def from_place_order_def
        sample_place_order_def split: if_splits)
  obtain r' where t: "transition pending_record RecoverByClientOrderId 5 = Inr r'"
    by (simp add: pending_record_def transition_def next_order_path_state_def)
  have "get_by_request_id pending_store (po_request_id sample_place_order) = Some pending_record"
    "opr_last_update_ts pending_record \<le> 5"
    by (simp_all add: get_by_request_id_def pending_store_def pending_record_def from_place_order_def)
  from mem_update_accepts_transition [OF inv this(1) t this(2)] t show ?thesis by blast
qed

end
