(* ===== verification/JsonOrderStore.thy ===== *)
theory JsonOrderStore
  imports OrderStore
begin

text \<open>
  \<open>JsonFileOrderPathStore\<close> of \<open>order_path.rs\<close>: the in-memory store, written back as one JSON
  snapshot after every accepted call, to a temporary file that is then renamed over the
  real one. Parameters: the codec \<open>encode\<close>/\<open>decode\<close> (serde_json), the display of a UUID
  \<open>uuid_str\<close>, the iteration order \<open>iter\<close> of a hash map, and the failure, if any, of the
  file-system calls of one \<open>persist\<close>. Paths end in an ordinary file name.
\<close>

section \<open>Paths and files\<close>

definition file_name :: "string \<Rightarrow> string" where
  "file_name path = rev (takeWhile (\<lambda>c. c \<noteq> CHR ''/'') (rev path))"

definition file_stem :: "string \<Rightarrow> string" where
  "file_stem name =
     (if CHR ''.'' \<in> set (tl name) then rev (tl (dropWhile (\<lambda>c. c \<noteq> CHR ''.'') (rev name)))
      else name)"

definition set_extension :: "string \<Rightarrow> string \<Rightarrow> string" where
  "set_extension path ext =
     take (length path - length (file_name path)) path @ file_stem (file_name path) @ ''.'' @ ext"

definition has_parent_directory :: "string \<Rightarrow> bool" where
  "has_parent_directory path \<longleftrightarrow> CHR ''/'' \<in> set path"

type_synonym files = "string \<rightharpoonup> string"

text \<open>\<open>WriteFails e c\<close> leaves the bytes \<open>c\<close> in the temporary file.\<close>

datatype persist_fault =
    NoFault
  | CreateDirFails string
  | WriteFails string string
  | RenameFails string

section \<open>The store\<close>

record json_file_store =
  jfs_path :: string
  jfs_inner :: in_memory_store

fun insert_all ::
    "order_path_record list \<Rightarrow> in_memory_store \<Rightarrow> order_path_store_error + in_memory_store" where
  "insert_all [] s = Inr s"
| "insert_all (r # rs) s = and_then (mem_insert_intent s r) (insert_all rs)"

definition json_open ::
    "(string \<Rightarrow> string + order_path_record list) \<Rightarrow> string option \<Rightarrow> files \<Rightarrow> string
       \<Rightarrow> order_path_store_error + json_file_store" where
  "json_open decode read_fault files path =
     (case files path of
        None \<Rightarrow> Inr \<lparr> jfs_path = path, jfs_inner = empty_store \<rparr>
      | Some raw \<Rightarrow>
         (case read_fault of
            Some e \<Rightarrow> Inl (StoreIo e)
          | None \<Rightarrow>
             if trim raw = [] then Inr \<lparr> jfs_path = path, jfs_inner = empty_store \<rparr>
             else case decode raw of
               Inl e \<Rightarrow> Inl (StoreSerialization e)
             | Inr records \<Rightarrow>
                and_then (insert_all records empty_store)
                  (\<lambda>inner. Inr \<lparr> jfs_path = path, jfs_inner = inner \<rparr>)))"

definition sorted_records ::
    "(strategy_request_id \<Rightarrow> string) \<Rightarrow> (strategy_request_id set \<Rightarrow> strategy_request_id list)
       \<Rightarrow> in_memory_store \<Rightarrow> order_path_record list" where
  "sorted_records uuid_str iter s =
     sort_key (\<lambda>r. uuid_str (opr_request_id r)) (mem_all_records iter s)"

definition json_persist ::
    "(order_path_record list \<Rightarrow> string + string) \<Rightarrow> (strategy_request_id \<Rightarrow> string)
       \<Rightarrow> (strategy_request_id set \<Rightarrow> strategy_request_id list) \<Rightarrow> persist_fault
       \<Rightarrow> json_file_store \<Rightarrow> files \<Rightarrow> files \<times> (order_path_store_error + unit)" where
  "json_persist encode uuid_str iter fault j files =
     (case (has_parent_directory (jfs_path j), fault) of
        (True, CreateDirFails e) \<Rightarrow> (files, Inl (StoreIo e))
      | _ \<Rightarrow>
         (case encode (sorted_records uuid_str iter (jfs_inner j)) of
            Inl e \<Rightarrow> (files, Inl (StoreSerialization e))
          | Inr raw \<Rightarrow>
             (let tmp = set_extension (jfs_path j) ''tmp'' in
              case fault of
                WriteFails e partial \<Rightarrow> (files(tmp \<mapsto> partial), Inl (StoreIo e))
              | RenameFails e \<Rightarrow> (files(tmp \<mapsto> raw), Inl (StoreIo e))
              | _ \<Rightarrow> ((files(tmp := None))(jfs_path j \<mapsto> raw), Inr ()))))"

text \<open>The trait methods; the state is the store together with the files.\<close>

definition json_apply ::
    "(order_path_record list \<Rightarrow> string + string) \<Rightarrow> (strategy_request_id \<Rightarrow> string)
       \<Rightarrow> (strategy_request_id set \<Rightarrow> strategy_request_id list) \<Rightarrow> persist_fault
       \<Rightarrow> json_file_store \<times> files \<Rightarrow> order_path_store_error + in_memory_store
       \<Rightarrow> (json_file_store \<times> files) \<times> (order_path_store_error + unit)" where
  "json_apply encode uuid_str iter fault st res =
     (case res of
        Inl e \<Rightarrow> (st, Inl e)
      | Inr inner \<Rightarrow>
         (let j = (fst st) \<lparr> jfs_inner := inner \<rparr>;
              (files, r) = json_persist encode uuid_str iter fault j (snd st)
          in ((j, files), r)))"

definition json_insert_intent where
  "json_insert_intent encode uuid_str iter fault st r =
     json_apply encode uuid_str iter fault st (mem_insert_intent (jfs_inner (fst st)) r)"

definition json_update_record where
  "json_update_record encode uuid_str iter fault st r =
     json_apply encode uuid_str iter fault st (mem_update_record (jfs_inner (fst st)) r)"

definition json_load_by_request_id ::
    "json_file_store \<times> files \<Rightarrow> strategy_request_id \<Rightarrow> order_path_record option" where
  "json_load_by_request_id st i = get_by_request_id (jfs_inner (fst st)) i"

definition json_load_by_client_order_id ::
    "json_file_store \<times> files \<Rightarrow> client_order_id \<Rightarrow> order_path_record option" where
  "json_load_by_client_order_id st c = get_by_client_order_id (jfs_inner (fst st)) c"

definition json_load_by_broker_order_id ::
    "json_file_store \<times> files \<Rightarrow> broker_order_id \<Rightarrow> order_path_record option" where
  "json_load_by_broker_order_id st b = get_by_broker_order_id (jfs_inner (fst st)) b"

section \<open>The contract of the trait\<close>

definition json_inv :: "json_file_store \<times> files \<Rightarrow> bool" where
  "json_inv st \<longleftrightarrow> store_inv (jfs_inner (fst st))"

lemma json_apply_inner:
  "json_apply encode uuid_str iter fault st (Inr inner) = (st', res) \<Longrightarrow> jfs_inner (fst st') = inner"
  by (auto simp: json_apply_def Let_def split: prod.splits)

lemma json_apply_Inr:
  "json_apply encode uuid_str iter fault st m = (st', Inr u) \<Longrightarrow> \<exists>inner. m = Inr inner"
  by (auto simp: json_apply_def split: sum.splits)

lemmas json_loads = json_load_by_request_id_def json_load_by_client_order_id_def
  json_load_by_broker_order_id_def json_inv_def

interpretation json: order_path_store json_inv json_load_by_request_id json_load_by_client_order_id
  json_load_by_broker_order_id "json_insert_intent encode uuid_str iter fault"
  "json_update_record encode uuid_str iter fault" for encode uuid_str iter fault
proof (unfold_locales, goal_cases)
  case (4 s r s' u)
  then obtain inner where m: "mem_insert_intent (jfs_inner (fst s)) r = Inr inner"
    unfolding json_insert_intent_def using json_apply_Inr by blast
  with 4 have "jfs_inner (fst s') = inner"
    unfolding json_insert_intent_def using json_apply_inner by metis
  with m 4 mem.insert_ok [of "jfs_inner (fst s)" r inner "()"] show ?case
    by (simp add: json_loads mem_store_insert_intent_def stored_Inr fun_eq_iff)
next
  case (5 s r s' u)
  then obtain inner where m: "mem_update_record (jfs_inner (fst s)) r = Inr inner"
    unfolding json_update_record_def using json_apply_Inr by blast
  with 5 have "jfs_inner (fst s') = inner"
    unfolding json_update_record_def using json_apply_inner by metis
  with m 5 mem.update_ok [of "jfs_inner (fst s)" r inner "()"] show ?case
    by (simp add: json_loads mem_store_update_record_def stored_Inr fun_eq_iff)
next
  case (6 s r s' res)
  show ?case
  proof (cases "mem_insert_intent (jfs_inner (fst s)) r")
    case (Inl e)
    with 6 show ?thesis by (auto simp: json_insert_intent_def json_apply_def)
  next
    case (Inr inner)
    with 6 have "jfs_inner (fst s') = inner"
      unfolding json_insert_intent_def using json_apply_inner by metis
    with Inr 6 mem.insert_grows [of "jfs_inner (fst s)" r inner "Inr ()"] show ?thesis
      by (simp add: json_loads mem_store_insert_intent_def stored_Inr)
  qed
next
  case (7 s r s' res)
  show ?case
  proof (cases "mem_update_record (jfs_inner (fst s)) r")
    case (Inl e)
    with 7 show ?thesis by (auto simp: json_update_record_def json_apply_def)
  next
    case (Inr inner)
    with 7 have "jfs_inner (fst s') = inner"
      unfolding json_update_record_def using json_apply_inner by metis
    with Inr 7 mem.update_grows [of "jfs_inner (fst s)" r inner "Inr ()"] show ?thesis
      by (simp add: json_loads mem_store_update_record_def stored_Inr)
  qed
qed (auto simp: json_loads mem.load_client mem.load_broker dest: mem.load_key)

section \<open>Reopening\<close>

lemma option_eqI: "(\<And>y. x = Some y \<longleftrightarrow> z = Some y) \<Longrightarrow> x = z"
  by (cases x; cases z) auto

text \<open>A well-formed store is determined by its records.\<close>

lemma store_inv_determined:
  assumes "store_inv s" "store_inv t" "ims_by_request_id s = ims_by_request_id t"
  shows "s = t"
proof -
  have "ims_request_by_client_id s c = ims_request_by_client_id t c" for c
    using assms by (intro option_eqI) (simp add: store_inv_def)
  moreover have "ims_request_by_broker_id s b = ims_request_by_broker_id t b" for b
    using assms by (intro option_eqI) (simp add: store_inv_def)
  ultimately show ?thesis using assms(3) by (simp add: fun_eq_iff)
qed

lemma insert_part:
  assumes "store_inv s0" "store_inv s" "ims_by_request_id s \<subseteq>\<^sub>m ims_by_request_id s0"
    and "ims_by_request_id s0 (opr_request_id r) = Some r" "ims_by_request_id s (opr_request_id r) = None"
  shows "\<exists>s'. mem_insert_intent s r = Inr s'
     \<and> ims_by_request_id s' = (ims_by_request_id s)(opr_request_id r \<mapsto> r)"
proof -
  have sub: "ims_by_request_id s0 i = Some q" if "ims_by_request_id s i = Some q" for i q
    using assms(3) that by (auto simp: map_le_def dom_def)
  have "ims_request_by_client_id s (opr_client_order_id r) = None"
  proof (rule ccontr)
    assume "ims_request_by_client_id s (opr_client_order_id r) \<noteq> None"
    then obtain i q where "ims_by_request_id s i = Some q" "opr_client_order_id q = opr_client_order_id r"
      using assms(2) by (auto simp: store_inv_def)
    with mem.client_owner_unique [OF assms(1), of i q "opr_request_id r" r] sub assms(4,5)
    show False by (simp add: get_by_request_id_def)
  qed
  moreover have "ims_request_by_broker_id s b = None" if b: "opr_broker_order_id r = Some b" for b
  proof (rule ccontr)
    assume "ims_request_by_broker_id s b \<noteq> None"
    then obtain i q where "ims_by_request_id s i = Some q" "opr_broker_order_id q = Some b"
      using assms(2) by (auto simp: store_inv_def)
    with mem.broker_owner_unique [OF assms(1), of i q "opr_request_id r" r b] sub assms(4,5) b
    show False by (simp add: get_by_request_id_def)
  qed
  ultimately show ?thesis using assms(5) by (simp add: mem_insert_intent_Inr_iff)
qed

lemma insert_all_part:
  assumes "store_inv s0" "store_inv s" "ims_by_request_id s \<subseteq>\<^sub>m ims_by_request_id s0"
    and "distinct (map opr_request_id rs)"
    and "\<forall>r \<in> set rs. ims_by_request_id s0 (opr_request_id r) = Some r
           \<and> ims_by_request_id s (opr_request_id r) = None"
  shows "\<exists>s'. insert_all rs s = Inr s' \<and> store_inv s' \<and>
     ims_by_request_id s' =
       (\<lambda>i. if i \<in> opr_request_id ` set rs then ims_by_request_id s0 i else ims_by_request_id s i)"
  using assms(2-5)
proof (induction rs arbitrary: s)
  case (Cons r rs)
  then obtain s1 where s1: "mem_insert_intent s r = Inr s1"
    "ims_by_request_id s1 = (ims_by_request_id s)(opr_request_id r \<mapsto> r)"
    using insert_part [OF assms(1), of s r] by auto
  have "store_inv s1" using store_inv_insert s1(1) Cons.prems(1) by blast
  moreover have "ims_by_request_id s1 \<subseteq>\<^sub>m ims_by_request_id s0"
    using Cons.prems(2,4) s1(2) by (auto simp: map_le_def)
  moreover have "distinct (map opr_request_id rs)" using Cons.prems(3) by simp
  moreover have "\<forall>q \<in> set rs. ims_by_request_id s0 (opr_request_id q) = Some q
      \<and> ims_by_request_id s1 (opr_request_id q) = None"
  proof
    fix q
    assume q: "q \<in> set rs"
    then have "opr_request_id q \<noteq> opr_request_id r" using Cons.prems(3) by (metis distinct.simps(2) image_eqI list.map(2) list.set_map)
    with q Cons.prems(4) show "ims_by_request_id s0 (opr_request_id q) = Some q
      \<and> ims_by_request_id s1 (opr_request_id q) = None"
      by (simp add: s1(2))
  qed
  ultimately have "\<exists>s'. insert_all rs s1 = Inr s' \<and> store_inv s' \<and> ims_by_request_id s' =
       (\<lambda>i. if i \<in> opr_request_id ` set rs then ims_by_request_id s0 i else ims_by_request_id s1 i)"
    by (rule Cons.IH)
  then obtain s' where s': "insert_all rs s1 = Inr s'" "store_inv s'"
    "ims_by_request_id s' =
       (\<lambda>i. if i \<in> opr_request_id ` set rs then ims_by_request_id s0 i else ims_by_request_id s1 i)"
    by blast
  have "ims_by_request_id s' i = (if i \<in> opr_request_id ` set (r # rs) then ims_by_request_id s0 i
      else ims_by_request_id s i)" for i
    using Cons.prems(4) by (simp add: s'(3) s1(2))
  with s' s1(1) show ?case by (simp add: fun_eq_iff)
qed (simp add: fun_eq_iff)

lemma map_filter_keys:
  assumes "\<forall>i r. m i = Some r \<longrightarrow> key r = i"
  shows "map key (List.map_filter m is) = filter (\<lambda>i. m i \<noteq> None) is"
  using assms by (induction "is") (auto simp: List.map_filter_simps split: option.splits)

lemma set_map_filter: "x \<in> set (List.map_filter m is) \<longleftrightarrow> (\<exists>i \<in> set is. m i = Some x)"
  by (induction "is") (auto simp: List.map_filter_simps split: option.splits)

lemma set_map_filter_keys:
  assumes "\<forall>i r. m i = Some r \<longrightarrow> key r = i"
  shows "set (List.map_filter m is) = {r. key r \<in> set is \<and> m (key r) = Some r}"
  using assms by (intro set_eqI) (metis (mono_tags) mem_Collect_eq set_map_filter)

lemma mem_all_records_spec:
  assumes "hash_iteration iter" "store_inv s"
  shows "distinct (map opr_request_id (mem_all_records iter s))"
    and "set (mem_all_records iter s) = {r. ims_by_request_id s (opr_request_id r) = Some r}"
proof -
  let ?ks = "iter (dom (ims_by_request_id s))"
  have fin: "finite (dom (ims_by_request_id s))"
    and key: "\<forall>i r. ims_by_request_id s i = Some r \<longrightarrow> opr_request_id r = i"
    using assms(2) by (auto simp: store_inv_def)
  with assms(1) have ks: "set ?ks = dom (ims_by_request_id s)" "distinct ?ks"
    by (auto simp: hash_iteration_def)
  show "distinct (map opr_request_id (mem_all_records iter s))"
    using map_filter_keys [OF key, of ?ks] ks(2) by (simp add: mem_all_records_def)
  show "set (mem_all_records iter s) = {r. ims_by_request_id s (opr_request_id r) = Some r}"
    unfolding mem_all_records_def set_map_filter_keys [OF key] ks(1) by (auto simp: dom_def)
qed

lemma sorted_records_spec:
  assumes "hash_iteration iter" "store_inv s"
  shows "distinct (map opr_request_id (sorted_records uuid_str iter s))"
    and "set (sorted_records uuid_str iter s) = {r. ims_by_request_id s (opr_request_id r) = Some r}"
proof -
  show "set (sorted_records uuid_str iter s) = {r. ims_by_request_id s (opr_request_id r) = Some r}"
    using mem_all_records_spec(2) [OF assms] by (simp add: sorted_records_def)
  show "distinct (map opr_request_id (sorted_records uuid_str iter s))"
    using mem_all_records_spec(1) [OF assms] by (simp add: sorted_records_def distinct_map)
qed

text \<open>Inserting all records of a store, in any order, rebuilds it.\<close>

lemma insert_all_records:
  assumes "store_inv s" and "distinct (map opr_request_id rs)"
    and "set rs = {r. ims_by_request_id s (opr_request_id r) = Some r}"
  shows "insert_all rs empty_store = Inr s"
proof -
  have key: "ims_by_request_id s i = Some r \<Longrightarrow> opr_request_id r = i" for i r
    using assms(1) by (simp add: store_inv_def)
  have ids: "opr_request_id ` set rs = dom (ims_by_request_id s)"
  proof (rule set_eqI)
    fix i
    show "i \<in> opr_request_id ` set rs \<longleftrightarrow> i \<in> dom (ims_by_request_id s)"
      using key [of i] by (auto simp: assms(3) dom_def image_iff)
  qed
  obtain s' where s': "insert_all rs empty_store = Inr s'" "store_inv s'"
    and m: "ims_by_request_id s' = (\<lambda>i. if i \<in> opr_request_id ` set rs
       then ims_by_request_id s i else ims_by_request_id empty_store i)"
    using insert_all_part [OF assms(1) store_inv_empty _ assms(2)] assms(3)
    by (auto simp: empty_store_def)
  have "ims_by_request_id s' = ims_by_request_id s"
    unfolding m ids by (auto simp: fun_eq_iff empty_store_def dom_def)
  with s' show ?thesis using store_inv_determined [OF s'(2) assms(1)] by simp
qed

lemma insert_sorted_records:
  "hash_iteration iter \<Longrightarrow> store_inv s \<Longrightarrow>
     insert_all (sorted_records uuid_str iter s) empty_store = Inr s"
  by (rule insert_all_records) (simp_all add: sorted_records_spec)

text \<open>What serde_json gives: a written snapshot is not blank and reads back as written.\<close>

definition codec_roundtrip ::
    "('a \<Rightarrow> string + string) \<Rightarrow> (string \<Rightarrow> string + 'a) \<Rightarrow> bool" where
  "codec_roundtrip encode decode \<longleftrightarrow>
     (\<forall>x raw. encode x = Inr raw \<longrightarrow> trim raw \<noteq> [] \<and> decode raw = Inr x)"

lemma json_persist_Inr:
  assumes "json_persist encode uuid_str iter fault j files = (files', Inr u)"
  shows "\<exists>raw. encode (sorted_records uuid_str iter (jfs_inner j)) = Inr raw
     \<and> files' (jfs_path j) = Some raw"
  using assms
  by (auto simp: json_persist_def Let_def split: prod.splits bool.splits sum.splits persist_fault.splits)

lemma json_apply_persisted:
  assumes "json_apply encode uuid_str iter fault st m = (st', Inr u)"
  shows "\<exists>raw. encode (sorted_records uuid_str iter (jfs_inner (fst st'))) = Inr raw
     \<and> snd st' (jfs_path (fst st)) = Some raw \<and> jfs_path (fst st') = jfs_path (fst st)"
  using assms
  by (auto simp: json_apply_def Let_def split: sum.splits prod.splits dest!: json_persist_Inr)

lemma json_persist_frame:
  "json_persist encode uuid_str iter fault j files = (files', res) \<Longrightarrow>
   set_extension (jfs_path j) ''tmp'' \<noteq> jfs_path j \<Longrightarrow>
   files' (jfs_path j) = files (jfs_path j)
   \<or> (\<exists>raw. encode (sorted_records uuid_str iter (jfs_inner j)) = Inr raw
        \<and> files' (jfs_path j) = Some raw)"
  by (auto simp: json_persist_def Let_def split: prod.splits bool.splits sum.splits persist_fault.splits)

section \<open>A concrete iteration order and codec\<close>

instantiation strategy_request_id :: linorder
begin

definition less_eq_strategy_request_id :: "strategy_request_id \<Rightarrow> strategy_request_id \<Rightarrow> bool" where
  "less_eq_strategy_request_id a b \<longleftrightarrow> uuid_bytes a \<le> uuid_bytes b"

definition less_strategy_request_id :: "strategy_request_id \<Rightarrow> strategy_request_id \<Rightarrow> bool" where
  "less_strategy_request_id a b \<longleftrightarrow> uuid_bytes a < uuid_bytes b"

instance
proof
  fix a b :: strategy_request_id
  show "a \<le> b \<Longrightarrow> b \<le> a \<Longrightarrow> a = b"
    by (cases a; cases b) (simp add: less_eq_strategy_request_id_def)
qed (auto simp: less_eq_strategy_request_id_def less_strategy_request_id_def)

end

lemma hash_iteration_sorted: "hash_iteration sorted_list_of_set"
  by (simp add: hash_iteration_def)

definition sample_encode :: "order_path_record list \<Rightarrow> string + string" where
  "sample_encode rs =
     (if rs = [from_place_order sample_place_order 0 None] then Inr ''s'' else Inl ''unsupported'')"

definition sample_decode :: "string \<Rightarrow> string + order_path_record list" where
  "sample_decode raw = Inr [from_place_order sample_place_order 0 None]"

lemma sample_codec: "codec_roundtrip sample_encode sample_decode"
  by (simp add: codec_roundtrip_def sample_encode_def sample_decode_def) code_simp

lemma sample_insert:
  "\<exists>st'. json_insert_intent sample_encode (\<lambda>_. ''u'') sorted_list_of_set NoFault
       (\<lparr> jfs_path = ''o.json'', jfs_inner = empty_store \<rparr>, Map.empty)
       (from_place_order sample_place_order 0 None) = (st', Inr ()) \<and> jfs_path (fst st') = ''o.json''"
proof -
  have "opr_request_id (from_place_order sample_place_order 0 None) = po_request_id sample_place_order"
    by (simp add: from_place_order_def)
  then show ?thesis
    by (simp add: json_insert_intent_def json_apply_def mem_insert_intent_def empty_store_def
        json_persist_def has_parent_directory_def sorted_records_def mem_all_records_def
        List.map_filter_def sample_encode_def Let_def from_place_order_def)
qed

section \<open>Properties\<close>

text \<open>C8: An accepted insert or update of the JSON store is durable: opening the file afterwards
  gives back exactly the store in memory, records and both indexes.\<close>

theorem json_store_durable:
  assumes "json_inv st" and "hash_iteration iter" and "codec_roundtrip encode decode"
    and "json_insert_intent encode uuid_str iter fault st r = (st', Inr u)
       \<or> json_update_record encode uuid_str iter fault st r = (st', Inr u)"
  shows "json_open decode None (snd st') (jfs_path (fst st)) = Inr (fst st')"
proof -
  have inv: "store_inv (jfs_inner (fst st'))"
    using assms(1,4) json.insert_grows [of st encode uuid_str iter fault r st' "Inr u"]
      json.update_grows [of st encode uuid_str iter fault r st' "Inr u"]
    by (auto simp: json_inv_def)
  obtain raw where raw: "encode (sorted_records uuid_str iter (jfs_inner (fst st'))) = Inr raw"
    "snd st' (jfs_path (fst st)) = Some raw" "jfs_path (fst st') = jfs_path (fst st)"
    using assms(4) json_apply_persisted [of encode uuid_str iter fault st _ st' u]
    by (auto simp: json_insert_intent_def json_update_record_def)
  with assms(3) have "trim raw \<noteq> []"
    "decode raw = Inr (sorted_records uuid_str iter (jfs_inner (fst st')))"
    by (auto simp: codec_roundtrip_def)
  then show ?thesis
    using raw insert_sorted_records [OF assms(2) inv, of uuid_str]
    by (simp add: json_open_def)
qed

theorem json_store_durable_witness:
  "\<exists>st'. json_insert_intent sample_encode (\<lambda>_. ''u'') sorted_list_of_set NoFault
       (\<lparr> jfs_path = ''o.json'', jfs_inner = empty_store \<rparr>, Map.empty)
       (from_place_order sample_place_order 0 None) = (st', Inr ())
     \<and> json_open sample_decode None (snd st') ''o.json'' = Inr (fst st')"
proof -
  let ?st = "(\<lparr> jfs_path = ''o.json'', jfs_inner = empty_store \<rparr>, Map.empty)"
  obtain st' where st': "json_insert_intent sample_encode (\<lambda>_. ''u'') sorted_list_of_set NoFault
       ?st (from_place_order sample_place_order 0 None) = (st', Inr ())"
    using sample_insert by blast
  have inv: "json_inv ?st" by (simp add: json_inv_def)
  from json_store_durable [OF inv hash_iteration_sorted sample_codec] st' show ?thesis by fastforce
qed

text \<open>C9: A write of the JSON store never tears the file: whatever call of the file system fails
  during an insert or update, the file at the store's path holds either what it held
  before or a complete snapshot that reopens to the store in memory, as long as the
  temporary file has another name.\<close>

theorem json_store_never_torn:
  assumes "json_inv st" and "hash_iteration iter" and "codec_roundtrip encode decode"
    and "set_extension (jfs_path (fst st)) ''tmp'' \<noteq> jfs_path (fst st)"
    and "json_insert_intent encode uuid_str iter fault st r = (st', res)
       \<or> json_update_record encode uuid_str iter fault st r = (st', res)"
  shows "snd st' (jfs_path (fst st)) = snd st (jfs_path (fst st))
    \<or> json_open decode None (snd st') (jfs_path (fst st)) = Inr (fst st')"
proof -
  obtain m where m: "json_apply encode uuid_str iter fault st m = (st', res)"
    using assms(5) by (auto simp: json_insert_intent_def json_update_record_def)
  show ?thesis
  proof (cases m)
    case (Inl e)
    with m show ?thesis by (simp add: json_apply_def)
  next
    case (Inr inner)
    with m have j: "jfs_inner (fst st') = inner" "jfs_path (fst st') = jfs_path (fst st)"
      "json_persist encode uuid_str iter fault (fst st') (snd st) = (snd st', res)"
      by (auto simp: json_apply_def Let_def split: prod.splits)
    have inv: "store_inv (jfs_inner (fst st'))"
      using assms(1,5) json.insert_grows [of st encode uuid_str iter fault r st' res]
        json.update_grows [of st encode uuid_str iter fault r st' res]
      by (auto simp: json_inv_def)
    from json_persist_frame [OF j(3)] assms(4) j(2) consider
      "snd st' (jfs_path (fst st)) = snd st (jfs_path (fst st))"
      | raw where "encode (sorted_records uuid_str iter (jfs_inner (fst st'))) = Inr raw"
        "snd st' (jfs_path (fst st)) = Some raw" by auto
    then show ?thesis
    proof cases
      case (2 raw)
      with assms(3) insert_sorted_records [OF assms(2) inv, of uuid_str] j(2) show ?thesis
        by (simp add: json_open_def codec_roundtrip_def)
    qed simp
  qed
qed

theorem json_store_never_torn_witness:
  "\<exists>st' res. json_insert_intent sample_encode (\<lambda>_. ''u'') sorted_list_of_set
       (WriteFails ''disk full'' ''{'')
       (\<lparr> jfs_path = ''o.json'', jfs_inner = empty_store \<rparr>, [''o.json'' \<mapsto> ''old''])
       (from_place_order sample_place_order 0 None) = (st', res)
     \<and> (snd st' ''o.json'' = Some ''old''
        \<or> json_open sample_decode None (snd st') ''o.json'' = Inr (fst st'))"
proof -
  let ?st = "(\<lparr> jfs_path = ''o.json'', jfs_inner = empty_store \<rparr>, [''o.json'' \<mapsto> ''old''])"
  obtain st' res where st': "json_insert_intent sample_encode (\<lambda>_. ''u'') sorted_list_of_set
       (WriteFails ''disk full'' ''{'') ?st (from_place_order sample_place_order 0 None) = (st', res)"
    by (metis surj_pair)
  have inv: "json_inv ?st" by (simp add: json_inv_def)
  have tmp: "set_extension (jfs_path (fst ?st)) ''tmp'' \<noteq> jfs_path (fst ?st)"
    by (simp add: set_extension_def file_name_def file_stem_def)
  from json_store_never_torn [OF inv hash_iteration_sorted sample_codec tmp] st' show ?thesis
    by fastforce
qed

text \<open>A refused insert can still have happened: when the rename of the snapshot fails, the
  caller gets an error and the file keeps its old content, but the record is in memory, so
  the same insert tried again is refused as a duplicate.\<close>

theorem json_store_failed_write_keeps_record:
  assumes "mem_insert_intent (jfs_inner (fst st)) r = Inr inner"
    and "encode (sorted_records uuid_str iter inner) = Inr raw"
    and "set_extension (jfs_path (fst st)) ''tmp'' \<noteq> jfs_path (fst st)"
  shows "\<exists>st'. json_insert_intent encode uuid_str iter (RenameFails e) st r = (st', Inl (StoreIo e))
    \<and> snd st' (jfs_path (fst st)) = snd st (jfs_path (fst st))
    \<and> json_load_by_request_id st' (opr_request_id r) = Some r
    \<and> json_insert_intent encode uuid_str iter fault st' r
        = (st', Inl (DuplicateStrategyRequestId (opr_request_id r)))"
proof -
  have "ims_by_request_id inner (opr_request_id r) = Some r"
    using assms(1) by (auto simp: mem_insert_intent_Inr_iff)
  with assms show ?thesis
    by (auto simp: json_insert_intent_def json_apply_def json_persist_def json_load_by_request_id_def
        get_by_request_id_def mem_insert_intent_def Let_def split: bool.splits)
qed

theorem json_store_failed_write_keeps_record_witness:
  "\<exists>st'. json_insert_intent sample_encode (\<lambda>_. ''u'') sorted_list_of_set (RenameFails ''denied'')
       (\<lparr> jfs_path = ''o.json'', jfs_inner = empty_store \<rparr>, Map.empty)
       (from_place_order sample_place_order 0 None) = (st', Inl (StoreIo ''denied''))
     \<and> json_load_by_request_id st' (po_request_id sample_place_order)
         = Some (from_place_order sample_place_order 0 None)"
proof -
  let ?r = "from_place_order sample_place_order 0 None"
  let ?st = "(\<lparr> jfs_path = ''o.json'', jfs_inner = empty_store \<rparr>, Map.empty) :: json_file_store \<times> files"
  have id: "opr_request_id ?r = po_request_id sample_place_order" by (simp add: from_place_order_def)
  obtain inner where m: "mem_insert_intent (jfs_inner (fst ?st)) ?r = Inr inner"
    and i: "ims_by_request_id inner = [po_request_id sample_place_order \<mapsto> ?r]"
    by (simp add: mem_insert_intent_def empty_store_def from_place_order_def)
  have e: "sample_encode (sorted_records (\<lambda>_. ''u'') sorted_list_of_set inner) = Inr ''s''"
    by (simp add: sorted_records_def mem_all_records_def List.map_filter_def i sample_encode_def)
  have tmp: "set_extension (jfs_path (fst ?st)) ''tmp'' \<noteq> jfs_path (fst ?st)"
    by (simp add: set_extension_def file_name_def file_stem_def)
  from json_store_failed_write_keeps_record [where st = ?st and e = "''denied''" and encode = sample_encode
      and fault = NoFault, OF m e tmp]
  show ?thesis unfolding id by blast
qed

end
