(* ===== verification/SqliteStore.thy ===== *)
theory SqliteStore
  imports JsonOrderStore "HOL-Library.Multiset"
begin

text \<open>
  \<open>SqliteOrderPathStore\<close> of \<open>order_path.rs\<close>: the in-memory store in front of two SQL tables,
  written in one transaction per accepted call, with an audit row per change, under a lock
  file that admits one writer. The SQL statements are translated from the source's text; a
  \<open>sqlite_codec\<close> holds the parameters (serde_json, the display of a UUID and of a
  timestamp, the engine's constraint message), and a \<open>sqlite_fault\<close> says which call of the
  engine or of the file system fails. A transaction dropped before its commit changes
  nothing, as rusqlite documents.
\<close>

section \<open>Tables\<close>

record sqlite_row =
  row_request_id :: string
  row_client_order_id :: string
  row_broker_order_id :: "string option"
  row_state :: string
  row_last_update_ts :: string
  row_payload :: string

record sqlite_transition_audit =
  sta_id :: int
  sta_request_id :: string
  sta_from_state :: "string option"
  sta_to_state :: string
  sta_event :: string
  sta_reason_code :: "string option"
  sta_ts :: string
  sta_safe_details :: string

record sqlite_db =
  db_schema_version :: "int option"
  db_records :: "sqlite_row list"
  db_transitions :: "sqlite_transition_audit list"

record sqlite_codec =
  sc_encode :: "order_path_record \<Rightarrow> string + string"
  sc_decode :: "string \<Rightarrow> string + order_path_record"
  sc_uuid_str :: "strategy_request_id \<Rightarrow> string"
  sc_rfc3339 :: "timestamp \<Rightarrow> string"
  sc_constraint :: string

datatype sqlite_fault =
    NoSqliteFault | BeginFails string | StatementFails string | AuditFails string
  | CommitFails string | HardenFails string

section \<open>Debug names\<close>

fun state_debug :: "order_path_state \<Rightarrow> string" where
  "state_debug IntentRecorded = ''IntentRecorded''"
| "state_debug LocalRejected = ''LocalRejected''"
| "state_debug SubmitInFlight = ''SubmitInFlight''"
| "state_debug Submitted = ''Submitted''"
| "state_debug SubmittedPendingBrokerOrderId = ''SubmittedPendingBrokerOrderId''"
| "state_debug TimeoutUnknownPending = ''TimeoutUnknownPending''"
| "state_debug RecoveredByClientOrderId = ''RecoveredByClientOrderId''"
| "state_debug BrokerRejected = ''BrokerRejected''"
| "state_debug CancelRequested = ''CancelRequested''"
| "state_debug CancelSubmitted = ''CancelSubmitted''"
| "state_debug CancelTimeoutUnknownPending = ''CancelTimeoutUnknownPending''"
| "state_debug CancelRecoveredTerminal = ''CancelRecoveredTerminal''"
| "state_debug Terminal = ''Terminal''"
| "state_debug ManualInterventionRequired = ''ManualInterventionRequired''"

fun error_kind_debug :: "order_path_error_kind \<Rightarrow> string" where
  "error_kind_debug LocalValidation = ''LocalValidation''"
| "error_kind_debug BrokerRejectedError = ''BrokerRejected''"
| "error_kind_debug TransportTimeout = ''TransportTimeout''"
| "error_kind_debug RateLimitedError = ''RateLimited''"
| "error_kind_debug BrokerMaintenanceError = ''BrokerMaintenance''"
| "error_kind_debug ResponseDecodeError = ''ResponseDecodeError''"
| "error_kind_debug UnauthorizedError = ''Unauthorized''"
| "error_kind_debug ReconciliationRequired = ''ReconciliationRequired''"
| "error_kind_debug DurableStoreUnavailable = ''DurableStoreUnavailable''"
| "error_kind_debug UnknownError = ''Unknown''"

fun ack_status_debug :: "command_ack_status \<Rightarrow> string" where
  "ack_status_debug AckAccepted = ''Accepted''"
| "ack_status_debug AckSubmitted = ''Submitted''"
| "ack_status_debug AckDuplicate = ''Duplicate''"
| "ack_status_debug AckExpired = ''Expired''"
| "ack_status_debug AckRecovered = ''Recovered''"
| "ack_status_debug AckRejected = ''Rejected''"
| "ack_status_debug AckError = ''Error''"
| "ack_status_debug AckTimeout = ''Timeout''"
| "ack_status_debug AckUnknownPending = ''UnknownPending''"

definition record_reason_code :: "order_path_record \<Rightarrow> string option" where
  "record_reason_code r =
     (case opr_last_error_kind r of
        Some kind \<Rightarrow> Some (error_kind_debug kind)
      | None \<Rightarrow> map_option ack_status_debug (opr_last_ack_status r))"

definition infer_transition_audit_event :: "order_path_record \<Rightarrow> order_path_record \<Rightarrow> string" where
  "infer_transition_audit_event previous r = (case (opr_state previous, opr_state r) of
     (IntentRecorded, LocalRejected) \<Rightarrow> ''LocalReject''
   | (IntentRecorded, SubmitInFlight) \<Rightarrow> ''BeginSubmit''
   | (SubmitInFlight, Submitted) \<Rightarrow> ''SubmitAccepted''
   | (SubmitInFlight, SubmittedPendingBrokerOrderId) \<Rightarrow> ''SubmitAcceptedWithoutBrokerOrderId''
   | (SubmitInFlight, TimeoutUnknownPending) \<Rightarrow> ''SubmitTimedOut''
   | (TimeoutUnknownPending, RecoveredByClientOrderId) \<Rightarrow> ''RecoverByClientOrderId''
   | (SubmittedPendingBrokerOrderId, RecoveredByClientOrderId) \<Rightarrow> ''RecoverByClientOrderId''
   | (SubmitInFlight, ManualInterventionRequired) \<Rightarrow> ''RequireManualIntervention''
   | (SubmittedPendingBrokerOrderId, ManualInterventionRequired) \<Rightarrow> ''RequireManualIntervention''
   | (TimeoutUnknownPending, ManualInterventionRequired) \<Rightarrow> ''RequireManualIntervention''
   | (CancelTimeoutUnknownPending, ManualInterventionRequired) \<Rightarrow> ''RequireManualIntervention''
   | (SubmitInFlight, BrokerRejected) \<Rightarrow> ''BrokerReject''
   | (Submitted, BrokerRejected) \<Rightarrow> ''BrokerReject''
   | (Submitted, CancelRequested) \<Rightarrow> ''RequestCancel''
   | (RecoveredByClientOrderId, CancelRequested) \<Rightarrow> ''RequestCancel''
   | (CancelRequested, CancelSubmitted) \<Rightarrow> ''CancelAccepted''
   | (CancelRequested, ManualInterventionRequired) \<Rightarrow>
       if opr_last_error_kind r = Some BrokerRejectedError then ''CancelRejected''
       else ''RequireManualIntervention''
   | (CancelSubmitted, ManualInterventionRequired) \<Rightarrow>
       if opr_last_error_kind r = Some BrokerRejectedError then ''CancelRejected''
       else ''RequireManualIntervention''
   | (CancelRequested, CancelTimeoutUnknownPending) \<Rightarrow> ''CancelTimedOut''
   | (CancelSubmitted, CancelTimeoutUnknownPending) \<Rightarrow> ''CancelTimedOut''
   | (CancelTimeoutUnknownPending, CancelRecoveredTerminal) \<Rightarrow> ''RecoverCancelTerminal''
   | (ManualInterventionRequired, CancelRecoveredTerminal) \<Rightarrow> ''RecoverCancelTerminal''
   | (_, Terminal) \<Rightarrow> ''MarkTerminal''
   | _ \<Rightarrow> ''UpdateRecord'')"

section \<open>One transaction per call\<close>

definition record_row :: "sqlite_codec \<Rightarrow> order_path_record \<Rightarrow> string \<Rightarrow> sqlite_row" where
  "record_row K r payload =
     \<lparr> row_request_id = sc_uuid_str K (opr_request_id r),
       row_client_order_id = client_order_id_str (opr_client_order_id r),
       row_broker_order_id = map_option broker_order_id_str (opr_broker_order_id r),
       row_state = state_debug (opr_state r),
       row_last_update_ts = sc_rfc3339 K (opr_last_update_ts r),
       row_payload = payload \<rparr>"

text \<open>The constraints of the table: \<open>PRIMARY KEY\<close> and the two \<open>UNIQUE\<close> columns (null is free).\<close>

definition rows_conflict :: "sqlite_row \<Rightarrow> sqlite_row \<Rightarrow> bool" where
  "rows_conflict x y \<longleftrightarrow>
     row_request_id x = row_request_id y \<or> row_client_order_id x = row_client_order_id y
     \<or> (row_broker_order_id x \<noteq> None \<and> row_broker_order_id x = row_broker_order_id y)"

definition next_audit_id :: "sqlite_db \<Rightarrow> int" where
  "next_audit_id db = fold (\<lambda>a m. max (sta_id a) m) (db_transitions db) 0 + 1"

definition insert_transition_audit_sql ::
    "sqlite_codec \<Rightarrow> strategy_request_id \<Rightarrow> order_path_state option \<Rightarrow> order_path_state \<Rightarrow> string
       \<Rightarrow> string option \<Rightarrow> timestamp \<Rightarrow> sqlite_db \<Rightarrow> sqlite_db" where
  "insert_transition_audit_sql K request_id from_state to_state event code ts db =
     db \<lparr> db_transitions := db_transitions db @
       [\<lparr> sta_id = next_audit_id db, sta_request_id = sc_uuid_str K request_id,
          sta_from_state = map_option state_debug from_state, sta_to_state = state_debug to_state,
          sta_event = event, sta_reason_code = code, sta_ts = sc_rfc3339 K ts,
          sta_safe_details = ''sqlite_order_path_store'' \<rparr>] \<rparr>"

text \<open>Begin, one statement, the audit row, commit, then the permissions of the files.\<close>

definition in_transaction ::
    "sqlite_fault \<Rightarrow> sqlite_db \<Rightarrow> order_path_store_error + sqlite_db \<Rightarrow> (sqlite_db \<Rightarrow> sqlite_db)
       \<Rightarrow> sqlite_db \<times> (order_path_store_error + unit)" where
  "in_transaction fault db statement audit =
     (case fault of
        BeginFails m \<Rightarrow> (db, Inl (StoreSqlite m))
      | StatementFails m \<Rightarrow> (db, Inl (StoreSqlite m))
      | _ \<Rightarrow>
         (case statement of
            Inl e \<Rightarrow> (db, Inl e)
          | Inr db' \<Rightarrow>
             (case fault of
                AuditFails m \<Rightarrow> (db, Inl (StoreSqlite m))
              | CommitFails m \<Rightarrow> (db, Inl (StoreSqlite m))
              | HardenFails m \<Rightarrow> (audit db', Inl (StoreIo m))
              | _ \<Rightarrow> (audit db', Inr ()))))"

definition insert_row_sql :: "sqlite_codec \<Rightarrow> sqlite_row \<Rightarrow> sqlite_db \<Rightarrow> order_path_store_error + sqlite_db" where
  "insert_row_sql K row db =
     (if list_ex (rows_conflict row) (db_records db) then Inl (StoreSqlite (sc_constraint K))
      else Inr (db \<lparr> db_records := db_records db @ [row] \<rparr>))"

definition insert_record_sql ::
    "sqlite_codec \<Rightarrow> sqlite_fault \<Rightarrow> sqlite_db \<Rightarrow> order_path_record
       \<Rightarrow> sqlite_db \<times> (order_path_store_error + unit)" where
  "insert_record_sql K fault db r =
     (case sc_encode K r of
        Inl e \<Rightarrow> (db, Inl (StoreSerialization e))
      | Inr payload \<Rightarrow>
          in_transaction fault db (insert_row_sql K (record_row K r payload) db)
            (insert_transition_audit_sql K (opr_request_id r) None (opr_state r) ''InsertIntent''
               (record_reason_code r) (opr_last_update_ts r)))"

definition update_row_sql ::
    "sqlite_codec \<Rightarrow> strategy_request_id \<Rightarrow> sqlite_row \<Rightarrow> sqlite_db
       \<Rightarrow> order_path_store_error + sqlite_db" where
  "update_row_sql K request_id row db =
     (let hit = (\<lambda>x. row_request_id x = row_request_id row)
      in if list_ex hit (db_records db)
            \<and> list_ex (\<lambda>x. \<not> hit x \<and> rows_conflict row x) (db_records db)
         then Inl (StoreSqlite (sc_constraint K))
         else if length (filter hit (db_records db)) \<noteq> 1 then Inl (RecordNotFound request_id)
         else Inr (db \<lparr> db_records := map (\<lambda>x. if hit x then row else x) (db_records db) \<rparr>))"

definition update_record_sql ::
    "sqlite_codec \<Rightarrow> sqlite_fault \<Rightarrow> sqlite_db \<Rightarrow> order_path_record \<Rightarrow> order_path_record
       \<Rightarrow> sqlite_db \<times> (order_path_store_error + unit)" where
  "update_record_sql K fault db previous r =
     (case sc_encode K r of
        Inl e \<Rightarrow> (db, Inl (StoreSerialization e))
      | Inr payload \<Rightarrow>
          in_transaction fault db (update_row_sql K (opr_request_id r) (record_row K r payload) db)
            (insert_transition_audit_sql K (opr_request_id r) (Some (opr_state previous)) (opr_state r)
               (infer_transition_audit_event previous r) (record_reason_code r) (opr_last_update_ts r)))"

section \<open>The store\<close>

text \<open>A live store: the records in memory and the database behind its connection.\<close>

type_synonym sqlite_store = "in_memory_store \<times> sqlite_db"

definition sqlite_insert_intent ::
    "sqlite_codec \<Rightarrow> sqlite_fault \<Rightarrow> sqlite_store \<Rightarrow> order_path_record
       \<Rightarrow> sqlite_store \<times> (order_path_store_error + unit)" where
  "sqlite_insert_intent K fault st r =
     (case mem_insert_intent (fst st) r of
        Inl e \<Rightarrow> (st, Inl e)
      | Inr next_inner \<Rightarrow>
         (case insert_record_sql K fault (snd st) r of
            (db, Inl e) \<Rightarrow> ((fst st, db), Inl e)
          | (db, Inr _) \<Rightarrow> ((next_inner, db), Inr ())))"

definition sqlite_update_record ::
    "sqlite_codec \<Rightarrow> sqlite_fault \<Rightarrow> sqlite_store \<Rightarrow> order_path_record
       \<Rightarrow> sqlite_store \<times> (order_path_store_error + unit)" where
  "sqlite_update_record K fault st r =
     (case get_by_request_id (fst st) (opr_request_id r) of
        None \<Rightarrow> (st, Inl (RecordNotFound (opr_request_id r)))
      | Some previous \<Rightarrow>
         (case mem_update_record (fst st) r of
            Inl e \<Rightarrow> (st, Inl e)
          | Inr next_inner \<Rightarrow>
             (case update_record_sql K fault (snd st) previous r of
                (db, Inl e) \<Rightarrow> ((fst st, db), Inl e)
              | (db, Inr _) \<Rightarrow> ((next_inner, db), Inr ()))))"

definition sqlite_load_by_request_id ::
    "sqlite_store \<Rightarrow> strategy_request_id \<Rightarrow> order_path_record option" where
  "sqlite_load_by_request_id st i = get_by_request_id (fst st) i"

definition sqlite_load_by_client_order_id ::
    "sqlite_store \<Rightarrow> client_order_id \<Rightarrow> order_path_record option" where
  "sqlite_load_by_client_order_id st c = get_by_client_order_id (fst st) c"

definition sqlite_load_by_broker_order_id ::
    "sqlite_store \<Rightarrow> broker_order_id \<Rightarrow> order_path_record option" where
  "sqlite_load_by_broker_order_id st b = get_by_broker_order_id (fst st) b"

fun decode_rows ::
    "sqlite_codec \<Rightarrow> sqlite_row list \<Rightarrow> in_memory_store \<Rightarrow> order_path_store_error + in_memory_store" where
  "decode_rows K [] inner = Inr inner"
| "decode_rows K (row # rows) inner =
     (case sc_decode K (row_payload row) of
        Inl e \<Rightarrow> Inl (StoreSerialization e)
      | Inr r \<Rightarrow> and_then (mem_insert_intent inner r) (decode_rows K rows))"

definition load_inner_from_sqlite ::
    "sqlite_codec \<Rightarrow> string option \<Rightarrow> sqlite_db \<Rightarrow> order_path_store_error + in_memory_store" where
  "load_inner_from_sqlite K query_fault db =
     (case query_fault of
        Some m \<Rightarrow> Inl (StoreSqlite m)
      | None \<Rightarrow> decode_rows K (sort_key row_request_id (db_records db)) empty_store)"

record redacted_record =
  rdr_request_id :: strategy_request_id
  rdr_client_order_id_fingerprint :: redacted_value_fingerprint
  rdr_broker_order_id_fingerprint :: "redacted_value_fingerprint option"
  rdr_account_id_fingerprint :: redacted_value_fingerprint
  rdr_state :: order_path_state
  rdr_last_update_ts :: timestamp

definition redacted_records_from_inner ::
    "sqlite_codec \<Rightarrow> (string \<Rightarrow> u8 list) \<Rightarrow> (strategy_request_id set \<Rightarrow> strategy_request_id list)
       \<Rightarrow> in_memory_store \<Rightarrow> redacted_record list" where
  "redacted_records_from_inner K sha256 iter inner =
     sort_key (\<lambda>x. sc_uuid_str K (rdr_request_id x))
       (map (\<lambda>r. \<lparr> rdr_request_id = opr_request_id r,
            rdr_client_order_id_fingerprint =
              fingerprint_redacted_value sha256 (client_order_id_str (opr_client_order_id r)),
            rdr_broker_order_id_fingerprint =
              map_option (\<lambda>b. fingerprint_redacted_value sha256 (broker_order_id_str b))
                (opr_broker_order_id r),
            rdr_account_id_fingerprint =
              fingerprint_redacted_value sha256 (account_id_str (opr_account_id r)),
            rdr_state = opr_state r, rdr_last_update_ts = opr_last_update_ts r \<rparr>)
         (mem_all_records iter inner))"

section \<open>Opening under the writer lock\<close>

record sqlite_writer_lock_metadata =
  wlm_instance_id :: string
  wlm_pid :: u32
  wlm_created_ts :: timestamp
  wlm_schema_version :: int

text \<open>
  What one call of \<open>open\<close> meets: for each fallible call, the message it fails with, if it
  fails. \<open>oe_exists_error\<close> is what \<open>create_new\<close> says of an existing file.
\<close>

record sqlite_open_env =
  oe_create_dir :: "string option"
  oe_exists_error :: string
  oe_lock_open :: "string option"
  oe_metadata_json :: "string + string"
  oe_lock_write :: "string option"
  oe_lock_sync :: "string option"
  oe_lock_harden :: "string option"
  oe_db_open :: "string option"
  oe_harden_before :: "string option"
  oe_init_batch :: "string option"
  oe_schema_query :: "string option"
  oe_schema_insert :: "string option"
  oe_table_batch :: "string option"
  oe_load :: "string option"
  oe_harden_after :: "string option"
  oe_remove_works :: bool

definition sqlite_writer_lock_unavailable ::
    "(string \<Rightarrow> sqlite_writer_lock_metadata option) \<Rightarrow> (timestamp \<Rightarrow> string) \<Rightarrow> string option
       \<Rightarrow> string \<Rightarrow> order_path_store_error" where
  "sqlite_writer_lock_unavailable parse ts_display content error =
     WriterLockUnavailable
       (case Option.bind content parse of
          Some m \<Rightarrow> ''writer lock present: pid='' @ nat_to_string (unat (wlm_pid m))
            @ '' created_ts='' @ ts_display (wlm_created_ts m)
            @ '' instance_id_len='' @ nat_to_string (length (wlm_instance_id m))
            @ '' schema_version='' @ int_to_string (wlm_schema_version m)
        | None \<Rightarrow> ''writer lock unavailable: '' @ error)"

definition remove_lock :: "sqlite_open_env \<Rightarrow> string option \<Rightarrow> string option" where
  "remove_lock env lock = (if oe_remove_works env then None else lock)"

text \<open>The lock file is \<open>None\<close> when absent and else its content.\<close>

definition create_sqlite_writer_lock ::
    "(string \<Rightarrow> sqlite_writer_lock_metadata option) \<Rightarrow> (timestamp \<Rightarrow> string) \<Rightarrow> sqlite_open_env
       \<Rightarrow> string option \<Rightarrow> string option \<times> (order_path_store_error + unit)" where
  "create_sqlite_writer_lock parse ts_display env lock =
     (case lock of
        Some content \<Rightarrow>
          (lock, Inl (sqlite_writer_lock_unavailable parse ts_display lock (oe_exists_error env)))
      | None \<Rightarrow>
      (case oe_lock_open env of
        Some e \<Rightarrow> (None, Inl (sqlite_writer_lock_unavailable parse ts_display None e))
      | None \<Rightarrow>
      (case oe_metadata_json env of
        Inl e \<Rightarrow> (Some [], Inl (StoreSerialization e))
      | Inr raw \<Rightarrow>
      (case oe_lock_write env of
        Some e \<Rightarrow> (remove_lock env (Some []), Inl (StoreIo e))
      | None \<Rightarrow>
      (case oe_lock_sync env of
        Some e \<Rightarrow> (remove_lock env (Some raw), Inl (StoreIo e))
      | None \<Rightarrow>
      (case oe_lock_harden env of
        Some e \<Rightarrow> (remove_lock env (Some raw), Inl (StoreIo e))
      | None \<Rightarrow> (Some raw, Inr ())))))))"

definition sqlite_order_path_schema_version :: int where
  "sqlite_order_path_schema_version = 1"

definition ensure_sqlite_schema_version ::
    "string option \<Rightarrow> string option \<Rightarrow> sqlite_db \<Rightarrow> sqlite_db \<times> (order_path_store_error + unit)" where
  "ensure_sqlite_schema_version query_fault insert_fault db =
     (case query_fault of
        Some m \<Rightarrow> (db, Inl (StoreSqlite m))
      | None \<Rightarrow>
         (case db_schema_version db of
            Some v \<Rightarrow>
              (if v = sqlite_order_path_schema_version then (db, Inr ())
               else (db, Inl (SchemaVersionMismatch sqlite_order_path_schema_version v)))
          | None \<Rightarrow>
             (case insert_fault of
                Some m \<Rightarrow> (db, Inl (StoreSqlite m))
              | None \<Rightarrow> (db \<lparr> db_schema_version := Some sqlite_order_path_schema_version \<rparr>, Inr ()))))"

definition initialize_and_load ::
    "sqlite_codec \<Rightarrow> sqlite_open_env \<Rightarrow> sqlite_db
       \<Rightarrow> sqlite_db \<times> (order_path_store_error + in_memory_store)" where
  "initialize_and_load K env db =
     (case oe_init_batch env of
        Some m \<Rightarrow> (db, Inl (StoreSqlite m))
      | None \<Rightarrow>
         (case ensure_sqlite_schema_version (oe_schema_query env) (oe_schema_insert env) db of
            (db', Inl e) \<Rightarrow> (db', Inl e)
          | (db', Inr _) \<Rightarrow>
             (case oe_table_batch env of
                Some m \<Rightarrow> (db', Inl (StoreSqlite m))
              | None \<Rightarrow> (db', load_inner_from_sqlite K (oe_load env) db'))))"

definition sqlite_open ::
    "sqlite_codec \<Rightarrow> (string \<Rightarrow> sqlite_writer_lock_metadata option) \<Rightarrow> (timestamp \<Rightarrow> string)
       \<Rightarrow> sqlite_open_env \<Rightarrow> string option \<times> sqlite_db
       \<Rightarrow> (string option \<times> sqlite_db) \<times> (order_path_store_error + in_memory_store)" where
  "sqlite_open K parse ts_display env w =
     (case oe_create_dir env of
        Some e \<Rightarrow> (w, Inl (StoreIo e))
      | None \<Rightarrow>
     (case create_sqlite_writer_lock parse ts_display env (fst w) of
        (lock, Inl e) \<Rightarrow> ((lock, snd w), Inl e)
      | (lock, Inr _) \<Rightarrow>
     (case oe_db_open env of
        Some e \<Rightarrow> ((remove_lock env lock, snd w), Inl (StoreSqlite e))
      | None \<Rightarrow>
     (case oe_harden_before env of
        Some e \<Rightarrow> ((remove_lock env lock, snd w), Inl (StoreIo e))
      | None \<Rightarrow>
     (case initialize_and_load K env (snd w) of
        (db, Inl e) \<Rightarrow> ((remove_lock env lock, db), Inl e)
      | (db, Inr inner) \<Rightarrow>
     (case oe_harden_after env of
        Some e \<Rightarrow> ((remove_lock env lock, db), Inl (StoreIo e))
      | None \<Rightarrow> ((lock, db), Inr inner)))))))"

text \<open>\<open>Drop\<close>: the store removes its lock file, if it can.\<close>

definition sqlite_drop :: "bool \<Rightarrow> string option \<Rightarrow> string option" where
  "sqlite_drop remove_works lock = (if remove_works then None else lock)"

text \<open>A read-only store takes no lock; the engine refuses its writes with \<open>readonly_error\<close>.\<close>

definition sqlite_open_readonly ::
    "sqlite_codec \<Rightarrow> string option \<Rightarrow> string option \<Rightarrow> string \<Rightarrow> string option \<Rightarrow> sqlite_db
       \<Rightarrow> order_path_store_error + in_memory_store" where
  "sqlite_open_readonly K open_fault query_fault readonly_error load_fault db =
     (case open_fault of
        Some m \<Rightarrow> Inl (StoreSqlite m)
      | None \<Rightarrow>
         and_then (snd (ensure_sqlite_schema_version query_fault (Some readonly_error) db))
           (\<lambda>_. load_inner_from_sqlite K load_fault db))"

section \<open>The runtime directory\<close>

datatype sqlite_runtime_directory_issue =
    DirectoryMissing | NotDirectory | GroupOrWorldAccessible
  | InsideWorkspaceTree | InsideWorkspaceArtifactArea

text \<open>A path is the list of its components; the metadata is whether it is a directory, and its mode.\<close>

definition path_starts_with :: "string list \<Rightarrow> string list \<Rightarrow> bool" where
  "path_starts_with path base \<longleftrightarrow> take (length base) path = base"

definition inspect_sqlite_runtime_directory ::
    "(bool \<times> u32) option \<Rightarrow> string list \<Rightarrow> string list option
       \<Rightarrow> sqlite_runtime_directory_issue list" where
  "inspect_sqlite_runtime_directory metadata runtime_dir workspace_root =
     (case metadata of
        None \<Rightarrow> [DirectoryMissing]
      | Some (is_dir, mode) \<Rightarrow>
          (if \<not> is_dir then [NotDirectory]
           else if and mode 63 \<noteq> 0 then [GroupOrWorldAccessible]
           else []))
   @ (case workspace_root of
        None \<Rightarrow> []
      | Some workspace \<Rightarrow>
          (if path_starts_with runtime_dir workspace then [InsideWorkspaceTree] else [])
        @ (if path_starts_with runtime_dir (workspace @ [''reports''])
              \<or> path_starts_with runtime_dir (workspace @ [''tmp''])
              \<or> path_starts_with runtime_dir (workspace @ [''handoff''])
           then [InsideWorkspaceArtifactArea] else []))"

section \<open>The tables hold the records\<close>

definition sqlite_codec_ok :: "sqlite_codec \<Rightarrow> bool" where
  "sqlite_codec_ok K \<longleftrightarrow> inj (sc_uuid_str K) \<and>
     (\<forall>r raw. sc_encode K r = Inr raw \<longrightarrow> sc_decode K raw = Inr r)"

definition row_of :: "sqlite_codec \<Rightarrow> order_path_record \<Rightarrow> sqlite_row \<Rightarrow> bool" where
  "row_of K r row \<longleftrightarrow> (\<exists>payload. sc_encode K r = Inr payload \<and> row = record_row K r payload)"

definition records_listed :: "in_memory_store \<Rightarrow> order_path_record list \<Rightarrow> bool" where
  "records_listed s rs \<longleftrightarrow> distinct (map opr_request_id rs) \<and>
     set rs = {r. ims_by_request_id s (opr_request_id r) = Some r}"

text \<open>The table holds one row per record of a well-formed store.\<close>

definition sqlite_agree :: "sqlite_codec \<Rightarrow> in_memory_store \<Rightarrow> sqlite_db \<Rightarrow> bool" where
  "sqlite_agree K s db \<longleftrightarrow> store_inv s \<and>
     (\<exists>rs. records_listed s rs \<and> list_all2 (row_of K) rs (db_records db))"

lemma row_of_id:
  "sqlite_codec_ok K \<Longrightarrow> row_of K r row \<Longrightarrow>
     row_request_id row = sc_uuid_str K i \<longleftrightarrow> opr_request_id r = i"
  by (auto simp: sqlite_codec_ok_def row_of_def record_row_def dest: injD)

lemma client_order_id_str_inject [simp]: "client_order_id_str a = client_order_id_str b \<longleftrightarrow> a = b"
  by (cases a; cases b) simp

lemma broker_order_id_str_inject [simp]: "broker_order_id_str a = broker_order_id_str b \<longleftrightarrow> a = b"
  by (cases a; cases b) simp

lemma rows_conflict_records:
  assumes "sqlite_codec_ok K" and "row_of K q row"
  shows "rows_conflict (record_row K r payload) row \<longleftrightarrow>
     opr_request_id r = opr_request_id q \<or> opr_client_order_id r = opr_client_order_id q
     \<or> (\<exists>b. opr_broker_order_id r = Some b \<and> opr_broker_order_id q = Some b)"
proof -
  have inj: "sc_uuid_str K x = sc_uuid_str K y \<longleftrightarrow> x = y" for x y
    using assms(1) by (auto simp: sqlite_codec_ok_def dest: injD)
  show ?thesis
    using assms(2) by (cases "opr_broker_order_id r"; cases "opr_broker_order_id q")
      (auto simp: rows_conflict_def row_of_def record_row_def inj)
qed

lemma records_listed_insert:
  assumes "records_listed s rs" and "mem_insert_intent s r = Inr s'" and "store_inv s"
  shows "records_listed s' (rs @ [r])"
proof -
  have new: "ims_by_request_id s (opr_request_id r) = None"
    and s': "ims_by_request_id s' = (ims_by_request_id s)(opr_request_id r \<mapsto> r)"
    using assms(2) by (auto simp: mem_insert_intent_Inr_iff)
  have "opr_request_id r \<notin> opr_request_id ` set rs"
    using assms(1) new by (auto simp: records_listed_def)
  moreover have "set (rs @ [r]) = {q. ims_by_request_id s' (opr_request_id q) = Some q}"
    using assms(1) new by (auto simp: records_listed_def s' split: if_splits)
  ultimately show ?thesis using assms(1) by (simp add: records_listed_def)
qed

lemma records_listed_update:
  assumes "records_listed s rs" and "mem_update_record s r = Inr s'" and "store_inv s"
  shows "records_listed s' (map (\<lambda>q. if opr_request_id q = opr_request_id r then r else q) rs)"
proof -
  have s': "ims_by_request_id s' = (ims_by_request_id s)(opr_request_id r \<mapsto> r)"
    and old: "\<exists>old. ims_by_request_id s (opr_request_id r) = Some old"
    using assms(2) by (auto simp: mem_update_record_Inr_iff)
  let ?f = "\<lambda>q. if opr_request_id q = opr_request_id r then r else q"
  have "map opr_request_id (map ?f rs) = map opr_request_id rs" by simp
  moreover have "set (map ?f rs) = {q. ims_by_request_id s' (opr_request_id q) = Some q}"
  proof -
    obtain old where "ims_by_request_id s (opr_request_id r) = Some old" using old by blast
    moreover from this have "opr_request_id old = opr_request_id r"
      by (rule store_inv_key [OF assms(3)])
    ultimately have "r \<in> ?f ` set rs" using assms(1) by (auto simp: records_listed_def image_iff)
    moreover have "set rs = {q. ims_by_request_id s (opr_request_id q) = Some q}"
      using assms(1) by (simp add: records_listed_def)
    ultimately show ?thesis by (auto simp: s' image_iff split: if_splits)
  qed
  ultimately show ?thesis using assms(1) by (simp only: records_listed_def)
qed

lemma list_all2_right:
  "list_all2 P xs ys \<Longrightarrow> y \<in> set ys \<Longrightarrow> \<exists>x \<in> set xs. P x y"
  by (induction rule: list_all2_induct) auto

lemma store_inv_indexed:
  assumes "store_inv s" and "ims_by_request_id s i = Some q"
  shows "ims_request_by_client_id s (opr_client_order_id q) = Some i"
    and "\<forall>b. opr_broker_order_id q = Some b \<longrightarrow> ims_request_by_broker_id s b = Some i"
  using assms unfolding store_inv_def by blast+

lemma agree_no_conflict_insert:
  assumes "sqlite_codec_ok K" "sqlite_agree K s db" "mem_insert_intent s r = Inr s'"
  shows "\<not> list_ex (rows_conflict (record_row K r payload)) (db_records db)"
proof
  assume "list_ex (rows_conflict (record_row K r payload)) (db_records db)"
  then obtain row where row: "row \<in> set (db_records db)"
    and c: "rows_conflict (record_row K r payload) row"
    by (auto simp: list_ex_iff)
  obtain rs where rs: "records_listed s rs" "list_all2 (row_of K) rs (db_records db)"
    using assms(2) by (auto simp: sqlite_agree_def)
  obtain q where q: "q \<in> set rs" "row_of K q row" using list_all2_right [OF rs(2) row] ..
  have inv: "store_inv s" using assms(2) by (simp add: sqlite_agree_def)
  have "ims_by_request_id s (opr_request_id q) = Some q" using rs(1) q(1) by (simp add: records_listed_def)
  moreover note store_inv_indexed [OF inv this]
  moreover have "ims_by_request_id s (opr_request_id r) = None"
    "ims_request_by_client_id s (opr_client_order_id r) = None"
    "\<forall>b. opr_broker_order_id r = Some b \<longrightarrow> ims_request_by_broker_id s b = None"
    using assms(3) by (simp_all add: mem_insert_intent_Inr_iff)
  ultimately show False
    using c unfolding rows_conflict_records [OF assms(1) q(2)] by (elim disjE exE conjE) simp_all
qed

lemma agree_no_conflict_update:
  assumes "sqlite_codec_ok K" "sqlite_agree K s db" "mem_update_record s r = Inr s'"
    and "row \<in> set (db_records db)" "row_request_id row \<noteq> sc_uuid_str K (opr_request_id r)"
  shows "\<not> rows_conflict (record_row K r payload) row"
proof
  assume c: "rows_conflict (record_row K r payload) row"
  obtain rs where rs: "records_listed s rs" "list_all2 (row_of K) rs (db_records db)"
    using assms(2) by (auto simp: sqlite_agree_def)
  then obtain q where q: "q \<in> set rs" "row_of K q row"
    using list_all2_right [OF rs(2) assms(4)] by blast
  have inv: "store_inv s" using assms(2) by (simp add: sqlite_agree_def)
  then have inv': "store_inv s'" using store_inv_update assms(3) by blast
  have ne: "opr_request_id q \<noteq> opr_request_id r" using row_of_id [OF assms(1) q(2)] assms(5) by blast
  have s': "ims_by_request_id s' = (ims_by_request_id s)(opr_request_id r \<mapsto> r)"
    using assms(3) by (auto simp: mem_update_record_Inr_iff)
  have at: "ims_by_request_id s' (opr_request_id q) = Some q"
    "ims_by_request_id s' (opr_request_id r) = Some r"
    using rs(1) q(1) ne by (auto simp: records_listed_def s')
  from c consider "opr_client_order_id r = opr_client_order_id q"
    | b where "opr_broker_order_id r = Some b" "opr_broker_order_id q = Some b"
    using ne unfolding rows_conflict_records [OF assms(1) q(2)] by auto
  then show False
  proof cases
    case 1
    with at ne mem.client_owner_unique [OF inv', of "opr_request_id q" q "opr_request_id r" r]
    show False unfolding get_by_request_id_def by metis
  next
    case (2 b)
    with at ne mem.broker_owner_unique [OF inv', of "opr_request_id q" q "opr_request_id r" r b]
    show False unfolding get_by_request_id_def by metis
  qed
qed

lemma filter_key_one:
  "distinct (map f xs) \<Longrightarrow> x \<in> set xs \<Longrightarrow> length (filter (\<lambda>y. f y = f x) xs) = 1"
proof (induction xs)
  case (Cons z zs)
  show ?case
  proof (cases "f z = f x")
    case True
    with Cons.prems have "\<forall>y \<in> set zs. f y \<noteq> f x" by (auto simp: image_iff)
    with True show ?thesis by (simp add: filter_empty_conv)
  qed (use Cons in auto)
qed simp

lemma list_all2_filter_length:
  "list_all2 P xs ys \<Longrightarrow> (\<And>x y. P x y \<Longrightarrow> p x \<longleftrightarrow> q y) \<Longrightarrow>
     length (filter p xs) = length (filter q ys)"
  by (induction rule: list_all2_induct) auto

lemma agree_insert:
  assumes "sqlite_codec_ok K" "sqlite_agree K s db" "mem_insert_intent s r = Inr s'"
    and "sc_encode K r = Inr payload"
  shows "\<exists>db'. insert_row_sql K (record_row K r payload) db = Inr db' \<and> sqlite_agree K s' db'"
proof -
  obtain rs where rs: "records_listed s rs" "list_all2 (row_of K) rs (db_records db)"
    and inv: "store_inv s"
    using assms(2) by (auto simp: sqlite_agree_def)
  have "list_all2 (row_of K) (rs @ [r]) (db_records db @ [record_row K r payload])"
    using rs(2) assms(4) by (auto simp: row_of_def intro!: list_all2_appendI)
  with records_listed_insert [OF rs(1) assms(3) inv] store_inv_insert [OF inv assms(3)]
  show ?thesis
    using agree_no_conflict_insert [OF assms(1-3)]
    by (auto simp: insert_row_sql_def sqlite_agree_def)
qed

lemma agree_update:
  assumes "sqlite_codec_ok K" "sqlite_agree K s db" "mem_update_record s r = Inr s'"
    and "sc_encode K r = Inr payload"
  shows "\<exists>db'. update_row_sql K (opr_request_id r) (record_row K r payload) db = Inr db'
     \<and> sqlite_agree K s' db'"
proof -
  let ?row = "record_row K r payload"
  let ?hit = "\<lambda>x. row_request_id x = row_request_id ?row"
  obtain rs where rs: "records_listed s rs" "list_all2 (row_of K) rs (db_records db)"
    and inv: "store_inv s"
    using assms(2) by (auto simp: sqlite_agree_def)
  have id: "row_request_id ?row = sc_uuid_str K (opr_request_id r)" by (simp add: record_row_def)
  have hits: "row_of K q x \<Longrightarrow> opr_request_id q = opr_request_id r \<longleftrightarrow> ?hit x" for q x
    using row_of_id [OF assms(1), of q x "opr_request_id r"] by (simp add: id)
  obtain old where "ims_by_request_id s (opr_request_id r) = Some old"
    using assms(3) by (auto simp: mem_update_record_Inr_iff)
  with store_inv_key [OF inv this] rs(1) have "old \<in> set rs" "opr_request_id old = opr_request_id r"
    by (auto simp: records_listed_def)
  with rs(1) filter_key_one [of opr_request_id rs old]
  have "length (filter (\<lambda>q. opr_request_id q = opr_request_id r) rs) = 1"
    by (simp add: records_listed_def)
  then have one: "length (filter ?hit (db_records db)) = 1"
    using list_all2_filter_length [OF rs(2), of "\<lambda>q. opr_request_id q = opr_request_id r" ?hit] hits
    by simp
  have "\<not> list_ex (\<lambda>x. \<not> ?hit x \<and> rows_conflict ?row x) (db_records db)"
    using agree_no_conflict_update [OF assms(1-3)] by (auto simp: list_ex_iff id)
  then have "update_row_sql K (opr_request_id r) ?row db
      = Inr (db \<lparr> db_records := map (\<lambda>x. if ?hit x then ?row else x) (db_records db) \<rparr>)"
    using one by (simp add: update_row_sql_def Let_def)
  moreover have "list_all2 (row_of K)
      (map (\<lambda>q. if opr_request_id q = opr_request_id r then r else q) rs)
      (map (\<lambda>x. if ?hit x then ?row else x) (db_records db))"
    unfolding list_all2_map1 list_all2_map2
    using rs(2)
  proof (rule list_all2_mono)
    fix q x
    assume "row_of K q x"
    with hits [OF this] assms(4) show "row_of K (if opr_request_id q = opr_request_id r then r else q)
        (if ?hit x then ?row else x)"
      by (auto simp: row_of_def)
  qed
  ultimately show ?thesis
    using records_listed_update [OF rs(1) assms(3) inv] store_inv_update [OF inv assms(3)]
    by (auto simp: sqlite_agree_def)
qed

section \<open>Loading\<close>

lemma decode_rows_insert_all:
  "\<forall>row \<in> set rows. sc_decode K (row_payload row) = Inr (g row) \<Longrightarrow>
     decode_rows K rows inner = insert_all (map g rows) inner"
proof (induction rows arbitrary: inner)
  case (Cons row rows)
  then show ?case by (cases "mem_insert_intent inner (g row)") simp_all
qed simp

lemma agree_load:
  assumes "sqlite_codec_ok K" "sqlite_agree K s db"
  shows "load_inner_from_sqlite K None db = Inr s"
proof -
  let ?g = "\<lambda>row. projr (sc_decode K (row_payload row))"
  let ?rows = "sort_key row_request_id (db_records db)"
  obtain rs where rs: "records_listed s rs" "list_all2 (row_of K) rs (db_records db)"
    and inv: "store_inv s"
    using assms(2) by (auto simp: sqlite_agree_def)
  have dec: "sc_decode K (row_payload row) = Inr r" if "row_of K r row" for r row
    using that assms(1) by (auto simp: row_of_def record_row_def sqlite_codec_ok_def)
  have g: "map ?g (db_records db) = rs"
    using rs(2) by (induction rule: list_all2_induct) (simp_all add: dec)
  have "\<forall>row \<in> set ?rows. sc_decode K (row_payload row) = Inr (?g row)"
    using rs(2) dec by (auto simp: list_all2_conv_all_nth in_set_conv_nth) (metis sum.sel(2))
  then have "decode_rows K ?rows empty_store = insert_all (map ?g ?rows) empty_store"
    by (rule decode_rows_insert_all)
  moreover have m: "mset (map ?g ?rows) = mset rs"
    by (simp only: mset_map mset_sort flip: g)
  then have "mset (map opr_request_id (map ?g ?rows)) = mset (map opr_request_id rs)"
    by (metis mset_map)
  then have "distinct (map opr_request_id (map ?g ?rows))"
    using rs(1) by (metis mset_eq_imp_distinct_iff records_listed_def)
  then have "insert_all (map ?g ?rows) empty_store = Inr s"
    using rs(1) mset_eq_setD [OF m] by (intro insert_all_records inv) (auto simp: records_listed_def)
  ultimately show ?thesis by (simp add: load_inner_from_sqlite_def)
qed

section \<open>The contract of the trait\<close>

lemma in_transaction_Inr:
  "in_transaction fault db statement audit = (db', Inr u) \<Longrightarrow>
     (\<exists>db1. statement = Inr db1 \<and> db' = audit db1)"
  by (auto simp: in_transaction_def split: sqlite_fault.splits sum.splits)

lemma in_transaction_Inl:
  "in_transaction fault db statement audit = (db', Inl e) \<Longrightarrow>
     db' = db \<or> (\<exists>m db1. fault = HardenFails m \<and> e = StoreIo m \<and> statement = Inr db1 \<and> db' = audit db1)"
  by (auto simp: in_transaction_def split: sqlite_fault.splits sum.splits)

lemma in_transaction_ok:
  "in_transaction NoSqliteFault db (Inr db1) audit = (audit db1, Inr ())"
  "in_transaction (HardenFails m) db (Inr db1) audit = (audit db1, Inl (StoreIo m))"
  by (simp_all add: in_transaction_def)

lemma agree_audit [simp]:
  "sqlite_agree K s (insert_transition_audit_sql K i f t ev c ts db) \<longleftrightarrow> sqlite_agree K s db"
  by (simp add: sqlite_agree_def insert_transition_audit_sql_def)

lemma agree_schema [simp]: "sqlite_agree K s (db \<lparr> db_schema_version := v \<rparr>) \<longleftrightarrow> sqlite_agree K s db"
  by (simp add: sqlite_agree_def)

lemma agree_inv: "sqlite_agree K s db \<Longrightarrow> store_inv s"
  by (simp add: sqlite_agree_def)

lemma sqlite_insert_cases:
  assumes "sqlite_insert_intent K fault st r = (st', res)"
  obtains (refused) e where "res = Inl e" "fst st' = fst st" "mem_insert_intent (fst st) r = Inl e" "st' = st"
    | (failed) e s' where "res = Inl e" "mem_insert_intent (fst st) r = Inr s'" "fst st' = fst st"
        "insert_record_sql K fault (snd st) r = (snd st', Inl e)"
    | (stored) s' where "res = Inr ()" "mem_insert_intent (fst st) r = Inr s'" "fst st' = s'"
        "insert_record_sql K fault (snd st) r = (snd st', Inr ())"
  using assms
  by (auto simp: sqlite_insert_intent_def split: sum.splits prod.splits)

lemma sqlite_update_cases:
  assumes "sqlite_update_record K fault st r = (st', res)"
  obtains (refused) e where "res = Inl e" "st' = st" "mem_update_record (fst st) r = Inl e"
    | (failed) e s' old where "res = Inl e" "mem_update_record (fst st) r = Inr s'" "fst st' = fst st"
        "get_by_request_id (fst st) (opr_request_id r) = Some old"
        "update_record_sql K fault (snd st) old r = (snd st', Inl e)"
    | (stored) s' old where "res = Inr ()" "mem_update_record (fst st) r = Inr s'" "fst st' = s'"
        "get_by_request_id (fst st) (opr_request_id r) = Some old"
        "update_record_sql K fault (snd st) old r = (snd st', Inr ())"
proof (cases "get_by_request_id (fst st) (opr_request_id r)")
  case None
  then have "mem_update_record (fst st) r = Inl (RecordNotFound (opr_request_id r))"
    by (simp add: mem_update_record_def get_by_request_id_def)
  with None assms show ?thesis by (intro refused) (auto simp: sqlite_update_record_def)
next
  case (Some old)
  with assms show ?thesis
    by (cases "mem_update_record (fst st) r"; cases "update_record_sql K fault (snd st) old r")
      (auto simp: sqlite_update_record_def intro: refused failed stored split: sum.splits)
qed

definition sqlite_inv :: "sqlite_store \<Rightarrow> bool" where
  "sqlite_inv st \<longleftrightarrow> store_inv (fst st)"

lemmas sqlite_loads = sqlite_load_by_request_id_def sqlite_load_by_client_order_id_def
  sqlite_load_by_broker_order_id_def sqlite_inv_def

lemma sqlite_insert_inner:
  "sqlite_insert_intent K fault st r = (st', res) \<Longrightarrow>
     (res = Inr () \<and> mem_store_insert_intent (fst st) r = (fst st', Inr ())) \<or>
     ((\<exists>e. res = Inl e) \<and> fst st' = fst st)"
  by (erule sqlite_insert_cases) (auto simp: mem_store_insert_intent_def stored_Inr)

lemma sqlite_update_inner:
  "sqlite_update_record K fault st r = (st', res) \<Longrightarrow>
     (res = Inr () \<and> mem_store_update_record (fst st) r = (fst st', Inr ())) \<or>
     ((\<exists>e. res = Inl e) \<and> fst st' = fst st)"
  by (erule sqlite_update_cases) (auto simp: mem_store_update_record_def stored_Inr)

interpretation sqlite: atomic_order_path_store sqlite_inv sqlite_load_by_request_id
  sqlite_load_by_client_order_id sqlite_load_by_broker_order_id "sqlite_insert_intent K fault"
  "sqlite_update_record K fault" for K fault
proof (unfold_locales, goal_cases)
  case (4 s r s' u)
  from sqlite_insert_inner [OF 4(2)] have "mem_store_insert_intent (fst s) r = (fst s', Inr ())" by simp
  with 4(1) mem.insert_ok [of "fst s" r "fst s'" "()"] show ?case by (simp add: sqlite_loads fun_eq_iff)
next
  case (5 s r s' u)
  from sqlite_update_inner [OF 5(2)] have "mem_store_update_record (fst s) r = (fst s', Inr ())" by simp
  with 5(1) mem.update_ok [of "fst s" r "fst s'" "()"] show ?case by (simp add: sqlite_loads fun_eq_iff)
next
  case (6 s r s' res)
  from sqlite_insert_inner [OF 6(2)] 6(1) mem.insert_grows [of "fst s" r "fst s'" "Inr ()"]
  show ?case by (auto simp: sqlite_loads)
next
  case (7 s r s' res)
  from sqlite_update_inner [OF 7(2)] 7(1) mem.update_grows [of "fst s" r "fst s'" "Inr ()"]
  show ?case by (auto simp: sqlite_loads)
next
  case (8 s r s' e)
  from sqlite_update_inner [OF 8(2)] show ?case by (auto simp: sqlite_loads fun_eq_iff)
qed (auto simp: sqlite_loads mem.load_client mem.load_broker dest: mem.load_key)

lemma insert_record_sql_agree:
  assumes "sqlite_codec_ok K" "sqlite_agree K s db" "mem_insert_intent s r = Inr s'"
    and "insert_record_sql K fault db r = (db', res)"
  shows "case res of
      Inr u \<Rightarrow> sqlite_agree K s' db'
    | Inl e \<Rightarrow> db' = db \<or> (\<exists>m. fault = HardenFails m \<and> sqlite_agree K s' db')"
proof (cases "sc_encode K r")
  case (Inl e)
  with assms(4) show ?thesis by (auto simp: insert_record_sql_def)
next
  case (Inr payload)
  from agree_insert [OF assms(1-3) Inr] obtain db1 where
    "insert_row_sql K (record_row K r payload) db = Inr db1" "sqlite_agree K s' db1" by blast
  with assms(4) Inr show ?thesis
    by (cases res) (auto simp: insert_record_sql_def dest!: in_transaction_Inr in_transaction_Inl)
qed

lemma update_record_sql_agree:
  assumes "sqlite_codec_ok K" "sqlite_agree K s db" "mem_update_record s r = Inr s'"
    and "update_record_sql K fault db old r = (db', res)"
  shows "case res of
      Inr u \<Rightarrow> sqlite_agree K s' db'
    | Inl e \<Rightarrow> db' = db \<or> (\<exists>m. fault = HardenFails m \<and> sqlite_agree K s' db')"
proof (cases "sc_encode K r")
  case (Inl e)
  with assms(4) show ?thesis by (auto simp: update_record_sql_def)
next
  case (Inr payload)
  from agree_update [OF assms(1-3) Inr] obtain db1 where
    "update_row_sql K (opr_request_id r) (record_row K r payload) db = Inr db1"
    "sqlite_agree K s' db1" by blast
  with assms(4) Inr show ?thesis
    by (cases res) (auto simp: update_record_sql_def dest!: in_transaction_Inr in_transaction_Inl)
qed

lemma sqlite_insert_agree:
  assumes "sqlite_codec_ok K" "sqlite_agree K (fst st) (snd st)" "\<forall>m. fault \<noteq> HardenFails m"
    and "sqlite_insert_intent K fault st r = (st', res)"
  shows "sqlite_agree K (fst st') (snd st') \<and> (\<forall>e. res = Inl e \<longrightarrow> st' = st)"
  using assms(4)
proof (cases rule: sqlite_insert_cases)
  case refused
  with assms(2) show ?thesis by simp
next
  case (failed e s')
  with insert_record_sql_agree [OF assms(1,2) failed(2,4)] assms(2,3)
  show ?thesis by (auto simp: prod_eq_iff)
next
  case (stored s')
  with insert_record_sql_agree [OF assms(1,2) stored(2,4)] show ?thesis by simp
qed

lemma sqlite_update_agree:
  assumes "sqlite_codec_ok K" "sqlite_agree K (fst st) (snd st)" "\<forall>m. fault \<noteq> HardenFails m"
    and "sqlite_update_record K fault st r = (st', res)"
  shows "sqlite_agree K (fst st') (snd st') \<and> (\<forall>e. res = Inl e \<longrightarrow> st' = st)"
  using assms(4)
proof (cases rule: sqlite_update_cases)
  case (refused e)
  with assms(2) show ?thesis by simp
next
  case (failed e s' old)
  with update_record_sql_agree [OF assms(1,2) failed(2,5)] assms(2,3)
  show ?thesis by (auto simp: prod_eq_iff)
next
  case (stored s' old)
  with update_record_sql_agree [OF assms(1,2) stored(2,5)] show ?thesis by simp
qed

section \<open>Writers, crashes and the lock\<close>

record sqlite_world =
  sw_lock :: "string option"
  sw_db :: sqlite_db
  sw_live :: "in_memory_store list"

definition remove_nth :: "nat \<Rightarrow> 'x list \<Rightarrow> 'x list" where
  "remove_nth i xs = take i xs @ drop (Suc i) xs"

text \<open>
  What processes may do with one database: open it, use an open store, drop it, or die
  with it open, in any order. \<open>may_fail\<close> says which faults the calls may meet.
\<close>

inductive sqlite_step ::
    "sqlite_codec \<Rightarrow> (string \<Rightarrow> sqlite_writer_lock_metadata option) \<Rightarrow> (timestamp \<Rightarrow> string)
       \<Rightarrow> (sqlite_fault \<Rightarrow> bool) \<Rightarrow> sqlite_world \<Rightarrow> sqlite_world \<Rightarrow> bool"
  for K parse ts_display may_fail where
  step_open: "sqlite_open K parse ts_display env (sw_lock w, sw_db w) = ((lock, db), Inr inner) \<Longrightarrow>
     sqlite_step K parse ts_display may_fail w \<lparr> sw_lock = lock, sw_db = db, sw_live = inner # sw_live w \<rparr>"
| step_open_fails: "sqlite_open K parse ts_display env (sw_lock w, sw_db w) = ((lock, db), Inl e) \<Longrightarrow>
     sqlite_step K parse ts_display may_fail w (w \<lparr> sw_lock := lock, sw_db := db \<rparr>)"
| step_insert: "i < length (sw_live w) \<Longrightarrow> may_fail fault \<Longrightarrow>
     sqlite_insert_intent K fault (sw_live w ! i, sw_db w) r = ((inner, db), res) \<Longrightarrow>
     sqlite_step K parse ts_display may_fail w (w \<lparr> sw_db := db, sw_live := (sw_live w)[i := inner] \<rparr>)"
| step_update: "i < length (sw_live w) \<Longrightarrow> may_fail fault \<Longrightarrow>
     sqlite_update_record K fault (sw_live w ! i, sw_db w) r = ((inner, db), res) \<Longrightarrow>
     sqlite_step K parse ts_display may_fail w (w \<lparr> sw_db := db, sw_live := (sw_live w)[i := inner] \<rparr>)"
| step_drop: "i < length (sw_live w) \<Longrightarrow>
     sqlite_step K parse ts_display may_fail w
       (w \<lparr> sw_lock := sqlite_drop works (sw_lock w), sw_live := remove_nth i (sw_live w) \<rparr>)"
| step_crash: "i < length (sw_live w) \<Longrightarrow>
     sqlite_step K parse ts_display may_fail w (w \<lparr> sw_live := remove_nth i (sw_live w) \<rparr>)"

inductive_cases sqlite_step_cases: "sqlite_step K parse ts_display may_fail w w'"

definition fresh_world :: sqlite_world where
  "fresh_world = \<lparr> sw_lock = None,
     sw_db = \<lparr> db_schema_version = None, db_records = [], db_transitions = [] \<rparr>, sw_live = [] \<rparr>"

text \<open>Who may write, whatever fails.\<close>

definition single_writer :: "sqlite_world \<Rightarrow> bool" where
  "single_writer w \<longleftrightarrow> length (sw_live w) \<le> 1 \<and> (sw_live w \<noteq> [] \<longrightarrow> sw_lock w \<noteq> None)"

definition sqlite_world_inv :: "sqlite_codec \<Rightarrow> sqlite_world \<Rightarrow> bool" where
  "sqlite_world_inv K w \<longleftrightarrow>
     single_writer w \<and> (\<exists>s. sqlite_agree K s (sw_db w) \<and> (\<forall>inner \<in> set (sw_live w). inner = s))"

lemma create_lock_cases:
  "create_sqlite_writer_lock parse ts_display env lock = (lock', res) \<Longrightarrow>
     (\<forall>u. res = Inr u \<longrightarrow> lock = None \<and> lock' \<noteq> None) \<and> (lock \<noteq> None \<longrightarrow> lock' = lock)"
  by (auto simp: create_sqlite_writer_lock_def split: option.splits sum.splits)

lemma sqlite_open_lock:
  assumes "sqlite_open K parse ts_display env (lock, db) = ((lock', db'), res)"
  shows "(\<forall>inner. res = Inr inner \<longrightarrow> lock = None \<and> lock' \<noteq> None) \<and> (lock \<noteq> None \<longrightarrow> lock' = lock)"
proof -
  obtain lock1 res1 where c: "create_sqlite_writer_lock parse ts_display env lock = (lock1, res1)"
    by fastforce
  obtain db2 res2 where i: "initialize_and_load K env db = (db2, res2)" by fastforce
  show ?thesis
    using assms create_lock_cases [OF c]
    by (auto simp: sqlite_open_def c i split: option.splits sum.splits)
qed

lemma initialize_and_load_cases:
  assumes "sqlite_codec_ok K" "sqlite_agree K s db" "initialize_and_load K env db = (db', res)"
  shows "sqlite_agree K s db' \<and> (\<forall>inner. res = Inr inner \<longrightarrow> inner = s)"
proof -
  have load: "load_inner_from_sqlite K f db = Inr inner \<Longrightarrow> inner = s"
    if "sqlite_agree K s db" for f db inner
    using agree_load [OF assms(1) that] by (cases f) (auto simp: load_inner_from_sqlite_def)
  show ?thesis
    using assms(2,3) load [OF assms(2)] load [of "db \<lparr> db_schema_version := v \<rparr>" for v]
    by (auto simp: initialize_and_load_def ensure_sqlite_schema_version_def
        split: option.splits if_splits)
qed

lemma sqlite_open_agree:
  assumes "sqlite_codec_ok K" "sqlite_agree K s db"
    and "sqlite_open K parse ts_display env (lock, db) = ((lock', db'), res)"
  shows "sqlite_agree K s db' \<and> (\<forall>inner. res = Inr inner \<longrightarrow> inner = s)"
proof -
  obtain lock1 res1 where c: "create_sqlite_writer_lock parse ts_display env lock = (lock1, res1)"
    by fastforce
  obtain db2 res2 where i: "initialize_and_load K env db = (db2, res2)" by fastforce
  show ?thesis
    using assms(2,3) initialize_and_load_cases [OF assms(1,2) i]
    by (auto simp: sqlite_open_def c i split: option.splits sum.splits)
qed

lemma remove_nth_single: "length xs \<le> 1 \<Longrightarrow> i < length xs \<Longrightarrow> remove_nth i xs = []"
  by (cases xs) (auto simp: remove_nth_def)

lemma single_writer_step:
  assumes "sqlite_step K parse ts_display may_fail w w'" "single_writer w"
  shows "single_writer w'"
  using assms
proof (cases rule: sqlite_step.cases)
  case (step_open env lock' db' inner)
  from sqlite_open_lock [OF step_open(2)] assms(2) show ?thesis
    by (auto simp: step_open(1) single_writer_def)
next
  case (step_open_fails env lock' db' e)
  from sqlite_open_lock [OF step_open_fails(2)] assms(2) show ?thesis
    by (auto simp: step_open_fails(1) single_writer_def)
qed (use assms(2) in \<open>auto simp: single_writer_def remove_nth_single\<close>)

lemma sqlite_world_inv_step:
  assumes "sqlite_codec_ok K" "\<forall>m. \<not> may_fail (HardenFails m)"
    and "sqlite_world_inv K w" "sqlite_step K parse ts_display may_fail w w'"
  shows "sqlite_world_inv K w'"
proof -
  from assms(3) obtain s where agree: "sqlite_agree K s (sw_db w)"
    and live: "\<forall>inner \<in> set (sw_live w). inner = s" and one: "length (sw_live w) \<le> 1"
    by (auto simp: sqlite_world_inv_def single_writer_def)
  have single: "sw_live w = [s]" if "i < length (sw_live w)" for i
    using that one live by (cases "sw_live w") auto
  have soft: "\<forall>m. fault \<noteq> HardenFails m" if "may_fail fault" for fault
    using assms(2) that by blast
  have "\<exists>s. sqlite_agree K s (sw_db w') \<and> (\<forall>inner \<in> set (sw_live w'). inner = s)"
    using assms(4)
  proof (cases rule: sqlite_step.cases)
    case (step_open env lock' db' inner)
    from sqlite_open_agree [OF assms(1) agree step_open(2)] live show ?thesis
      by (auto simp: step_open(1))
  next
    case (step_open_fails env lock' db' e)
    from sqlite_open_agree [OF assms(1) agree step_open_fails(2)] live show ?thesis
      by (auto simp: step_open_fails(1))
  next
    case (step_insert i fault r inner db' res)
    note one_live = single [OF step_insert(2)]
    with step_insert(2) have i: "i = 0" by simp
    from sqlite_insert_agree [OF assms(1) _ soft [OF step_insert(3)] step_insert(4)] agree one_live i
    show ?thesis by (auto simp: step_insert(1))
  next
    case (step_update i fault r inner db' res)
    note one_live = single [OF step_update(2)]
    with step_update(2) have i: "i = 0" by simp
    from sqlite_update_agree [OF assms(1) _ soft [OF step_update(3)] step_update(4)] agree one_live i
    show ?thesis by (auto simp: step_update(1))
  next
    case (step_drop i works)
    then show ?thesis using agree remove_nth_single [OF one step_drop(2)] by (auto simp: step_drop(1))
  next
    case (step_crash i)
    then show ?thesis using agree remove_nth_single [OF one step_crash(2)] by (auto simp: step_crash(1))
  qed
  then show ?thesis
    using assms(3) single_writer_step [OF assms(4)] by (simp add: sqlite_world_inv_def)
qed

lemma sqlite_world_inv_fresh: "sqlite_world_inv K fresh_world"
proof -
  have "records_listed empty_store []" by (simp add: records_listed_def empty_store_def)
  then have "sqlite_agree K empty_store (sw_db fresh_world)"
    by (auto simp: sqlite_agree_def fresh_world_def)
  then show ?thesis by (auto simp: sqlite_world_inv_def single_writer_def fresh_world_def)
qed

lemma single_writer_reachable:
  assumes "(sqlite_step K parse ts_display may_fail)\<^sup>*\<^sup>* fresh_world w"
  shows "single_writer w"
  using assms
proof (induction rule: rtranclp_induct)
  case base
  show ?case by (simp add: single_writer_def fresh_world_def)
next
  case (step y z)
  then show ?case using single_writer_step by blast
qed

lemma sqlite_world_inv_reachable:
  assumes "sqlite_codec_ok K" "\<forall>m. \<not> may_fail (HardenFails m)"
    and "(sqlite_step K parse ts_display may_fail)\<^sup>*\<^sup>* fresh_world w"
  shows "sqlite_world_inv K w"
  using assms(3)
proof (induction rule: rtranclp_induct)
  case base
  show ?case by (rule sqlite_world_inv_fresh)
next
  case (step y z)
  then show ?case using sqlite_world_inv_step [OF assms(1,2)] by blast
qed

section \<open>A concrete codec\<close>

definition sample_row_codec :: sqlite_codec where
  "sample_row_codec =
     \<lparr> sc_encode = (\<lambda>r. if r = from_place_order sample_place_order 0 None then Inr ''s''
         else Inl ''unsupported''),
       sc_decode = (\<lambda>_. Inr (from_place_order sample_place_order 0 None)),
       sc_uuid_str = (\<lambda>i. map (\<lambda>b. char_of (unat b)) (uuid_bytes i)),
       sc_rfc3339 = (\<lambda>_. ''t''), sc_constraint = ''UNIQUE constraint failed'' \<rparr>"

lemma sample_row_codec_ok: "sqlite_codec_ok sample_row_codec"
proof -
  have "inj (\<lambda>b :: u8. char_of (unat b) :: char)"
  proof (rule injI)
    fix a b :: u8
    assume "(char_of (unat a) :: char) = char_of (unat b)"
    then have "unat a mod 256 = unat b mod 256" by (simp add: char_of_eq_iff flip: of_char_of)
    then show "a = b" using unat_u8_less [of a] unat_u8_less [of b] by (simp add: word_unat_eq_iff)
  qed
  then have bytes: "inj (map (\<lambda>b :: u8. char_of (unat b) :: char))" by (rule inj_mapI)
  have "inj (\<lambda>i. map (\<lambda>b. char_of (unat b) :: char) (uuid_bytes i))"
  proof (rule injI)
    fix i j
    assume "map (\<lambda>b. char_of (unat b) :: char) (uuid_bytes i) = map (\<lambda>b. char_of (unat b)) (uuid_bytes j)"
    with bytes have "uuid_bytes i = uuid_bytes j" by (auto dest: injD)
    then show "i = j" by (cases i; cases j) simp
  qed
  then show ?thesis by (auto simp: sqlite_codec_ok_def sample_row_codec_def)
qed

definition fault_free_open :: sqlite_open_env where
  "fault_free_open = \<lparr> oe_create_dir = None, oe_exists_error = ''File exists'', oe_lock_open = None,
     oe_metadata_json = Inr ''{}'', oe_lock_write = None, oe_lock_sync = None, oe_lock_harden = None,
     oe_db_open = None, oe_harden_before = None, oe_init_batch = None, oe_schema_query = None,
     oe_schema_insert = None, oe_table_batch = None, oe_load = None, oe_harden_after = None,
     oe_remove_works = True \<rparr>"

definition new_db :: sqlite_db where
  "new_db = \<lparr> db_schema_version = Some 1, db_records = [], db_transitions = [] \<rparr>"

lemma sample_open:
  "sqlite_open K parse ts_display fault_free_open (sw_lock fresh_world, sw_db fresh_world)
     = ((Some ''{}'', new_db), Inr empty_store)"
  by (simp add: sqlite_open_def fault_free_open_def fresh_world_def create_sqlite_writer_lock_def
      initialize_and_load_def ensure_sqlite_schema_version_def load_inner_from_sqlite_def new_db_def
      sqlite_order_path_schema_version_def)

lemma new_db_agree: "sqlite_agree K empty_store new_db"
proof -
  have "records_listed empty_store []" by (simp add: records_listed_def empty_store_def)
  then show ?thesis by (auto simp: sqlite_agree_def new_db_def)
qed

lemma sample_mem_insert:
  "\<exists>s. mem_insert_intent empty_store (from_place_order sample_place_order 0 None) = Inr s"
  by (simp add: mem_insert_intent_def empty_store_def from_place_order_def)

section \<open>Properties\<close>


abbreviation soft_faults :: "sqlite_fault \<Rightarrow> bool" where
  "soft_faults fault \<equiv> (case fault of HardenFails m \<Rightarrow> False | _ \<Rightarrow> True)"


text \<open>C18: A call of the SQLite store either happens in memory and in the database or in neither: a
  successful insert or update is the one of the in-memory store, and loading the database afterwards gives the
  store in memory; a refused one, whichever call of the engine failed, leaves both as they
  were. The only exception is a failure to set file permissions after the commit.\<close>

theorem sqlite_call_atomic:
  assumes "sqlite_codec_ok K" and "sqlite_agree K (fst st) (snd st)" and "\<forall>m. fault \<noteq> HardenFails m"
    and "sqlite_insert_intent K fault st r = (st', res) \<and> mem_op = mem_insert_intent
       \<or> sqlite_update_record K fault st r = (st', res) \<and> mem_op = mem_update_record"
  shows "case res of
      Inl e \<Rightarrow> st' = st
    | Inr _ \<Rightarrow> mem_op (fst st) r = Inr (fst st')
        \<and> load_inner_from_sqlite K None (snd st') = Inr (fst st')"
proof -
  have "sqlite_agree K (fst st') (snd st') \<and> (\<forall>e. res = Inl e \<longrightarrow> st' = st)"
    using assms(4) sqlite_insert_agree [OF assms(1-3)] sqlite_update_agree [OF assms(1-3)] by blast
  moreover have "res = Inr u \<Longrightarrow> mem_op (fst st) r = Inr (fst st')" for u
    using assms(4) sqlite_insert_inner [of K fault st r st' res] sqlite_update_inner [of K fault st r st' res]
    by (auto simp: mem_store_insert_intent_def mem_store_update_record_def stored_Inr)
  ultimately show ?thesis
    using agree_load [OF assms(1)] by (cases res) auto
qed

theorem sqlite_call_atomic_witness:
  "\<exists>st'. sqlite_insert_intent sample_row_codec (CommitFails ''disk full'') (empty_store, new_db)
       (from_place_order sample_place_order 0 None) = (st', Inl (StoreSqlite ''disk full''))
     \<and> st' = (empty_store, new_db)"
proof -
  let ?r = "from_place_order sample_place_order 0 None"
  obtain s where s: "mem_insert_intent empty_store ?r = Inr s" using sample_mem_insert ..
  then have "\<exists>st'. sqlite_insert_intent sample_row_codec (CommitFails ''disk full'') (empty_store, new_db) ?r
      = (st', Inl (StoreSqlite ''disk full''))"
    by (simp add: sqlite_insert_intent_def insert_record_sql_def sample_row_codec_def in_transaction_def
        insert_row_sql_def new_db_def)
  then obtain st' where st': "sqlite_insert_intent sample_row_codec (CommitFails ''disk full'')
      (empty_store, new_db) ?r = (st', Inl (StoreSqlite ''disk full''))" ..
  have "sqlite_agree sample_row_codec (fst (empty_store, new_db)) (snd (empty_store, new_db))"
    by (simp add: new_db_agree)
  from sqlite_call_atomic [OF sample_row_codec_ok this, of "CommitFails ''disk full''" ?r st'
      "Inl (StoreSqlite ''disk full'')" mem_insert_intent] st'
  show ?thesis by simp
qed

text \<open>An insert can be committed and still be reported as failed: when the permissions of the
  database files cannot be set after the commit, the caller gets an error and the record is
  not in memory, but the database holds it; the same insert tried again then breaks the
  table's constraint, until the store is opened anew.\<close>

theorem sqlite_commit_then_error:
  assumes "sqlite_codec_ok K" and "sqlite_agree K (fst st) (snd st)"
    and "mem_insert_intent (fst st) r = Inr s'" and "sc_encode K r = Inr payload"
  shows "\<exists>db'. sqlite_insert_intent K (HardenFails m) st r = ((fst st, db'), Inl (StoreIo m))
    \<and> load_inner_from_sqlite K None db' = Inr s'
    \<and> sqlite_insert_intent K NoSqliteFault (fst st, db') r
        = ((fst st, db'), Inl (StoreSqlite (sc_constraint K)))"
proof -
  let ?row = "record_row K r payload"
  let ?audit = "insert_transition_audit_sql K (opr_request_id r) None (opr_state r) ''InsertIntent''
     (record_reason_code r) (opr_last_update_ts r)"
  obtain db1 where db1: "insert_row_sql K ?row (snd st) = Inr db1" "sqlite_agree K s' db1"
    using agree_insert [OF assms] by blast
  then have "?row \<in> set (db_records (?audit db1))"
    by (auto simp: insert_row_sql_def insert_transition_audit_sql_def split: if_splits)
  moreover have "rows_conflict ?row ?row" by (simp add: rows_conflict_def)
  ultimately have "insert_row_sql K ?row (?audit db1) = Inl (StoreSqlite (sc_constraint K))"
    by (auto simp: insert_row_sql_def list_ex_iff)
  moreover have "load_inner_from_sqlite K None (?audit db1) = Inr s'"
    by (rule agree_load [OF assms(1)]) (simp add: db1(2))
  ultimately show ?thesis
    by (intro exI [of _ "?audit db1"])
      (simp add: sqlite_insert_intent_def insert_record_sql_def assms(3,4) db1(1) in_transaction_def)
qed

theorem sqlite_commit_then_error_witness:
  "\<exists>db'. sqlite_insert_intent sample_row_codec (HardenFails ''EPERM'') (empty_store, new_db)
       (from_place_order sample_place_order 0 None) = ((empty_store, db'), Inl (StoreIo ''EPERM''))
     \<and> load_inner_from_sqlite sample_row_codec None db' \<noteq> Inr empty_store"
proof -
  let ?r = "from_place_order sample_place_order 0 None"
  obtain s where s: "mem_insert_intent empty_store ?r = Inr s" using sample_mem_insert ..
  then have "s \<noteq> empty_store"
    by (auto simp: mem_insert_intent_Inr_iff empty_store_def fun_eq_iff split: if_splits)
  moreover have "sc_encode sample_row_codec ?r = Inr ''s''" by (simp add: sample_row_codec_def)
  moreover have "sqlite_agree sample_row_codec (fst (empty_store, new_db)) (snd (empty_store, new_db))"
    by (simp add: new_db_agree)
  ultimately show ?thesis
    using sqlite_commit_then_error [OF sample_row_codec_ok, of "(empty_store, new_db)" ?r s "''s''" "''EPERM''"] s
    by auto
qed

fun event_debug :: "order_path_event \<Rightarrow> string" where
  "event_debug LocalReject = ''LocalReject''"
| "event_debug BeginSubmit = ''BeginSubmit''"
| "event_debug SubmitAccepted = ''SubmitAccepted''"
| "event_debug SubmitAcceptedWithoutBrokerOrderId = ''SubmitAcceptedWithoutBrokerOrderId''"
| "event_debug SubmitTimedOut = ''SubmitTimedOut''"
| "event_debug RecoverByClientOrderId = ''RecoverByClientOrderId''"
| "event_debug RequireManualIntervention = ''RequireManualIntervention''"
| "event_debug BrokerReject = ''BrokerReject''"
| "event_debug RequestCancel = ''RequestCancel''"
| "event_debug CancelAccepted = ''CancelAccepted''"
| "event_debug CancelRejected = ''CancelRejected''"
| "event_debug CancelTimedOut = ''CancelTimedOut''"
| "event_debug RecoverCancelTerminal = ''RecoverCancelTerminal''"
| "event_debug MarkTerminal = ''MarkTerminal''"

text \<open>The audit trail names the right event: the store never sees the event of an update and
  infers it from the old and the new record, and for every accepted transition of the state
  machine the inferred name is that of the event that caused it.\<close>

theorem audit_event_is_transition_event:
  "transition r ev now = Inr r' \<Longrightarrow>
     infer_transition_audit_event r r' = event_debug ev
     \<and> next_order_path_state (opr_state r) ev = Some (opr_state r')"
  by (cases ev; cases "opr_state r")
    (auto simp: transition_def next_order_path_state_def infer_transition_audit_event_def
      split: option.splits)

theorem audit_event_is_transition_event_witness:
  "\<exists>r'. transition (from_place_order sample_place_order 0 None) BeginSubmit 1 = Inr r'
     \<and> infer_transition_audit_event (from_place_order sample_place_order 0 None) r' = ''BeginSubmit''"
proof -
  obtain r' where "transition (from_place_order sample_place_order 0 None) BeginSubmit 1 = Inr r'"
    by (simp add: transition_def next_order_path_state_def from_place_order_def u32_add_def)
  with audit_event_is_transition_event [OF this] show ?thesis by auto
qed

end
