(* ===== verification/Preflight.thy ===== *)
theory Preflight
  imports OrderStore
begin

text \<open>
  Order preflight of \<open>order_path.rs\<close>: the operator arm, the guards every place and cancel
  command passes before an endpoint call, and the dry-run rate limiters. Parameters:
  \<open>num_ms\<close> is chrono's \<open>num_milliseconds\<close>; \<open>decimal_ops\<close> are the operators of \<open>Decimal\<close>,
  \<open>None\<close> being their overflow panic, which becomes the error \<open>DecimalPanic\<close>.
\<close>

section \<open>Operator arm\<close>

record operator_arm =
  arm_session_id :: string
  arm_armed_until :: timestamp
  arm_endpoint_calls_enabled :: bool
  arm_one_shot :: bool
  arm_endpoint_attempted :: bool
  arm_preflight_digest :: string

datatype order_preflight_error =
    EndpointNotArmed | ArmExpired | OneShotAlreadyUsed | MissingArmAudit | CommandExpired
  | AccountNotAllowed | VenueSymbolMissing | InstrumentNotAllowed | UnsupportedOrderType
  | UnsupportedTimeInForce | RawCommandCommentNotAllowed | InvalidQuantity
  | QuantityOutOfBounds | QuantityStepMismatch | MarketOrderHasLimitPrice
  | MarketQuantityOutOfBounds | LimitPriceMissing | InvalidLimitPrice | PriceStepMismatch
  | PreflightReferenceDataNotLoaded | ReferencePriceMissing | ReferencePriceInvalid
  | ReferencePriceStale | OrderNotionalOutOfBounds | RunNotionalOutOfBounds
  | LimitPriceBandExceeded | BrokerOrderIdMissing | CancelMappingMissing
  | CancelMappingMismatch | CancelAlreadyPending | CancelStateRequiresManualIntervention
  | DecimalPanic

definition arm_validate :: "operator_arm \<Rightarrow> timestamp \<Rightarrow> order_preflight_error + unit" where
  "arm_validate arm now =
     (if arm_one_shot arm \<and> arm_endpoint_attempted arm then Inl OneShotAlreadyUsed
      else if \<not> arm_endpoint_calls_enabled arm then Inl EndpointNotArmed
      else if arm_armed_until arm \<le> now then Inl ArmExpired
      else if arm_session_id arm = [] \<or> arm_preflight_digest arm = [] then Inl MissingArmAudit
      else Inr ())"

definition record_endpoint_attempt :: "operator_arm \<Rightarrow> operator_arm" where
  "record_endpoint_attempt arm =
     (if arm_one_shot arm
      then arm \<lparr> arm_endpoint_attempted := True, arm_endpoint_calls_enabled := False \<rparr>
      else arm)"

record operator_disarm_decision =
  odd_signal :: operator_disarm_signal
  odd_was_enabled :: bool
  odd_endpoint_calls_enabled :: bool

definition disarm_for_safety_signal ::
    "operator_arm \<Rightarrow> operator_disarm_signal \<Rightarrow> operator_arm \<times> operator_disarm_decision" where
  "disarm_for_safety_signal arm signal =
     (let arm' = arm \<lparr> arm_endpoint_calls_enabled := False \<rparr>
      in (arm', \<lparr> odd_signal = signal,
                  odd_was_enabled = arm_endpoint_calls_enabled arm,
                  odd_endpoint_calls_enabled = arm_endpoint_calls_enabled arm' \<rparr>))"

definition rearm ::
    "operator_arm \<Rightarrow> string \<Rightarrow> timestamp \<Rightarrow> string \<Rightarrow> bool \<Rightarrow> operator_arm" where
  "rearm arm session_id armed_until preflight_digest one_shot =
     arm \<lparr> arm_session_id := session_id, arm_armed_until := armed_until,
           arm_preflight_digest := preflight_digest, arm_one_shot := one_shot,
           arm_endpoint_attempted := False, arm_endpoint_calls_enabled := True \<rparr>"

section \<open>Policy and context\<close>

record order_preflight_policy =
  opp_allowed_accounts :: "broker_account_id list"
  opp_allowed_venue_symbols :: "string list"
  opp_allowed_order_types :: "order_type list"
  opp_allowed_time_in_force :: "time_in_force list"
  opp_min_qty :: quantity
  opp_qty_step :: quantity
  opp_max_qty :: quantity
  opp_price_step :: "price option"
  opp_max_market_qty :: quantity
  opp_max_notional_per_order :: "decimal option"
  opp_max_notional_per_run :: "decimal option"
  opp_max_limit_deviation_bps :: "u32 option"
  opp_max_reference_age_ms :: u64
  opp_allow_cancel_without_mapping :: bool
  opp_operator_arm :: operator_arm

record order_reference_price =
  orp_price :: price
  orp_received_ts :: timestamp

record order_preflight_context =
  opc_reference_price :: "order_reference_price option"
  opc_current_run_notional :: decimal

definition default_preflight_context :: order_preflight_context where
  "default_preflight_context = \<lparr> opc_reference_price = None, opc_current_run_notional = 0 \<rparr>"

record decimal_ops =
  dec_mul :: "decimal \<Rightarrow> decimal \<Rightarrow> decimal option"
  dec_rem :: "decimal \<Rightarrow> decimal \<Rightarrow> decimal option"
  dec_add :: "decimal \<Rightarrow> decimal \<Rightarrow> decimal option"
  dec_sub :: "decimal \<Rightarrow> decimal \<Rightarrow> decimal option"

section \<open>Guards\<close>

definition validate_command_ttl ::
    "(duration \<Rightarrow> int) \<Rightarrow> timestamp \<Rightarrow> u64 option \<Rightarrow> timestamp \<Rightarrow> order_preflight_error + unit" where
  "validate_command_ttl num_ms created_ts ttl_ms now =
     (case ttl_ms of
        None \<Rightarrow> Inr ()
      | Some ttl \<Rightarrow>
          (if as_i64 ttl < num_ms (now - created_ts) then Inl CommandExpired else Inr ()))"

definition duration_ms_floor :: "(duration \<Rightarrow> int) \<Rightarrow> duration \<Rightarrow> u64" where
  "duration_ms_floor num_ms d = i64_as_u64 (max (num_ms d) 0)"

definition is_decimal_multiple :: "decimal_ops \<Rightarrow> decimal \<Rightarrow> decimal \<Rightarrow> order_preflight_error + bool" where
  "is_decimal_multiple ops v step =
     (if 0 < step then and_then (ok_or (dec_rem ops v step) DecimalPanic) (\<lambda>m. Inr (m = 0))
      else Inr False)"

definition require_fresh_reference ::
    "(duration \<Rightarrow> int) \<Rightarrow> order_preflight_policy \<Rightarrow> order_preflight_context \<Rightarrow> timestamp
       \<Rightarrow> order_preflight_error + order_reference_price" where
  "require_fresh_reference num_ms policy context now =
     (case opc_reference_price context of
        None \<Rightarrow> Inl ReferencePriceMissing
      | Some reference \<Rightarrow>
         if orp_price reference \<le> 0 then Inl ReferencePriceInvalid
         else let age_ms = num_ms (now - orp_received_ts reference) in
           if age_ms < 0 \<or> opp_max_reference_age_ms policy < i64_as_u64 age_ms
           then Inl ReferencePriceStale
           else Inr reference)"

definition check_notional ::
    "decimal_ops \<Rightarrow> order_preflight_policy \<Rightarrow> decimal \<Rightarrow> decimal \<Rightarrow> order_preflight_error + unit" where
  "check_notional ops policy order_notional current_run_notional =
     and_then
       (case opp_max_notional_per_order policy of
          None \<Rightarrow> Inr ()
        | Some limit \<Rightarrow> if limit < order_notional then Inl OrderNotionalOutOfBounds else Inr ())
       (\<lambda>_. case opp_max_notional_per_run policy of
          None \<Rightarrow> Inr ()
        | Some limit \<Rightarrow>
            and_then (ok_or (dec_add ops current_run_notional order_notional) DecimalPanic)
              (\<lambda>total. if limit < total then Inl RunNotionalOutOfBounds else Inr ()))"

definition check_limit_deviation ::
    "decimal_ops \<Rightarrow> order_preflight_policy \<Rightarrow> price \<Rightarrow> price \<Rightarrow> order_preflight_error + unit" where
  "check_limit_deviation ops policy limit_price reference_price =
     (case opp_max_limit_deviation_bps policy of
        None \<Rightarrow> Inr ()
      | Some max_bps \<Rightarrow>
          and_then (ok_or (if reference_price \<le> limit_price
                           then dec_sub ops limit_price reference_price
                           else dec_sub ops reference_price limit_price) DecimalPanic) (\<lambda>diff.
          and_then (ok_or (dec_mul ops diff 10000) DecimalPanic) (\<lambda>lhs.
          and_then (ok_or (dec_mul ops reference_price (of_nat (unat max_bps))) DecimalPanic) (\<lambda>rhs.
            if rhs < lhs then Inl LimitPriceBandExceeded else Inr ()))))"

section \<open>Placing\<close>

definition validate_order_price ::
    "(duration \<Rightarrow> int) \<Rightarrow> decimal_ops \<Rightarrow> order_preflight_policy \<Rightarrow> place_order \<Rightarrow> timestamp
       \<Rightarrow> order_preflight_context \<Rightarrow> order_preflight_error + unit" where
  "validate_order_price num_ms ops policy order now context =
     (case po_order_type order of
        Market \<Rightarrow>
          (if po_limit_price order \<noteq> None then Inl MarketOrderHasLimitPrice
           else if opp_max_market_qty policy < po_qty order then Inl MarketQuantityOutOfBounds
           else and_then (require_fresh_reference num_ms policy context now) (\<lambda>reference.
             and_then (ok_or (dec_mul ops (po_qty order) (orp_price reference)) DecimalPanic)
               (\<lambda>notional. check_notional ops policy notional (opc_current_run_notional context))))
      | Limit \<Rightarrow>
          and_then (ok_or (po_limit_price order) LimitPriceMissing) (\<lambda>price.
          if price \<le> 0 then Inl InvalidLimitPrice
          else and_then (ok_or (opp_price_step policy) PreflightReferenceDataNotLoaded) (\<lambda>step.
          and_then (is_decimal_multiple ops price step) (\<lambda>aligned.
          if \<not> aligned then Inl PriceStepMismatch
          else and_then
            (if opp_max_limit_deviation_bps policy \<noteq> None
             then and_then (require_fresh_reference num_ms policy context now) (\<lambda>reference.
               check_limit_deviation ops policy price (orp_price reference))
             else Inr ()) (\<lambda>_.
          and_then (ok_or (dec_mul ops (po_qty order) price) DecimalPanic)
            (\<lambda>notional. check_notional ops policy notional (opc_current_run_notional context))))))
      | _ \<Rightarrow> Inl UnsupportedOrderType)"

definition validate_place_order_with_context ::
    "(duration \<Rightarrow> int) \<Rightarrow> decimal_ops \<Rightarrow> order_preflight_policy \<Rightarrow> place_order \<Rightarrow> timestamp
       \<Rightarrow> order_preflight_context \<Rightarrow> order_preflight_error + unit" where
  "validate_place_order_with_context num_ms ops policy order now context =
     and_then (arm_validate (opp_operator_arm policy) now) (\<lambda>_.
     and_then (validate_command_ttl num_ms (po_created_ts order) (po_ttl_ms order) now) (\<lambda>_.
     if po_account_id order \<notin> set (opp_allowed_accounts policy) then Inl AccountNotAllowed
     else and_then (ok_or (ins_venue_symbol (po_instrument order)) VenueSymbolMissing) (\<lambda>venue_symbol.
     if venue_symbol \<notin> set (opp_allowed_venue_symbols policy) then Inl InstrumentNotAllowed
     else if po_order_type order \<noteq> Market \<and> po_order_type order \<noteq> Limit then Inl UnsupportedOrderType
     else if po_order_type order \<notin> set (opp_allowed_order_types policy) then Inl UnsupportedOrderType
     else if po_time_in_force order \<notin> set (opp_allowed_time_in_force policy) then Inl UnsupportedTimeInForce
     else if po_comment order \<noteq> None then Inl RawCommandCommentNotAllowed
     else if po_qty order \<le> 0 then Inl InvalidQuantity
     else if po_qty order < opp_min_qty policy \<or> opp_max_qty policy < po_qty order
     then Inl QuantityOutOfBounds
     else and_then (is_decimal_multiple ops (po_qty order) (opp_qty_step policy)) (\<lambda>aligned.
       if \<not> aligned then Inl QuantityStepMismatch
       else validate_order_price num_ms ops policy order now context))))"

definition validate_place_order ::
    "(duration \<Rightarrow> int) \<Rightarrow> decimal_ops \<Rightarrow> order_preflight_policy \<Rightarrow> place_order \<Rightarrow> timestamp
       \<Rightarrow> order_preflight_error + unit" where
  "validate_place_order num_ms ops policy order now =
     validate_place_order_with_context num_ms ops policy order now default_preflight_context"

record preflight_approved_place_order =
  pap_order :: place_order
  pap_approved_ts :: timestamp

definition approve_place_order_with_context ::
    "(duration \<Rightarrow> int) \<Rightarrow> decimal_ops \<Rightarrow> order_preflight_policy \<Rightarrow> place_order \<Rightarrow> timestamp
       \<Rightarrow> order_preflight_context \<Rightarrow> order_preflight_error + preflight_approved_place_order" where
  "approve_place_order_with_context num_ms ops policy order now context =
     and_then (validate_place_order_with_context num_ms ops policy order now context)
       (\<lambda>_. Inr \<lparr> pap_order = order, pap_approved_ts = now \<rparr>)"

definition approve_place_order ::
    "(duration \<Rightarrow> int) \<Rightarrow> decimal_ops \<Rightarrow> order_preflight_policy \<Rightarrow> place_order \<Rightarrow> timestamp
       \<Rightarrow> order_preflight_error + preflight_approved_place_order" where
  "approve_place_order num_ms ops policy order now =
     approve_place_order_with_context num_ms ops policy order now default_preflight_context"

section \<open>Cancelling\<close>

datatype cancel_preflight_decision = SubmitCancel | AlreadyTerminal

record preflight_approved_cancel_order =
  pac_cancel :: cancel_order
  pac_approved_ts :: timestamp
  pac_mapped_request_id :: "strategy_request_id option"

datatype cancel_preflight_approval =
    ApprovalSubmit preflight_approved_cancel_order
  | ApprovalAlreadyTerminal

definition validate_cancel_mapping ::
    "cancel_order \<Rightarrow> order_path_record \<Rightarrow> order_preflight_error + cancel_preflight_decision" where
  "validate_cancel_mapping cancel r =
     (if opr_account_id r \<noteq> co_account_id cancel then Inl AccountNotAllowed
      else and_then (ok_or (opr_broker_order_id r) CancelMappingMissing) (\<lambda>mapped.
      if mapped \<noteq> co_order_id cancel then Inl CancelMappingMismatch
      else if opr_state r \<in> {SubmittedPendingBrokerOrderId, TimeoutUnknownPending,
                             CancelTimeoutUnknownPending}
      then Inl CancelStateRequiresManualIntervention
      else if opr_state r \<in> {CancelRequested, CancelSubmitted} then Inl CancelAlreadyPending
      else if is_terminal_order_path_state (opr_state r) then Inr AlreadyTerminal
      else Inr SubmitCancel))"

definition validate_cancel_order ::
    "(duration \<Rightarrow> int) \<Rightarrow> order_preflight_policy \<Rightarrow> cancel_order \<Rightarrow> timestamp
       \<Rightarrow> order_path_record option \<Rightarrow> order_preflight_error + cancel_preflight_decision" where
  "validate_cancel_order num_ms policy cancel now existing =
     and_then (arm_validate (opp_operator_arm policy) now) (\<lambda>_.
     and_then (validate_command_ttl num_ms (co_created_ts cancel) (co_ttl_ms cancel) now) (\<lambda>_.
     if co_account_id cancel \<notin> set (opp_allowed_accounts policy) then Inl AccountNotAllowed
     else if broker_order_id_str (co_order_id cancel) = [] then Inl BrokerOrderIdMissing
     else case existing of
       Some r \<Rightarrow> validate_cancel_mapping cancel r
     | None \<Rightarrow> (if opp_allow_cancel_without_mapping policy then Inr SubmitCancel
                else Inl CancelMappingMissing)))"

definition approve_cancel_order ::
    "(duration \<Rightarrow> int) \<Rightarrow> order_preflight_policy \<Rightarrow> cancel_order \<Rightarrow> timestamp
       \<Rightarrow> order_path_record option \<Rightarrow> order_preflight_error + cancel_preflight_approval" where
  "approve_cancel_order num_ms policy cancel now existing =
     and_then (validate_cancel_order num_ms policy cancel now existing) (\<lambda>decision.
       case decision of
         SubmitCancel \<Rightarrow> Inr (ApprovalSubmit
           \<lparr> pac_cancel = cancel, pac_approved_ts = now,
             pac_mapped_request_id = map_option opr_request_id existing \<rparr>)
       | AlreadyTerminal \<Rightarrow> Inr ApprovalAlreadyTerminal)"

section \<open>Dry-run rate limits\<close>

text \<open>
  The \<open>u32\<close> additions \<open>used += permits\<close> are word additions; the lemmas below show that
  they never wrap, so the overflow check of Rust never panics.
\<close>

record dry_order_rate_limit =
  drl_capacity :: u32
  drl_used :: u32

definition rate_limit_new :: "u32 \<Rightarrow> dry_order_rate_limit" where
  "rate_limit_new capacity = \<lparr> drl_capacity = capacity, drl_used = 0 \<rparr>"

definition rate_limit_remaining :: "dry_order_rate_limit \<Rightarrow> u32" where
  "rate_limit_remaining l = u32_saturating_sub (drl_capacity l) (drl_used l)"

datatype dry_order_rate_limit_error = RateLimitCapacityExhausted

definition rate_limit_try_consume ::
    "dry_order_rate_limit \<Rightarrow> u32 \<Rightarrow> dry_order_rate_limit_error + dry_order_rate_limit" where
  "rate_limit_try_consume l permits =
     (if permits = 0 then Inr l
      else if rate_limit_remaining l < permits then Inl RateLimitCapacityExhausted
      else Inr (l \<lparr> drl_used := drl_used l + permits \<rparr>))"

record dry_order_rate_window =
  drw_capacity :: u32
  drw_used :: u32
  drw_window_started_ts :: timestamp
  drw_window_ms :: u64
  drw_backoff_until :: "timestamp option"

definition rate_window_new :: "u32 \<Rightarrow> u64 \<Rightarrow> timestamp \<Rightarrow> dry_order_rate_window" where
  "rate_window_new capacity window_ms now =
     \<lparr> drw_capacity = capacity, drw_used = 0, drw_window_started_ts = now,
       drw_window_ms = max window_ms 1, drw_backoff_until = None \<rparr>"

definition with_backoff_until :: "dry_order_rate_window \<Rightarrow> timestamp \<Rightarrow> dry_order_rate_window" where
  "with_backoff_until w backoff_until = w \<lparr> drw_backoff_until := Some backoff_until \<rparr>"

definition window_elapsed :: "(duration \<Rightarrow> int) \<Rightarrow> dry_order_rate_window \<Rightarrow> timestamp \<Rightarrow> bool" where
  "window_elapsed num_ms w now \<longleftrightarrow>
     as_i64 (drw_window_ms w) \<le> num_ms (now - drw_window_started_ts w)"

definition rate_window_remaining :: "(duration \<Rightarrow> int) \<Rightarrow> dry_order_rate_window \<Rightarrow> timestamp \<Rightarrow> u32" where
  "rate_window_remaining num_ms w now =
     (if window_elapsed num_ms w now then drw_capacity w
      else u32_saturating_sub (drw_capacity w) (drw_used w))"

datatype dry_order_rate_window_error =
    WindowCapacityExhausted u64
  | BackoffActive u64

record dry_order_rate_window_decision =
  dwd_remaining :: u32

definition consume_in_window ::
    "(duration \<Rightarrow> int) \<Rightarrow> dry_order_rate_window \<Rightarrow> timestamp \<Rightarrow> u32
       \<Rightarrow> dry_order_rate_window \<times> (dry_order_rate_window_error + dry_order_rate_window_decision)" where
  "consume_in_window num_ms w now permits =
     (if permits = 0 then (w, Inr \<lparr> dwd_remaining = rate_window_remaining num_ms w now \<rparr>)
      else if rate_window_remaining num_ms w now < permits
      then (w, Inl (WindowCapacityExhausted (duration_ms_floor num_ms
             (as_i64 (drw_window_ms w) * 1000000 - (now - drw_window_started_ts w)))))
      else let w' = w \<lparr> drw_used := drw_used w + permits \<rparr>
           in (w', Inr \<lparr> dwd_remaining = rate_window_remaining num_ms w' now \<rparr>))"

definition rate_window_try_consume ::
    "(duration \<Rightarrow> int) \<Rightarrow> dry_order_rate_window \<Rightarrow> timestamp \<Rightarrow> u32
       \<Rightarrow> dry_order_rate_window \<times> (dry_order_rate_window_error + dry_order_rate_window_decision)" where
  "rate_window_try_consume num_ms w now permits =
     (case drw_backoff_until w of
        Some until \<Rightarrow>
          (if now < until
           then (w, Inl (BackoffActive (duration_ms_floor num_ms (until - now))))
           else let w0 = w \<lparr> drw_backoff_until := None \<rparr>;
                    w1 = (if window_elapsed num_ms w0 now
                          then w0 \<lparr> drw_used := 0, drw_window_started_ts := now \<rparr> else w0)
                in consume_in_window num_ms w1 now permits)
      | None \<Rightarrow>
          let w1 = (if window_elapsed num_ms w now
                    then w \<lparr> drw_used := 0, drw_window_started_ts := now \<rparr> else w)
          in consume_in_window num_ms w1 now permits)"

text \<open>The permits granted by a sequence of calls, in order.\<close>

fun rate_window_run ::
    "(duration \<Rightarrow> int) \<Rightarrow> dry_order_rate_window \<Rightarrow> (timestamp \<times> u32) list
       \<Rightarrow> dry_order_rate_window \<times> nat list" where
  "rate_window_run num_ms w [] = (w, [])"
| "rate_window_run num_ms w ((now, permits) # calls) =
     (let (w', res) = rate_window_try_consume num_ms w now permits;
          (w'', granted) = rate_window_run num_ms w' calls
      in (w'', (if is_ok res then unat permits else 0) # granted))"

section \<open>Facts about the guards\<close>

lemma arm_validate_Inr:
  "arm_validate arm now = Inr () \<longleftrightarrow>
     \<not> (arm_one_shot arm \<and> arm_endpoint_attempted arm) \<and> arm_endpoint_calls_enabled arm \<and>
     now < arm_armed_until arm \<and> arm_session_id arm \<noteq> [] \<and> arm_preflight_digest arm \<noteq> []"
  by (auto simp: arm_validate_def)

lemma validate_command_ttl_Inr:
  "validate_command_ttl num_ms created ttl now = Inr () \<longleftrightarrow>
     (\<forall>t. ttl = Some t \<longrightarrow> num_ms (now - created) \<le> as_i64 t)"
  by (auto simp: validate_command_ttl_def split: option.splits)

lemma is_decimal_multiple_Inr:
  "is_decimal_multiple ops v step = Inr True \<longleftrightarrow> 0 < step \<and> dec_rem ops v step = Some 0"
  by (auto simp: is_decimal_multiple_def and_then_Inr_iff ok_or_Inr_iff)

lemma require_fresh_reference_Inr:
  "require_fresh_reference num_ms policy context now = Inr reference \<longleftrightarrow>
     opc_reference_price context = Some reference \<and> 0 < orp_price reference \<and>
     0 \<le> num_ms (now - orp_received_ts reference) \<and>
     i64_as_u64 (num_ms (now - orp_received_ts reference)) \<le> opp_max_reference_age_ms policy"
  by (auto simp: require_fresh_reference_def Let_def split: option.splits)

lemma check_notional_Inr:
  "check_notional ops policy n run = Inr () \<longleftrightarrow>
     (\<forall>limit. opp_max_notional_per_order policy = Some limit \<longrightarrow> n \<le> limit) \<and>
     (\<forall>limit. opp_max_notional_per_run policy = Some limit \<longrightarrow>
        (\<exists>total. dec_add ops run n = Some total \<and> total \<le> limit))"
  by (cases "dec_add ops run n") (auto simp: check_notional_def split: option.splits)

lemma validate_order_price_Inr:
  assumes "validate_order_price num_ms ops policy order now context = Inr ()"
  shows "\<exists>price notional. dec_mul ops (po_qty order) price = Some notional \<and> 0 < price
    \<and> check_notional ops policy notional (opc_current_run_notional context) = Inr ()
    \<and> (case po_order_type order of
         Market \<Rightarrow> po_limit_price order = None \<and> po_qty order \<le> opp_max_market_qty policy
           \<and> (\<exists>reference. require_fresh_reference num_ms policy context now = Inr reference
                \<and> price = orp_price reference)
       | Limit \<Rightarrow> po_limit_price order = Some price
           \<and> (\<exists>step. opp_price_step policy = Some step \<and> is_decimal_multiple ops price step = Inr True)
           \<and> (opp_max_limit_deviation_bps policy \<noteq> None \<longrightarrow>
                (\<exists>reference. require_fresh_reference num_ms policy context now = Inr reference
                  \<and> check_limit_deviation ops policy price (orp_price reference) = Inr ()))
       | _ \<Rightarrow> False)"
  using assms
  by (auto simp: validate_order_price_def and_then_Inr_iff ok_or_Inr_iff require_fresh_reference_Inr
      split: order_type.splits if_splits)

section \<open>Facts about the rate limits\<close>

lemma as_i64_large:
  assumes "2 ^ 63 \<le> uint w"
  shows "as_i64 w < 0"
proof -
  have lt: "uint w < 2 ^ 64" using uint_lt2p [of w] by simp
  have "uint w div 2 ^ 63 = 1" 
    by (rule int_div_pos_eq [where r = "uint w - 2 ^ 63"]) (use assms lt in simp_all)
  then have "bit (uint w) 63" by (simp add: bit_iff_odd)
  moreover have "take_bit 64 (uint w) = uint w" using lt by (simp add: take_bit_int_eq_self_iff)
  ultimately have "as_i64 w = uint w - 2 ^ 64"
    unfolding as_i64_def sint_uint
    by (simp add: signed_take_bit_eq_take_bit_minus)
  with lt show ?thesis by simp
qed

lemma saturating_room:
  assumes "\<not> u32_saturating_sub capacity used < permits"
  shows "permits = 0 \<or> unat (used + permits) = unat used + unat permits
     \<and> unat used + unat permits \<le> unat capacity"
proof (cases "permits = 0")
  case False
  then have "0 < unat permits" by (simp add: unat_gt_0)
  with assms have le: "unat used + unat permits \<le> unat capacity"
    by (simp add: word_less_nat_alt unat_saturating_sub)
  moreover have "unat capacity < 2 ^ 32"
    using unsigned_less [of capacity] by simp
  ultimately show ?thesis by (simp add: unat_word_ariths)
qed simp

lemma rate_limit_never_exceeds:
  assumes "rate_limit_try_consume l permits = Inr l'" "unat (drl_used l) \<le> unat (drl_capacity l)"
  shows "unat (drl_used l') = unat (drl_used l) + unat permits
     \<and> drl_capacity l' = drl_capacity l \<and> unat (drl_used l') \<le> unat (drl_capacity l')"
  using assms saturating_room [of "drl_capacity l" "drl_used l" permits]
  by (auto simp: rate_limit_try_consume_def rate_limit_remaining_def split: if_splits)

definition window_ok :: "dry_order_rate_window \<Rightarrow> bool" where
  "window_ok w \<longleftrightarrow> unat (drw_used w) \<le> unat (drw_capacity w)"

lemma consume_in_window_open:
  assumes "consume_in_window num_ms w now permits = (w', res)" "window_ok w" "\<not> window_elapsed num_ms w now"
  shows "window_ok w' \<and> drw_capacity w' = drw_capacity w \<and> drw_window_ms w' = drw_window_ms w
    \<and> drw_window_started_ts w' = drw_window_started_ts w \<and> drw_backoff_until w' = drw_backoff_until w
    \<and> unat (drw_used w') = unat (drw_used w) + (if is_ok res then unat permits else 0)"
  using assms saturating_room [of "drw_capacity w" "drw_used w" permits]
  by (auto simp: consume_in_window_def rate_window_remaining_def window_ok_def Let_def split: if_splits)

lemma window_reset_open:
  assumes "whole_units 1000000 num_ms" "0 < uint (drw_window_ms w)" "uint (drw_window_ms w) < 2 ^ 63"
  shows "\<not> window_elapsed num_ms (w \<lparr> drw_used := u, drw_window_started_ts := now \<rparr>) now"
proof -
  have "num_ms 0 = 0" using whole_units_exact [OF assms(1), of 0] by simp
  then show ?thesis using assms(2,3) by (simp add: window_elapsed_def as_i64_small)
qed

lemma rate_window_step:
  assumes "rate_window_try_consume num_ms w now permits = (w', res)"
    and "whole_units 1000000 num_ms" "0 < uint (drw_window_ms w)" "uint (drw_window_ms w) < 2 ^ 63"
    and "window_ok w"
  shows "window_ok w' \<and> drw_capacity w' = drw_capacity w \<and> drw_window_ms w' = drw_window_ms w
    \<and> (\<not> window_elapsed num_ms w now \<longrightarrow> drw_window_started_ts w' = drw_window_started_ts w
         \<and> unat (drw_used w') = unat (drw_used w) + (if is_ok res then unat permits else 0))"
proof -
  have elapsed: "window_elapsed num_ms (w \<lparr> drw_backoff_until := b \<rparr>) now = window_elapsed num_ms w now" for b
    by (simp add: window_elapsed_def)
  define open_at where "open_at b = (if window_elapsed num_ms w now
     then w \<lparr> drw_backoff_until := b, drw_used := 0, drw_window_started_ts := now \<rparr>
     else w \<lparr> drw_backoff_until := b \<rparr>)" for b
  have open_ok: "window_ok (open_at b)" "\<not> window_elapsed num_ms (open_at b) now"
      "drw_capacity (open_at b) = drw_capacity w" "drw_window_ms (open_at b) = drw_window_ms w"
      "\<not> window_elapsed num_ms w now \<Longrightarrow> drw_window_started_ts (open_at b) = drw_window_started_ts w
         \<and> drw_used (open_at b) = drw_used w" for b
    using assms(5) window_reset_open [OF assms(2), of "w \<lparr> drw_backoff_until := b \<rparr>"] assms(3,4) elapsed
    by (auto simp: open_at_def window_ok_def)
  consider (backoff) "w' = w" "\<not> is_ok res"
    | (opened) b where "consume_in_window num_ms (open_at b) now permits = (w', res)"
  proof (cases "drw_backoff_until w")
    case None
    with assms(1) have "consume_in_window num_ms (open_at None) now permits = (w', res)"
      by (cases w) (auto simp: rate_window_try_consume_def open_at_def Let_def split: if_splits)
    then show thesis using opened by blast
  next
    case (Some until)
    show thesis
    proof (cases "now < until")
      case True
      with Some assms(1) have "w' = w" "\<not> is_ok res" by (auto simp: rate_window_try_consume_def)
      then show thesis using backoff by blast
    next
      case False
      with Some assms(1) have "consume_in_window num_ms (open_at None) now permits = (w', res)"
        by (auto simp: rate_window_try_consume_def open_at_def Let_def elapsed split: if_splits)
      then show thesis using opened by blast
    qed
  qed
  then show ?thesis
  proof cases
    case backoff
    with assms(5) show ?thesis by simp
  next
    case (opened b)
    from consume_in_window_open [OF this open_ok(1,2)] open_ok(3-5) [of b] show ?thesis by auto
  qed
qed

lemma rate_window_run_bound:
  assumes "rate_window_run num_ms w calls = (w', granted)"
    and "whole_units 1000000 num_ms" "0 < uint (drw_window_ms w)" "uint (drw_window_ms w) < 2 ^ 63"
    and "window_ok w"
  shows "window_ok w' \<and> drw_capacity w' = drw_capacity w \<and>
    ((\<forall>(now, p) \<in> set calls. \<not> window_elapsed num_ms w now) \<longrightarrow>
       unat (drw_used w) + sum_list granted \<le> unat (drw_capacity w))"
  using assms
proof (induction calls arbitrary: w granted)
  case Nil
  then show ?case by (simp add: window_ok_def)
next
  case (Cons call calls)
  obtain now p where call: "call = (now, p)" by (cases call)
  obtain w1 res where step: "rate_window_try_consume num_ms w now p = (w1, res)" by (metis surj_pair)
  obtain gs where run: "rate_window_run num_ms w1 calls = (w', gs)"
    and g: "granted = (if is_ok res then unat p else 0) # gs"
    using Cons.prems(1) by (auto simp: call step Let_def split: prod.splits)
  have s: "window_ok w1" "drw_capacity w1 = drw_capacity w" "drw_window_ms w1 = drw_window_ms w"
    "\<not> window_elapsed num_ms w now \<Longrightarrow> drw_window_started_ts w1 = drw_window_started_ts w
       \<and> unat (drw_used w1) = unat (drw_used w) + (if is_ok res then unat p else 0)"
    using rate_window_step [OF step Cons.prems(2-5)] by auto
  have same: "window_elapsed num_ms w1 t = window_elapsed num_ms w t" if "\<not> window_elapsed num_ms w now" for t
    using s(3,4) that by (simp add: window_elapsed_def)
  from Cons.IH [OF run Cons.prems(2)] Cons.prems(3,4) s(1,3)
  have IH: "window_ok w'" "drw_capacity w' = drw_capacity w1"
    "(\<forall>(now, p) \<in> set calls. \<not> window_elapsed num_ms w1 now) \<longrightarrow>
       unat (drw_used w1) + sum_list gs \<le> unat (drw_capacity w1)" by simp_all
  show ?case
  proof (intro conjI impI)
    assume "\<forall>(now, p) \<in> set (call # calls). \<not> window_elapsed num_ms w now"
    then have "\<not> window_elapsed num_ms w now" "\<forall>(now, p) \<in> set calls. \<not> window_elapsed num_ms w now"
      by (auto simp: call)
    with IH(3) s(2,4) same show "unat (drw_used w) + sum_list granted \<le> unat (drw_capacity w)"
      by (auto simp: g)
  qed (use IH s in simp_all)
qed

section \<open>Properties\<close>

text \<open>What the program does to an arm between two arming decisions of the operator.\<close>

datatype arm_operation = EndpointAttempt | SafetyDisarm operator_disarm_signal

fun run_arm :: "arm_operation list \<Rightarrow> operator_arm \<Rightarrow> operator_arm" where
  "run_arm [] arm = arm"
| "run_arm (EndpointAttempt # ops) arm = run_arm ops (record_endpoint_attempt arm)"
| "run_arm (SafetyDisarm signal # ops) arm = run_arm ops (fst (disarm_for_safety_signal arm signal))"

lemma run_arm_stays_off:
  "\<not> arm_endpoint_calls_enabled arm \<Longrightarrow> \<not> arm_endpoint_calls_enabled (run_arm ops arm)"
  by (induction ops arm rule: run_arm.induct)
    (simp_all add: record_endpoint_attempt_def disarm_for_safety_signal_def Let_def)

lemma run_arm_one_shot: "arm_one_shot (run_arm ops arm) = arm_one_shot arm"
  by (induction ops arm rule: run_arm.induct)
    (simp_all add: record_endpoint_attempt_def disarm_for_safety_signal_def Let_def)

text \<open>C10: An operator arm grants what the operator armed and no more: once a one-shot arm has
  made its endpoint attempt, or any arm has been disarmed by a safety signal, every later
  validation is refused at any time, whatever attempts and disarms follow, until the
  operator rearms it.\<close>

theorem arm_refused_until_rearm:
  "(arm_one_shot arm \<and> EndpointAttempt \<in> set ops) \<or> (\<exists>signal. SafetyDisarm signal \<in> set ops)
     \<Longrightarrow> arm_validate (run_arm ops arm) now \<noteq> Inr ()"
proof -
  have "(arm_one_shot arm \<and> EndpointAttempt \<in> set ops) \<or> (\<exists>signal. SafetyDisarm signal \<in> set ops)
      \<longrightarrow> \<not> arm_endpoint_calls_enabled (run_arm ops arm)"
    by (induction ops arm rule: run_arm.induct)
      (auto simp: record_endpoint_attempt_def disarm_for_safety_signal_def Let_def run_arm_stays_off)
  then show "(arm_one_shot arm \<and> EndpointAttempt \<in> set ops) \<or> (\<exists>signal. SafetyDisarm signal \<in> set ops)
     \<Longrightarrow> arm_validate (run_arm ops arm) now \<noteq> Inr ()"
    by (simp add: arm_validate_Inr)
qed

definition sample_arm :: operator_arm where
  "sample_arm = \<lparr> arm_session_id = ''s'', arm_armed_until = 10 ^ 12, arm_endpoint_calls_enabled = True,
     arm_one_shot = True, arm_endpoint_attempted = False, arm_preflight_digest = ''d'' \<rparr>"

theorem arm_refused_until_rearm_witness:
  "arm_validate sample_arm 0 = Inr () \<and> arm_validate (run_arm [EndpointAttempt] sample_arm) 0 \<noteq> Inr ()"
  using arm_refused_until_rearm [of sample_arm "[EndpointAttempt]" 0]
  by (simp add: arm_validate_Inr sample_arm_def)

lemma validate_command_ttl_age:
  assumes "whole_units 1000000 num_ms" "validate_command_ttl num_ms created_ts (Some ttl) now = Inr ()"
    and "uint ttl < 2 ^ 63"
  shows "now - created_ts < (uint ttl + 1) * 1000000"
proof -
  let ?d = "now - created_ts"
  have "num_ms ?d \<le> uint ttl"
    using assms(2,3) by (simp add: validate_command_ttl_Inr as_i64_small)
  moreover have "?d < (num_ms ?d + 1) * 1000000 \<or> ?d < 0"
    using assms(1) by (auto simp: whole_units_def)
  moreover have "0 \<le> uint ttl" by simp
  ultimately show ?thesis by (smt (verit) mult_right_mono)
qed

lemma approved_place_order_guards:
  assumes "approve_place_order_with_context num_ms ops policy order now context = Inr approved"
  shows "approved = \<lparr> pap_order = order, pap_approved_ts = now \<rparr>"
    "arm_validate (opp_operator_arm policy) now = Inr ()"
    "validate_command_ttl num_ms (po_created_ts order) (po_ttl_ms order) now = Inr ()"
    "po_account_id order \<in> set (opp_allowed_accounts policy)"
    "\<exists>venue. ins_venue_symbol (po_instrument order) = Some venue \<and> venue \<in> set (opp_allowed_venue_symbols policy)"
    "po_order_type order = Market \<or> po_order_type order = Limit"
    "po_order_type order \<in> set (opp_allowed_order_types policy)"
    "po_time_in_force order \<in> set (opp_allowed_time_in_force policy)"
    "po_comment order = None" "0 < po_qty order"
    "opp_min_qty policy \<le> po_qty order" "po_qty order \<le> opp_max_qty policy"
    "is_decimal_multiple ops (po_qty order) (opp_qty_step policy) = Inr True"
    "validate_order_price num_ms ops policy order now context = Inr ()"
proof -
  from assms have valid: "validate_place_order_with_context num_ms ops policy order now context = Inr ()"
    and "approved = \<lparr> pap_order = order, pap_approved_ts = now \<rparr>"
    by (auto simp: approve_place_order_with_context_def and_then_Inr_iff)
  then show "approved = \<lparr> pap_order = order, pap_approved_ts = now \<rparr>" by simp
qed (use assms in \<open>auto simp: approve_place_order_with_context_def validate_place_order_with_context_def
      and_then_Inr_iff ok_or_Inr_iff not_less not_le split: if_splits\<close>)

text \<open>What the price checks leave of an approved order: the price its notional was taken at.\<close>

definition fresh_reference ::
    "(duration \<Rightarrow> int) \<Rightarrow> order_preflight_policy \<Rightarrow> order_preflight_context \<Rightarrow> timestamp
       \<Rightarrow> order_reference_price \<Rightarrow> bool" where
  "fresh_reference num_ms policy context now reference \<longleftrightarrow>
     opc_reference_price context = Some reference \<and> 0 < orp_price reference
     \<and> 0 \<le> num_ms (now - orp_received_ts reference)
     \<and> i64_as_u64 (num_ms (now - orp_received_ts reference)) \<le> opp_max_reference_age_ms policy"

text \<open>\<open>|price - reference| * 10000 <= reference * bps\<close>, with the operators of the code.\<close>

definition within_deviation :: "decimal_ops \<Rightarrow> u32 \<Rightarrow> price \<Rightarrow> price \<Rightarrow> bool" where
  "within_deviation ops bps price reference \<longleftrightarrow>
     (\<exists>diff lhs rhs. dec_sub ops (max price reference) (min price reference) = Some diff
        \<and> dec_mul ops diff 10000 = Some lhs \<and> dec_mul ops reference (of_nat (unat bps)) = Some rhs
        \<and> lhs \<le> rhs)"

lemma check_limit_deviation_Inr:
  assumes "opp_max_limit_deviation_bps policy = Some bps"
  shows "check_limit_deviation ops policy price reference = Inr ()
    \<longleftrightarrow> within_deviation ops bps price reference"
  using assms
  by (auto simp: check_limit_deviation_def within_deviation_def and_then_Inr_iff ok_or_Inr_iff
      max_def min_def not_less split: if_splits)

definition price_guards ::
    "(duration \<Rightarrow> int) \<Rightarrow> decimal_ops \<Rightarrow> order_preflight_policy \<Rightarrow> place_order \<Rightarrow> timestamp
       \<Rightarrow> order_preflight_context \<Rightarrow> price \<Rightarrow> bool" where
  "price_guards num_ms ops policy order now context price \<longleftrightarrow>
     (if po_order_type order = Limit
      then po_limit_price order = Some price
        \<and> (\<exists>step. opp_price_step policy = Some step \<and> 0 < step \<and> dec_rem ops price step = Some 0)
        \<and> (\<forall>bps. opp_max_limit_deviation_bps policy = Some bps \<longrightarrow>
             (\<exists>reference. fresh_reference num_ms policy context now reference
                \<and> within_deviation ops bps price (orp_price reference)))
      else po_limit_price order = None \<and> po_qty order \<le> opp_max_market_qty policy
        \<and> (\<exists>reference. fresh_reference num_ms policy context now reference
             \<and> price = orp_price reference))"

lemma approved_order_price:
  assumes "validate_order_price num_ms ops policy order now context = Inr ()"
    and "po_order_type order = Market \<or> po_order_type order = Limit"
  shows "\<exists>price notional. 0 < price \<and> dec_mul ops (po_qty order) price = Some notional
      \<and> (\<forall>limit. opp_max_notional_per_order policy = Some limit \<longrightarrow> notional \<le> limit)
      \<and> (\<forall>limit. opp_max_notional_per_run policy = Some limit \<longrightarrow>
           (\<exists>total. dec_add ops (opc_current_run_notional context) notional = Some total \<and> total \<le> limit))
      \<and> price_guards num_ms ops policy order now context price"
proof -
  obtain price notional where pn: "dec_mul ops (po_qty order) price = Some notional" "0 < price"
    "check_notional ops policy notional (opc_current_run_notional context) = Inr ()"
    and kind: "case po_order_type order of
         Market \<Rightarrow> po_limit_price order = None \<and> po_qty order \<le> opp_max_market_qty policy
           \<and> (\<exists>reference. require_fresh_reference num_ms policy context now = Inr reference
                \<and> price = orp_price reference)
       | Limit \<Rightarrow> po_limit_price order = Some price
           \<and> (\<exists>step. opp_price_step policy = Some step \<and> is_decimal_multiple ops price step = Inr True)
           \<and> (opp_max_limit_deviation_bps policy \<noteq> None \<longrightarrow>
                (\<exists>reference. require_fresh_reference num_ms policy context now = Inr reference
                  \<and> check_limit_deviation ops policy price (orp_price reference) = Inr ()))
       | _ \<Rightarrow> False"
    using validate_order_price_Inr [OF assms(1)] by auto
  have "price_guards num_ms ops policy order now context price"
    using assms(2) kind
    by (auto simp: price_guards_def require_fresh_reference_Inr is_decimal_multiple_Inr fresh_reference_def
        check_limit_deviation_Inr)
  with pn show ?thesis unfolding check_notional_Inr by blast
qed

text \<open>C11: An order approved for submission has passed every guard: the operator arm was live,
  unused and names its session and its preflight digest; the command was younger than its time
  to live plus one millisecond (for a time to live below 2^63 ms; the cast of a longer one
  makes it negative); account, venue symbol, order type and time in force are allowlisted;
  there is no raw comment; the quantity is positive, within bounds and a multiple of the step;
  the notional at the limit price, or at the reference price for a market order, is within the
  per-order and per-run limits; a limit price is a multiple of the price step and, when a
  deviation limit is set, within it of a fresh positive reference price; and a market order
  has no limit price, is within its own quantity limit and has a fresh positive reference.\<close>

theorem approved_place_order_guarded:
  assumes "whole_units 1000000 num_ms"
    and "approve_place_order_with_context num_ms ops policy order now context = Inr approved"
  shows "pap_order approved = order \<and> pap_approved_ts approved = now
    \<and> now < arm_armed_until (opp_operator_arm policy)
    \<and> arm_endpoint_calls_enabled (opp_operator_arm policy)
    \<and> \<not> (arm_one_shot (opp_operator_arm policy) \<and> arm_endpoint_attempted (opp_operator_arm policy))
    \<and> arm_session_id (opp_operator_arm policy) \<noteq> []
    \<and> arm_preflight_digest (opp_operator_arm policy) \<noteq> []
    \<and> (\<forall>ttl. po_ttl_ms order = Some ttl \<longrightarrow>
          num_ms (now - po_created_ts order) \<le> as_i64 ttl
          \<and> (uint ttl < 2 ^ 63 \<longrightarrow> now - po_created_ts order < (uint ttl + 1) * 1000000))
    \<and> po_account_id order \<in> set (opp_allowed_accounts policy)
    \<and> (\<exists>venue. ins_venue_symbol (po_instrument order) = Some venue
          \<and> venue \<in> set (opp_allowed_venue_symbols policy))
    \<and> po_order_type order \<in> {Market, Limit} \<inter> set (opp_allowed_order_types policy)
    \<and> po_time_in_force order \<in> set (opp_allowed_time_in_force policy)
    \<and> po_comment order = None
    \<and> 0 < po_qty order \<and> opp_min_qty policy \<le> po_qty order \<and> po_qty order \<le> opp_max_qty policy
    \<and> 0 < opp_qty_step policy \<and> dec_rem ops (po_qty order) (opp_qty_step policy) = Some 0
    \<and> (\<exists>price notional. 0 < price \<and> dec_mul ops (po_qty order) price = Some notional
          \<and> (\<forall>limit. opp_max_notional_per_order policy = Some limit \<longrightarrow> notional \<le> limit)
          \<and> (\<forall>limit. opp_max_notional_per_run policy = Some limit \<longrightarrow>
               (\<exists>total. dec_add ops (opc_current_run_notional context) notional = Some total \<and> total \<le> limit))
          \<and> (if po_order_type order = Limit
             then po_limit_price order = Some price
               \<and> (\<exists>step. opp_price_step policy = Some step \<and> 0 < step \<and> dec_rem ops price step = Some 0)
               \<and> (\<forall>bps. opp_max_limit_deviation_bps policy = Some bps \<longrightarrow>
                    (\<exists>reference. fresh_reference num_ms policy context now reference
                       \<and> within_deviation ops bps price (orp_price reference)))
             else po_limit_price order = None \<and> po_qty order \<le> opp_max_market_qty policy
               \<and> (\<exists>reference. fresh_reference num_ms policy context now reference
                    \<and> price = orp_price reference)))"
proof -
  note guards = approved_place_order_guards [OF assms(2)]
  have ttl: "num_ms (now - po_created_ts order) \<le> as_i64 ttl
      \<and> (uint ttl < 2 ^ 63 \<longrightarrow> now - po_created_ts order < (uint ttl + 1) * 1000000)"
    if "po_ttl_ms order = Some ttl" for ttl
    using validate_command_ttl_age [OF assms(1), of "po_created_ts order" ttl now] guards(3) that
    by (simp add: validate_command_ttl_Inr)
  have "po_order_type order \<in> {Market, Limit} \<inter> set (opp_allowed_order_types policy)"
    using guards(6,7) by auto
  moreover have "pap_order approved = order" "pap_approved_ts approved = now" by (simp_all add: guards(1))
  ultimately show ?thesis
    using guards(4,5,8-13) guards(2) [unfolded arm_validate_Inr] guards(13) [unfolded is_decimal_multiple_Inr]
      ttl approved_order_price [OF guards(14,6), unfolded price_guards_def]
    by blast
qed

definition exact_decimal_ops :: decimal_ops where
  "exact_decimal_ops = \<lparr> dec_mul = (\<lambda>x y. Some (x * y)),
     dec_rem = (\<lambda>x y. Some (x - y * of_int \<lfloor>x / y\<rfloor>)),
     dec_add = (\<lambda>x y. Some (x + y)), dec_sub = (\<lambda>x y. Some (x - y)) \<rparr>"

definition sample_policy :: order_preflight_policy where
  "sample_policy = \<lparr> opp_allowed_accounts = [BrokerAccountId ''A''],
     opp_allowed_venue_symbols = [''IMOEXF@RTSX''], opp_allowed_order_types = [Limit],
     opp_allowed_time_in_force = [Day], opp_min_qty = 1, opp_qty_step = 1, opp_max_qty = 2,
     opp_price_step = Some 1, opp_max_market_qty = 0, opp_max_notional_per_order = Some 5000,
     opp_max_notional_per_run = None, opp_max_limit_deviation_bps = None,
     opp_max_reference_age_ms = 1000, opp_allow_cancel_without_mapping = False,
     opp_operator_arm = sample_arm \<rparr>"

definition sample_limit_order :: place_order where
  "sample_limit_order = sample_place_order
     \<lparr> po_instrument := (po_instrument sample_place_order) \<lparr> ins_venue_symbol := Some ''IMOEXF@RTSX'' \<rparr> \<rparr>"

theorem approved_place_order_guarded_witness:
  "\<exists>approved. approve_place_order_with_context (trunc_units 1000000) exact_decimal_ops sample_policy
       sample_limit_order 1000 default_preflight_context = Inr approved
     \<and> pap_order approved = sample_limit_order
     \<and> (1000 :: int) - po_created_ts sample_limit_order < 5001 * 1000000"
proof -
  have "validate_place_order_with_context (trunc_units 1000000) exact_decimal_ops sample_policy
       sample_limit_order 1000 default_preflight_context = Inr ()"
    by (simp add: validate_place_order_with_context_def sample_policy_def sample_limit_order_def
        sample_place_order_def sample_arm_def arm_validate_def validate_command_ttl_def trunc_units_def
        as_i64_def exact_decimal_ops_def is_decimal_multiple_def validate_order_price_def
        check_notional_def default_preflight_context_def)
  then obtain approved where a: "approve_place_order_with_context (trunc_units 1000000) exact_decimal_ops
       sample_policy sample_limit_order 1000 default_preflight_context = Inr approved"
    by (simp add: approve_place_order_with_context_def)
  have "po_ttl_ms sample_limit_order = Some 5000" by (simp add: sample_limit_order_def sample_place_order_def)
  with approved_place_order_guarded [OF whole_units_trunc a] a show ?thesis by auto
qed

text \<open>A cancel of a mapped order is approved exactly when the arm is live, the command has not
  expired, account and broker order id are those of the record, and the record is in a
  state with no cancel outstanding: a cancel is never approved while one is pending, and a
  closed record is answered without an endpoint call. (The accepted states include
  \<open>ManualInterventionRequired\<close>, where the state machine has no cancel to record.)\<close>

theorem cancel_approval_states:
  "(approve_cancel_order num_ms policy cancel now (Some r) = Inr (ApprovalSubmit a)) =
      (arm_validate (opp_operator_arm policy) now = Inr ()
      \<and> validate_command_ttl num_ms (co_created_ts cancel) (co_ttl_ms cancel) now = Inr ()
      \<and> co_account_id cancel \<in> set (opp_allowed_accounts policy)
      \<and> broker_order_id_str (co_order_id cancel) \<noteq> []
      \<and> opr_account_id r = co_account_id cancel \<and> opr_broker_order_id r = Some (co_order_id cancel)
      \<and> opr_state r \<in> {IntentRecorded, SubmitInFlight, Submitted, RecoveredByClientOrderId,
                       ManualInterventionRequired}
      \<and> a = \<lparr> pac_cancel = cancel, pac_approved_ts = now,
               pac_mapped_request_id = Some (opr_request_id r) \<rparr>)
   \<and> (next_order_path_state (opr_state r) RequestCancel \<noteq> None)
      = (opr_state r \<in> {Submitted, RecoveredByClientOrderId})"
proof -
  have state: "validate_cancel_mapping cancel r = Inr SubmitCancel \<longleftrightarrow>
      opr_account_id r = co_account_id cancel \<and> opr_broker_order_id r = Some (co_order_id cancel)
      \<and> opr_state r \<in> {IntentRecorded, SubmitInFlight, Submitted, RecoveredByClientOrderId,
                       ManualInterventionRequired}"
    by (cases "opr_state r"; cases "opr_broker_order_id r")
      (auto simp: validate_cancel_mapping_def is_terminal_order_path_state_def)
  have approve: "approve_cancel_order num_ms policy cancel now (Some r) = Inr (ApprovalSubmit a) \<longleftrightarrow>
      validate_cancel_order num_ms policy cancel now (Some r) = Inr SubmitCancel
      \<and> a = \<lparr> pac_cancel = cancel, pac_approved_ts = now,
               pac_mapped_request_id = Some (opr_request_id r) \<rparr>"
    by (cases "validate_cancel_order num_ms policy cancel now (Some r)")
      (auto simp: approve_cancel_order_def split: cancel_preflight_decision.splits)
  have valid: "validate_cancel_order num_ms policy cancel now (Some r) = Inr SubmitCancel \<longleftrightarrow>
      arm_validate (opp_operator_arm policy) now = Inr ()
      \<and> validate_command_ttl num_ms (co_created_ts cancel) (co_ttl_ms cancel) now = Inr ()
      \<and> co_account_id cancel \<in> set (opp_allowed_accounts policy)
      \<and> broker_order_id_str (co_order_id cancel) \<noteq> []
      \<and> validate_cancel_mapping cancel r = Inr SubmitCancel"
    by (auto simp: validate_cancel_order_def and_then_Inr_iff)
  have next_state: "(next_order_path_state (opr_state r) RequestCancel \<noteq> None)
      = (opr_state r \<in> {Submitted, RecoveredByClientOrderId})"
    by (cases "opr_state r") (simp_all add: next_order_path_state_def)
  show ?thesis unfolding approve valid state using next_state by blast
qed

text \<open>The dry-run rate window never over-grants: with a window of 1 ms up to 2^63 - 1 ms,
  the permits granted by any sequence of calls that fall into one window add up to at most
  its capacity, and no sequence of calls in any order of times leaves more used than the
  capacity or wraps the counter.\<close>

theorem rate_window_bounded:
  assumes "whole_units 1000000 num_ms" and "uint window_ms < 2 ^ 63"
    and "rate_window_run num_ms (rate_window_new capacity window_ms start) calls = (w, granted)"
  shows "unat (drw_used w) \<le> unat capacity
    \<and> ((\<forall>(now, permits) \<in> set calls. now - start < uint (max window_ms 1) * 1000000) \<longrightarrow>
         sum_list granted \<le> unat capacity)"
proof -
  let ?w = "rate_window_new capacity window_ms start"
  have pos: "0 < uint (max window_ms 1)" "uint (max window_ms 1) < 2 ^ 63"
    using assms(2) by (auto simp: max_def word_le_def intro: uint_pos)
  then have ms: "0 < uint (drw_window_ms ?w)" "uint (drw_window_ms ?w) < 2 ^ 63"
    by (simp_all add: rate_window_new_def)
  have ok: "window_ok ?w" by (simp add: rate_window_new_def window_ok_def)
  have "\<not> window_elapsed num_ms ?w now" if "now - start < uint (max window_ms 1) * 1000000" for now
  proof
    assume "window_elapsed num_ms ?w now"
    then have le: "uint (max window_ms 1) \<le> num_ms (now - start)"
      using pos(2) by (simp add: window_elapsed_def rate_window_new_def as_i64_small)
    then have "uint (max window_ms 1) * 1000000 \<le> num_ms (now - start) * 1000000" by simp
    moreover have "num_ms (now - start) * 1000000 \<le> now - start"
    proof (cases "0 \<le> now - start")
      case True
      then show ?thesis using assms(1) by (simp add: whole_units_def)
    next
      case False
      then have "num_ms (now - start) \<le> num_ms 0"
        using whole_units_mono [OF assms(1), of "now - start" 0] by simp
      also have "\<dots> = 0" using whole_units_exact [OF assms(1), of 0] by simp
      finally show ?thesis using le pos(1) by simp
    qed
    ultimately show False using that by linarith
  qed
  with rate_window_run_bound [OF assms(3,1) ms ok] show ?thesis
    by (fastforce simp: window_ok_def rate_window_new_def)
qed

theorem rate_window_bounded_witness:
  "rate_window_run (trunc_units 1000000) (rate_window_new 2 1000 0) [(0, 1), (5, 1), (7, 1)]
     = (\<lparr> drw_capacity = 2, drw_used = 2, drw_window_started_ts = 0, drw_window_ms = 1000,
          drw_backoff_until = None \<rparr>, [1, 1, 0])
   \<and> sum_list [1, 1, 0 :: nat] \<le> unat (2 :: u32)"
proof -
  have run: "rate_window_run (trunc_units 1000000) (rate_window_new 2 1000 0) [(0, 1), (5, 1), (7, 1)]
     = (\<lparr> drw_capacity = 2, drw_used = 2, drw_window_started_ts = 0, drw_window_ms = 1000,
          drw_backoff_until = None \<rparr>, [1, 1, 0])"
    by code_simp
  have "whole_units 1000000 (trunc_units 1000000)" by (rule whole_units_trunc) simp
  from rate_window_bounded [OF this _ run] have "sum_list [1, 1, 0 :: nat] \<le> unat (2 :: u32)" by simp
  with run show ?thesis by blast
qed

text \<open>A window of 2^63 ms or more limits nothing: the cast of \<open>window_ms\<close> to a signed number
  makes it negative, so every call at or after the start finds the window elapsed, resets
  it, and grants up to the full capacity again.\<close>

theorem rate_window_cast_unlimited:
  assumes "whole_units 1000000 num_ms" and "2 ^ 63 \<le> uint window_ms" and "capacity \<noteq> 0"
    and "sorted (start # ts)"
  shows "snd (rate_window_run num_ms (rate_window_new capacity window_ms start)
           (map (\<lambda>t. (t, capacity)) ts))
    = replicate (length ts) (unat capacity)"
proof -
  have neg: "as_i64 window_ms < 0" using assms(2) by (rule as_i64_large)
  have elapsed: "window_elapsed num_ms w t"
    if "drw_window_ms w = window_ms" "drw_window_started_ts w \<le> t" for w t
  proof -
    have "num_ms 0 \<le> num_ms (t - drw_window_started_ts w)"
      using whole_units_mono [OF assms(1)] that(2) by simp
    moreover have "num_ms 0 = 0" using whole_units_exact [OF assms(1), of 0] by simp
    ultimately show ?thesis using neg that(1) by (simp add: window_elapsed_def)
  qed
  have "snd (rate_window_run num_ms w (map (\<lambda>t. (t, capacity)) ts)) = replicate (length ts) (unat capacity)"
    if "drw_window_ms w = window_ms" "drw_capacity w = capacity" "drw_backoff_until w = None"
      "sorted (drw_window_started_ts w # ts)" for w
    using that
  proof (induction ts arbitrary: w)
    case (Cons t ts)
    let ?w = "w \<lparr> drw_used := capacity, drw_window_started_ts := t \<rparr>"
    have "rate_window_try_consume num_ms w t capacity
        = (?w, Inr \<lparr> dwd_remaining = rate_window_remaining num_ms ?w t \<rparr>)"
      using Cons.prems elapsed [of w t] elapsed [of "w \<lparr> drw_used := 0, drw_window_started_ts := t \<rparr>" t] assms(3)
        elapsed [of ?w t] elapsed [of "w \<lparr> drw_window_started_ts := t, drw_used := capacity \<rparr>" t]
      by (simp add: rate_window_try_consume_def consume_in_window_def rate_window_remaining_def Let_def)
    moreover have "snd (rate_window_run num_ms ?w (map (\<lambda>t. (t, capacity)) ts))
        = replicate (length ts) (unat capacity)"
      by (rule Cons.IH) (use Cons.prems in auto)
    ultimately show ?case by (auto simp: Let_def split: prod.splits)
  qed simp
  from this [of "rate_window_new capacity window_ms start"] assms(2,4) show ?thesis
    by (simp add: rate_window_new_def max_def word_le_def)
qed

theorem rate_window_cast_unlimited_witness:
  "snd (rate_window_run (trunc_units 1000000) (rate_window_new 1 (2 ^ 63) 0) [(0, 1), (0, 1), (1, 1)])
     = [1, 1, 1]"
proof -
  have "whole_units 1000000 (trunc_units 1000000)" by (rule whole_units_trunc) simp
  moreover have "2 ^ 63 \<le> uint (2 ^ 63 :: u64)" by simp
  ultimately have "snd (rate_window_run (trunc_units 1000000) (rate_window_new 1 (2 ^ 63) 0)
      (map (\<lambda>t. (t, 1)) [0, 0, 1])) = replicate (length [0, 0, 1 :: int]) (unat (1 :: u32))"
    by (rule rate_window_cast_unlimited) simp_all
  moreover have "replicate (length [0, 0, 1 :: int]) (unat (1 :: u32)) = [1, 1, 1]"
    by (simp add: numeral_eq_Suc)
  ultimately show ?thesis by (simp only: list.map)
qed

end
