(* ===== verification/MarketBars.thy ===== *)
theory MarketBars
  imports Contracts
begin

text \<open>
  Bars: the aggregation of closed source bars into canonical buckets
  (\<open>bar_aggregation.rs\<close>) and the finalizer that turns a live stream of forming bars into
  closed ones (\<open>bar_finalizer.rs\<close>). Parameters: chrono's \<open>num_seconds\<close> (\<open>num_s\<close>),
  \<open>timestamp\<close> (\<open>to_secs\<close>) and \<open>timestamp_opt\<close> (\<open>of_secs\<close>), and the addition of \<open>Decimal\<close>
  (\<open>add\<close>), whose \<open>None\<close> is the overflow panic.
\<close>

section \<open>Aggregation\<close>

datatype bar_aggregation_reject_reason =
    NonFinalSourceBar | SourceTimeframeZero | TargetTimeframeZero | SourceDoesNotDivideTarget
  | SourceTimeframeNotSmallerThanTarget | SourceBarDurationMismatch
  | BucketTimestampOutOfRange | InstrumentChangedWithinBucket
  | SourceKindChangedWithinBucket | NonContiguousSourceBar | NonMonotonicSourceBar

datatype bar_aggregation_action =
    Buffered timestamp nat
  | Emitted bar
  | RejectedBar bar_aggregation_reject_reason
  | DroppedIncompleteBucket timestamp nat

record bar_aggregation_bucket =
  bab_bucket_open_ts :: timestamp
  bab_target_timeframe_sec :: u32
  bab_bars :: "bar list"

record canonical_bar_aggregator =
  cba_target_timeframe_sec :: u32
  cba_current :: "bar_aggregation_bucket option"

definition aggregator_new :: "u32 \<Rightarrow> canonical_bar_aggregator" where
  "aggregator_new target = \<lparr> cba_target_timeframe_sec = target, cba_current = None \<rparr>"

definition bucket_push :: "bar_aggregation_bucket \<Rightarrow> bar \<Rightarrow> bar_aggregation_bucket" where
  "bucket_push b x = b \<lparr> bab_bars := bab_bars b @ [x] \<rparr>"

definition expected_count :: "bar_aggregation_bucket \<Rightarrow> nat" where
  "expected_count b = unat (bab_target_timeframe_sec b div bar_timeframe_sec (hd (bab_bars b)))"

definition bucket_is_complete :: "bar_aggregation_bucket \<Rightarrow> bool" where
  "bucket_is_complete b \<longleftrightarrow> bab_bars b \<noteq> [] \<and> length (bab_bars b) = expected_count b"

definition can_accept ::
    "bar_aggregation_bucket \<Rightarrow> bar \<Rightarrow> bar_aggregation_reject_reason + unit" where
  "can_accept b x =
     (let first = hd (bab_bars b); previous = last (bab_bars b) in
      if bar_instrument first \<noteq> bar_instrument x then Inl InstrumentChangedWithinBucket
      else if bar_source_kind first \<noteq> bar_source_kind x then Inl SourceKindChangedWithinBucket
      else if bar_open_ts x \<le> bar_open_ts previous then Inl NonMonotonicSourceBar
      else if bar_open_ts x \<noteq> bar_close_ts previous then Inl NonContiguousSourceBar
      else Inr ())"

text \<open>The loop over the bars after the first: high, low and volume.\<close>

fun fold_bars ::
    "(decimal \<Rightarrow> decimal \<Rightarrow> decimal option) \<Rightarrow> bar list \<Rightarrow> price \<times> price \<times> quantity
       \<Rightarrow> (price \<times> price \<times> quantity) option" where
  "fold_bars add [] acc = Some acc"
| "fold_bars add (x # xs) (high, low, volume) =
     (case add volume (bar_volume x) of
        None \<Rightarrow> None
      | Some volume' \<Rightarrow>
          fold_bars add xs (if high < bar_high x then bar_high x else high,
                            if bar_low x < low then bar_low x else low, volume'))"

definition aggregate ::
    "(decimal \<Rightarrow> decimal \<Rightarrow> decimal option) \<Rightarrow> bar_aggregation_bucket \<Rightarrow> bar option" where
  "aggregate add b =
     (let first = hd (bab_bars b); final = last (bab_bars b) in
      map_option (\<lambda>(high, low, volume).
        \<lparr> bar_instrument = bar_instrument first,
          bar_source_kind = bar_source_kind first,
          bar_timeframe_sec = bab_target_timeframe_sec b,
          bar_open_ts = bab_bucket_open_ts b,
          bar_close_ts = bab_bucket_open_ts b + uint (bab_target_timeframe_sec b) * 1000000000,
          bar_open = bar_open first, bar_high = high, bar_low = low,
          bar_close = bar_close final, bar_volume = volume, bar_is_final = True \<rparr>)
        (fold_bars add (tl (bab_bars b)) (bar_high first, bar_low first, bar_volume first)))"

definition validate_source_bar ::
    "(duration \<Rightarrow> int) \<Rightarrow> bar \<Rightarrow> u32 \<Rightarrow> bar_aggregation_reject_reason + unit" where
  "validate_source_bar num_s x target =
     (if \<not> bar_is_final x then Inl NonFinalSourceBar
      else if bar_timeframe_sec x = 0 then Inl SourceTimeframeZero
      else if target = 0 then Inl TargetTimeframeZero
      else if target \<le> bar_timeframe_sec x then Inl SourceTimeframeNotSmallerThanTarget
      else if target mod bar_timeframe_sec x \<noteq> 0 then Inl SourceDoesNotDivideTarget
      else if num_s (bar_close_ts x - bar_open_ts x) \<noteq> uint (bar_timeframe_sec x)
      then Inl SourceBarDurationMismatch
      else Inr ())"

text \<open>\<open>rem_euclid\<close> by a positive number is \<open>mod\<close>.\<close>

definition bucket_open_ts ::
    "(timestamp \<Rightarrow> int) \<Rightarrow> (int \<Rightarrow> timestamp option) \<Rightarrow> timestamp \<Rightarrow> u32 \<Rightarrow> timestamp option" where
  "bucket_open_ts to_secs of_secs open_ts target =
     of_secs (to_secs open_ts - to_secs open_ts mod uint target)"

text \<open>One call of \<open>observe_final_source_bar\<close>; \<open>None\<close> is the panic of \<open>aggregate\<close>.\<close>

definition observe_final_source_bar ::
    "(duration \<Rightarrow> int) \<Rightarrow> (timestamp \<Rightarrow> int) \<Rightarrow> (int \<Rightarrow> timestamp option)
       \<Rightarrow> (decimal \<Rightarrow> decimal \<Rightarrow> decimal option) \<Rightarrow> canonical_bar_aggregator \<Rightarrow> bar
       \<Rightarrow> (canonical_bar_aggregator \<times> bar_aggregation_action) option" where
  "observe_final_source_bar num_s to_secs of_secs add agg x =
     (case validate_source_bar num_s x (cba_target_timeframe_sec agg) of
        Inl reason \<Rightarrow> Some (agg, RejectedBar reason)
      | Inr _ \<Rightarrow>
     (case bucket_open_ts to_secs of_secs (bar_open_ts x) (cba_target_timeframe_sec agg) of
        None \<Rightarrow> Some (agg, RejectedBar BucketTimestampOutOfRange)
      | Some open_ts \<Rightarrow>
     (let fresh = \<lparr> bab_bucket_open_ts = open_ts,
                    bab_target_timeframe_sec = cba_target_timeframe_sec agg, bab_bars = [x] \<rparr> in
      case cba_current agg of
        None \<Rightarrow> Some (agg \<lparr> cba_current := Some fresh \<rparr>, Buffered open_ts 1)
      | Some bucket \<Rightarrow>
         if bab_bucket_open_ts bucket = open_ts
         then (case can_accept bucket x of
             Inl reason \<Rightarrow> Some (agg \<lparr> cba_current := None \<rparr>, RejectedBar reason)
           | Inr _ \<Rightarrow>
              (let bucket' = bucket_push bucket x in
               if bucket_is_complete bucket'
               then map_option (\<lambda>bar. (agg \<lparr> cba_current := None \<rparr>, Emitted bar)) (aggregate add bucket')
               else Some (agg \<lparr> cba_current := Some bucket' \<rparr>,
                          Buffered open_ts (length (bab_bars bucket')))))
         else if bab_bucket_open_ts bucket < open_ts
         then Some (agg \<lparr> cba_current := Some fresh \<rparr>,
                    DroppedIncompleteBucket (bab_bucket_open_ts bucket) (length (bab_bars bucket)))
         else Some (agg \<lparr> cba_current := None \<rparr>, RejectedBar NonMonotonicSourceBar))))"

fun run_aggregator ::
    "(duration \<Rightarrow> int) \<Rightarrow> (timestamp \<Rightarrow> int) \<Rightarrow> (int \<Rightarrow> timestamp option)
       \<Rightarrow> (decimal \<Rightarrow> decimal \<Rightarrow> decimal option) \<Rightarrow> canonical_bar_aggregator \<Rightarrow> bar list
       \<Rightarrow> (canonical_bar_aggregator \<times> bar_aggregation_action list) option" where
  "run_aggregator num_s to_secs of_secs add agg [] = Some (agg, [])"
| "run_aggregator num_s to_secs of_secs add agg (x # xs) =
     Option.bind (observe_final_source_bar num_s to_secs of_secs add agg x) (\<lambda>(agg', action).
     Option.bind (run_aggregator num_s to_secs of_secs add agg' xs) (\<lambda>(agg'', actions).
       Some (agg'', action # actions)))"

section \<open>Finalization of a live stream\<close>

record closed_bar_stream_key =
  csk_instrument :: instrument_id
  csk_timeframe_sec :: u32
  csk_source_kind :: market_data_source_kind

definition stream_key_of_bar :: "bar \<Rightarrow> closed_bar_stream_key" where
  "stream_key_of_bar x = \<lparr> csk_instrument = bar_instrument x,
     csk_timeframe_sec = bar_timeframe_sec x, csk_source_kind = bar_source_kind x \<rparr>"

datatype closed_bar_finalizer_action_kind =
    BufferedForming | UpdatedForming | EmittedClosedFromNextBar | PassedThroughFinal
  | SuppressedDuplicateFinal | DroppedNonMonotonicForming | PassedThroughNonLiveSource

record closed_bar_finalizer_action =
  cfa_kind :: closed_bar_finalizer_action_kind
  cfa_emitted :: "bar option"

record closed_bar_finalizer =
  cbf_forming_by_stream :: "closed_bar_stream_key \<rightharpoonup> bar"
  cbf_last_emitted_open_ts_by_stream :: "closed_bar_stream_key \<rightharpoonup> timestamp"

definition empty_finalizer :: closed_bar_finalizer where
  "empty_finalizer = \<lparr> cbf_forming_by_stream = Map.empty,
     cbf_last_emitted_open_ts_by_stream = Map.empty \<rparr>"

definition emit_once ::
    "closed_bar_finalizer \<Rightarrow> closed_bar_stream_key \<Rightarrow> bar \<Rightarrow> closed_bar_finalizer_action_kind
       \<Rightarrow> closed_bar_finalizer \<times> closed_bar_finalizer_action" where
  "emit_once f key x kind =
     (if (case cbf_last_emitted_open_ts_by_stream f key of
            Some last_open_ts \<Rightarrow> bar_open_ts x \<le> last_open_ts | None \<Rightarrow> False)
      then (f, \<lparr> cfa_kind = SuppressedDuplicateFinal, cfa_emitted = None \<rparr>)
      else (f \<lparr> cbf_last_emitted_open_ts_by_stream :=
                   (cbf_last_emitted_open_ts_by_stream f)(key \<mapsto> bar_open_ts x) \<rparr>,
            \<lparr> cfa_kind = kind, cfa_emitted = Some x \<rparr>))"

definition observe_bar ::
    "closed_bar_finalizer \<Rightarrow> bar \<Rightarrow> closed_bar_finalizer \<times> closed_bar_finalizer_action" where
  "observe_bar f x =
     (if bar_source_kind x \<noteq> LiveStream
      then (f, \<lparr> cfa_kind = PassedThroughNonLiveSource, cfa_emitted = Some x \<rparr>)
      else let key = stream_key_of_bar x in
        if bar_is_final x
        then (let f' = (if (case cbf_forming_by_stream f key of
                               Some forming \<Rightarrow> bar_open_ts forming \<le> bar_open_ts x | None \<Rightarrow> False)
                        then f \<lparr> cbf_forming_by_stream := (cbf_forming_by_stream f)(key := None) \<rparr>
                        else f)
              in emit_once f' key x PassedThroughFinal)
        else case cbf_forming_by_stream f key of
          None \<Rightarrow>
            (f \<lparr> cbf_forming_by_stream := (cbf_forming_by_stream f)(key \<mapsto> x) \<rparr>,
             \<lparr> cfa_kind = BufferedForming, cfa_emitted = None \<rparr>)
        | Some previous \<Rightarrow>
            if bar_open_ts x = bar_open_ts previous
            then (f \<lparr> cbf_forming_by_stream := (cbf_forming_by_stream f)(key \<mapsto> x) \<rparr>,
                  \<lparr> cfa_kind = UpdatedForming, cfa_emitted = None \<rparr>)
            else if bar_open_ts previous < bar_open_ts x
            then emit_once (f \<lparr> cbf_forming_by_stream := (cbf_forming_by_stream f)(key \<mapsto> x) \<rparr>)
                   key (previous \<lparr> bar_is_final := True \<rparr>) EmittedClosedFromNextBar
            else (f, \<lparr> cfa_kind = DroppedNonMonotonicForming, cfa_emitted = None \<rparr>))"

fun run_finalizer :: "closed_bar_finalizer \<Rightarrow> bar list \<Rightarrow> closed_bar_finalizer \<times> bar list" where
  "run_finalizer f [] = (f, [])"
| "run_finalizer f (x # xs) =
     (let (f', action) = observe_bar f x;
          (f'', emitted) = run_finalizer f' xs
      in (f'', (case cfa_emitted action of Some e \<Rightarrow> [e] | None \<Rightarrow> []) @ emitted))"

section \<open>Facts about the finalizer\<close>

definition finalizer_inv :: "closed_bar_finalizer \<Rightarrow> bool" where
  "finalizer_inv f \<longleftrightarrow> (\<forall>key x. cbf_forming_by_stream f key = Some x \<longrightarrow>
     stream_key_of_bar x = key \<and> bar_source_kind x = LiveStream \<and> \<not> bar_is_final x)"

lemma finalizer_inv_empty [simp]: "finalizer_inv empty_finalizer"
  by (simp add: finalizer_inv_def empty_finalizer_def)

lemma stream_key_final [simp]: "stream_key_of_bar (x \<lparr> bar_is_final := b \<rparr>) = stream_key_of_bar x"
  by (simp add: stream_key_of_bar_def)

lemma emit_once_forming: "cbf_forming_by_stream (fst (emit_once f key x kind)) = cbf_forming_by_stream f"
  by (simp add: emit_once_def)

lemma observe_bar_inv: "finalizer_inv f \<Longrightarrow> finalizer_inv (fst (observe_bar f x))"
  by (auto simp: observe_bar_def finalizer_inv_def emit_once_forming Let_def split: option.splits)

text \<open>What one bar may emit on a live stream, and what it leaves as the last emission.\<close>

definition last_emitted_before :: "closed_bar_finalizer \<Rightarrow> closed_bar_stream_key \<Rightarrow> timestamp \<Rightarrow> bool" where
  "last_emitted_before f key t \<longleftrightarrow>
     (\<forall>last. cbf_last_emitted_open_ts_by_stream f key = Some last \<longrightarrow> last < t)"

lemma emit_once_cases:
  assumes "emit_once f key x kind = (f', action)"
  shows "(f' = f \<and> cfa_emitted action = None) \<or>
     (cfa_emitted action = Some x \<and> last_emitted_before f key (bar_open_ts x) \<and>
      cbf_last_emitted_open_ts_by_stream f' =
        (cbf_last_emitted_open_ts_by_stream f)(key \<mapsto> bar_open_ts x))"
  using assms by (auto simp: emit_once_def last_emitted_before_def split: if_splits option.splits)

lemma observe_bar_emits:
  assumes "observe_bar f x = (f', action)" "finalizer_inv f"
  shows "(cfa_emitted action = None
        \<and> cbf_last_emitted_open_ts_by_stream f' = cbf_last_emitted_open_ts_by_stream f)
    \<or> (\<exists>e. cfa_emitted action = Some e \<and> bar_source_kind e \<noteq> LiveStream
        \<and> cbf_last_emitted_open_ts_by_stream f' = cbf_last_emitted_open_ts_by_stream f)
    \<or> (\<exists>e. cfa_emitted action = Some e \<and> bar_source_kind e = LiveStream \<and> bar_is_final e
        \<and> last_emitted_before f (stream_key_of_bar e) (bar_open_ts e)
        \<and> cbf_last_emitted_open_ts_by_stream f' =
            (cbf_last_emitted_open_ts_by_stream f)(stream_key_of_bar e \<mapsto> bar_open_ts e))"
proof -
  let ?key = "stream_key_of_bar x"
  consider (other) "bar_source_kind x \<noteq> LiveStream"
    | (final) f0 where "bar_source_kind x = LiveStream" "bar_is_final x"
        "cbf_last_emitted_open_ts_by_stream f0 = cbf_last_emitted_open_ts_by_stream f"
        "emit_once f0 ?key x PassedThroughFinal = (f', action)"
    | (nextbar) f0 previous where "cbf_forming_by_stream f ?key = Some previous"
        "cbf_last_emitted_open_ts_by_stream f0 = cbf_last_emitted_open_ts_by_stream f"
        "emit_once f0 ?key (previous \<lparr> bar_is_final := True \<rparr>) EmittedClosedFromNextBar = (f', action)"
    | (quiet) "cfa_emitted action = None"
        "cbf_last_emitted_open_ts_by_stream f' = cbf_last_emitted_open_ts_by_stream f"
  proof (cases "bar_source_kind x = LiveStream")
    case False
    then show thesis by (rule other)
  next
    case live: True
    show thesis
    proof (cases "bar_is_final x")
      case True
      let ?f0 = "if (case cbf_forming_by_stream f ?key of
                       Some forming \<Rightarrow> bar_open_ts forming \<le> bar_open_ts x | None \<Rightarrow> False)
                 then f \<lparr> cbf_forming_by_stream := (cbf_forming_by_stream f)(?key := None) \<rparr> else f"
      have "emit_once ?f0 ?key x PassedThroughFinal = (f', action)"
        using assms(1) live True by (simp add: observe_bar_def Let_def)
      then show thesis using live True by (intro final [of ?f0]) simp_all
    next
      case False
      show thesis
      proof (cases "cbf_forming_by_stream f ?key")
        case None
        with assms(1) live False show thesis by (intro quiet) (auto simp: observe_bar_def Let_def)
      next
        case (Some previous)
        show thesis
        proof (cases "bar_open_ts previous < bar_open_ts x")
          case True
          with assms(1) live False Some show thesis
            by (intro nextbar [of previous "f \<lparr> cbf_forming_by_stream := (cbf_forming_by_stream f)(?key \<mapsto> x) \<rparr>"])
              (simp_all add: observe_bar_def Let_def)
        next
          case False
          with assms(1) live \<open>\<not> bar_is_final x\<close> Some show thesis
            by (intro quiet) (auto simp: observe_bar_def Let_def split: if_splits)
        qed
      qed
    qed
  qed
  then show ?thesis
  proof cases
    case other
    with assms(1) show ?thesis by (auto simp: observe_bar_def)
  next
    case (final f0)
    with emit_once_cases [OF final(4)] show ?thesis by (auto simp: last_emitted_before_def)
  next
    case (nextbar f0 previous)
    have "stream_key_of_bar previous = ?key" "bar_source_kind previous = LiveStream"
      using assms(2) nextbar(1) by (auto simp: finalizer_inv_def)
    with nextbar emit_once_cases [OF nextbar(3)] show ?thesis by (auto simp: last_emitted_before_def)
  qed auto
qed

definition live_open_ts :: "closed_bar_stream_key \<Rightarrow> bar list \<Rightarrow> timestamp list" where
  "live_open_ts key es =
     map bar_open_ts (filter (\<lambda>e. bar_source_kind e = LiveStream \<and> stream_key_of_bar e = key) es)"

lemma run_finalizer_increasing:
  "run_finalizer f xs = (f', es) \<Longrightarrow> finalizer_inv f \<Longrightarrow>
     sorted_wrt (<) (live_open_ts key es) \<and> (\<forall>t \<in> set (live_open_ts key es). last_emitted_before f key t)
     \<and> (\<forall>e \<in> set es. bar_source_kind e = LiveStream \<longrightarrow> bar_is_final e)"
proof (induction xs arbitrary: f es)
  case Nil
  then show ?case by (simp add: live_open_ts_def)
next
  case (Cons x xs)
  obtain f1 action where o: "observe_bar f x = (f1, action)" by (metis surj_pair)
  obtain es1 where r: "run_finalizer f1 xs = (f', es1)"
    and es: "es = (case cfa_emitted action of Some e \<Rightarrow> [e] | None \<Rightarrow> []) @ es1"
    using Cons.prems(1) by (auto simp: o Let_def split: prod.splits)
  have inv: "finalizer_inv f1" using observe_bar_inv [OF Cons.prems(2), of x] o by simp
  note IH = Cons.IH [OF r inv]
  from observe_bar_emits [OF o Cons.prems(2)] show ?case
  proof (elim disjE exE conjE)
    assume "cfa_emitted action = None"
      and "cbf_last_emitted_open_ts_by_stream f1 = cbf_last_emitted_open_ts_by_stream f"
    with IH show ?thesis by (simp add: es last_emitted_before_def)
  next
    fix e
    assume "cfa_emitted action = Some e" "bar_source_kind e \<noteq> LiveStream"
      and "cbf_last_emitted_open_ts_by_stream f1 = cbf_last_emitted_open_ts_by_stream f"
    with IH show ?thesis by (simp add: es live_open_ts_def last_emitted_before_def)
  next
    fix e
    assume e: "cfa_emitted action = Some e" "bar_source_kind e = LiveStream" "bar_is_final e"
      "last_emitted_before f (stream_key_of_bar e) (bar_open_ts e)"
      "cbf_last_emitted_open_ts_by_stream f1 =
         (cbf_last_emitted_open_ts_by_stream f)(stream_key_of_bar e \<mapsto> bar_open_ts e)"
    show ?thesis
    proof (cases "stream_key_of_bar e = key")
      case True
      have "bar_open_ts e < t \<and> last_emitted_before f key t" if "t \<in> set (live_open_ts key es1)" for t
        using IH that e(4,5) True by (fastforce simp: last_emitted_before_def)
      then show ?thesis using IH e True by (auto simp: es live_open_ts_def)
    next
      case False
      with IH e show ?thesis by (auto simp: es live_open_ts_def last_emitted_before_def)
    qed
  qed
qed

text \<open>What the finalizer is for, without its state: of the live bars \<open>ys\<close> of one stream that came
  before, and the bar \<open>x\<close> that comes now, \<open>closed_by ys x\<close> is what becomes known to be closed. A
  final bar is, unless its open time has had a final bar; a forming bar closes the forming bar
  directly before it, if that one opened earlier and its open time has had no final bar.\<close>

definition live_bars :: "closed_bar_stream_key \<Rightarrow> bar list \<Rightarrow> bar list" where
  "live_bars key xs = filter (\<lambda>x. bar_source_kind x = LiveStream \<and> stream_key_of_bar x = key) xs"

definition has_final :: "bar list \<Rightarrow> timestamp \<Rightarrow> bool" where
  "has_final ys t \<longleftrightarrow> (\<exists>y \<in> set ys. bar_is_final y \<and> bar_open_ts y = t)"

definition closed_by :: "bar list \<Rightarrow> bar \<Rightarrow> bar list" where
  "closed_by ys x =
     (if bar_is_final x then if has_final ys (bar_open_ts x) then [] else [x]
      else if ys \<noteq> [] \<and> \<not> bar_is_final (last ys) \<and> bar_open_ts (last ys) < bar_open_ts x
              \<and> \<not> has_final ys (bar_open_ts (last ys))
      then [(last ys) \<lparr> bar_is_final := True \<rparr>] else [])"

fun closed_bars :: "bar list \<Rightarrow> bar list \<Rightarrow> bar list" where
  "closed_bars ys [] = []"
| "closed_bars ys (x # xs) = closed_by ys x @ closed_bars (ys @ [x]) xs"

text \<open>What the finalizer knows of a stream whose bars \<open>ys\<close> came in order.\<close>

definition knows_stream :: "closed_bar_finalizer \<Rightarrow> closed_bar_stream_key \<Rightarrow> bar list \<Rightarrow> bool" where
  "knows_stream f key ys \<longleftrightarrow>
     cbf_forming_by_stream f key
       = (if ys = [] \<or> bar_is_final (last ys) then None else Some (last ys))
     \<and> (\<forall>t. (\<forall>y \<in> set ys. bar_open_ts y \<le> t) \<longrightarrow> (last_emitted_before f key t \<longleftrightarrow> \<not> has_final ys t))"

lemma has_final_append [simp]:
  "has_final (ys @ [x]) t \<longleftrightarrow> has_final ys t \<or> bar_is_final x \<and> bar_open_ts x = t"
  by (auto simp: has_final_def)

lemma last_emitted_before_upd [simp]:
  "last_emitted_before (f \<lparr> cbf_forming_by_stream := m \<rparr>) key t = last_emitted_before f key t"
  "last_emitted_before (f \<lparr> cbf_last_emitted_open_ts_by_stream :=
      g(key \<mapsto> u) \<rparr>) key t \<longleftrightarrow> u < t"
  by (simp_all add: last_emitted_before_def)

lemma emit_once_if:
  "emit_once f key x kind =
     (if last_emitted_before f key (bar_open_ts x)
      then (f \<lparr> cbf_last_emitted_open_ts_by_stream :=
                   (cbf_last_emitted_open_ts_by_stream f)(key \<mapsto> bar_open_ts x) \<rparr>,
            \<lparr> cfa_kind = kind, cfa_emitted = Some x \<rparr>)
      else (f, \<lparr> cfa_kind = SuppressedDuplicateFinal, cfa_emitted = None \<rparr>))"
  by (auto simp: emit_once_def last_emitted_before_def split: option.splits)

lemma has_final_le: "\<forall>y \<in> set ys. bar_open_ts y \<le> t \<Longrightarrow> t < u \<Longrightarrow> \<not> has_final ys u"
  by (auto simp: has_final_def)

lemma knows_stream_final:
  assumes "knows_stream f key ys" "\<forall>y \<in> set ys. bar_open_ts y \<le> bar_open_ts x"
    and "bar_source_kind x = LiveStream" "stream_key_of_bar x = key" "bar_is_final x"
    and "observe_bar f x = (f', action)"
  shows "knows_stream f' key (ys @ [x])
    \<and> (case cfa_emitted action of Some e \<Rightarrow> [e] | None \<Rightarrow> []) = closed_by ys x"
proof -
  define f0 where "f0 = f \<lparr> cbf_forming_by_stream := (cbf_forming_by_stream f)(key := None) \<rparr>"
  have none: "cbf_forming_by_stream f key = None \<Longrightarrow> f0 = f"
    by (simp add: f0_def fun_upd_idem)
  have forming: "\<forall>p. cbf_forming_by_stream f key = Some p \<longrightarrow> bar_open_ts p \<le> bar_open_ts x"
    using assms(1,2) by (auto simp: knows_stream_def split: if_splits)
  then have run: "observe_bar f x = emit_once f0 key x PassedThroughFinal"
    using assms(3-5) none by (auto simp: observe_bar_def Let_def f0_def split: option.splits)
  have before: "last_emitted_before f0 key t \<longleftrightarrow> \<not> has_final ys t" if "bar_open_ts x \<le> t" for t
  proof -
    have "\<forall>y \<in> set ys. bar_open_ts y \<le> t" using assms(2) that order_trans by blast
    with assms(1) show ?thesis by (simp add: knows_stream_def f0_def)
  qed
  show ?thesis
    using assms(5,6) run before [of "bar_open_ts x"] before has_final_le [OF assms(2)]
    by (auto simp: emit_once_if knows_stream_def closed_by_def f0_def split: if_splits)
qed

lemma knows_stream_forming:
  assumes "knows_stream f key ys" "\<forall>y \<in> set ys. bar_open_ts y \<le> bar_open_ts x"
    and "sorted (map bar_open_ts ys)"
    and "bar_source_kind x = LiveStream" "stream_key_of_bar x = key" "\<not> bar_is_final x"
    and "observe_bar f x = (f', action)"
  shows "knows_stream f' key (ys @ [x])
    \<and> (case cfa_emitted action of Some e \<Rightarrow> [e] | None \<Rightarrow> []) = closed_by ys x"
proof -
  define f0 where "f0 = f \<lparr> cbf_forming_by_stream := (cbf_forming_by_stream f)(key \<mapsto> x) \<rparr>"
  have before: "last_emitted_before f0 key t \<longleftrightarrow> \<not> has_final ys t" if "\<forall>y \<in> set ys. bar_open_ts y \<le> t" for t
    using assms(1) that by (simp add: knows_stream_def f0_def)
  show ?thesis
  proof (cases "cbf_forming_by_stream f key")
    case None
    then have "observe_bar f x = (f0, \<lparr> cfa_kind = BufferedForming, cfa_emitted = None \<rparr>)"
      using assms(4-6) by (simp add: observe_bar_def Let_def f0_def)
    then show ?thesis
      using None assms(1,2,6,7) before
      by (auto simp: knows_stream_def closed_by_def f0_def split: if_splits)
  next
    case (Some p)
    then have p: "ys \<noteq> []" "\<not> bar_is_final (last ys)" "p = last ys"
      using assms(1) by (auto simp: knows_stream_def split: if_splits)
    then have old: "\<forall>y \<in> set ys. bar_open_ts y \<le> bar_open_ts p"
      using assms(3) by (cases ys rule: rev_cases) (auto simp: sorted_append)
    have le: "bar_open_ts p \<le> bar_open_ts x" using assms(2) p by simp
    show ?thesis
    proof (cases "bar_open_ts x = bar_open_ts p")
      case True
      then have "observe_bar f x = (f0, \<lparr> cfa_kind = UpdatedForming, cfa_emitted = None \<rparr>)"
        using assms(4-6) Some by (simp add: observe_bar_def Let_def f0_def)
      then show ?thesis
        using True p assms(2,6,7) before
        by (auto simp: knows_stream_def closed_by_def f0_def split: if_splits)
    next
      case False
      with le p have lt: "bar_open_ts (last ys) < bar_open_ts x" by simp
      from False have "observe_bar f x
          = emit_once f0 key (p \<lparr> bar_is_final := True \<rparr>) EmittedClosedFromNextBar"
        using assms(4-6) Some le by (simp add: observe_bar_def Let_def f0_def)
      then show ?thesis
        using lt p assms(2,6,7) before [OF old] before has_final_le [OF old]
        by (auto simp: emit_once_if knows_stream_def closed_by_def f0_def split: if_splits)
    qed
  qed
qed

lemma observe_bar_elsewhere:
  assumes "\<not> (bar_source_kind x = LiveStream \<and> stream_key_of_bar x = key)" "observe_bar f x = (f', action)"
    and "finalizer_inv f"
  shows "cbf_forming_by_stream f' key = cbf_forming_by_stream f key"
    and "cbf_last_emitted_open_ts_by_stream f' key = cbf_last_emitted_open_ts_by_stream f key"
    and "cfa_emitted action = Some e \<Longrightarrow> \<not> (bar_source_kind e = LiveStream \<and> stream_key_of_bar e = key)"
  using assms
  by (auto simp: observe_bar_def Let_def emit_once_def finalizer_inv_def split: if_splits option.splits)

lemma source_kind_final: "bar_source_kind (x \<lparr> bar_is_final := v \<rparr>) = bar_source_kind x"
  by simp

lemma live_bars_iff:
  "live_bars key ys = ys \<longleftrightarrow> (\<forall>y \<in> set ys. bar_source_kind y = LiveStream \<and> stream_key_of_bar y = key)"
  by (simp add: live_bars_def filter_id_conv)

lemma live_closed_by:
  assumes "live_bars key ys = ys" "bar_source_kind x = LiveStream" "stream_key_of_bar x = key"
  shows "live_bars key (closed_by ys x) = closed_by ys x"
proof (cases "ys = []")
  case False
  have "last ys \<in> set ys" using False by simp
  then have "bar_source_kind (last ys) = LiveStream" "stream_key_of_bar (last ys) = key"
    using assms(1) unfolding live_bars_iff by blast+
  then have new: "bar_source_kind y = LiveStream \<and> stream_key_of_bar y = key"
    if "y = x \<or> y = (last ys) \<lparr> bar_is_final := True \<rparr>" for y
    using that assms(2,3) by (elim disjE) (simp_all only: stream_key_final source_kind_final simp_thms)
  have "set (closed_by ys x) \<subseteq> {x, (last ys) \<lparr> bar_is_final := True \<rparr>}"
    unfolding closed_by_def by (simp only: list.set split: if_split) blast
  with new show ?thesis unfolding live_bars_iff by blast
next
  case True
  with assms(2,3) show ?thesis unfolding live_bars_iff closed_by_def by simp
qed

lemma knows_stream_empty: "knows_stream empty_finalizer key []"
  by (simp add: knows_stream_def empty_finalizer_def last_emitted_before_def has_final_def)

lemma run_finalizer_closed_bars:
  "run_finalizer f xs = (f', es) \<Longrightarrow> finalizer_inv f \<Longrightarrow> knows_stream f key ys \<Longrightarrow>
     sorted (map bar_open_ts (ys @ live_bars key xs)) \<Longrightarrow> live_bars key ys = ys \<Longrightarrow>
     live_bars key es = closed_bars ys (live_bars key xs)"
proof (induction xs arbitrary: f ys f' es)
  case Nil
  then show ?case by (simp add: live_bars_def)
next
  case (Cons x xs)
  obtain f1 action where o: "observe_bar f x = (f1, action)" by fastforce
  obtain es1 where r: "run_finalizer f1 xs = (f', es1)"
    and es: "es = (case cfa_emitted action of Some e \<Rightarrow> [e] | None \<Rightarrow> []) @ es1"
    using Cons.prems(1) o by (auto split: prod.splits option.splits)
  have inv: "finalizer_inv f1" using observe_bar_inv [OF Cons.prems(2), of x] o by simp
  show ?case
  proof (cases "bar_source_kind x = LiveStream \<and> stream_key_of_bar x = key")
    case False
    note else = observe_bar_elsewhere [OF False o Cons.prems(2)]
    have "knows_stream f1 key ys"
      using Cons.prems(3) else(1,2) by (simp add: knows_stream_def last_emitted_before_def)
    then have "live_bars key es1 = closed_bars ys (live_bars key xs)"
      using Cons.IH [OF r inv] Cons.prems(4,5) False by (auto simp: live_bars_def)
    moreover have "live_bars key es = live_bars key es1"
      using else(3) by (cases "cfa_emitted action") (auto simp: es live_bars_def)
    moreover have "live_bars key (x # xs) = live_bars key xs" using False by (auto simp: live_bars_def)
    ultimately show ?thesis by simp
  next
    case True
    have le: "\<forall>y \<in> set ys. bar_open_ts y \<le> bar_open_ts x" "sorted (map bar_open_ts ys)"
      using Cons.prems(4) True by (auto simp: live_bars_def sorted_append)
    have step: "knows_stream f1 key (ys @ [x])
      \<and> (case cfa_emitted action of Some e \<Rightarrow> [e] | None \<Rightarrow> []) = closed_by ys x"
      using knows_stream_final [OF Cons.prems(3) le(1) _ _ _ o]
        knows_stream_forming [OF Cons.prems(3) le _ _ _ o] True by blast
    then have "live_bars key es1 = closed_bars (ys @ [x]) (live_bars key xs)"
      using Cons.IH [OF r inv, of "ys @ [x]"] Cons.prems(4,5) True by (simp add: live_bars_def)
    moreover have "live_bars key (closed_by ys x) = closed_by ys x"
      using live_closed_by Cons.prems(5) True by simp
    ultimately show ?thesis using True step es by (simp add: live_bars_def)
  qed
qed

section \<open>Facts about the aggregator\<close>

abbreviation follows :: "bar \<Rightarrow> bar \<Rightarrow> bool" where
  "follows x y \<equiv> bar_open_ts y = bar_close_ts x \<and> bar_open_ts x < bar_open_ts y"

text \<open>The bars a bucket may hold: checked bars of one instrument and source, end to end.\<close>

definition bucket_bars_ok ::
    "(duration \<Rightarrow> int) \<Rightarrow> (timestamp \<Rightarrow> int) \<Rightarrow> (int \<Rightarrow> timestamp option)
       \<Rightarrow> u32 \<Rightarrow> timestamp \<Rightarrow> bar list \<Rightarrow> bool" where
  "bucket_bars_ok num_s to_secs of_secs target open_ts xs \<longleftrightarrow>
     xs \<noteq> [] \<and> successively follows xs \<and>
     (\<forall>x \<in> set xs. validate_source_bar num_s x target = Inr ()
        \<and> bucket_open_ts to_secs of_secs (bar_open_ts x) target = Some open_ts
        \<and> bar_instrument (hd xs) = bar_instrument x \<and> bar_source_kind (hd xs) = bar_source_kind x)"

definition aggregator_inv ::
    "(duration \<Rightarrow> int) \<Rightarrow> (timestamp \<Rightarrow> int) \<Rightarrow> (int \<Rightarrow> timestamp option)
       \<Rightarrow> (bar \<Rightarrow> bool) \<Rightarrow> canonical_bar_aggregator \<Rightarrow> bool" where
  "aggregator_inv num_s to_secs of_secs P agg \<longleftrightarrow>
     (\<forall>b. cba_current agg = Some b \<longrightarrow>
        bab_target_timeframe_sec b = cba_target_timeframe_sec agg \<and>
        (\<forall>x \<in> set (bab_bars b). P x) \<and>
        bucket_bars_ok num_s to_secs of_secs (cba_target_timeframe_sec agg) (bab_bucket_open_ts b) (bab_bars b))"

lemma bucket_bars_ok_single:
  "validate_source_bar num_s x target = Inr () \<Longrightarrow>
   bucket_open_ts to_secs of_secs (bar_open_ts x) target = Some open_ts \<Longrightarrow>
   bucket_bars_ok num_s to_secs of_secs target open_ts [x]"
  by (simp add: bucket_bars_ok_def)

lemma successively_snoc:
  "successively P (xs @ [x]) \<longleftrightarrow> successively P xs \<and> (xs \<noteq> [] \<longrightarrow> P (last xs) x)"
  by (auto simp: successively_append_iff)

lemma bucket_bars_ok_push:
  assumes "bucket_bars_ok num_s to_secs of_secs target open_ts (bab_bars b)"
    and "can_accept b x = Inr ()" "validate_source_bar num_s x target = Inr ()"
    and "bucket_open_ts to_secs of_secs (bar_open_ts x) target = Some open_ts"
  shows "bucket_bars_ok num_s to_secs of_secs target open_ts (bab_bars (bucket_push b x))"
proof -
  have ne: "bab_bars b \<noteq> []" using assms(1) by (simp add: bucket_bars_ok_def)
  have acc: "bar_instrument (hd (bab_bars b)) = bar_instrument x"
    "bar_source_kind (hd (bab_bars b)) = bar_source_kind x" "follows (last (bab_bars b)) x"
    using assms(2) by (auto simp: can_accept_def Let_def not_le split: if_splits)
  from assms(1,3,4) ne acc show ?thesis
    unfolding bucket_bars_ok_def bucket_push_def by (simp add: successively_snoc)
qed

lemma observe_source_bar_step:
  assumes "observe_final_source_bar num_s to_secs of_secs add agg x = Some (agg', action)"
    and "aggregator_inv num_s to_secs of_secs P agg" "P x"
  shows "aggregator_inv num_s to_secs of_secs P agg'"
    and "cba_target_timeframe_sec agg' = cba_target_timeframe_sec agg"
    and "action = Emitted e \<Longrightarrow> \<exists>b. aggregate add b = Some e \<and> bucket_is_complete b
       \<and> bab_target_timeframe_sec b = cba_target_timeframe_sec agg \<and> (\<forall>x \<in> set (bab_bars b). P x)
       \<and> bucket_bars_ok num_s to_secs of_secs (cba_target_timeframe_sec agg) (bab_bucket_open_ts b) (bab_bars b)"
proof -
  let ?target = "cba_target_timeframe_sec agg"
  have inv: "aggregator_inv num_s to_secs of_secs P agg' \<and> cba_target_timeframe_sec agg' = ?target
     \<and> (action = Emitted e \<longrightarrow> (\<exists>b. aggregate add b = Some e \<and> bucket_is_complete b
       \<and> bab_target_timeframe_sec b = ?target \<and> (\<forall>x \<in> set (bab_bars b). P x)
       \<and> bucket_bars_ok num_s to_secs of_secs ?target (bab_bucket_open_ts b) (bab_bars b)))"
  proof (cases "validate_source_bar num_s x ?target")
    case (Inl reason)
    with assms(1,2) show ?thesis by (auto simp: observe_final_source_bar_def)
  next
    case valid: (Inr u)
    show ?thesis
    proof (cases "bucket_open_ts to_secs of_secs (bar_open_ts x) ?target")
      case None
      with valid assms(1,2) show ?thesis by (auto simp: observe_final_source_bar_def)
    next
      case open_ts: (Some open_ts)
      note single = bucket_bars_ok_single [of num_s x ?target to_secs of_secs open_ts]
      show ?thesis
      proof (cases "cba_current agg")
        case None
        with valid open_ts assms single show ?thesis
          by (auto simp: observe_final_source_bar_def aggregator_inv_def Let_def)
      next
        case (Some b)
        with assms(2) have b: "bab_target_timeframe_sec b = ?target" "\<forall>x \<in> set (bab_bars b). P x"
          "bucket_bars_ok num_s to_secs of_secs ?target (bab_bucket_open_ts b) (bab_bars b)"
          by (simp_all add: aggregator_inv_def)
        show ?thesis
        proof (cases "bab_bucket_open_ts b = open_ts \<and> can_accept b x = Inr ()")
          case True
          let ?b = "bucket_push b x"
          have ok: "bucket_bars_ok num_s to_secs of_secs ?target open_ts (bab_bars ?b)"
            using bucket_bars_ok_push [of num_s to_secs of_secs ?target open_ts b x] b(3) True valid open_ts
            by simp
          have "\<forall>x \<in> set (bab_bars ?b). P x" "bab_target_timeframe_sec ?b = ?target"
            "bab_bucket_open_ts ?b = open_ts"
            using b(1,2) assms(3) True by (auto simp: bucket_push_def)
          with ok True valid open_ts Some assms(1) show ?thesis
            by (cases "aggregate add ?b")
              (auto simp: observe_final_source_bar_def aggregator_inv_def Let_def split: if_splits)
        next
          case False
          with valid open_ts Some assms single show ?thesis
            by (auto simp: observe_final_source_bar_def aggregator_inv_def Let_def
                split: if_splits sum.splits)
        qed
      qed
    qed
  qed
  then show "aggregator_inv num_s to_secs of_secs P agg'"
    "cba_target_timeframe_sec agg' = ?target"
    "action = Emitted e \<Longrightarrow> \<exists>b. aggregate add b = Some e \<and> bucket_is_complete b
       \<and> bab_target_timeframe_sec b = ?target \<and> (\<forall>x \<in> set (bab_bars b). P x)
       \<and> bucket_bars_ok num_s to_secs of_secs ?target (bab_bucket_open_ts b) (bab_bars b)"
    by blast+
qed

lemma run_aggregator_emits:
  "run_aggregator num_s to_secs of_secs add agg xs = Some (agg', actions) \<Longrightarrow>
   aggregator_inv num_s to_secs of_secs P agg \<Longrightarrow> \<forall>x \<in> set xs. P x \<Longrightarrow> Emitted e \<in> set actions \<Longrightarrow>
   \<exists>b. aggregate add b = Some e \<and> bucket_is_complete b
       \<and> bab_target_timeframe_sec b = cba_target_timeframe_sec agg \<and> (\<forall>x \<in> set (bab_bars b). P x)
       \<and> bucket_bars_ok num_s to_secs of_secs (cba_target_timeframe_sec agg) (bab_bucket_open_ts b) (bab_bars b)"
proof (induction xs arbitrary: agg actions)
  case (Cons x xs)
  then obtain agg1 action actions1 where
    o: "observe_final_source_bar num_s to_secs of_secs add agg x = Some (agg1, action)"
    and r: "run_aggregator num_s to_secs of_secs add agg1 xs = Some (agg', actions1)"
    and a: "actions = action # actions1"
    by (auto simp: Option.bind_eq_Some_conv)
  note step = observe_source_bar_step [OF o Cons.prems(2)]
  show ?case
  proof (cases "Emitted e = action")
    case True
    then show ?thesis using step(3) [of e] Cons.prems(3) by auto
  next
    case False
    then show ?thesis using Cons.IH [OF r] step(1,2) Cons.prems(3,4) a by auto
  qed
qed simp

text \<open>The bar of a bucket: first open, last close, extremes and total volume.\<close>

definition exact_sum :: "(decimal \<Rightarrow> decimal \<Rightarrow> decimal option) \<Rightarrow> bool" where
  "exact_sum add \<longleftrightarrow> (\<forall>x y z. add x y = Some z \<longrightarrow> z = x + y)"

lemma fold_bars_spec:
  "fold_bars add xs (h, l, v) = Some (h', l', v') \<Longrightarrow>
     h' = Max (insert h (bar_high ` set xs)) \<and> l' = Min (insert l (bar_low ` set xs)) \<and>
     (exact_sum add \<longrightarrow> v' = v + sum_list (map bar_volume xs))"
proof (induction xs arbitrary: h l v)
  case (Cons x xs)
  then obtain w where w: "add v (bar_volume x) = Some w"
    and r: "fold_bars add xs (if h < bar_high x then bar_high x else h,
              if bar_low x < l then bar_low x else l, w) = Some (h', l', v')"
    by (auto split: option.splits)
  have "Max (insert h (insert (bar_high x) (bar_high ` set xs)))
      = Max (insert (if h < bar_high x then bar_high x else h) (bar_high ` set xs))"
    by (cases "set xs = {}") (auto simp: max_def)
  moreover have "Min (insert l (insert (bar_low x) (bar_low ` set xs)))
      = Min (insert (if bar_low x < l then bar_low x else l) (bar_low ` set xs))"
    by (cases "set xs = {}") (auto simp: min_def)
  ultimately show ?case using Cons.IH [OF r] w by (auto simp: exact_sum_def)
qed simp

lemma aggregate_spec:
  assumes "aggregate add b = Some e" "bab_bars b \<noteq> []"
  shows "bar_open_ts e = bab_bucket_open_ts b
    \<and> bar_close_ts e = bab_bucket_open_ts b + uint (bab_target_timeframe_sec b) * 1000000000
    \<and> bar_timeframe_sec e = bab_target_timeframe_sec b \<and> bar_is_final e
    \<and> bar_open e = bar_open (hd (bab_bars b)) \<and> bar_close e = bar_close (last (bab_bars b))
    \<and> bar_high e = Max (bar_high ` set (bab_bars b)) \<and> bar_low e = Min (bar_low ` set (bab_bars b))
    \<and> (exact_sum add \<longrightarrow> bar_volume e = sum_list (map bar_volume (bab_bars b)))"
proof -
  obtain x xs where xs: "bab_bars b = x # xs" using assms(2) by (cases "bab_bars b") auto
  from assms(1) obtain h l v where f: "fold_bars add xs (bar_high x, bar_low x, bar_volume x) = Some (h, l, v)"
    and e: "bar_high e = h" "bar_low e = l" "bar_volume e = v" "bar_open_ts e = bab_bucket_open_ts b"
      "bar_close_ts e = bab_bucket_open_ts b + uint (bab_target_timeframe_sec b) * 1000000000"
      "bar_timeframe_sec e = bab_target_timeframe_sec b" "bar_is_final e" "bar_open e = bar_open x"
      "bar_close e = bar_close (last (x # xs))"
    by (auto simp: aggregate_def Let_def xs)
  from fold_bars_spec [OF f] e show ?thesis by (simp add: xs)
qed

text \<open>Minute bars and the like: of one timeframe, on its grid, lasting exactly that long.\<close>

definition grid_bar :: "u32 \<Rightarrow> bar \<Rightarrow> bool" where
  "grid_bar tf x \<longleftrightarrow> bar_timeframe_sec x = tf \<and> (\<exists>k. bar_open_ts x = k * (uint tf * 1000000000))
     \<and> bar_close_ts x = bar_open_ts x + uint tf * 1000000000"

definition floor_seconds :: "(timestamp \<Rightarrow> int) \<Rightarrow> bool" where
  "floor_seconds to_secs \<longleftrightarrow> (\<forall>t. to_secs t * 1000000000 \<le> t \<and> t < (to_secs t + 1) * 1000000000)"

definition exact_seconds :: "(int \<Rightarrow> timestamp option) \<Rightarrow> bool" where
  "exact_seconds of_secs \<longleftrightarrow> (\<forall>s t. of_secs s = Some t \<longrightarrow> t = s * 1000000000)"

lemma floor_seconds_exact: "floor_seconds to_secs \<Longrightarrow> to_secs (s * 1000000000) = s"
  by (smt (verit) floor_seconds_def mult_right_cancel mult_strict_right_mono)

lemma grid_bars_opens:
  "successively follows xs \<Longrightarrow> \<forall>x \<in> set xs. grid_bar tf x \<Longrightarrow> i < length xs \<Longrightarrow>
     bar_open_ts (xs ! i) = bar_open_ts (hd xs) + int i * (uint tf * 1000000000)"
proof (induction i)
  case 0
  then show ?case by (simp add: hd_conv_nth)
next
  case (Suc i)
  then have "bar_open_ts (xs ! Suc i) = bar_close_ts (xs ! i)"
    by (simp add: successively_conv_nth)
  also have "\<dots> = bar_open_ts (xs ! i) + uint tf * 1000000000"
    using Suc.prems(2,3) by (simp add: grid_bar_def)
  finally show ?case using Suc by (simp add: algebra_simps)
qed

lemma bucket_bounds:
  assumes "bucket_open_ts to_secs of_secs t target = Some b" "target \<noteq> 0"
    and "floor_seconds to_secs" "exact_seconds of_secs" "t = s * 1000000000"
  shows "b \<le> t \<and> t < b + uint target * 1000000000 \<and> (\<exists>m. b = m * (uint target * 1000000000))"
proof -
  have pos: "0 < uint target" using assms(2) by (intro uint_pos) (simp add: uint_0_iff)
  have "b = (s - s mod uint target) * 1000000000"
  proof -
    have "of_secs (s - s mod uint target) = Some b"
      using assms(1,5) floor_seconds_exact [OF assms(3), of s] by (simp add: bucket_open_ts_def)
    then show ?thesis using assms(4) unfolding exact_seconds_def by blast
  qed
  moreover have "0 \<le> s mod uint target" "s mod uint target < uint target" using pos by simp_all
  moreover have "s - s mod uint target = s div uint target * uint target"
    by (simp add: minus_mod_eq_div_mult)
  ultimately show ?thesis by (auto simp: assms(5))
qed

lemma grid_bucket_covers:
  assumes ok: "bucket_bars_ok num_s to_secs of_secs target b xs"
    and grid: "\<forall>x \<in> set xs. grid_bar tf x"
    and len: "length xs = unat (target div tf)"
    and secs: "floor_seconds to_secs" "exact_seconds of_secs"
  shows "bar_open_ts (hd xs) = b \<and> bar_close_ts (last xs) = b + uint target * 1000000000
    \<and> int (length xs) * uint tf = uint target"
proof -
  let ?u = "uint tf * 1000000000"
  have ne: "xs \<noteq> []" and succ: "successively follows xs" using ok by (simp_all add: bucket_bars_ok_def)
  from ne grid have hd: "grid_bar tf (hd xs)" and last: "grid_bar tf (last xs)" by simp_all
  have v: "validate_source_bar num_s (hd xs) target = Inr ()"
    and bh: "bucket_open_ts to_secs of_secs (bar_open_ts (hd xs)) target = Some b"
    and bl: "bucket_open_ts to_secs of_secs (bar_open_ts (last xs)) target = Some b"
    using ok ne by (simp_all add: bucket_bars_ok_def)
  from v hd have tf: "tf \<noteq> 0" "target \<noteq> 0" "target mod tf = 0"
    by (auto simp: validate_source_bar_def grid_bar_def split: if_splits)
  have pos: "0 < uint tf" using tf(1) by (intro uint_pos) (simp add: uint_0_iff)
  have n: "int (length xs) * uint tf = uint target"
  proof -
    have "uint target mod uint tf = 0" using tf(3) by (metis uint_0_eq uint_mod_distrib)
    then have "uint target div uint tf * uint tf = uint target" by (metis mult_div_mod_eq add_0_right mult.commute)
    then show ?thesis by (simp add: len uint_div flip: uint_nat)
  qed
  obtain k where k: "bar_open_ts (hd xs) = k * ?u" using hd by (auto simp: grid_bar_def)
  obtain kl where kl: "bar_open_ts (last xs) = kl * ?u" using last by (auto simp: grid_bar_def)
  have lo: "b \<le> bar_open_ts (hd xs)" and mult: "\<exists>m. b = m * (uint target * 1000000000)"
    using bucket_bounds [OF bh tf(2) secs, of "k * uint tf"] k by (simp_all add: mult.assoc)
  have hi: "bar_open_ts (last xs) < b + uint target * 1000000000"
    using bucket_bounds [OF bl tf(2) secs, of "kl * uint tf"] kl by (simp add: mult.assoc)
  from mult obtain j where "b = j * (uint target * 1000000000)" by blast
  then have m: "b = (j * int (length xs)) * ?u" unfolding n [symmetric] by simp
  have op: "bar_open_ts (last xs) = bar_open_ts (hd xs) + (int (length xs) - 1) * ?u"
    using grid_bars_opens [OF succ grid, of "length xs - 1"] ne
    by (simp add: last_conv_nth of_nat_diff Suc_leI)
  have tot: "uint target * 1000000000 = int (length xs) * ?u" unfolding n [symmetric] by simp
  define m where "m = j * int (length xs)"
  have m: "b = m * ?u" using m by (simp add: m_def)
  have "k * ?u < (m + 1) * ?u" using op hi tot k m by (simp add: algebra_simps)
  moreover have "m * ?u \<le> k * ?u" using lo k m by simp
  ultimately have "k = m" using pos by simp
  then have first: "bar_open_ts (hd xs) = b" using k m by simp
  moreover have "bar_close_ts (last xs) = bar_open_ts (last xs) + ?u" using last by (simp add: grid_bar_def)
  ultimately show ?thesis using op tot n by (simp add: algebra_simps)
qed

section \<open>Properties\<close>


definition sample_instrument :: instrument_id where
  "sample_instrument = \<lparr> ins_symbol = ''IMOEXF'', ins_venue_symbol = None,
     ins_exchange = Moex, ins_market = Futures \<rparr>"

definition sample_bar :: "u32 \<Rightarrow> int \<Rightarrow> bar" where
  "sample_bar tf secs = \<lparr> bar_instrument = sample_instrument, bar_source_kind = LiveStream,
     bar_timeframe_sec = tf, bar_open_ts = secs * 1000000000,
     bar_close_ts = (secs + uint tf) * 1000000000, bar_open = 10, bar_high = 12, bar_low = 9,
     bar_close = 11, bar_volume = 3, bar_is_final = True \<rparr>"

definition aggregated_bar :: "u32 \<Rightarrow> int \<Rightarrow> rat \<Rightarrow> bar" where
  "aggregated_bar tf secs v = (sample_bar tf secs) \<lparr> bar_volume := v \<rparr>"

definition sample_secs :: "timestamp \<Rightarrow> int" where
  "sample_secs t = t div 1000000000"

definition sample_of_secs :: "int \<Rightarrow> timestamp option" where
  "sample_of_secs s = Some (s * 1000000000)"

definition sample_add :: "decimal \<Rightarrow> decimal \<Rightarrow> decimal option" where
  "sample_add x y = Some (x + y)"

lemmas sample_evaluation = observe_final_source_bar_def aggregator_new_def validate_source_bar_def
  bucket_open_ts_def can_accept_def bucket_push_def bucket_is_complete_def expected_count_def
  aggregate_def sample_bar_def aggregated_bar_def sample_secs_def sample_of_secs_def sample_add_def
  trunc_units_def Let_def

lemma sample_run:
  "run_aggregator (trunc_units 1000000000) sample_secs sample_of_secs sample_add (aggregator_new 120)
     [sample_bar 60 120, sample_bar 60 180]
   = Some (aggregator_new 120, [Buffered 120000000000 1, Emitted (aggregated_bar 120 120 6)])"
  by (simp add: sample_evaluation)


text \<open>With mixed timeframes the aggregator can call a bucket complete that is not: a
  five-minute and a one-minute bar, each valid and contiguous, are emitted as a closed
  ten-minute bar although they cover its first six minutes only.\<close>

theorem aggregator_mixed_timeframes_incomplete:
  "run_aggregator (trunc_units 1000000000) sample_secs sample_of_secs sample_add (aggregator_new 600)
     [sample_bar 300 600, sample_bar 60 900]
   = Some (aggregator_new 600, [Buffered 600000000000 1, Emitted (aggregated_bar 600 600 6)])
   \<and> bar_is_final (aggregated_bar 600 600 6)
   \<and> bar_close_ts (sample_bar 60 900) = 960 * 1000000000
   \<and> bar_close_ts (aggregated_bar 600 600 6) = 1200 * 1000000000"
  by (simp add: sample_evaluation)

text \<open>C13: The finalizer hands a strategy the closed bars of a live stream, each once and in
  order. Whatever bars arrive, forming or final, in any order and with duplicates, the live bars
  it emits are final and, per stream (instrument, timeframe, source), strictly increasing in open
  time. When the open times of a stream do not go back it emits exactly \<open>closed_bars\<close>: the first
  final bar of each open time, and the last version of a forming bar that a forming bar of a
  later open time follows directly, unless its open time has had a final bar. A forming bar that
  is directly followed by a final bar of a later open time is not among them.\<close>

theorem finalizer_emits_in_order:
  "run_finalizer empty_finalizer xs = (f, es) \<Longrightarrow>
     sorted_wrt (<) (live_open_ts key es)
     \<and> (\<forall>e \<in> set es. bar_source_kind e = LiveStream \<longrightarrow> bar_is_final e)
     \<and> (sorted (map bar_open_ts (live_bars key xs))
           \<longrightarrow> live_bars key es = closed_bars [] (live_bars key xs))"
  using run_finalizer_increasing [of empty_finalizer xs f es key]
    run_finalizer_closed_bars [of empty_finalizer xs f es key "[]"]
  by (simp add: knows_stream_empty live_bars_def)

abbreviation forming_sample :: "int \<Rightarrow> decimal \<Rightarrow> bar" where
  "forming_sample secs v \<equiv> (sample_bar 60 secs) \<lparr> bar_is_final := False, bar_volume := v \<rparr>"

abbreviation mixed_stream :: "bar list" where
  "mixed_stream \<equiv> [forming_sample 0 1, forming_sample 0 2, forming_sample 60 3, sample_bar 60 60,
     sample_bar 60 60, sample_bar 60 120]"

theorem finalizer_emits_in_order_witness:
  "live_open_ts (stream_key_of_bar (sample_bar 60 0)) (snd (run_finalizer empty_finalizer mixed_stream))
     = [0, 60000000000, 120000000000]
   \<and> sorted_wrt (<) (live_open_ts (stream_key_of_bar (sample_bar 60 0))
        (snd (run_finalizer empty_finalizer mixed_stream)))
   \<and> live_bars (stream_key_of_bar (sample_bar 60 0)) (snd (run_finalizer empty_finalizer mixed_stream))
     = [(sample_bar 60 0) \<lparr> bar_volume := 2 \<rparr>, sample_bar 60 60, sample_bar 60 120]"
proof -
  let ?key = "stream_key_of_bar (sample_bar 60 0)"
  obtain f es where run: "run_finalizer empty_finalizer mixed_stream = (f, es)" by (metis surj_pair)
  have live: "live_bars ?key mixed_stream = mixed_stream"
    by (simp add: live_bars_def stream_key_of_bar_def sample_bar_def)
  have "closed_bars [] mixed_stream
      = [(sample_bar 60 0) \<lparr> bar_volume := 2 \<rparr>, sample_bar 60 60, sample_bar 60 120]"
    by (simp add: closed_by_def has_final_def sample_bar_def)
  moreover have "sorted (map bar_open_ts mixed_stream)" by (simp add: sample_bar_def)
  ultimately have es: "live_bars ?key es
      = [(sample_bar 60 0) \<lparr> bar_volume := 2 \<rparr>, sample_bar 60 60, sample_bar 60 120]"
    using finalizer_emits_in_order [OF run, of ?key] live by metis
  then have "live_open_ts ?key es = [0, 60000000000, 120000000000]"
    by (simp add: live_open_ts_def live_bars_def sample_bar_def)
  with es show ?thesis unfolding run by simp
qed

end
