(* ===== verification/MarketRecovery.thy ===== *)
theory MarketRecovery
  imports Contracts
begin

text \<open>
  When market data may be called live: the lifecycle phase of a running feed
  (\<open>market_data_lifecycle.rs\<close>) and the plan and verdict of a recovery after downtime
  (\<open>market_data_recovery.rs\<close>). \<open>num_s\<close> is chrono's \<open>num_seconds\<close>. A snapshot or report
  has the fields of its input and its verdict, so it is a record extension of them.
\<close>

section \<open>Lifecycle of a feed\<close>

datatype market_data_lifecycle_phase =
  FeedLoadingHistory | FeedSyncingGap | FeedLiveSubscribing | FeedLiveReady | FeedDegraded

datatype market_data_lifecycle_blocker =
    BarsSubscriptionDisabled | TransportDisconnectedBlocker | NoLiveBarsObserved
  | NoFinalLiveBarsObserved | MarketDataStale | RestDataNotStrategySource

record market_data_lifecycle_input =
  mli_bars_subscription_enabled :: bool
  mli_quotes_subscription_enabled :: bool
  mli_transport_connected :: bool
  mli_strategy_source_kind :: market_data_source_kind
  mli_rest_bars_used_for_strategy :: bool
  mli_rest_market_data_used_for_strategy :: bool
  mli_history_bar_count :: u64
  mli_recovery_bar_count :: u64
  mli_live_bar_count :: u64
  mli_live_final_bar_count :: u64
  mli_live_forming_bar_count :: u64
  mli_quote_count :: u64
  mli_first_live_bar_seen :: bool
  mli_first_live_final_bar_seen :: bool
  mli_first_live_final_bar_close_ts :: "timestamp option"
  mli_last_history_bar_close_ts :: "timestamp option"
  mli_last_recovery_bar_close_ts :: "timestamp option"
  mli_last_live_bar_close_ts :: "timestamp option"
  mli_last_final_live_bar_close_ts :: "timestamp option"
  mli_stale_after_sec :: "u64 option"
  mli_checked_ts :: timestamp

record market_data_lifecycle_snapshot = market_data_lifecycle_input +
  mls_phase :: market_data_lifecycle_phase
  mls_blockers :: "market_data_lifecycle_blocker list"
  mls_live_bar_stale_for_sec :: "u64 option"

definition stale_for_sec ::
    "(duration \<Rightarrow> int) \<Rightarrow> timestamp option \<Rightarrow> u64 option \<Rightarrow> timestamp \<Rightarrow> u64 option" where
  "stale_for_sec num_s last_close stale_after checked_ts =
     Option.bind stale_after (\<lambda>limit.
     Option.bind last_close (\<lambda>closed.
       let age_sec = num_s (checked_ts - closed) in
       if age_sec \<le> as_i64 limit then None else Some (i64_as_u64 (age_sec - as_i64 limit))))"

definition lifecycle_blockers ::
    "(duration \<Rightarrow> int) \<Rightarrow> market_data_lifecycle_input \<Rightarrow> market_data_lifecycle_blocker list" where
  "lifecycle_blockers num_s input =
     (if \<not> mli_bars_subscription_enabled input then [BarsSubscriptionDisabled] else [])
   @ (if \<not> mli_transport_connected input then [TransportDisconnectedBlocker] else [])
   @ (if mli_rest_bars_used_for_strategy input \<or> mli_rest_market_data_used_for_strategy input
      then [RestDataNotStrategySource] else [])
   @ (if mli_live_bar_count input = 0 then [NoLiveBarsObserved] else [])
   @ (if mli_live_final_bar_count input = 0 then [NoFinalLiveBarsObserved] else [])
   @ (if stale_for_sec num_s (mli_last_live_bar_close_ts input) (mli_stale_after_sec input)
           (mli_checked_ts input) \<noteq> None
      then [MarketDataStale] else [])"

definition lifecycle_phase ::
    "market_data_lifecycle_input \<Rightarrow> market_data_lifecycle_blocker list \<Rightarrow> market_data_lifecycle_phase" where
  "lifecycle_phase input blockers =
     (if list_ex (\<lambda>b. b \<in> {BarsSubscriptionDisabled, TransportDisconnectedBlocker,
                            MarketDataStale, RestDataNotStrategySource}) blockers
      then FeedDegraded
      else if 0 < mli_live_final_bar_count input then FeedLiveReady
      else if 0 < mli_recovery_bar_count input then FeedSyncingGap
      else if 0 < mli_history_bar_count input then FeedLoadingHistory
      else FeedLiveSubscribing)"

definition evaluate_market_data_lifecycle ::
    "(duration \<Rightarrow> int) \<Rightarrow> market_data_lifecycle_input \<Rightarrow> market_data_lifecycle_snapshot" where
  "evaluate_market_data_lifecycle num_s input =
     market_data_lifecycle_input.extend input
       (market_data_lifecycle_snapshot.fields
          (lifecycle_phase input (lifecycle_blockers num_s input))
          (lifecycle_blockers num_s input)
          (stale_for_sec num_s (mli_last_live_bar_close_ts input) (mli_stale_after_sec input)
             (mli_checked_ts input)))"

section \<open>Recovery after downtime\<close>

datatype market_data_recovery_mode = Cold | Warm

datatype market_data_recovery_phase =
    RecoveryLoadingHistory | RecoverySyncingGap | RecoveryLiveSubscribing
  | RecoveryLiveReady | RecoveryDegraded

datatype market_data_recovery_blocker =
    InvalidTimeframe | ReplayWindowMissing | ReplayWindowDoesNotCoverWatermark
  | ReplayMissing | ReplayNotContiguousToWatermark | ReplayGapDetected
  | RecoveryTransportDisconnected | LiveSubscriptionMissing | FirstLiveFinalBarMissing
  | FirstLiveFinalBeforeReplayEnd | GapAbsenceNotProven

record market_data_recovery_plan_input =
  mrp_timeframe_sec :: u32
  mrp_overlap_bars :: u32
  mrp_last_final_bar_close_ts :: "timestamp option"
  mrp_cold_history_from_ts :: timestamp
  mrp_checked_ts :: timestamp

record market_data_recovery_plan =
  plan_mode :: market_data_recovery_mode
  plan_replay_from_ts :: timestamp
  plan_replay_to_ts :: timestamp
  plan_overlap_bars :: u32
  plan_last_final_bar_close_ts :: "timestamp option"
  plan_invalid_timeframe :: bool

definition plan_market_data_recovery ::
    "market_data_recovery_plan_input \<Rightarrow> market_data_recovery_plan" where
  "plan_market_data_recovery input =
     (if mrp_timeframe_sec input = 0
      then \<lparr> plan_mode = Cold, plan_replay_from_ts = mrp_cold_history_from_ts input,
             plan_replay_to_ts = mrp_checked_ts input, plan_overlap_bars = mrp_overlap_bars input,
             plan_last_final_bar_close_ts = mrp_last_final_bar_close_ts input,
             plan_invalid_timeframe = True \<rparr>
      else \<lparr> plan_mode = (if mrp_last_final_bar_close_ts input \<noteq> None then Warm else Cold),
             plan_replay_from_ts = (case mrp_last_final_bar_close_ts input of
                None \<Rightarrow> mrp_cold_history_from_ts input
              | Some ts \<Rightarrow> ts - uint (mrp_timeframe_sec input) * uint (mrp_overlap_bars input) * 1000000000),
             plan_replay_to_ts = mrp_checked_ts input, plan_overlap_bars = mrp_overlap_bars input,
             plan_last_final_bar_close_ts = mrp_last_final_bar_close_ts input,
             plan_invalid_timeframe = False \<rparr>)"

text \<open>The fields an input and its report share.\<close>

record market_data_recovery_facts =
  mrf_mode :: market_data_recovery_mode
  mrf_timeframe_sec :: u32
  mrf_generation :: u64
  mrf_last_final_bar_close_ts :: "timestamp option"
  mrf_replay_from_ts :: "timestamp option"
  mrf_replay_to_ts :: "timestamp option"
  mrf_replay_bar_count :: u64
  mrf_replay_first_bar_close_ts :: "timestamp option"
  mrf_replay_last_bar_close_ts :: "timestamp option"
  mrf_overlap_dedup_bar_count :: u64
  mrf_transport_connected :: bool
  mrf_live_subscription_sent :: bool
  mrf_live_subscription_confirmed :: bool
  mrf_first_live_final_bar_close_ts :: "timestamp option"
  mrf_checked_ts :: timestamp

record market_data_recovery_input = market_data_recovery_facts +
  mri_replay_gap_detected :: bool

record market_data_recovery_report = market_data_recovery_facts +
  mrr_phase :: market_data_recovery_phase
  mrr_blockers :: "market_data_recovery_blocker list"
  mrr_gap_absence_proven :: bool

definition replay_window_covers_watermark ::
    "timestamp option \<Rightarrow> timestamp option \<Rightarrow> timestamp option \<Rightarrow> bool" where
  "replay_window_covers_watermark replay_from replay_to last_final =
     (case last_final of
        None \<Rightarrow> True
      | Some watermark \<Rightarrow>
          (case (replay_from, replay_to) of
             (Some lo, Some hi) \<Rightarrow> lo \<le> watermark \<and> watermark \<le> hi
           | _ \<Rightarrow> False))"

definition replay_is_contiguous_to_watermark ::
    "u32 \<Rightarrow> timestamp option \<Rightarrow> timestamp option \<Rightarrow> timestamp option \<Rightarrow> bool" where
  "replay_is_contiguous_to_watermark timeframe_sec last_final replay_first replay_last =
     (case last_final of
        None \<Rightarrow> True
      | Some watermark \<Rightarrow>
          if timeframe_sec = 0 then False
          else (case (replay_first, replay_last) of
             (Some first, Some latest) \<Rightarrow>
               first \<le> watermark \<and> watermark + uint timeframe_sec * 1000000000 \<le> latest
           | _ \<Rightarrow> False))"

definition first_live_before_replay_end :: "timestamp option \<Rightarrow> timestamp option \<Rightarrow> bool" where
  "first_live_before_replay_end first_live replay_last =
     (case (first_live, replay_last) of
        (Some live, Some replayed) \<Rightarrow> live < replayed
      | _ \<Rightarrow> False)"

definition recovery_checks :: "market_data_recovery_input \<Rightarrow> market_data_recovery_blocker list" where
  "recovery_checks input =
     (if mrf_timeframe_sec input = 0 then [InvalidTimeframe] else [])
   @ (if mrf_replay_from_ts input = None \<or> mrf_replay_to_ts input = None then [ReplayWindowMissing] else [])
   @ (if \<not> replay_window_covers_watermark (mrf_replay_from_ts input) (mrf_replay_to_ts input)
           (mrf_last_final_bar_close_ts input)
      then [ReplayWindowDoesNotCoverWatermark] else [])
   @ (if mrf_mode input = Warm \<and> mrf_replay_bar_count input = 0 then [ReplayMissing] else [])
   @ (if \<not> replay_is_contiguous_to_watermark (mrf_timeframe_sec input)
           (mrf_last_final_bar_close_ts input) (mrf_replay_first_bar_close_ts input)
           (mrf_replay_last_bar_close_ts input)
      then [ReplayNotContiguousToWatermark] else [])
   @ (if mri_replay_gap_detected input then [ReplayGapDetected] else [])
   @ (if \<not> mrf_transport_connected input then [RecoveryTransportDisconnected] else [])
   @ (if \<not> mrf_live_subscription_sent input \<or> \<not> mrf_live_subscription_confirmed input
      then [LiveSubscriptionMissing] else [])
   @ (if mrf_first_live_final_bar_close_ts input = None then [FirstLiveFinalBarMissing] else [])
   @ (if first_live_before_replay_end (mrf_first_live_final_bar_close_ts input)
           (mrf_replay_last_bar_close_ts input)
      then [FirstLiveFinalBeforeReplayEnd] else [])"

definition gap_blockers :: "market_data_recovery_blocker set" where
  "gap_blockers = {InvalidTimeframe, ReplayWindowMissing, ReplayWindowDoesNotCoverWatermark,
     ReplayMissing, ReplayNotContiguousToWatermark, ReplayGapDetected, FirstLiveFinalBeforeReplayEnd}"

definition degrading_blockers :: "market_data_recovery_blocker set" where
  "degrading_blockers = {InvalidTimeframe, ReplayWindowMissing, ReplayWindowDoesNotCoverWatermark,
     ReplayGapDetected, RecoveryTransportDisconnected, FirstLiveFinalBeforeReplayEnd}"

definition recovery_phase ::
    "market_data_recovery_input \<Rightarrow> market_data_recovery_blocker list \<Rightarrow> bool
       \<Rightarrow> market_data_recovery_phase" where
  "recovery_phase input blockers gap_absence_proven =
     (if list_ex (\<lambda>b. b \<in> degrading_blockers) blockers then RecoveryDegraded
      else if gap_absence_proven \<and> mrf_live_subscription_sent input
         \<and> mrf_live_subscription_confirmed input \<and> mrf_first_live_final_bar_close_ts input \<noteq> None
      then RecoveryLiveReady
      else if 0 < mrf_replay_bar_count input \<or> mrf_mode input = Warm then RecoverySyncingGap
      else if mrf_mode input = Cold then RecoveryLoadingHistory
      else RecoveryLiveSubscribing)"

definition evaluate_market_data_recovery ::
    "market_data_recovery_input \<Rightarrow> market_data_recovery_report" where
  "evaluate_market_data_recovery input =
     (let checks = recovery_checks input;
          proven = list_all (\<lambda>b. b \<notin> gap_blockers) checks;
          blockers = checks @ (if proven then [] else [GapAbsenceNotProven])
      in market_data_recovery_facts.extend (market_data_recovery_facts.truncate input)
           (market_data_recovery_report.fields (recovery_phase input blockers proven) blockers proven))"

section \<open>Facts\<close>

lemma lifecycle_snapshot_simps [simp]:
  "mls_phase (evaluate_market_data_lifecycle num_s input)
     = lifecycle_phase input (lifecycle_blockers num_s input)"
  "mls_blockers (evaluate_market_data_lifecycle num_s input) = lifecycle_blockers num_s input"
  "mls_live_bar_stale_for_sec (evaluate_market_data_lifecycle num_s input)
     = stale_for_sec num_s (mli_last_live_bar_close_ts input) (mli_stale_after_sec input)
         (mli_checked_ts input)"
  by (simp_all add: evaluate_market_data_lifecycle_def market_data_lifecycle_input.extend_def
      market_data_lifecycle_snapshot.fields_def)

lemma stale_for_sec_None:
  "stale_for_sec num_s last_close stale_after checked_ts = None \<longleftrightarrow>
     (\<forall>limit closed. stale_after = Some limit \<longrightarrow> last_close = Some closed \<longrightarrow>
        num_s (checked_ts - closed) \<le> as_i64 limit)"
  by (cases stale_after; cases last_close) (auto simp: stale_for_sec_def Let_def)

lemma recovery_report_simps [simp]:
  "mrr_phase (evaluate_market_data_recovery input)
     = recovery_phase input (mrr_blockers (evaluate_market_data_recovery input))
         (mrr_gap_absence_proven (evaluate_market_data_recovery input))"
  "mrr_blockers (evaluate_market_data_recovery input)
     = recovery_checks input
       @ (if list_all (\<lambda>b. b \<notin> gap_blockers) (recovery_checks input) then [] else [GapAbsenceNotProven])"
  "mrr_gap_absence_proven (evaluate_market_data_recovery input)
     = list_all (\<lambda>b. b \<notin> gap_blockers) (recovery_checks input)"
  by (simp_all add: evaluate_market_data_recovery_def market_data_recovery_facts.extend_def
      market_data_recovery_facts.truncate_def market_data_recovery_report.fields_def Let_def)

text \<open>All checks of a recovery passed, one by one.\<close>

definition recovery_facts_ok :: "market_data_recovery_input \<Rightarrow> bool" where
  "recovery_facts_ok input \<longleftrightarrow>
     mrf_timeframe_sec input \<noteq> 0 \<and>
     mrf_replay_from_ts input \<noteq> None \<and> mrf_replay_to_ts input \<noteq> None \<and>
     replay_window_covers_watermark (mrf_replay_from_ts input) (mrf_replay_to_ts input)
       (mrf_last_final_bar_close_ts input) \<and>
     (mrf_mode input = Warm \<longrightarrow> mrf_replay_bar_count input \<noteq> 0) \<and>
     replay_is_contiguous_to_watermark (mrf_timeframe_sec input) (mrf_last_final_bar_close_ts input)
       (mrf_replay_first_bar_close_ts input) (mrf_replay_last_bar_close_ts input) \<and>
     \<not> mri_replay_gap_detected input \<and> mrf_transport_connected input \<and>
     mrf_live_subscription_sent input \<and> mrf_live_subscription_confirmed input \<and>
     mrf_first_live_final_bar_close_ts input \<noteq> None \<and>
     \<not> first_live_before_replay_end (mrf_first_live_final_bar_close_ts input)
         (mrf_replay_last_bar_close_ts input)"

lemma recovery_checks_Nil: "recovery_checks input = [] \<longleftrightarrow> recovery_facts_ok input"
  by (auto simp: recovery_checks_def recovery_facts_ok_def)

lemma recovery_checks_live:
  "LiveSubscriptionMissing \<in> set (recovery_checks input) \<longleftrightarrow>
     \<not> mrf_live_subscription_sent input \<or> \<not> mrf_live_subscription_confirmed input"
  "FirstLiveFinalBarMissing \<in> set (recovery_checks input) \<longleftrightarrow>
     mrf_first_live_final_bar_close_ts input = None"
  "GapAbsenceNotProven \<notin> set (recovery_checks input)"
  by (auto simp: recovery_checks_def)

lemma recovery_live_ready:
  "mrr_phase (evaluate_market_data_recovery input) = RecoveryLiveReady \<longleftrightarrow>
     mrr_blockers (evaluate_market_data_recovery input) = []"
proof
  assume ready: "mrr_phase (evaluate_market_data_recovery input) = RecoveryLiveReady"
  let ?cs = "recovery_checks input"
  have proven: "list_all (\<lambda>b. b \<notin> gap_blockers) ?cs"
    and live: "mrf_live_subscription_sent input" "mrf_live_subscription_confirmed input"
      "mrf_first_live_final_bar_close_ts input \<noteq> None"
    and clean: "\<not> list_ex (\<lambda>b. b \<in> degrading_blockers) ?cs"
    using ready by (auto simp: recovery_phase_def split: if_splits)
  have "b \<notin> set ?cs" for b
    using proven clean live recovery_checks_live [of input]
    by (cases b) (auto simp: list_all_iff list_ex_iff gap_blockers_def degrading_blockers_def)
  then have "?cs = []" by (metis all_not_in_conv set_empty)
  with proven show "mrr_blockers (evaluate_market_data_recovery input) = []" by simp
next
  assume "mrr_blockers (evaluate_market_data_recovery input) = []"
  then have none: "recovery_checks input = []" by simp
  then have "recovery_facts_ok input" by (simp only: recovery_checks_Nil)
  with none show "mrr_phase (evaluate_market_data_recovery input) = RecoveryLiveReady"
    by (simp add: recovery_phase_def recovery_facts_ok_def)
qed

section \<open>Properties\<close>

text \<open>A feed is called live exactly when it may be traded on: bars are subscribed, the
  transport is up, no REST data feeds the strategy, a final live bar has been seen, and the
  last live bar is not older than the limit; and then every blocker left over is about
  live bars not yet counted.\<close>

theorem feed_live_ready:
  "(mls_phase (evaluate_market_data_lifecycle num_s input) = FeedLiveReady) =
     (mli_bars_subscription_enabled input \<and> mli_transport_connected input
      \<and> \<not> mli_rest_bars_used_for_strategy input \<and> \<not> mli_rest_market_data_used_for_strategy input
      \<and> 0 < mli_live_final_bar_count input
      \<and> mls_live_bar_stale_for_sec (evaluate_market_data_lifecycle num_s input) = None)
   \<and> (mls_phase (evaluate_market_data_lifecycle num_s input) = FeedLiveReady
      \<longrightarrow> mls_blockers (evaluate_market_data_lifecycle num_s input)
            = (if mli_live_bar_count input = 0 then [NoLiveBarsObserved] else []))"
  by (auto simp: lifecycle_phase_def lifecycle_blockers_def word_gt_0)

definition sample_feed :: market_data_lifecycle_input where
  "sample_feed = \<lparr> mli_bars_subscription_enabled = True, mli_quotes_subscription_enabled = False,
     mli_transport_connected = True, mli_strategy_source_kind = LiveStream,
     mli_rest_bars_used_for_strategy = False, mli_rest_market_data_used_for_strategy = False,
     mli_history_bar_count = 10, mli_recovery_bar_count = 0, mli_live_bar_count = 3,
     mli_live_final_bar_count = 2, mli_live_forming_bar_count = 1, mli_quote_count = 0,
     mli_first_live_bar_seen = True, mli_first_live_final_bar_seen = True,
     mli_first_live_final_bar_close_ts = Some 0, mli_last_history_bar_close_ts = None,
     mli_last_recovery_bar_close_ts = None, mli_last_live_bar_close_ts = Some 60000000000,
     mli_last_final_live_bar_close_ts = Some 60000000000, mli_stale_after_sec = Some 120,
     mli_checked_ts = 90000000000 \<rparr>"

theorem feed_live_ready_witness:
  "mls_phase (evaluate_market_data_lifecycle (trunc_units 1000000000) sample_feed) = FeedLiveReady
   \<and> mls_blockers (evaluate_market_data_lifecycle (trunc_units 1000000000) sample_feed) = []"
proof -
  have "mls_phase (evaluate_market_data_lifecycle (trunc_units 1000000000) sample_feed) = FeedLiveReady"
    by (simp add: lifecycle_phase_def lifecycle_blockers_def sample_feed_def stale_for_sec_def
        trunc_units_def as_i64_def)
  with feed_live_ready [of "trunc_units 1000000000" sample_feed] show ?thesis
    by (simp add: sample_feed_def)
qed

text \<open>C14: A recovery is declared live exactly when nothing blocks it, and then the replay window
  holds the last final bar known before the downtime, the replay reaches back to it and
  at least one bar beyond, no gap was reported, the subscription is confirmed, and the
  first live bar does not precede the end of the replay. The phase \<open>LiveSubscribing\<close> is
  never reported.\<close>

theorem recovery_live_ready_sound:
  "(mrr_phase (evaluate_market_data_recovery input) = RecoveryLiveReady)
      = (mrr_blockers (evaluate_market_data_recovery input) = [])
   \<and> (mrr_phase (evaluate_market_data_recovery input) = RecoveryLiveReady) = recovery_facts_ok input
   \<and> mrr_phase (evaluate_market_data_recovery input) \<noteq> RecoveryLiveSubscribing
   \<and> (\<forall>watermark. recovery_facts_ok input \<longrightarrow> mrf_last_final_bar_close_ts input = Some watermark \<longrightarrow>
        (\<exists>start end first latest live. mrf_replay_from_ts input = Some start
           \<and> mrf_replay_to_ts input = Some end \<and> start \<le> watermark \<and> watermark \<le> end
           \<and> mrf_replay_first_bar_close_ts input = Some first
           \<and> mrf_replay_last_bar_close_ts input = Some latest \<and> first \<le> watermark
           \<and> watermark + uint (mrf_timeframe_sec input) * 1000000000 \<le> latest
           \<and> mrf_first_live_final_bar_close_ts input = Some live \<and> latest \<le> live))"
proof -
  have "mrr_phase (evaluate_market_data_recovery input) \<noteq> RecoveryLiveSubscribing"
    by (cases "mrf_mode input") (auto simp: recovery_phase_def)
  moreover have "(mrr_blockers (evaluate_market_data_recovery input) = []) = recovery_facts_ok input"
    using recovery_checks_Nil [of input] by auto
  moreover have "\<forall>watermark. recovery_facts_ok input \<longrightarrow> mrf_last_final_bar_close_ts input = Some watermark \<longrightarrow>
        (\<exists>start end first latest live. mrf_replay_from_ts input = Some start
           \<and> mrf_replay_to_ts input = Some end \<and> start \<le> watermark \<and> watermark \<le> end
           \<and> mrf_replay_first_bar_close_ts input = Some first
           \<and> mrf_replay_last_bar_close_ts input = Some latest \<and> first \<le> watermark
           \<and> watermark + uint (mrf_timeframe_sec input) * 1000000000 \<le> latest
           \<and> mrf_first_live_final_bar_close_ts input = Some live \<and> latest \<le> live)"
    by (auto simp: recovery_facts_ok_def replay_window_covers_watermark_def
        replay_is_contiguous_to_watermark_def first_live_before_replay_end_def not_less
        split: option.splits if_splits)
  ultimately show ?thesis using recovery_live_ready [of input] by blast
qed

definition sample_recovery :: "timestamp \<Rightarrow> market_data_recovery_input" where
  "sample_recovery first_live = \<lparr> mrf_mode = Warm, mrf_timeframe_sec = 60, mrf_generation = 1,
     mrf_last_final_bar_close_ts = Some 60000000000, mrf_replay_from_ts = Some 0,
     mrf_replay_to_ts = Some 180000000000, mrf_replay_bar_count = 3,
     mrf_replay_first_bar_close_ts = Some 60000000000,
     mrf_replay_last_bar_close_ts = Some 180000000000, mrf_overlap_dedup_bar_count = 1,
     mrf_transport_connected = True, mrf_live_subscription_sent = True,
     mrf_live_subscription_confirmed = True, mrf_first_live_final_bar_close_ts = Some first_live,
     mrf_checked_ts = 200000000000, mri_replay_gap_detected = False \<rparr>"

lemma sample_recovery_ok: "180000000000 \<le> first_live \<Longrightarrow> recovery_facts_ok (sample_recovery first_live)"
  by (simp add: recovery_facts_ok_def sample_recovery_def replay_window_covers_watermark_def
      replay_is_contiguous_to_watermark_def first_live_before_replay_end_def)

lemma sample_recovery_240: "recovery_facts_ok (sample_recovery 240000000000)"
  by (rule sample_recovery_ok) simp

theorem recovery_live_ready_sound_witness:
  "mrr_phase (evaluate_market_data_recovery (sample_recovery 240000000000)) = RecoveryLiveReady
   \<and> mrr_blockers (evaluate_market_data_recovery (sample_recovery 240000000000)) = []"
  using recovery_live_ready_sound [of "sample_recovery 240000000000"]
    sample_recovery_240 by blast

text \<open>The verdict does not look at the time between the end of the replay and the first live
  bar: for every distance there is a recovery whose first live bar comes that much later than
  the last replayed one, that reports the absence of a gap as proven, and that is declared
  live with no blocker.\<close>

theorem recovery_accepts_any_live_gap:
  "\<exists>input. mrf_replay_last_bar_close_ts input = Some 180000000000
     \<and> mrf_first_live_final_bar_close_ts input = Some (180000000000 + int distance)
     \<and> mrr_gap_absence_proven (evaluate_market_data_recovery input)
     \<and> mrr_phase (evaluate_market_data_recovery input) = RecoveryLiveReady"
proof -
  let ?input = "sample_recovery (180000000000 + int distance)"
  have ok: "recovery_facts_ok ?input" by (rule sample_recovery_ok) simp
  then have none: "recovery_checks ?input = []" by (simp only: recovery_checks_Nil)
  then have "mrr_blockers (evaluate_market_data_recovery ?input) = []" by simp
  with none show ?thesis
    by (intro exI [of _ ?input] conjI)
      (simp_all only: recovery_live_ready, simp_all add: sample_recovery_def)
qed

section \<open>The replay plan\<close>

text \<open>A planned replay covers the watermark: with a known last final bar not in the future, the
  window starts that many overlap bars before it, ends now, and covers it in the sense of the recovery's
  own check, for any timeframe and overlap.\<close>

theorem recovery_plan_covers_watermark:
  "mrp_last_final_bar_close_ts plan_input = Some watermark \<Longrightarrow> watermark \<le> mrp_checked_ts plan_input \<Longrightarrow>
   mrp_timeframe_sec plan_input \<noteq> 0 \<Longrightarrow>
     plan_mode (plan_market_data_recovery plan_input) = Warm
   \<and> \<not> plan_invalid_timeframe (plan_market_data_recovery plan_input)
   \<and> plan_replay_from_ts (plan_market_data_recovery plan_input)
       = watermark - uint (mrp_timeframe_sec plan_input) * uint (mrp_overlap_bars plan_input) * 1000000000
   \<and> replay_window_covers_watermark
       (Some (plan_replay_from_ts (plan_market_data_recovery plan_input)))
       (Some (plan_replay_to_ts (plan_market_data_recovery plan_input)))
       (plan_last_final_bar_close_ts (plan_market_data_recovery plan_input))"
  by (simp add: plan_market_data_recovery_def replay_window_covers_watermark_def)

theorem recovery_plan_covers_watermark_witness:
  "plan_replay_from_ts (plan_market_data_recovery
      \<lparr> mrp_timeframe_sec = 60, mrp_overlap_bars = 2, mrp_last_final_bar_close_ts = Some 600000000000,
        mrp_cold_history_from_ts = 0, mrp_checked_ts = 700000000000 \<rparr>) = 480000000000"
  using recovery_plan_covers_watermark [of
      "\<lparr> mrp_timeframe_sec = 60, mrp_overlap_bars = 2, mrp_last_final_bar_close_ts = Some 600000000000,
        mrp_cold_history_from_ts = 0, mrp_checked_ts = 700000000000 \<rparr>" 600000000000]
  by simp

end
