(* ===== verification/RuntimeState.thy ===== *)
theory RuntimeState
  imports Contracts "HOL-Library.List_Lexorder" "HOL-Library.Char_ord"
begin

text \<open>
  The state a strategy runtime restores and keeps (\<open>runtime_state.rs\<close>): validation of the
  bootstrap and of the saved state, the decision what a command acknowledgement does to the
  pending request, and the caches of orders and trades. A hash map is a finite map, whose
  iteration order is the parameter \<open>iter\<close>; a hash set is a set; lengths are \<open>nat\<close>.
\<close>

section \<open>Saved state and its validation\<close>

record runtime_order_event =
  roe_order_id :: broker_order_id
  roe_client_order_id :: "client_order_id option"
  roe_symbol :: "string option"
  roe_exchange :: "string option"
  roe_status :: "string option"
  roe_side :: "string option"
  roe_order_type :: "string option"
  roe_source_ts :: "timestamp option"

record runtime_trade_event =
  rte_trade_id :: broker_trade_id
  rte_order_id :: broker_order_id
  rte_client_order_id :: "client_order_id option"
  rte_symbol :: "string option"
  rte_exchange :: "string option"
  rte_side :: "string option"
  rte_source_ts :: "timestamp option"

record runtime_bootstrap_snapshot_dto =
  rbs_working_orders :: "broker_order_id \<rightharpoonup> runtime_order_event"
  rbs_working_orders_strategy :: "broker_order_id \<rightharpoonup> runtime_order_event"
  rbs_known_order_ids :: "broker_order_id list"
  rbs_account_wide_orders_count :: nat

record runtime_state_snapshot =
  rss_schema_version :: u16
  rss_broker_order_id_encoding :: string
  rss_legacy_alor_numeric_order_id_import :: string
  rss_orders :: "broker_order_id \<rightharpoonup> runtime_order_event"
  rss_known_order_ids :: "broker_order_id list"
  rss_trades :: "runtime_trade_event list"
  rss_pending_entry_request_id :: "strategy_request_id option"
  rss_pending_exit_request_id :: "strategy_request_id option"
  rss_deferred_entry_state :: "string option"
  rss_deferred_exit_state :: "string option"
  rss_manual_intervention_required :: bool
  rss_manual_intervention_reason :: "string option"

datatype readiness_blocker_kind = KnownOrderIdMissingFromOrders

record runtime_state_readiness_blocker =
  rrb_kind :: readiness_blocker_kind
  rrb_broker_order_id_len :: nat

record validated_runtime_state_snapshot =
  vrs_snapshot :: runtime_state_snapshot
  vrs_readiness_blockers :: "runtime_state_readiness_blocker list"

definition manual_intervention_required :: "validated_runtime_state_snapshot \<Rightarrow> bool" where
  "manual_intervention_required v \<longleftrightarrow>
     rss_manual_intervention_required (vrs_snapshot v) \<or> vrs_readiness_blockers v \<noteq> []"

datatype runtime_state_validation_error =
    OrderMapKeyMismatch string nat nat
  | DuplicateBrokerOrderIdIn string nat

definition runtime_state_new_v2 :: runtime_state_snapshot where
  "runtime_state_new_v2 = \<lparr> rss_schema_version = 2,
     rss_broker_order_id_encoding = ''broker_order_id_string'',
     rss_legacy_alor_numeric_order_id_import = ''decimal_string'',
     rss_orders = Map.empty, rss_known_order_ids = [], rss_trades = [],
     rss_pending_entry_request_id = None, rss_pending_exit_request_id = None,
     rss_deferred_entry_state = None, rss_deferred_exit_state = None,
     rss_manual_intervention_required = False, rss_manual_intervention_reason = None \<rparr>"

definition migrated_to_v2 :: "runtime_state_snapshot \<Rightarrow> runtime_state_snapshot" where
  "migrated_to_v2 s = s \<lparr> rss_schema_version := 2,
     rss_broker_order_id_encoding := ''broker_order_id_string'',
     rss_legacy_alor_numeric_order_id_import := ''decimal_string'' \<rparr>"

fun check_map_keys ::
    "string \<Rightarrow> (broker_order_id \<rightharpoonup> runtime_order_event) \<Rightarrow> broker_order_id list
       \<Rightarrow> runtime_state_validation_error + unit" where
  "check_map_keys map_name orders [] = Inr ()"
| "check_map_keys map_name orders (key # keys) =
     (case orders key of
        None \<Rightarrow> check_map_keys map_name orders keys
      | Some payload \<Rightarrow>
          if key \<noteq> roe_order_id payload
          then Inl (OrderMapKeyMismatch map_name (length (broker_order_id_str key))
                      (length (broker_order_id_str (roe_order_id payload))))
          else check_map_keys map_name orders keys)"

definition validate_order_event_map ::
    "(broker_order_id set \<Rightarrow> broker_order_id list) \<Rightarrow> string
       \<Rightarrow> (broker_order_id \<rightharpoonup> runtime_order_event) \<Rightarrow> runtime_state_validation_error + unit" where
  "validate_order_event_map iter map_name orders =
     check_map_keys map_name orders (iter (dom orders))"

fun check_unseen ::
    "string \<Rightarrow> broker_order_id set \<Rightarrow> broker_order_id list
       \<Rightarrow> runtime_state_validation_error + unit" where
  "check_unseen field seen [] = Inr ()"
| "check_unseen field seen (i # ids) =
     (if i \<in> seen then Inl (DuplicateBrokerOrderIdIn field (length (broker_order_id_str i)))
      else check_unseen field (insert i seen) ids)"

definition validate_unique_ids ::
    "string \<Rightarrow> broker_order_id list \<Rightarrow> runtime_state_validation_error + unit" where
  "validate_unique_ids field ids = check_unseen field {} ids"

definition validate_for_bootstrap ::
    "(broker_order_id set \<Rightarrow> broker_order_id list) \<Rightarrow> runtime_bootstrap_snapshot_dto
       \<Rightarrow> runtime_state_validation_error + runtime_bootstrap_snapshot_dto" where
  "validate_for_bootstrap iter s =
     and_then (validate_order_event_map iter ''working_orders'' (rbs_working_orders s)) (\<lambda>_.
     and_then (validate_order_event_map iter ''working_orders_strategy''
                 (rbs_working_orders_strategy s)) (\<lambda>_.
     and_then (validate_unique_ids ''known_order_ids'' (rbs_known_order_ids s)) (\<lambda>_. Inr s)))"

definition validate_for_runtime_restore ::
    "(broker_order_id set \<Rightarrow> broker_order_id list) \<Rightarrow> runtime_state_snapshot
       \<Rightarrow> runtime_state_validation_error + validated_runtime_state_snapshot" where
  "validate_for_runtime_restore iter s =
     and_then (validate_order_event_map iter ''orders'' (rss_orders s)) (\<lambda>_.
     and_then (validate_unique_ids ''known_order_ids'' (rss_known_order_ids s)) (\<lambda>_.
       Inr \<lparr> vrs_snapshot = migrated_to_v2 s,
             vrs_readiness_blockers =
               map (\<lambda>i. \<lparr> rrb_kind = KnownOrderIdMissingFromOrders,
                          rrb_broker_order_id_len = length (broker_order_id_str i) \<rparr>)
                 (filter (\<lambda>i. rss_orders s i = None) (rss_known_order_ids s)) \<rparr>))"

section \<open>Acknowledgements\<close>

record runtime_command_ack_dto =
  rad_request_id :: strategy_request_id
  rad_client_order_id :: "client_order_id option"
  rad_broker_order_id :: "broker_order_id option"
  rad_status :: command_ack_status
  rad_reason :: "command_ack_reason option"
  rad_received_ts :: timestamp

text \<open>The fields as they stand in the JSON, before the two spellings of the order id are merged.\<close>

record runtime_command_ack_dto_raw = runtime_command_ack_dto +
  raw_broker_order_id_str :: "broker_order_id option"

definition ack_dto_from_raw ::
    "runtime_command_ack_dto_raw \<Rightarrow> string + runtime_command_ack_dto" where
  "ack_dto_from_raw raw =
     (case (rad_broker_order_id raw, raw_broker_order_id_str raw) of
        (Some primary, Some legacy) \<Rightarrow>
          if primary \<noteq> legacy then Inl ''conflicting broker_order_id and broker_order_id_str''
          else Inr (runtime_command_ack_dto.truncate raw)
      | (Some primary, None) \<Rightarrow> Inr (runtime_command_ack_dto.truncate raw)
      | (None, Some legacy) \<Rightarrow>
          Inr (runtime_command_ack_dto.truncate raw \<lparr> rad_broker_order_id := Some legacy \<rparr>)
      | (None, None) \<Rightarrow> Inr (runtime_command_ack_dto.truncate raw))"

definition command_ack_from_dto :: "runtime_command_ack_dto \<Rightarrow> command_ack" where
  "command_ack_from_dto d = \<lparr> ack_request_id = rad_request_id d,
     ack_client_order_id = rad_client_order_id d, ack_broker_order_id = rad_broker_order_id d,
     ack_status = rad_status d, ack_reason = rad_reason d, ack_received_ts = rad_received_ts d \<rparr>"

record runtime_pending_request_identity =
  rpi_request_id :: strategy_request_id
  rpi_client_order_id :: "client_order_id option"
  rpi_broker_order_id :: "broker_order_id option"

datatype ack_pending_disposition = ClearPending | KeepPending | KeepPendingBrokerOrderId

datatype ack_id_state = IdPresent | PendingBrokerOrderId | IdNotRequired

datatype ack_policy =
    PolicyClearPending | PolicyKeepPending | PolicyKeepPendingBrokerOrderId
  | RequiresPriorOutcome | RequiresNoSendProof | PolicyManualIntervention

datatype ack_lifecycle_issue =
    RequestIdMismatch | ClientOrderIdOnlyMatchDoesNotClearPending
  | BrokerOrderIdOnlyMatchDoesNotClearPending | BrokerOrderIdMismatchForMatchingRequest
  | AmbiguousErrorAckDoesNotClearPending | DuplicateAckRequiresPriorOutcome
  | ExpiredAckRequiresNoSendProof

record ack_lifecycle_decision =
  ald_request_id_matches :: bool
  ald_client_order_id_matches :: bool
  ald_broker_order_id_matches :: bool
  ald_broker_order_id_state :: ack_id_state
  ald_status_policy :: ack_policy
  ald_pending_disposition :: ack_pending_disposition
  ald_issues :: "ack_lifecycle_issue list"

fun policy_pending_disposition :: "ack_policy \<Rightarrow> ack_pending_disposition" where
  "policy_pending_disposition PolicyClearPending = ClearPending"
| "policy_pending_disposition PolicyKeepPendingBrokerOrderId = KeepPendingBrokerOrderId"
| "policy_pending_disposition _ = KeepPending"

fun policy_issues :: "ack_policy \<Rightarrow> ack_lifecycle_issue list" where
  "policy_issues RequiresPriorOutcome = [DuplicateAckRequiresPriorOutcome]"
| "policy_issues RequiresNoSendProof = [ExpiredAckRequiresNoSendProof]"
| "policy_issues PolicyManualIntervention = [AmbiguousErrorAckDoesNotClearPending]"
| "policy_issues _ = []"

definition may_later_receive_broker_order_id :: "command_ack_status \<Rightarrow> bool" where
  "may_later_receive_broker_order_id status \<longleftrightarrow> status \<in> {AckAccepted, AckSubmitted, AckRecovered}"

definition ack_broker_order_id_state :: "command_ack \<Rightarrow> ack_id_state" where
  "ack_broker_order_id_state ack =
     (if ack_broker_order_id ack \<noteq> None then IdPresent
      else if may_later_receive_broker_order_id (ack_status ack) then PendingBrokerOrderId
      else IdNotRequired)"

fun reason_code :: "command_ack_reason \<Rightarrow> command_ack_reason_code" where
  "reason_code (CommandAckReason code) = code"

definition ack_status_policy :: "command_ack \<Rightarrow> ack_id_state \<Rightarrow> ack_policy" where
  "ack_status_policy ack id_state =
     (case ack_status ack of
        AckAccepted \<Rightarrow> if id_state = PendingBrokerOrderId then PolicyKeepPendingBrokerOrderId
                         else PolicyClearPending
      | AckSubmitted \<Rightarrow> if id_state = PendingBrokerOrderId then PolicyKeepPendingBrokerOrderId
                         else PolicyClearPending
      | AckRecovered \<Rightarrow> if id_state = PendingBrokerOrderId then PolicyKeepPendingBrokerOrderId
                         else PolicyClearPending
      | AckRejected \<Rightarrow> PolicyClearPending
      | AckTimeout \<Rightarrow> PolicyKeepPending
      | AckUnknownPending \<Rightarrow> PolicyKeepPending
      | AckDuplicate \<Rightarrow> RequiresPriorOutcome
      | AckExpired \<Rightarrow>
          if map_option reason_code (ack_reason ack) = Some ExpiredCommand
          then PolicyClearPending else RequiresNoSendProof
      | AckError \<Rightarrow> PolicyManualIntervention)"

definition both_equal :: "'a option \<Rightarrow> 'a option \<Rightarrow> bool" where
  "both_equal x y = (case (x, y) of (Some l, Some r) \<Rightarrow> l = r | _ \<Rightarrow> False)"

definition evaluate_ack ::
    "runtime_pending_request_identity \<Rightarrow> command_ack \<Rightarrow> ack_lifecycle_decision" where
  "evaluate_ack p ack =
     (let request_matches = (rpi_request_id p = ack_request_id ack);
          client_matches = both_equal (rpi_client_order_id p) (ack_client_order_id ack);
          broker_matches = both_equal (rpi_broker_order_id p) (ack_broker_order_id ack);
          id_state = ack_broker_order_id_state ack;
          policy = ack_status_policy ack id_state
      in if \<not> request_matches
         then \<lparr> ald_request_id_matches = False, ald_client_order_id_matches = client_matches,
                ald_broker_order_id_matches = broker_matches,
                ald_broker_order_id_state = id_state, ald_status_policy = policy,
                ald_pending_disposition = KeepPending,
                ald_issues = [RequestIdMismatch]
                  @ (if client_matches then [ClientOrderIdOnlyMatchDoesNotClearPending] else [])
                  @ (if broker_matches then [BrokerOrderIdOnlyMatchDoesNotClearPending] else []) \<rparr>
         else (let issues =
                 (if rpi_broker_order_id p \<noteq> None \<and> ack_broker_order_id ack \<noteq> None \<and> \<not> broker_matches
                  then [BrokerOrderIdMismatchForMatchingRequest] else [])
                 @ policy_issues policy
               in \<lparr> ald_request_id_matches = True, ald_client_order_id_matches = client_matches,
                    ald_broker_order_id_matches = broker_matches,
                    ald_broker_order_id_state = id_state, ald_status_policy = policy,
                    ald_pending_disposition =
                      (if issues \<noteq> [] then KeepPending else policy_pending_disposition policy),
                    ald_issues = issues \<rparr>))"

section \<open>Order events\<close>

datatype order_event_lifecycle = LifecycleActive | LifecycleTerminal | LifecycleUnknown

record order_event_lifecycle_classification =
  oec_broker_order_id_len :: nat
  oec_lifecycle :: order_event_lifecycle

definition classify_runtime_order_status :: "string option \<Rightarrow> order_event_lifecycle" where
  "classify_runtime_order_status status =
     (case status of
        None \<Rightarrow> LifecycleUnknown
      | Some s \<Rightarrow>
          (let t = to_ascii_lowercase (trim s)
           in if t \<in> set [''new'', ''accepted'', ''submitted'', ''working'', ''active'',
                          ''partially_filled'', ''partially-filled'', ''partial'']
              then LifecycleActive
              else if t \<in> set [''filled'', ''done'', ''cancelled'', ''canceled'', ''rejected'',
                               ''expired'', ''terminal'']
              then LifecycleTerminal
              else LifecycleUnknown))"

definition lifecycle_classification ::
    "runtime_order_event \<Rightarrow> order_event_lifecycle_classification" where
  "lifecycle_classification e =
     \<lparr> oec_broker_order_id_len = length (broker_order_id_str (roe_order_id e)),
       oec_lifecycle = classify_runtime_order_status (roe_status e) \<rparr>"

datatype replay_disposition = NewEvent | EventDuplicateIdempotent

record broker_event_deduplicator =
  bed_seen_order_events :: "(broker_order_id \<times> string option) set"
  bed_seen_trade_events :: "(broker_trade_id \<times> broker_order_id) set"

definition new_deduplicator :: broker_event_deduplicator where
  "new_deduplicator = \<lparr> bed_seen_order_events = {}, bed_seen_trade_events = {} \<rparr>"

definition order_event_key :: "runtime_order_event \<Rightarrow> broker_order_id \<times> string option" where
  "order_event_key e =
     (roe_order_id e, map_option (\<lambda>s. to_ascii_lowercase (trim s)) (roe_status e))"

definition classify_order_event ::
    "broker_event_deduplicator \<Rightarrow> runtime_order_event
       \<Rightarrow> broker_event_deduplicator \<times> replay_disposition" where
  "classify_order_event d e =
     (d \<lparr> bed_seen_order_events := insert (order_event_key e) (bed_seen_order_events d) \<rparr>,
      if order_event_key e \<notin> bed_seen_order_events d then NewEvent else EventDuplicateIdempotent)"

definition classify_trade_event ::
    "broker_event_deduplicator \<Rightarrow> runtime_trade_event
       \<Rightarrow> broker_event_deduplicator \<times> replay_disposition" where
  "classify_trade_event d e =
     (let key = (rte_trade_id e, rte_order_id e)
      in (d \<lparr> bed_seen_trade_events := insert key (bed_seen_trade_events d) \<rparr>,
          if key \<notin> bed_seen_trade_events d then NewEvent else EventDuplicateIdempotent))"

section \<open>Caches\<close>

record runtime_caches =
  rc_orders :: "broker_order_id \<rightharpoonup> runtime_order_event"
  rc_owned_order_ids :: "broker_order_id set"
  rc_observed_order_ids :: "broker_order_id set"
  rc_trades_by_order_id :: "broker_order_id \<rightharpoonup> runtime_trade_event list"
  rc_pending_trades_by_order_id :: "broker_order_id \<rightharpoonup> runtime_trade_event list"
  rc_pending_entry :: "runtime_pending_request_identity option"
  rc_pending_exit :: "runtime_pending_request_identity option"

definition caches_new :: runtime_caches where
  "caches_new = \<lparr> rc_orders = Map.empty, rc_owned_order_ids = {}, rc_observed_order_ids = {},
     rc_trades_by_order_id = Map.empty, rc_pending_trades_by_order_id = Map.empty,
     rc_pending_entry = None, rc_pending_exit = None \<rparr>"

text \<open>\<open>entry(k).or_default()\<close>: the list under the key, empty when there is none.\<close>

definition entry_or_default :: "('k \<rightharpoonup> 'v list) \<Rightarrow> 'k \<Rightarrow> 'v list" where
  "entry_or_default m k = (case m k of None \<Rightarrow> [] | Some vs \<Rightarrow> vs)"

definition push_trade_dedup ::
    "runtime_trade_event list \<Rightarrow> runtime_trade_event \<Rightarrow> runtime_trade_event list \<times> bool" where
  "push_trade_dedup trades trade =
     (if list_ex (\<lambda>x. rte_trade_id x = rte_trade_id trade \<and> rte_order_id x = rte_order_id trade) trades
      then (trades, False) else (trades @ [trade], True))"

fun group_trades ::
    "(broker_order_id \<rightharpoonup> runtime_trade_event list) \<Rightarrow> runtime_trade_event list
       \<Rightarrow> (broker_order_id \<rightharpoonup> runtime_trade_event list)" where
  "group_trades grouped [] = grouped"
| "group_trades grouped (trade # trades) =
     group_trades (grouped(rte_order_id trade \<mapsto>
       entry_or_default grouped (rte_order_id trade) @ [trade])) trades"

definition group_trades_by_order_id ::
    "runtime_trade_event list \<Rightarrow> (broker_order_id \<rightharpoonup> runtime_trade_event list)" where
  "group_trades_by_order_id trades = group_trades Map.empty trades"

definition restored_pending ::
    "strategy_request_id option \<Rightarrow> runtime_pending_request_identity option" where
  "restored_pending request_id = map_option (\<lambda>r.
     \<lparr> rpi_request_id = r, rpi_client_order_id = None, rpi_broker_order_id = None \<rparr>) request_id"

definition from_validated_state :: "validated_runtime_state_snapshot \<Rightarrow> runtime_caches" where
  "from_validated_state v =
     \<lparr> rc_orders = rss_orders (vrs_snapshot v),
       rc_owned_order_ids = set (rss_known_order_ids (vrs_snapshot v)),
       rc_observed_order_ids = dom (rss_orders (vrs_snapshot v)),
       rc_trades_by_order_id = group_trades_by_order_id (rss_trades (vrs_snapshot v)),
       rc_pending_trades_by_order_id = Map.empty,
       rc_pending_entry = restored_pending (rss_pending_entry_request_id (vrs_snapshot v)),
       rc_pending_exit = restored_pending (rss_pending_exit_request_id (vrs_snapshot v)) \<rparr>"

definition cached_order :: "runtime_caches \<Rightarrow> broker_order_id \<Rightarrow> runtime_order_event option" where
  "cached_order c i = rc_orders c i"

definition tracked_order_ids ::
    "(broker_order_id set \<Rightarrow> broker_order_id list) \<Rightarrow> runtime_caches \<Rightarrow> broker_order_id list" where
  "tracked_order_ids iter c = sort_key broker_order_id_str (iter (rc_owned_order_ids c))"

datatype runtime_order_attribution =
  RuntimeOwned | AdoptedFromBootstrap | ObservedAccountWide | UnknownOrOrphan

definition is_owned :: "runtime_order_attribution \<Rightarrow> bool" where
  "is_owned a \<longleftrightarrow> a = RuntimeOwned \<or> a = AdoptedFromBootstrap"

datatype cache_apply_disposition = CacheInserted | CacheUpdated | CacheDuplicateIdempotent

datatype cache_lifecycle_blocker = UnknownOrderLifecycle | UnknownOrOrphanOwnership

datatype trade_cache_target = OwnedOrder | KnownOrder | PendingOrderEvent

record cache_order_apply_outcome =
  coo_broker_order_id_len :: nat
  coo_attribution :: runtime_order_attribution
  coo_disposition :: cache_apply_disposition
  coo_lifecycle :: order_event_lifecycle
  coo_lifecycle_blocker :: "cache_lifecycle_blocker option"
  coo_tracked_order_count :: nat
  coo_observed_order_count :: nat
  coo_reconciled_pending_trade_count :: nat

record cache_trade_apply_outcome =
  cto_broker_order_id_len :: nat
  cto_target :: trade_cache_target
  cto_disposition :: cache_apply_disposition

definition order_blocker ::
    "order_event_lifecycle \<Rightarrow> runtime_order_attribution \<Rightarrow> cache_lifecycle_blocker option" where
  "order_blocker lifecycle attribution =
     (if lifecycle = LifecycleUnknown then Some UnknownOrderLifecycle
      else if attribution = UnknownOrOrphan then Some UnknownOrOrphanOwnership
      else None)"

text \<open>The loop over the pending trades of an order, each pushed under the order's entry.\<close>

fun push_all_pending ::
    "(broker_order_id \<rightharpoonup> runtime_trade_event list) \<Rightarrow> broker_order_id
       \<Rightarrow> runtime_trade_event list \<Rightarrow> (broker_order_id \<rightharpoonup> runtime_trade_event list)" where
  "push_all_pending m i [] = m"
| "push_all_pending m i (trade # trades) =
     push_all_pending (m(i \<mapsto> fst (push_trade_dedup (entry_or_default m i) trade))) i trades"

definition apply_order_event_with_attribution ::
    "runtime_caches \<Rightarrow> runtime_order_event \<Rightarrow> runtime_order_attribution
       \<Rightarrow> runtime_caches \<times> cache_order_apply_outcome" where
  "apply_order_event_with_attribution c event attribution =
     (let i = roe_order_id event;
          lifecycle = oec_lifecycle (lifecycle_classification event);
          disposition = (case rc_orders c i of
             Some existing \<Rightarrow> if existing = event then CacheDuplicateIdempotent else CacheUpdated
           | None \<Rightarrow> CacheInserted);
          pending = rc_pending_trades_by_order_id c i;
          c' = c \<lparr> rc_orders := (if disposition \<noteq> CacheDuplicateIdempotent
                                    then (rc_orders c)(i \<mapsto> event) else rc_orders c),
                   rc_observed_order_ids := insert i (rc_observed_order_ids c),
                   rc_owned_order_ids := (if is_owned attribution
                                    then insert i (rc_owned_order_ids c) else rc_owned_order_ids c),
                   rc_pending_trades_by_order_id := (rc_pending_trades_by_order_id c)(i := None),
                   rc_trades_by_order_id := (case pending of
                      Some trades \<Rightarrow> push_all_pending (rc_trades_by_order_id c) i trades
                    | None \<Rightarrow> rc_trades_by_order_id c) \<rparr>
      in (c', \<lparr> coo_broker_order_id_len = length (broker_order_id_str i),
               coo_attribution = attribution, coo_disposition = disposition,
               coo_lifecycle = lifecycle, coo_lifecycle_blocker = order_blocker lifecycle attribution,
               coo_tracked_order_count = card (rc_owned_order_ids c'),
               coo_observed_order_count = card (rc_observed_order_ids c'),
               coo_reconciled_pending_trade_count =
                 (case pending of Some trades \<Rightarrow> length trades | None \<Rightarrow> 0) \<rparr>))"

definition apply_order_event where
  "apply_order_event c event = apply_order_event_with_attribution c event ObservedAccountWide"

definition apply_owned_order_event where
  "apply_owned_order_event c event = apply_order_event_with_attribution c event RuntimeOwned"

definition apply_adopted_bootstrap_order_event where
  "apply_adopted_bootstrap_order_event c event =
     apply_order_event_with_attribution c event AdoptedFromBootstrap"

definition trade_target :: "runtime_caches \<Rightarrow> broker_order_id \<Rightarrow> trade_cache_target" where
  "trade_target c i =
     (if i \<in> rc_owned_order_ids c then OwnedOrder
      else if rc_orders c i \<noteq> None \<or> i \<in> rc_observed_order_ids c then KnownOrder
      else PendingOrderEvent)"

definition apply_trade_event ::
    "runtime_caches \<Rightarrow> runtime_trade_event \<Rightarrow> runtime_caches \<times> cache_trade_apply_outcome" where
  "apply_trade_event c event =
     (let i = rte_order_id event;
          target = trade_target c i;
          trades = entry_or_default (if target = PendingOrderEvent
             then rc_pending_trades_by_order_id c else rc_trades_by_order_id c) i;
          (trades', pushed) = push_trade_dedup trades event
      in (if target = PendingOrderEvent
          then c \<lparr> rc_pending_trades_by_order_id := (rc_pending_trades_by_order_id c)(i \<mapsto> trades') \<rparr>
          else c \<lparr> rc_trades_by_order_id := (rc_trades_by_order_id c)(i \<mapsto> trades') \<rparr>,
          \<lparr> cto_broker_order_id_len = length (broker_order_id_str i), cto_target = target,
            cto_disposition = (if pushed then CacheInserted else CacheDuplicateIdempotent) \<rparr>))"

datatype runtime_pending_path = EntryPath | ExitPath

definition set_pending ::
    "runtime_caches \<Rightarrow> runtime_pending_path \<Rightarrow> runtime_pending_request_identity \<Rightarrow> runtime_caches" where
  "set_pending c path p = (case path of
     EntryPath \<Rightarrow> c \<lparr> rc_pending_entry := Some p \<rparr>
   | ExitPath \<Rightarrow> c \<lparr> rc_pending_exit := Some p \<rparr>)"

definition pending_slot ::
    "runtime_caches \<Rightarrow> runtime_pending_path \<Rightarrow> runtime_pending_request_identity option" where
  "pending_slot c path = (case path of EntryPath \<Rightarrow> rc_pending_entry c | ExitPath \<Rightarrow> rc_pending_exit c)"

definition apply_ack_to_pending_path ::
    "runtime_caches \<Rightarrow> runtime_pending_path \<Rightarrow> command_ack
       \<Rightarrow> runtime_caches \<times> ack_lifecycle_decision option" where
  "apply_ack_to_pending_path c path ack =
     (case pending_slot c path of
        None \<Rightarrow> (c, None)
      | Some p \<Rightarrow>
          (let decision = evaluate_ack p ack
           in (if ald_pending_disposition decision = ClearPending
               then (case path of
                       EntryPath \<Rightarrow> c \<lparr> rc_pending_entry := None \<rparr>
                     | ExitPath \<Rightarrow> c \<lparr> rc_pending_exit := None \<rparr>)
               else c, Some decision)))"

section \<open>Restoring\<close>

text \<open>Broker order ids are ordered by their text, as \<open>tracked_order_ids\<close> sorts them.\<close>

instantiation broker_order_id :: linorder
begin

definition less_eq_broker_order_id :: "broker_order_id \<Rightarrow> broker_order_id \<Rightarrow> bool" where
  "less_eq_broker_order_id x y \<longleftrightarrow> broker_order_id_str x \<le> broker_order_id_str y"

definition less_broker_order_id :: "broker_order_id \<Rightarrow> broker_order_id \<Rightarrow> bool" where
  "less_broker_order_id x y \<longleftrightarrow> broker_order_id_str x < broker_order_id_str y"

instance
proof
  fix x y z :: broker_order_id
  show "x < y \<longleftrightarrow> x \<le> y \<and> \<not> y \<le> x"
    by (auto simp: less_eq_broker_order_id_def less_broker_order_id_def)
  show "x \<le> x" by (simp add: less_eq_broker_order_id_def)
  show "x \<le> y \<Longrightarrow> y \<le> z \<Longrightarrow> x \<le> z" by (simp add: less_eq_broker_order_id_def)
  show "x \<le> y \<Longrightarrow> y \<le> x \<Longrightarrow> x = y"
    by (cases x; cases y) (simp add: less_eq_broker_order_id_def)
  show "x \<le> y \<or> y \<le> x" by (auto simp: less_eq_broker_order_id_def)
qed

end

lemma sorted_ids_iteration: "hash_iteration (sorted_list_of_set :: broker_order_id set \<Rightarrow> _)"
  by (simp add: hash_iteration_def)

definition map_keys_match :: "(broker_order_id \<rightharpoonup> runtime_order_event) \<Rightarrow> bool" where
  "map_keys_match orders \<longleftrightarrow> (\<forall>i e. orders i = Some e \<longrightarrow> roe_order_id e = i)"

lemma check_map_keys_ok:
  "check_map_keys name orders keys = Inr () \<longleftrightarrow>
     (\<forall>i \<in> set keys. \<forall>e. orders i = Some e \<longrightarrow> roe_order_id e = i)"
  by (induction keys) (auto split: option.splits)

lemma validate_order_event_map_ok:
  assumes "hash_iteration iter" and "finite (dom orders)"
  shows "validate_order_event_map iter name orders = Inr () \<longleftrightarrow> map_keys_match orders"
  using hash_iteration_finite(1) [OF assms]
  by (auto simp: validate_order_event_map_def check_map_keys_ok map_keys_match_def domI)

lemma check_unseen_ok:
  "check_unseen field seen ids = Inr () \<longleftrightarrow> distinct ids \<and> set ids \<inter> seen = {}"
  by (induction ids arbitrary: seen) auto

lemma validate_unique_ids_ok: "validate_unique_ids field ids = Inr () \<longleftrightarrow> distinct ids"
  by (simp add: validate_unique_ids_def check_unseen_ok)

lemma validate_for_runtime_restore_ok:
  assumes "hash_iteration iter" and "finite (dom (rss_orders s))"
  shows "is_ok (validate_for_runtime_restore iter s) \<longleftrightarrow>
           map_keys_match (rss_orders s) \<and> distinct (rss_known_order_ids s)"
  using validate_order_event_map_ok [OF assms, of "''orders''"]
    validate_unique_ids_ok [of "''known_order_ids''" "rss_known_order_ids s"]
  by (cases "validate_order_event_map iter ''orders'' (rss_orders s)";
      cases "validate_unique_ids ''known_order_ids'' (rss_known_order_ids s)")
    (auto simp: validate_for_runtime_restore_def)

lemma validate_for_runtime_restore_Inr:
  assumes "validate_for_runtime_restore iter s = Inr v"
  shows "vrs_snapshot v = migrated_to_v2 s"
    and "vrs_readiness_blockers v = [] \<longleftrightarrow> (\<forall>i \<in> set (rss_known_order_ids s). rss_orders s i \<noteq> None)"
  using assms
  by (auto simp: validate_for_runtime_restore_def and_then_Inr_iff filter_empty_conv)

lemma tracked_order_ids_spec:
  assumes "hash_iteration iter" and "finite (rc_owned_order_ids c)"
  shows "set (tracked_order_ids iter c) = rc_owned_order_ids c"
    and "distinct (tracked_order_ids iter c)"
    and "sorted (tracked_order_ids iter c)"
proof -
  show "set (tracked_order_ids iter c) = rc_owned_order_ids c"
    and "distinct (tracked_order_ids iter c)"
    using hash_iteration_finite [OF assms] by (simp_all add: tracked_order_ids_def)
  have "sorted (map broker_order_id_str (tracked_order_ids iter c))"
    by (simp add: tracked_order_ids_def)
  then show "sorted (tracked_order_ids iter c)"
    unfolding sorted_map by (rule sorted_wrt_mono_rel [rotated]) (simp add: less_eq_broker_order_id_def)
qed

section \<open>Event histories\<close>

text \<open>A history of order and trade events, in the order they reach the caches.\<close>

datatype cache_event =
    OrderSeen runtime_order_event runtime_order_attribution
  | TradeSeen runtime_trade_event

fun apply_cache_event :: "runtime_caches \<Rightarrow> cache_event \<Rightarrow> runtime_caches" where
  "apply_cache_event c (OrderSeen e a) = fst (apply_order_event_with_attribution c e a)"
| "apply_cache_event c (TradeSeen e) = fst (apply_trade_event c e)"

definition run_caches :: "runtime_caches \<Rightarrow> cache_event list \<Rightarrow> runtime_caches" where
  "run_caches c es = foldl apply_cache_event c es"

definition trade_key :: "runtime_trade_event \<Rightarrow> broker_trade_id \<times> broker_order_id" where
  "trade_key t = (rte_trade_id t, rte_order_id t)"

text \<open>What a history says by itself, without the caches.\<close>

fun trades_of :: "broker_order_id \<Rightarrow> cache_event list \<Rightarrow> runtime_trade_event list" where
  "trades_of i [] = []"
| "trades_of i (TradeSeen t # es) = (if rte_order_id t = i then t # trades_of i es else trades_of i es)"
| "trades_of i (OrderSeen e a # es) = trades_of i es"

fun keep_first :: "runtime_trade_event list \<Rightarrow> runtime_trade_event list" where
  "keep_first [] = []"
| "keep_first (t # ts) = t # filter (\<lambda>x. trade_key x \<noteq> trade_key t) (keep_first ts)"

fun last_order_event :: "broker_order_id \<Rightarrow> cache_event list \<Rightarrow> runtime_order_event option" where
  "last_order_event i [] = None"
| "last_order_event i (TradeSeen t # es) = last_order_event i es"
| "last_order_event i (OrderSeen e a # es) = (case last_order_event i es of
     Some latest \<Rightarrow> Some latest
   | None \<Rightarrow> if roe_order_id e = i then Some e else None)"

definition owned_by_history :: "cache_event list \<Rightarrow> broker_order_id set" where
  "owned_by_history es = {i. \<exists>e a. OrderSeen e a \<in> set es \<and> is_owned a \<and> roe_order_id e = i}"

lemma trades_of_append: "trades_of i (es @ fs) = trades_of i es @ trades_of i fs"
  by (induction i es rule: trades_of.induct) auto

lemma last_order_event_append:
  "last_order_event i (es @ fs) = (case last_order_event i fs of
     Some latest \<Rightarrow> Some latest | None \<Rightarrow> last_order_event i es)"
  by (induction i es rule: last_order_event.induct) (auto split: option.splits)

lemma keep_first_keys: "trade_key ` set (keep_first ts) = trade_key ` set ts"
proof (induction ts)
  case (Cons t ts)
  have "trade_key ` set (keep_first (t # ts))
      = insert (trade_key t) (trade_key ` set (keep_first ts) - {trade_key t})"
    by auto
  with Cons show ?case by auto
qed simp

lemma keep_first_distinct: "distinct (map trade_key (keep_first ts))"
  by (induction ts) (auto simp: distinct_map_filter)

lemma keep_first_snoc:
  "keep_first (ts @ [t]) =
     (if trade_key t \<in> trade_key ` set ts then keep_first ts else keep_first ts @ [t])"
  by (induction ts) auto

lemma push_trade_dedup_fst:
  "fst (push_trade_dedup ts t) = (if trade_key t \<in> trade_key ` set ts then ts else ts @ [t])"
proof -
  have "list_ex (\<lambda>x. rte_trade_id x = rte_trade_id t \<and> rte_order_id x = rte_order_id t) ts
      \<longleftrightarrow> trade_key t \<in> trade_key ` set ts"
    unfolding list_ex_iff trade_key_def image_iff prod.inject by metis
  then show ?thesis by (simp add: push_trade_dedup_def)
qed

lemma push_keep_first: "fst (push_trade_dedup (keep_first ts) t) = keep_first (ts @ [t])"
  by (simp add: push_trade_dedup_fst keep_first_snoc keep_first_keys)

lemma entry_or_default_upd [simp]: "entry_or_default (m(i \<mapsto> xs)) i = xs"
  by (simp add: entry_or_default_def)

lemma push_all_pending_other: "j \<noteq> i \<Longrightarrow> push_all_pending m i ts j = m j"
  by (induction m i ts rule: push_all_pending.induct) auto

lemma push_all_pending_at:
  "distinct (map trade_key (entry_or_default m i @ ts)) \<Longrightarrow>
   entry_or_default (push_all_pending m i ts) i = entry_or_default m i @ ts"
proof (induction ts arbitrary: m)
  case (Cons t ts)
  let ?m = "m(i \<mapsto> fst (push_trade_dedup (entry_or_default m i) t))"
  have e: "entry_or_default ?m i = entry_or_default m i @ [t]"
    using Cons.prems by (auto simp: push_trade_dedup_fst)
  have "distinct (map trade_key (entry_or_default ?m i @ ts))"
    using Cons.prems by (simp only: e) auto
  then have "entry_or_default (push_all_pending ?m i ts) i = entry_or_default ?m i @ ts"
    by (rule Cons.IH)
  then show ?case by (simp only: e push_all_pending.simps append_assoc append.simps)
qed simp

text \<open>What a history leaves in the caches.\<close>

definition caches_reflect :: "runtime_caches \<Rightarrow> cache_event list \<Rightarrow> bool" where
  "caches_reflect c es \<longleftrightarrow>
     rc_orders c = (\<lambda>i. last_order_event i es) \<and>
     rc_observed_order_ids c = dom (\<lambda>i. last_order_event i es) \<and>
     rc_owned_order_ids c = owned_by_history es \<and>
     (\<forall>i. if last_order_event i es \<noteq> None
          then rc_pending_trades_by_order_id c i = None
             \<and> entry_or_default (rc_trades_by_order_id c) i = keep_first (trades_of i es)
          else rc_trades_by_order_id c i = None
             \<and> entry_or_default (rc_pending_trades_by_order_id c) i = keep_first (trades_of i es))"

lemma last_order_event_None:
  "last_order_event i es = None \<longleftrightarrow> (\<forall>e a. OrderSeen e a \<in> set es \<longrightarrow> roe_order_id e \<noteq> i)"
  by (induction i es rule: last_order_event.induct) (auto split: option.splits)

lemma owned_in_history: "i \<in> owned_by_history es \<Longrightarrow> last_order_event i es \<noteq> None"
  by (auto simp: owned_by_history_def last_order_event_None)

lemma owned_by_history_snoc:
  "owned_by_history (es @ [TradeSeen t]) = owned_by_history es"
  "owned_by_history (es @ [OrderSeen e a]) =
     (if is_owned a then insert (roe_order_id e) (owned_by_history es) else owned_by_history es)"
  by (auto simp: owned_by_history_def)

lemma caches_reflect_new: "caches_reflect caches_new []"
  by (simp add: caches_reflect_def caches_new_def entry_or_default_def owned_by_history_def)

lemma caches_reflect_at:
  assumes "caches_reflect c es"
  shows "last_order_event i es \<noteq> None \<Longrightarrow> rc_pending_trades_by_order_id c i = None"
    and "last_order_event i es \<noteq> None \<Longrightarrow>
      entry_or_default (rc_trades_by_order_id c) i = keep_first (trades_of i es)"
    and "last_order_event i es = None \<Longrightarrow> rc_trades_by_order_id c i = None"
    and "last_order_event i es = None \<Longrightarrow>
      entry_or_default (rc_pending_trades_by_order_id c) i = keep_first (trades_of i es)"
  using assms unfolding caches_reflect_def by (metis (full_types))+

lemma caches_reflect_order:
  assumes "caches_reflect c es"
  shows "caches_reflect (fst (apply_order_event_with_attribution c e a)) (es @ [OrderSeen e a])"
proof -
  let ?i = "roe_order_id e" and ?c = "fst (apply_order_event_with_attribution c e a)"
  have orders: "rc_orders c = (\<lambda>i. last_order_event i es)"
    and observed: "rc_observed_order_ids c = dom (\<lambda>i. last_order_event i es)"
    and owned: "rc_owned_order_ids c = owned_by_history es"
    using assms by (simp_all add: caches_reflect_def)
  have last: "last_order_event i (es @ [OrderSeen e a]) = (if i = ?i then Some e else last_order_event i es)"
    and trades: "trades_of i (es @ [OrderSeen e a]) = trades_of i es" for i
    by (simp_all add: last_order_event_append trades_of_append)
  have "rc_orders ?c = (\<lambda>i. last_order_event i (es @ [OrderSeen e a]))"
    by (auto simp: apply_order_event_with_attribution_def Let_def orders last fun_eq_iff
        split: option.splits)
  moreover have "rc_observed_order_ids ?c = dom (\<lambda>i. last_order_event i (es @ [OrderSeen e a]))"
    by (auto simp: apply_order_event_with_attribution_def Let_def observed last dom_def
        split: if_splits)
  moreover have "rc_owned_order_ids ?c = owned_by_history (es @ [OrderSeen e a])"
    by (simp add: apply_order_event_with_attribution_def Let_def owned owned_by_history_snoc)
  moreover have "if last_order_event i (es @ [OrderSeen e a]) \<noteq> None
      then rc_pending_trades_by_order_id ?c i = None
         \<and> entry_or_default (rc_trades_by_order_id ?c) i = keep_first (trades_of i (es @ [OrderSeen e a]))
      else rc_trades_by_order_id ?c i = None
         \<and> entry_or_default (rc_pending_trades_by_order_id ?c) i
             = keep_first (trades_of i (es @ [OrderSeen e a]))" for i
  proof (cases "i = ?i")
    case False
    then show ?thesis
      using caches_reflect_at [OF assms, of i]
      by (auto simp: apply_order_event_with_attribution_def Let_def last trades
          entry_or_default_def push_all_pending_other split: option.splits)
  next
    case True
    have "entry_or_default (rc_trades_by_order_id ?c) ?i = keep_first (trades_of ?i es)"
    proof (cases "last_order_event ?i es")
      case None
      from caches_reflect_at(3,4) [OF assms None] show ?thesis
        using push_all_pending_at [of "rc_trades_by_order_id c" ?i "keep_first (trades_of ?i es)"]
        by (auto simp: apply_order_event_with_attribution_def Let_def entry_or_default_def
            keep_first_distinct split: option.splits)
    next
      case (Some latest)
      with caches_reflect_at(1,2) [OF assms, of ?i] show ?thesis
        by (simp add: apply_order_event_with_attribution_def Let_def)
    qed
    with True show ?thesis
      by (simp add: last trades) (simp add: apply_order_event_with_attribution_def Let_def)
  qed
  ultimately show ?thesis unfolding caches_reflect_def by blast
qed

lemma caches_reflect_trade:
  assumes "caches_reflect c es"
  shows "caches_reflect (fst (apply_trade_event c t)) (es @ [TradeSeen t])"
proof -
  let ?i = "rte_order_id t" and ?c = "fst (apply_trade_event c t)"
  have orders: "rc_orders c = (\<lambda>i. last_order_event i es)"
    and observed: "rc_observed_order_ids c = dom (\<lambda>i. last_order_event i es)"
    and owned: "rc_owned_order_ids c = owned_by_history es"
    using assms by (simp_all add: caches_reflect_def)
  have last: "last_order_event i (es @ [TradeSeen t]) = last_order_event i es"
    and trades: "trades_of i (es @ [TradeSeen t]) = trades_of i es @ (if i = ?i then [t] else [])" for i
    by (simp_all add: last_order_event_append trades_of_append)
  have target: "trade_target c ?i = PendingOrderEvent \<longleftrightarrow> last_order_event ?i es = None"
    using owned_in_history [of ?i es] by (auto simp: trade_target_def orders observed owned)
  have same: "rc_orders ?c = rc_orders c" "rc_observed_order_ids ?c = rc_observed_order_ids c"
      "rc_owned_order_ids ?c = rc_owned_order_ids c"
    by (simp_all add: apply_trade_event_def Let_def split: prod.splits)
  have "if last_order_event i (es @ [TradeSeen t]) \<noteq> None
      then rc_pending_trades_by_order_id ?c i = None
         \<and> entry_or_default (rc_trades_by_order_id ?c) i = keep_first (trades_of i (es @ [TradeSeen t]))
      else rc_trades_by_order_id ?c i = None
         \<and> entry_or_default (rc_pending_trades_by_order_id ?c) i
             = keep_first (trades_of i (es @ [TradeSeen t]))" for i
  proof (cases "i = ?i")
    case False
    then show ?thesis
      using caches_reflect_at [OF assms, of i]
      by (auto simp: apply_trade_event_def Let_def last trades entry_or_default_def
          split: prod.splits option.splits)
  next
    case True
    have entry: "entry_or_default (m(?i \<mapsto> xs)) ?i = xs" for m :: "broker_order_id \<rightharpoonup> runtime_trade_event list" and xs
      by (simp add: entry_or_default_def)
    show ?thesis
    proof (cases "last_order_event ?i es")
      case None
      with target have "trade_target c ?i = PendingOrderEvent" by simp
      with None True caches_reflect_at(3,4) [OF assms None] show ?thesis
        by (simp add: apply_trade_event_def Let_def last trades entry push_keep_first split_beta)
    next
      case (Some latest)
      with target have "trade_target c ?i \<noteq> PendingOrderEvent" by simp
      with Some True caches_reflect_at(1,2) [OF assms, of ?i] show ?thesis
        by (simp add: apply_trade_event_def Let_def last trades entry push_keep_first split_beta)
    qed
  qed
  then show ?thesis
    unfolding caches_reflect_def same last orders observed owned owned_by_history_snoc by blast
qed

lemma caches_reflect_run: "caches_reflect (run_caches caches_new es) es"
proof (induction es rule: rev_induct)
  case Nil
  then show ?case by (simp add: run_caches_def caches_reflect_new)
next
  case (snoc e es)
  then show ?case
    by (cases e) (simp_all add: run_caches_def caches_reflect_order caches_reflect_trade)
qed

section \<open>Properties\<close>

text \<open>C15: The caches forget neither the order in which events arrived nor any trade: after any
  history from empty caches, each order is its latest event, the owned orders are those
  attributed to the runtime or adopted, and the trades of an order are the distinct ones
  reported for it, in arrival order, whether they came before or after the order's own
  event. They are under the known orders exactly when the order has been seen, and under
  the pending ones otherwise; nothing is in both.\<close>

theorem caches_history:
  "cached_order (run_caches caches_new es) i = last_order_event i es
   \<and> (i \<in> rc_observed_order_ids (run_caches caches_new es)) = (last_order_event i es \<noteq> None)
   \<and> rc_owned_order_ids (run_caches caches_new es) = owned_by_history es
   \<and> entry_or_default
       (if last_order_event i es = None then rc_pending_trades_by_order_id (run_caches caches_new es)
        else rc_trades_by_order_id (run_caches caches_new es)) i
       = keep_first (trades_of i es)
   \<and> (if last_order_event i es = None then rc_trades_by_order_id (run_caches caches_new es)
      else rc_pending_trades_by_order_id (run_caches caches_new es)) i = None
   \<and> distinct (map trade_key (keep_first (trades_of i es)))"
  using caches_reflect_run [of es] caches_reflect_at [OF caches_reflect_run [of es], of i]
  by (cases "last_order_event i es")
    (simp_all add: caches_reflect_def cached_order_def keep_first_distinct domIff)

text \<open>The pending request is given up only on proof: an acknowledgement clears a pending slot
  exactly when it names the pending request, does not name another broker order than the
  one already known, and says rejected, or expired by the command's own deadline, or accepted, submitted or
  recovered together with a broker order id. Everything else (timeouts, unknown outcomes,
  duplicates, errors, other requests with the same order ids) keeps it, and no
  acknowledgement changes anything but that slot.\<close>

theorem ack_clears_pending:
  "(pending_slot c path \<noteq> None
      \<and> pending_slot (fst (apply_ack_to_pending_path c path ack)) path = None)
     = (\<exists>p. pending_slot c path = Some p \<and> rpi_request_id p = ack_request_id ack
          \<and> (rpi_broker_order_id p = None \<or> ack_broker_order_id ack = None
             \<or> rpi_broker_order_id p = ack_broker_order_id ack)
          \<and> (ack_status ack = AckRejected
             \<or> ack_status ack = AckExpired \<and> ack_reason ack = Some (CommandAckReason ExpiredCommand)
             \<or> ack_status ack \<in> {AckAccepted, AckSubmitted, AckRecovered} \<and> ack_broker_order_id ack \<noteq> None))
   \<and> pending_slot (fst (apply_ack_to_pending_path c path ack)) path \<in> {None, pending_slot c path}
   \<and> (case path of
        EntryPath \<Rightarrow> fst (apply_ack_to_pending_path c path ack) \<lparr> rc_pending_entry := rc_pending_entry c \<rparr>
      | ExitPath \<Rightarrow> fst (apply_ack_to_pending_path c path ack) \<lparr> rc_pending_exit := rc_pending_exit c \<rparr>)
       = c"
proof (cases "pending_slot c path")
  case None
  then show ?thesis
    by (cases path) (simp_all add: apply_ack_to_pending_path_def)
next
  case (Some p)
  have "(map_option reason_code r = Some ExpiredCommand) = (r = Some (CommandAckReason ExpiredCommand))" for r
    by (cases r; cases "the r") auto
  then have "(ald_pending_disposition (evaluate_ack p ack) = ClearPending) =
     (rpi_request_id p = ack_request_id ack
          \<and> (rpi_broker_order_id p = None \<or> ack_broker_order_id ack = None
             \<or> rpi_broker_order_id p = ack_broker_order_id ack)
          \<and> (ack_status ack = AckRejected
             \<or> ack_status ack = AckExpired \<and> ack_reason ack = Some (CommandAckReason ExpiredCommand)
             \<or> ack_status ack \<in> {AckAccepted, AckSubmitted, AckRecovered} \<and> ack_broker_order_id ack \<noteq> None))"
    by (cases "ack_status ack"; cases "rpi_broker_order_id p"; cases "ack_broker_order_id ack")
      (simp_all add: evaluate_ack_def Let_def ack_status_policy_def ack_broker_order_id_state_def
        may_later_receive_broker_order_id_def both_equal_def)
  with Some show ?thesis
    by (cases path) (simp_all add: apply_ack_to_pending_path_def Let_def pending_slot_def)
qed

text \<open>C16: A saved state is restored exactly when every order stands under its own id and no known
  order id is repeated. The caches built from it then own the known orders, sorted and
  without repetition; and unless manual intervention is required, every owned order has an
  order event, so no order is tracked whose fate is unknown.\<close>

theorem restore_owned_orders:
  "hash_iteration iter \<Longrightarrow> finite (dom (rss_orders s)) \<Longrightarrow>
     is_ok (validate_for_runtime_restore iter s)
       = ((\<forall>i e. rss_orders s i = Some e \<longrightarrow> roe_order_id e = i) \<and> distinct (rss_known_order_ids s))
   \<and> (\<forall>v. validate_for_runtime_restore iter s = Inr v \<longrightarrow>
        set (tracked_order_ids iter (from_validated_state v)) = set (rss_known_order_ids s)
        \<and> distinct (tracked_order_ids iter (from_validated_state v))
        \<and> sorted (tracked_order_ids iter (from_validated_state v))
        \<and> manual_intervention_required v
            = (rss_manual_intervention_required s
               \<or> (\<exists>i \<in> rc_owned_order_ids (from_validated_state v). cached_order (from_validated_state v) i = None)))"
proof -
  assume iter: "hash_iteration iter" and fin: "finite (dom (rss_orders s))"
  have "set (tracked_order_ids iter (from_validated_state v)) = set (rss_known_order_ids s)
        \<and> distinct (tracked_order_ids iter (from_validated_state v))
        \<and> sorted (tracked_order_ids iter (from_validated_state v))
        \<and> manual_intervention_required v
            = (rss_manual_intervention_required s
               \<or> (\<exists>i \<in> rc_owned_order_ids (from_validated_state v). cached_order (from_validated_state v) i = None))"
    if v: "validate_for_runtime_restore iter s = Inr v" for v
  proof -
    have "rc_owned_order_ids (from_validated_state v) = set (rss_known_order_ids s)"
      by (simp add: from_validated_state_def validate_for_runtime_restore_Inr [OF v] migrated_to_v2_def)
    moreover from this have "finite (rc_owned_order_ids (from_validated_state v))" by simp
    ultimately show ?thesis
      using tracked_order_ids_spec [OF iter, of "from_validated_state v"]
        validate_for_runtime_restore_Inr [OF v]
      by (auto simp: manual_intervention_required_def from_validated_state_def migrated_to_v2_def
          cached_order_def)
  qed
  with validate_for_runtime_restore_ok [OF iter fin] show ?thesis
    unfolding map_keys_match_def by blast
qed

definition sample_order_event :: runtime_order_event where
  "sample_order_event = \<lparr> roe_order_id = BrokerOrderId ''7'', roe_client_order_id = None,
     roe_symbol = None, roe_exchange = None, roe_status = Some ''working'', roe_side = None,
     roe_order_type = None, roe_source_ts = None \<rparr>"

definition sample_state :: runtime_state_snapshot where
  "sample_state = runtime_state_new_v2
     \<lparr> rss_orders := [BrokerOrderId ''7'' \<mapsto> sample_order_event],
       rss_known_order_ids := [BrokerOrderId ''8'', BrokerOrderId ''7''] \<rparr>"

theorem restore_owned_orders_witness:
  "\<exists>v. validate_for_runtime_restore sorted_list_of_set sample_state = Inr v \<and>
       manual_intervention_required v"
proof -
  have "finite (dom (rss_orders sample_state))" by (simp add: sample_state_def)
  note spec = restore_owned_orders [OF sorted_ids_iteration this]
  have "is_ok (validate_for_runtime_restore sorted_list_of_set sample_state)"
    using spec by (simp add: sample_state_def sample_order_event_def)
  then obtain v where v: "validate_for_runtime_restore sorted_list_of_set sample_state = Inr v"
    by (cases "validate_for_runtime_restore sorted_list_of_set sample_state") auto
  have "BrokerOrderId ''8'' \<in> rc_owned_order_ids (from_validated_state v)"
    and "cached_order (from_validated_state v) (BrokerOrderId ''8'') = None"
    by (simp_all add: from_validated_state_def validate_for_runtime_restore_Inr [OF v]
        migrated_to_v2_def sample_state_def cached_order_def)
  with spec v show ?thesis by blast
qed

end
