(* ===== verification/BrokerTruth.thy ===== *)
theory BrokerTruth
  imports Contracts
begin

text \<open>
  What the broker says is true (\<open>operational_snapshot.rs\<close>): orders, positions, cash, trades
  and instrument specifications of one account, and what is derived from them: which orders
  are alive, unknown or orphaned, the position in an instrument, the margin an order needs.
  Decimal \<open>add\<close> and \<open>mul\<close> are parameters whose \<open>None\<close> is the panic of an overflow; a date
  is its day number.
\<close>

section \<open>Data\<close>

type_synonym naive_date = int

record cash_position =
  cp_currency :: string
  cp_amount :: money

record instrument_map_entry =
  ime_internal_symbol :: string
  ime_broker :: broker_kind
  ime_broker_symbol :: string
  ime_exchange :: exchange
  ime_market :: market
  ime_price_step :: price
  ime_qty_step :: quantity
  ime_lot_size :: quantity
  ime_min_qty :: quantity
  ime_step_value :: money
  ime_currency :: string
  ime_schedule_id :: string
  ime_expiration_date :: "naive_date option"
  ime_is_tradable :: bool

datatype broker_order_lifecycle = OrderActive | OrderTerminal | OrderUnknown

datatype broker_order_quantity_truth = RemainingPositive | RemainingZero | RemainingUnknown

datatype broker_order_orphan_reason =
    AccountMismatch | MissingCorrelationId | MissingInstrumentRegistry
  | UnknownInstrumentIdentity | AmbiguousInstrumentIdentity | FilledQuantityWithoutMatchingTrade
  | MatchingTradeAccountMismatch | MatchingTradeInstrumentMismatch | MatchingTradeSideMismatch
  | MatchingTradeQuantityLessThanFilledQuantity

record broker_order_snapshot =
  bos_account_id :: broker_account_id
  bos_broker_order_id :: "broker_order_id option"
  bos_client_order_id :: "client_order_id option"
  bos_instrument :: instrument_id
  bos_side :: order_side
  bos_order_type :: order_type
  bos_time_in_force :: "time_in_force option"
  bos_status :: order_status
  bos_lifecycle :: broker_order_lifecycle
  bos_qty :: quantity
  bos_filled_qty :: quantity
  bos_remaining_qty :: "quantity option"
  bos_limit_price :: "price option"
  bos_broker_asset_id :: "string option"
  bos_board :: "string option"
  bos_expiration_date :: "naive_date option"
  bos_source_ts :: "timestamp option"
  bos_received_ts :: timestamp

record broker_position_snapshot =
  bps_account_id :: broker_account_id
  bps_instrument :: instrument_id
  bps_qty :: quantity
  bps_avg_price :: "price option"
  bps_unrealized_pnl :: "money option"
  bps_source_ts :: "timestamp option"
  bps_received_ts :: timestamp

record broker_cash_snapshot =
  bcs_account_id :: broker_account_id
  bcs_cash :: "cash_position list"
  bcs_equity :: "money option"
  bcs_free_cash :: "money option"
  bcs_initial_margin :: "money option"
  bcs_maintenance_margin :: "money option"
  bcs_source_ts :: "timestamp option"
  bcs_received_ts :: timestamp

record broker_instrument_spec =
  bis_instrument :: instrument_map_entry
  bis_broker_asset_id :: "string option"
  bis_board :: "string option"
  bis_long_initial_margin :: "money option"
  bis_short_initial_margin :: "money option"

record broker_trade_snapshot =
  bts_account_id :: broker_account_id
  bts_broker_trade_id :: broker_trade_id
  bts_broker_order_id :: "broker_order_id option"
  bts_client_order_id :: "client_order_id option"
  bts_instrument :: instrument_id
  bts_side :: order_side
  bts_qty :: quantity
  bts_price :: price
  bts_gross_amount :: "money option"
  bts_commission :: "money option"
  bts_broker_asset_id :: "string option"
  bts_board :: "string option"
  bts_expiration_date :: "naive_date option"
  bts_source_ts :: timestamp
  bts_received_ts :: timestamp

record broker_truth_snapshot =
  truth_account_id :: broker_account_id
  truth_orders :: "broker_order_snapshot list"
  truth_positions :: "broker_position_snapshot list"
  truth_cash :: "broker_cash_snapshot option"
  truth_trades :: "broker_trade_snapshot list"
  truth_instruments :: "broker_instrument_spec list"
  truth_received_ts :: timestamp

record broker_truth_instrument_summary =
  sum_target_open_positions_count :: nat
  sum_account_open_positions_count :: nat
  sum_target_active_orders_count :: nat
  sum_target_unknown_orders_count :: nat
  sum_target_terminal_orders_count :: nat
  sum_target_inconsistent_orders_count :: nat
  sum_account_active_orders_count :: nat
  sum_account_unknown_orders_count :: nat
  sum_account_orphan_orders_count :: nat
  sum_other_symbol_active_orders_count :: nat

datatype broker_margin_sufficiency =
  CashSufficient | CashInsufficient | CashSnapshotMissing | FreeCashMissing

datatype broker_required_margin_failure =
    RequiredMissingInstrumentSpec | RequiredMissingInitialMargin
  | RequiredInvalidQuantity | RequiredInvalidReferencePrice

datatype broker_required_margin =
  MarginDerived money | MarginMissing broker_required_margin_failure

datatype broker_order_margin_sufficiency =
    MarginSufficient money | MarginInsufficient money | MarginMissingCashSnapshot
  | MarginMissingFreeCash | MarginMissingInstrumentSpec | MarginMissingInitialMargin
  | MarginInvalidQuantity | MarginInvalidReferencePrice

section \<open>Identity of instruments\<close>

definition instrument_identity_matches :: "instrument_id \<Rightarrow> instrument_id \<Rightarrow> bool" where
  "instrument_identity_matches l r \<longleftrightarrow>
     (if ins_venue_symbol l \<noteq> None \<and> ins_venue_symbol r \<noteq> None
      then ins_venue_symbol l = ins_venue_symbol r
      else ins_symbol l = ins_symbol r \<and> ins_exchange l = ins_exchange r
         \<and> ins_market l = ins_market r)"

text \<open>\<open>optional_string_identity_matches\<close> and its twin for dates: an absent value matches anything.\<close>

definition optional_identity_matches :: "'v option \<Rightarrow> 'v option \<Rightarrow> bool" where
  "optional_identity_matches actual expected = (case actual of
     Some a \<Rightarrow> expected = Some a | None \<Rightarrow> True)"

definition optional_identity_compatible :: "'v option \<Rightarrow> 'v option \<Rightarrow> bool" where
  "optional_identity_compatible l r = (case (l, r) of
     (Some x, Some y) \<Rightarrow> x = y | (None, None) \<Rightarrow> True | _ \<Rightarrow> False)"

definition spec_instrument_id :: "broker_instrument_spec \<Rightarrow> instrument_id" where
  "spec_instrument_id s =
     \<lparr> ins_symbol = ime_internal_symbol (bis_instrument s),
       ins_venue_symbol = Some (ime_broker_symbol (bis_instrument s)),
       ins_exchange = ime_exchange (bis_instrument s), ins_market = ime_market (bis_instrument s) \<rparr>"

definition matches_instrument_id :: "broker_instrument_spec \<Rightarrow> instrument_id \<Rightarrow> bool" where
  "matches_instrument_id s i = instrument_identity_matches (spec_instrument_id s) i"

definition matches_order_identity :: "broker_instrument_spec \<Rightarrow> broker_order_snapshot \<Rightarrow> bool" where
  "matches_order_identity s order \<longleftrightarrow>
     matches_instrument_id s (bos_instrument order)
     \<and> optional_identity_matches (bos_broker_asset_id order) (bis_broker_asset_id s)
     \<and> optional_identity_matches (bos_board order) (bis_board s)
     \<and> optional_identity_matches (bos_expiration_date order) (ime_expiration_date (bis_instrument s))"

definition matches_trade_identity :: "broker_instrument_spec \<Rightarrow> broker_trade_snapshot \<Rightarrow> bool" where
  "matches_trade_identity s trade \<longleftrightarrow>
     matches_instrument_id s (bts_instrument trade)
     \<and> optional_identity_matches (bts_broker_asset_id trade) (bis_broker_asset_id s)
     \<and> optional_identity_matches (bts_board trade) (bis_board s)
     \<and> optional_identity_matches (bts_expiration_date trade) (ime_expiration_date (bis_instrument s))"

definition canonical_identity_matches ::
    "broker_instrument_spec \<Rightarrow> broker_instrument_spec \<Rightarrow> bool" where
  "canonical_identity_matches s t \<longleftrightarrow>
     ime_broker (bis_instrument s) = ime_broker (bis_instrument t)
     \<and> ime_broker_symbol (bis_instrument s) = ime_broker_symbol (bis_instrument t)
     \<and> ime_exchange (bis_instrument s) = ime_exchange (bis_instrument t)
     \<and> ime_market (bis_instrument s) = ime_market (bis_instrument t)
     \<and> ime_schedule_id (bis_instrument s) = ime_schedule_id (bis_instrument t)
     \<and> bis_board s = bis_board t
     \<and> ime_expiration_date (bis_instrument s) = ime_expiration_date (bis_instrument t)
     \<and> bis_broker_asset_id s = bis_broker_asset_id t"

definition order_trade_instrument_identity_matches ::
    "broker_order_snapshot \<Rightarrow> broker_trade_snapshot \<Rightarrow> bool" where
  "order_trade_instrument_identity_matches order trade \<longleftrightarrow>
     instrument_identity_matches (bts_instrument trade) (bos_instrument order)
     \<and> optional_identity_compatible (bts_broker_asset_id trade) (bos_broker_asset_id order)
     \<and> optional_identity_compatible (bts_board trade) (bos_board order)
     \<and> optional_identity_compatible (bts_expiration_date trade) (bos_expiration_date order)"

section \<open>Orders and positions\<close>

fun lifecycle_for :: "order_status \<Rightarrow> broker_order_lifecycle" where
  "lifecycle_for New = OrderActive"
| "lifecycle_for Working = OrderActive"
| "lifecycle_for PartiallyFilled = OrderActive"
| "lifecycle_for Filled = OrderTerminal"
| "lifecycle_for Canceled = OrderTerminal"
| "lifecycle_for Rejected = OrderTerminal"
| "lifecycle_for Expired = OrderTerminal"
| "lifecycle_for (UnknownStatus s) = OrderUnknown"

definition quantity_truth :: "broker_order_snapshot \<Rightarrow> broker_order_quantity_truth" where
  "quantity_truth order = (case bos_remaining_qty order of
     Some remaining \<Rightarrow> if remaining = 0 then RemainingZero else RemainingPositive
   | None \<Rightarrow> RemainingUnknown)"

definition has_blocking_active_quantity :: "broker_order_snapshot \<Rightarrow> bool" where
  "has_blocking_active_quantity order \<longleftrightarrow> quantity_truth order \<in> {RemainingPositive, RemainingUnknown}"

definition is_active_for_lifecycle :: "broker_order_snapshot \<Rightarrow> bool" where
  "is_active_for_lifecycle order \<longleftrightarrow> bos_lifecycle order = OrderActive \<and> has_blocking_active_quantity order"

definition is_inconsistent_active_zero_remaining :: "broker_order_snapshot \<Rightarrow> bool" where
  "is_inconsistent_active_zero_remaining order \<longleftrightarrow>
     bos_lifecycle order = OrderActive \<and> quantity_truth order = RemainingZero"

definition has_correlation_id :: "broker_order_snapshot \<Rightarrow> bool" where
  "has_correlation_id order \<longleftrightarrow> bos_broker_order_id order \<noteq> None \<or> bos_client_order_id order \<noteq> None"

definition is_open :: "broker_position_snapshot \<Rightarrow> bool" where
  "is_open p \<longleftrightarrow> bps_qty p \<noteq> 0"

definition matches_instrument :: "broker_position_snapshot \<Rightarrow> instrument_id \<Rightarrow> bool" where
  "matches_instrument p i = instrument_identity_matches (bps_instrument p) i"

text \<open>\<open>Iterator::sum\<close>: from zero, one addition after the other.\<close>

fun dec_sum :: "(decimal \<Rightarrow> decimal \<Rightarrow> decimal option) \<Rightarrow> decimal \<Rightarrow> decimal list \<Rightarrow> decimal option" where
  "dec_sum add acc [] = Some acc"
| "dec_sum add acc (x # xs) = Option.bind (add acc x) (\<lambda>acc'. dec_sum add acc' xs)"

definition target_position_qty ::
    "(decimal \<Rightarrow> decimal \<Rightarrow> decimal option) \<Rightarrow> broker_truth_snapshot \<Rightarrow> instrument_id \<Rightarrow> quantity option" where
  "target_position_qty add t i =
     dec_sum add 0 (map bps_qty (filter (\<lambda>p. matches_instrument p i) (truth_positions t)))"

definition target_is_flat ::
    "(decimal \<Rightarrow> decimal \<Rightarrow> decimal option) \<Rightarrow> broker_truth_snapshot \<Rightarrow> instrument_id \<Rightarrow> bool option" where
  "target_is_flat add t i = map_option (\<lambda>q. q = 0) (target_position_qty add t i)"

definition open_positions_for_instrument ::
    "broker_truth_snapshot \<Rightarrow> instrument_id \<Rightarrow> broker_position_snapshot list" where
  "open_positions_for_instrument t i =
     filter (\<lambda>p. is_open p \<and> matches_instrument p i) (truth_positions t)"

definition active_orders_for_instrument ::
    "broker_truth_snapshot \<Rightarrow> instrument_id \<Rightarrow> broker_order_snapshot list" where
  "active_orders_for_instrument t i =
     filter (\<lambda>order. is_active_for_lifecycle order
       \<and> instrument_identity_matches (bos_instrument order) i) (truth_orders t)"

definition unknown_orders_for_instrument ::
    "broker_truth_snapshot \<Rightarrow> instrument_id \<Rightarrow> broker_order_snapshot list" where
  "unknown_orders_for_instrument t i =
     filter (\<lambda>order. bos_lifecycle order = OrderUnknown
       \<and> instrument_identity_matches (bos_instrument order) i) (truth_orders t)"

definition account_active_orders :: "broker_truth_snapshot \<Rightarrow> broker_order_snapshot list" where
  "account_active_orders t = filter is_active_for_lifecycle (truth_orders t)"

definition unknown_orders :: "broker_truth_snapshot \<Rightarrow> broker_order_snapshot list" where
  "unknown_orders t = filter (\<lambda>order. bos_lifecycle order = OrderUnknown) (truth_orders t)"

definition account_wide_active_order_count :: "broker_truth_snapshot \<Rightarrow> nat" where
  "account_wide_active_order_count t = length (filter is_active_for_lifecycle (truth_orders t))"

section \<open>Orphaned orders\<close>

definition order_instrument_identity_reasons ::
    "broker_truth_snapshot \<Rightarrow> broker_order_snapshot \<Rightarrow> broker_order_orphan_reason list" where
  "order_instrument_identity_reasons t order =
     (if ins_venue_symbol (bos_instrument order) = None then [UnknownInstrumentIdentity]
      else if truth_instruments t = [] then [MissingInstrumentRegistry]
      else (let n = length (filter (\<lambda>s. matches_order_identity s order) (truth_instruments t))
            in if n = 0 then [UnknownInstrumentIdentity]
               else if n = 1 then [] else [AmbiguousInstrumentIdentity]))"

definition same_id :: "'v option \<Rightarrow> 'v option \<Rightarrow> bool" where
  "same_id x y = (case (x, y) of (Some a, Some b) \<Rightarrow> a = b | _ \<Rightarrow> False)"

definition trades_matching_order_identity ::
    "broker_truth_snapshot \<Rightarrow> broker_order_snapshot \<Rightarrow> broker_trade_snapshot list" where
  "trades_matching_order_identity t order =
     filter (\<lambda>trade. same_id (bos_broker_order_id order) (bts_broker_order_id trade)
       \<or> same_id (bos_client_order_id order) (bts_client_order_id trade)) (truth_trades t)"

definition trade_is_consistent :: "broker_order_snapshot \<Rightarrow> broker_trade_snapshot \<Rightarrow> bool" where
  "trade_is_consistent order trade \<longleftrightarrow>
     bts_account_id trade = bos_account_id order
     \<and> order_trade_instrument_identity_matches order trade \<and> bts_side trade = bos_side order"

definition filled_quantity_reasons ::
    "(decimal \<Rightarrow> decimal \<Rightarrow> decimal option) \<Rightarrow> broker_order_snapshot \<Rightarrow> broker_trade_snapshot list
       \<Rightarrow> broker_order_orphan_reason list option" where
  "filled_quantity_reasons add order trades =
     (if trades = [] then Some [FilledQuantityWithoutMatchingTrade]
      else map_option (\<lambda>consistent_trade_qty.
        (if list_ex (\<lambda>trade. bts_account_id trade \<noteq> bos_account_id order) trades
         then [MatchingTradeAccountMismatch] else [])
      @ (if list_ex (\<lambda>trade. \<not> order_trade_instrument_identity_matches order trade) trades
         then [MatchingTradeInstrumentMismatch] else [])
      @ (if list_ex (\<lambda>trade. bts_side trade \<noteq> bos_side order) trades
         then [MatchingTradeSideMismatch] else [])
      @ (if consistent_trade_qty < bos_filled_qty order
         then [MatchingTradeQuantityLessThanFilledQuantity] else []))
        (dec_sum add 0 (map bts_qty (filter (trade_is_consistent order) trades))))"

definition orphan_reasons_for_order ::
    "(decimal \<Rightarrow> decimal \<Rightarrow> decimal option) \<Rightarrow> broker_truth_snapshot \<Rightarrow> broker_order_snapshot
       \<Rightarrow> broker_order_orphan_reason list option" where
  "orphan_reasons_for_order add t order =
     map_option (\<lambda>filled_reasons.
       (if bos_account_id order \<noteq> truth_account_id t then [AccountMismatch] else [])
     @ (if \<not> has_correlation_id order then [MissingCorrelationId] else [])
     @ order_instrument_identity_reasons t order
     @ filled_reasons)
       (if 0 < bos_filled_qty order
        then filled_quantity_reasons add order (trades_matching_order_identity t order)
        else Some [])"

fun filter_orphans ::
    "(decimal \<Rightarrow> decimal \<Rightarrow> decimal option) \<Rightarrow> broker_truth_snapshot \<Rightarrow> broker_order_snapshot list
       \<Rightarrow> broker_order_snapshot list option" where
  "filter_orphans add t [] = Some []"
| "filter_orphans add t (order # orders) =
     Option.bind (orphan_reasons_for_order add t order) (\<lambda>reasons.
     Option.bind (filter_orphans add t orders) (\<lambda>rest.
       Some (if reasons \<noteq> [] then order # rest else rest)))"

definition account_orphan_orders ::
    "(decimal \<Rightarrow> decimal \<Rightarrow> decimal option) \<Rightarrow> broker_truth_snapshot \<Rightarrow> broker_order_snapshot list option" where
  "account_orphan_orders add t = filter_orphans add t (truth_orders t)"

definition account_orphan_order_count ::
    "(decimal \<Rightarrow> decimal \<Rightarrow> decimal option) \<Rightarrow> broker_truth_snapshot \<Rightarrow> nat option" where
  "account_orphan_order_count add t = map_option length (account_orphan_orders add t)"

section \<open>Cash and margin\<close>

definition snapshot_cash_by_currency :: "broker_cash_snapshot \<Rightarrow> string \<Rightarrow> money option" where
  "snapshot_cash_by_currency c currency =
     map_option cp_amount (List.find (\<lambda>p. to_ascii_lowercase (cp_currency p) = to_ascii_lowercase currency)
       (bcs_cash c))"

definition cash_by_currency :: "broker_truth_snapshot \<Rightarrow> string \<Rightarrow> money option" where
  "cash_by_currency t currency =
     Option.bind (truth_cash t) (\<lambda>c. snapshot_cash_by_currency c currency)"

definition margin_sufficiency_for_required_margin ::
    "broker_cash_snapshot \<Rightarrow> money \<Rightarrow> broker_margin_sufficiency" where
  "margin_sufficiency_for_required_margin c required_margin = (case bcs_free_cash c of
     None \<Rightarrow> FreeCashMissing
   | Some free_cash \<Rightarrow> if required_margin \<le> free_cash then CashSufficient else CashInsufficient)"

definition margin_sufficiency_for_order ::
    "broker_truth_snapshot \<Rightarrow> money \<Rightarrow> broker_margin_sufficiency" where
  "margin_sufficiency_for_order t required_margin = (case truth_cash t of
     None \<Rightarrow> CashSnapshotMissing
   | Some c \<Rightarrow> margin_sufficiency_for_required_margin c required_margin)"

definition required_margin_for_order ::
    "(decimal \<Rightarrow> decimal \<Rightarrow> decimal option) \<Rightarrow> broker_truth_snapshot \<Rightarrow> instrument_id \<Rightarrow> order_side
       \<Rightarrow> quantity \<Rightarrow> price \<Rightarrow> broker_required_margin option" where
  "required_margin_for_order mul t i side qty reference_price =
     (if qty \<le> 0 then Some (MarginMissing RequiredInvalidQuantity)
      else if reference_price \<le> 0 then Some (MarginMissing RequiredInvalidReferencePrice)
      else case List.find (\<lambda>s. matches_instrument_id s i) (truth_instruments t) of
        None \<Rightarrow> Some (MarginMissing RequiredMissingInstrumentSpec)
      | Some spec \<Rightarrow>
         (case (case side of Buy \<Rightarrow> bis_long_initial_margin spec | Sell \<Rightarrow> bis_short_initial_margin spec) of
            None \<Rightarrow> Some (MarginMissing RequiredMissingInitialMargin)
          | Some initial_margin \<Rightarrow>
              Option.bind (mul reference_price qty) (\<lambda>_.
                map_option MarginDerived (mul initial_margin qty))))"

definition margin_sufficiency_for_instrument_order ::
    "(decimal \<Rightarrow> decimal \<Rightarrow> decimal option) \<Rightarrow> broker_truth_snapshot \<Rightarrow> instrument_id \<Rightarrow> order_side
       \<Rightarrow> quantity \<Rightarrow> price \<Rightarrow> broker_order_margin_sufficiency option" where
  "margin_sufficiency_for_instrument_order mul t i side qty reference_price =
     map_option (\<lambda>m. case m of
        MarginMissing RequiredMissingInstrumentSpec \<Rightarrow> MarginMissingInstrumentSpec
      | MarginMissing RequiredMissingInitialMargin \<Rightarrow> MarginMissingInitialMargin
      | MarginMissing RequiredInvalidQuantity \<Rightarrow> MarginInvalidQuantity
      | MarginMissing RequiredInvalidReferencePrice \<Rightarrow> MarginInvalidReferencePrice
      | MarginDerived required_margin \<Rightarrow>
         (case margin_sufficiency_for_order t required_margin of
            CashSufficient \<Rightarrow> MarginSufficient required_margin
          | CashInsufficient \<Rightarrow> MarginInsufficient required_margin
          | CashSnapshotMissing \<Rightarrow> MarginMissingCashSnapshot
          | FreeCashMissing \<Rightarrow> MarginMissingFreeCash))
       (required_margin_for_order mul t i side qty reference_price)"

section \<open>Summary\<close>

definition summarize_for_instrument ::
    "(decimal \<Rightarrow> decimal \<Rightarrow> decimal option) \<Rightarrow> broker_truth_snapshot \<Rightarrow> instrument_id
       \<Rightarrow> broker_truth_instrument_summary option" where
  "summarize_for_instrument add t i =
     map_option (\<lambda>orphans.
       \<lparr> sum_target_open_positions_count = length (open_positions_for_instrument t i),
         sum_account_open_positions_count = length (filter is_open (truth_positions t)),
         sum_target_active_orders_count = length (active_orders_for_instrument t i),
         sum_target_unknown_orders_count = length (unknown_orders_for_instrument t i),
         sum_target_terminal_orders_count =
           length (filter (\<lambda>order. bos_lifecycle order = OrderTerminal
             \<and> instrument_identity_matches (bos_instrument order) i) (truth_orders t)),
         sum_target_inconsistent_orders_count =
           length (filter (\<lambda>order. is_inconsistent_active_zero_remaining order
             \<and> instrument_identity_matches (bos_instrument order) i) (truth_orders t)),
         sum_account_active_orders_count = account_wide_active_order_count t,
         sum_account_unknown_orders_count =
           length (filter (\<lambda>order. bos_lifecycle order = OrderUnknown) (truth_orders t)),
         sum_account_orphan_orders_count = orphans,
         sum_other_symbol_active_orders_count =
           length (filter (\<lambda>order. is_active_for_lifecycle order
             \<and> \<not> instrument_identity_matches (bos_instrument order) i) (truth_orders t)) \<rparr>)
       (account_orphan_order_count add t)"

section \<open>Facts\<close>

lemma filter_orphans_None_of:
  "filter_orphans add t orders = Some [] \<longleftrightarrow>
     (\<forall>order \<in> set orders. orphan_reasons_for_order add t order = Some [])"
  by (induction orders) (auto simp: Option.bind_eq_Some_conv split: if_splits)

lemma account_orphan_order_count_0:
  "account_orphan_order_count add t = Some 0 \<longleftrightarrow>
     (\<forall>order \<in> set (truth_orders t). orphan_reasons_for_order add t order = Some [])"
  by (auto simp: account_orphan_order_count_def account_orphan_orders_def filter_orphans_None_of
      simp flip: filter_orphans_None_of)

lemma same_id_iff [simp]: "same_id x y \<longleftrightarrow> (\<exists>v. x = Some v \<and> y = Some v)"
  by (auto simp: same_id_def split: option.splits)

text \<open>What an order without an orphan reason has.\<close>

lemma orphan_reasons_Nil:
  assumes "orphan_reasons_for_order add t order = Some []"
  shows "bos_account_id order = truth_account_id t" and "has_correlation_id order"
    and "\<exists>s. filter (\<lambda>s. matches_order_identity s order) (truth_instruments t) = [s]"
    and "0 < bos_filled_qty order \<Longrightarrow>
      \<exists>total. dec_sum add 0 (map bts_qty (filter (trade_is_consistent order)
         (trades_matching_order_identity t order))) = Some total \<and> bos_filled_qty order \<le> total
       \<and> (\<forall>trade \<in> set (trades_matching_order_identity t order). trade_is_consistent order trade)"
proof -
  obtain fr where fr: "(if 0 < bos_filled_qty order
        then filled_quantity_reasons add order (trades_matching_order_identity t order)
        else Some []) = Some fr"
    and nil: "(if bos_account_id order \<noteq> truth_account_id t then [AccountMismatch] else [])
     @ (if \<not> has_correlation_id order then [MissingCorrelationId] else [])
     @ order_instrument_identity_reasons t order @ fr = []"
    using assms unfolding orphan_reasons_for_order_def map_option_eq_Some by blast
  from nil show "bos_account_id order = truth_account_id t" and "has_correlation_id order"
    by (simp_all split: if_splits)
  from nil have "order_instrument_identity_reasons t order = []" by simp
  then have "length (filter (\<lambda>s. matches_order_identity s order) (truth_instruments t)) = 1"
    by (auto simp: order_instrument_identity_reasons_def Let_def split: if_splits)
  then show "\<exists>s. filter (\<lambda>s. matches_order_identity s order) (truth_instruments t) = [s]"
    by (simp add: length_Suc_conv)
  assume "0 < bos_filled_qty order"
  with fr nil have "filled_quantity_reasons add order (trades_matching_order_identity t order) = Some []"
    by simp
  then show "\<exists>total. dec_sum add 0 (map bts_qty (filter (trade_is_consistent order)
         (trades_matching_order_identity t order))) = Some total \<and> bos_filled_qty order \<le> total
       \<and> (\<forall>trade \<in> set (trades_matching_order_identity t order). trade_is_consistent order trade)"
    by (auto simp: filled_quantity_reasons_def list_ex_iff trade_is_consistent_def not_less
        split: if_splits)
qed

end
