(* ===== verification/OperationalConfig.thy ===== *)
theory OperationalConfig
  imports BrokerTruth
begin

text \<open>
  When an order may be sent to the broker at all (\<open>operational_config.rs\<close>): the readiness
  checks of a live entry, the waiver for plain market and limit orders, and the decision
  that joins readiness, margin and the broker's truth. \<open>num_ms\<close> is chrono's
  \<open>num_milliseconds\<close>.
\<close>

section \<open>Configuration and readiness data\<close>

datatype broker_order_intent_kind =
  IntentEntry | IntentExit | IntentCancel | IntentReplace | IntentStopOrBracket

record broker_timeout_config =
  btc_connect_timeout_ms :: u64
  btc_request_timeout_ms :: u64
  btc_order_submit_timeout_ms :: u64
  btc_cancel_timeout_ms :: u64
  btc_reconcile_timeout_ms :: u64
  btc_stream_heartbeat_timeout_ms :: u64

record broker_freshness_config =
  bfc_account_snapshot_max_age_ms :: u64
  bfc_positions_max_age_ms :: u64
  bfc_orders_max_age_ms :: u64
  bfc_trades_max_age_ms :: u64
  bfc_quotes_max_age_ms :: u64
  bfc_instrument_spec_max_age_ms :: u64
  bfc_schedule_max_age_ms :: u64

record broker_risk_limit_config =
  brl_max_orders_per_run :: u32
  brl_max_position_qty :: decimal
  brl_max_position_lifetime_sec :: u64
  brl_require_cash_margin_sufficiency :: bool

record broker_scope_config =
  bsc_allowed_accounts :: "broker_account_id list"
  bsc_allowed_symbols :: "string list"
  bsc_allowed_order_types :: "string list"
  bsc_allowed_sessions :: "string list"

record broker_lifecycle_config =
  blc_begin_submit_persistence_required :: bool
  blc_request_cancel_persistence_required :: bool
  blc_idempotency_marker_required :: bool
  blc_one_shot_marker_required :: bool
  blc_crash_recovery_state_required :: bool
  blc_blind_retry_after_ambiguous_send_allowed :: bool

record broker_operational_config =
  boc_timeouts :: broker_timeout_config
  boc_freshness :: broker_freshness_config
  boc_risk_limits :: broker_risk_limit_config
  boc_scope :: broker_scope_config
  boc_lifecycle :: broker_lifecycle_config

record broker_capability_matrix =
  cap_supports_market_order :: bool
  cap_supports_limit_order :: bool
  cap_supports_cancel :: bool
  cap_supports_replace :: bool
  cap_supports_stop_sltp :: bool
  cap_supports_brackets :: bool
  cap_supports_multi_leg :: bool
  cap_supports_readonly_orders :: bool
  cap_supports_readonly_trades :: bool
  cap_supports_readonly_positions :: bool
  cap_supports_streaming_order_updates :: bool
  cap_supports_streaming_position_updates :: bool

record broker_feed_freshness =
  bff_observed_ts :: "timestamp option"
  bff_max_age_ms :: u64

definition is_fresh_at :: "(duration \<Rightarrow> int) \<Rightarrow> broker_feed_freshness \<Rightarrow> timestamp \<Rightarrow> bool" where
  "is_fresh_at num_ms feed now = (case bff_observed_ts feed of
     None \<Rightarrow> False
   | Some observed \<Rightarrow>
       (let age_ms = num_ms (now - observed)
        in 0 \<le> age_ms \<and> i64_as_u64 age_ms \<le> bff_max_age_ms feed))"

datatype broker_market_session_state =
  SessionOpen | SessionClosed | SessionBreak | SessionMaintenance | SessionUnknown

datatype broker_stop_order_readiness =
  StopSupportedFresh | StopUnsupportedBlocked | StopStale | StopMissing

record broker_readiness_snapshot =
  brs_account :: broker_feed_freshness
  brs_positions :: broker_feed_freshness
  brs_orders :: broker_feed_freshness
  brs_trades :: broker_feed_freshness
  brs_quotes :: broker_feed_freshness
  brs_instrument_spec :: broker_feed_freshness
  brs_schedule :: broker_feed_freshness
  brs_market_session :: broker_market_session_state
  brs_unknown_order_count :: nat
  brs_cash_margin_present :: bool
  brs_instrument_spec_validated :: bool
  brs_live_market_data_seen :: bool
  brs_subscription_ready :: bool
  brs_stream_or_polling_connected :: bool
  brs_event_sink_degraded :: bool
  brs_stop_order_readiness :: broker_stop_order_readiness

datatype broker_live_entry_block =
    AccountSnapshotStale | PositionsStale | OrdersStale | TradesStale | QuotesStale
  | InstrumentSpecStale | ScheduleStale | MarketNotOpen | UnknownOrdersPresent
  | CashMarginMissing | InstrumentSpecNotValidated | FirstLiveMarketDataNotSeen
  | SubscriptionNotReady | StreamOrPollingNotConnected | EventSinkDegraded
  | StopOrderReadinessMissing | StopOrderReadinessStale | StopOrderUnsupportedBlocked
  | MarketOrdersUnsupported | LimitOrdersUnsupported | OrderTypeNotAllowed
  | CancelUnsupported | AccountNotAllowed | SymbolNotAllowed
  | LifecyclePersistenceMissing | BlindRetryAfterAmbiguousSendAllowed

record broker_live_entry_scope =
  les_account_id :: broker_account_id
  les_symbol :: string
  les_order_type :: string

record broker_live_entry_decision =
  led_allowed :: bool
  led_blocks :: "broker_live_entry_block list"

definition eq_ignore_ascii_case :: "string \<Rightarrow> string \<Rightarrow> bool" where
  "eq_ignore_ascii_case s t \<longleftrightarrow> to_ascii_lowercase s = to_ascii_lowercase t"

text \<open>One \<open>if condition \<open>{\<close> blocks.push(..) \<open>}\<close>\<close> of the checks.\<close>

definition push_if :: "bool \<Rightarrow> 'b \<Rightarrow> 'b list" where
  "push_if condition block = (if condition then [block] else [])"

definition broker_truth_is_fresh :: "(duration \<Rightarrow> int) \<Rightarrow> broker_readiness_snapshot \<Rightarrow> timestamp \<Rightarrow> bool" where
  "broker_truth_is_fresh num_ms s now \<longleftrightarrow>
     is_fresh_at num_ms (brs_account s) now \<and> is_fresh_at num_ms (brs_positions s) now
     \<and> is_fresh_at num_ms (brs_orders s) now \<and> is_fresh_at num_ms (brs_trades s) now
     \<and> is_fresh_at num_ms (brs_quotes s) now \<and> is_fresh_at num_ms (brs_instrument_spec s) now
     \<and> is_fresh_at num_ms (brs_schedule s) now"

definition stop_order_blocks :: "broker_stop_order_readiness \<Rightarrow> broker_live_entry_block list" where
  "stop_order_blocks r = (case r of
     StopSupportedFresh \<Rightarrow> []
   | StopUnsupportedBlocked \<Rightarrow> [StopOrderUnsupportedBlocked]
   | StopStale \<Rightarrow> [StopOrderReadinessStale]
   | StopMissing \<Rightarrow> [StopOrderReadinessMissing])"

definition live_entry_blocks ::
    "(duration \<Rightarrow> int) \<Rightarrow> broker_readiness_snapshot \<Rightarrow> timestamp \<Rightarrow> broker_operational_config
       \<Rightarrow> broker_capability_matrix \<Rightarrow> broker_live_entry_scope \<Rightarrow> broker_live_entry_block list" where
  "live_entry_blocks num_ms s now config capabilities scope =
     push_if (\<not> is_fresh_at num_ms (brs_account s) now) AccountSnapshotStale
   @ push_if (\<not> is_fresh_at num_ms (brs_positions s) now) PositionsStale
   @ push_if (\<not> is_fresh_at num_ms (brs_orders s) now) OrdersStale
   @ push_if (\<not> is_fresh_at num_ms (brs_trades s) now) TradesStale
   @ push_if (\<not> is_fresh_at num_ms (brs_quotes s) now) QuotesStale
   @ push_if (\<not> is_fresh_at num_ms (brs_instrument_spec s) now) InstrumentSpecStale
   @ push_if (\<not> is_fresh_at num_ms (brs_schedule s) now) ScheduleStale
   @ push_if (brs_market_session s \<noteq> SessionOpen) MarketNotOpen
   @ push_if (0 < brs_unknown_order_count s) UnknownOrdersPresent
   @ push_if (brl_require_cash_margin_sufficiency (boc_risk_limits config)
        \<and> \<not> brs_cash_margin_present s) CashMarginMissing
   @ push_if (\<not> brs_instrument_spec_validated s) InstrumentSpecNotValidated
   @ push_if (\<not> brs_live_market_data_seen s) FirstLiveMarketDataNotSeen
   @ push_if (\<not> brs_subscription_ready s) SubscriptionNotReady
   @ push_if (\<not> brs_stream_or_polling_connected s) StreamOrPollingNotConnected
   @ push_if (brs_event_sink_degraded s) EventSinkDegraded
   @ stop_order_blocks (brs_stop_order_readiness s)
   @ push_if (eq_ignore_ascii_case (les_order_type scope) ''market''
        \<and> \<not> cap_supports_market_order capabilities) MarketOrdersUnsupported
   @ push_if (eq_ignore_ascii_case (les_order_type scope) ''limit''
        \<and> \<not> cap_supports_limit_order capabilities) LimitOrdersUnsupported
   @ push_if (les_account_id scope \<notin> set (bsc_allowed_accounts (boc_scope config))) AccountNotAllowed
   @ push_if (les_symbol scope \<notin> set (bsc_allowed_symbols (boc_scope config))) SymbolNotAllowed
   @ push_if (\<not> list_ex (\<lambda>allowed. eq_ignore_ascii_case allowed (les_order_type scope))
        (bsc_allowed_order_types (boc_scope config))) OrderTypeNotAllowed
   @ push_if (\<not> blc_begin_submit_persistence_required (boc_lifecycle config)
        \<or> \<not> blc_idempotency_marker_required (boc_lifecycle config)
        \<or> \<not> blc_one_shot_marker_required (boc_lifecycle config)
        \<or> \<not> blc_crash_recovery_state_required (boc_lifecycle config)) LifecyclePersistenceMissing
   @ push_if (blc_blind_retry_after_ambiguous_send_allowed (boc_lifecycle config))
       BlindRetryAfterAmbiguousSendAllowed"

definition live_entry_allowed ::
    "(duration \<Rightarrow> int) \<Rightarrow> broker_readiness_snapshot \<Rightarrow> timestamp \<Rightarrow> broker_operational_config
       \<Rightarrow> broker_capability_matrix \<Rightarrow> broker_live_entry_scope \<Rightarrow> broker_live_entry_decision" where
  "live_entry_allowed num_ms s now config capabilities scope =
     (let blocks = live_entry_blocks num_ms s now config capabilities scope
      in \<lparr> led_allowed = (blocks = []), led_blocks = blocks \<rparr>)"

definition emergency_cancel_allowed ::
    "broker_capability_matrix \<Rightarrow> broker_operational_config \<Rightarrow> broker_live_entry_scope
       \<Rightarrow> broker_live_entry_decision" where
  "emergency_cancel_allowed capabilities config scope =
     (let blocks =
        push_if (\<not> cap_supports_cancel capabilities) CancelUnsupported
      @ push_if (les_account_id scope \<notin> set (bsc_allowed_accounts (boc_scope config))) AccountNotAllowed
      @ push_if (les_symbol scope \<notin> set (bsc_allowed_symbols (boc_scope config))) SymbolNotAllowed
      in \<lparr> led_allowed = (blocks = []), led_blocks = blocks \<rparr>)"

section \<open>The waiver for plain orders\<close>

datatype broker_stop_order_waiver_source = NoWaiver | StopOrderNotRequiredForPlainMicro

datatype broker_stop_order_waiver_rejection =
    PolicyDisabled | StopOrderUnsupportedBlockAbsent | OperatorApprovalMissing
  | WaiverInvalidQuantity | QuantityExceedsMax | WaiverAccountNotAllowed | WaiverSymbolNotAllowed
  | OrderTypeNotPlainMarketLimit | RuntimeLiveEnabled | CommandConsumerToRealFinamEnabled
  | StopSltpBracketReplaceMultiLegEnabled

record broker_stop_order_waiver_decision =
  swd_source :: broker_stop_order_waiver_source
  swd_applied :: bool
  swd_rejections :: "broker_stop_order_waiver_rejection list"

definition waiver_not_requested :: broker_stop_order_waiver_decision where
  "waiver_not_requested = \<lparr> swd_source = NoWaiver, swd_applied = False, swd_rejections = [] \<rparr>"

record broker_plain_micro_waiver_policy =
  pmw_enabled :: bool
  pmw_operator_approved :: bool
  pmw_max_qty :: decimal
  pmw_allowed_accounts :: "broker_account_id list"
  pmw_allowed_symbols :: "string list"
  pmw_allowed_order_types :: "string list"
  pmw_runtime_live_enabled :: bool
  pmw_command_consumer_to_real_finam_enabled :: bool
  pmw_stop_sltp_bracket_replace_multi_leg_enabled :: bool

definition waiver_policy_disabled :: broker_plain_micro_waiver_policy where
  "waiver_policy_disabled = \<lparr> pmw_enabled = False, pmw_operator_approved = False, pmw_max_qty = 1,
     pmw_allowed_accounts = [], pmw_allowed_symbols = [],
     pmw_allowed_order_types = [''market'', ''limit''], pmw_runtime_live_enabled = False,
     pmw_command_consumer_to_real_finam_enabled = False,
     pmw_stop_sltp_bracket_replace_multi_leg_enabled = False \<rparr>"

definition evaluate_waiver ::
    "broker_plain_micro_waiver_policy \<Rightarrow> broker_live_entry_decision \<Rightarrow> broker_live_entry_scope
       \<Rightarrow> decimal \<Rightarrow> broker_stop_order_waiver_decision" where
  "evaluate_waiver policy readiness scope qty =
     (let order_type_allowed = list_ex (\<lambda>allowed. eq_ignore_ascii_case allowed (les_order_type scope))
            (pmw_allowed_order_types policy);
          plain = eq_ignore_ascii_case (les_order_type scope) ''market''
            \<or> eq_ignore_ascii_case (les_order_type scope) ''limit'';
          rejections =
            push_if (StopOrderUnsupportedBlocked \<notin> set (led_blocks readiness)) StopOrderUnsupportedBlockAbsent
          @ push_if (\<not> pmw_enabled policy) PolicyDisabled
          @ push_if (\<not> pmw_operator_approved policy) OperatorApprovalMissing
          @ push_if (qty \<le> 0) WaiverInvalidQuantity
          @ push_if (pmw_max_qty policy < qty) QuantityExceedsMax
          @ push_if (les_account_id scope \<notin> set (pmw_allowed_accounts policy)) WaiverAccountNotAllowed
          @ push_if (les_symbol scope \<notin> set (pmw_allowed_symbols policy)) WaiverSymbolNotAllowed
          @ push_if (\<not> order_type_allowed \<or> \<not> plain) OrderTypeNotPlainMarketLimit
          @ push_if (pmw_runtime_live_enabled policy) RuntimeLiveEnabled
          @ push_if (pmw_command_consumer_to_real_finam_enabled policy) CommandConsumerToRealFinamEnabled
          @ push_if (pmw_stop_sltp_bracket_replace_multi_leg_enabled policy)
              StopSltpBracketReplaceMultiLegEnabled
      in \<lparr> swd_source = StopOrderNotRequiredForPlainMicro, swd_applied = (rejections = []),
           swd_rejections = rejections \<rparr>)"

section \<open>The canonical preflight decision\<close>

datatype broker_canonical_preflight_block =
    ReadinessBlock broker_live_entry_block | StopOrderWaiverRejected | CanonicalMarginInsufficient
  | MissingCashSnapshot | MissingFreeCash | MissingInstrumentSpec | MissingInitialMargin
  | CanonicalInvalidQuantity | CanonicalInvalidReferencePrice | TargetPositionNotFlat
  | TargetActiveOrdersPresent | TargetUnknownOrdersPresent | AccountActiveOrdersPresent
  | AccountUnknownOrdersPresent | AccountOrphanOrdersPresent

record broker_canonical_preflight_decision =
  cpd_readiness_decision :: broker_live_entry_decision
  cpd_margin_sufficiency :: broker_order_margin_sufficiency
  cpd_truth_summary :: broker_truth_instrument_summary
  cpd_stop_order_waiver_decision :: broker_stop_order_waiver_decision
  cpd_allowed :: bool
  cpd_blocks :: "broker_canonical_preflight_block list"

fun margin_sufficiency_block ::
    "broker_order_margin_sufficiency \<Rightarrow> broker_canonical_preflight_block option" where
  "margin_sufficiency_block (MarginSufficient m) = None"
| "margin_sufficiency_block (MarginInsufficient m) = Some CanonicalMarginInsufficient"
| "margin_sufficiency_block MarginMissingCashSnapshot = Some MissingCashSnapshot"
| "margin_sufficiency_block MarginMissingFreeCash = Some MissingFreeCash"
| "margin_sufficiency_block MarginMissingInstrumentSpec = Some MissingInstrumentSpec"
| "margin_sufficiency_block MarginMissingInitialMargin = Some MissingInitialMargin"
| "margin_sufficiency_block MarginInvalidQuantity = Some CanonicalInvalidQuantity"
| "margin_sufficiency_block MarginInvalidReferencePrice = Some CanonicalInvalidReferencePrice"

definition canonical_preflight ::
    "broker_live_entry_decision \<Rightarrow> broker_order_margin_sufficiency \<Rightarrow> broker_truth_instrument_summary
       \<Rightarrow> broker_stop_order_waiver_decision \<Rightarrow> broker_canonical_preflight_decision" where
  "canonical_preflight readiness margin summary waiver =
     (let unsupported = StopOrderUnsupportedBlocked \<in> set (led_blocks readiness);
          blocks =
            map ReadinessBlock (filter (\<lambda>b. \<not> (b = StopOrderUnsupportedBlocked \<and> swd_applied waiver))
              (led_blocks readiness))
          @ push_if (unsupported \<and> swd_source waiver = StopOrderNotRequiredForPlainMicro
              \<and> \<not> swd_applied waiver) StopOrderWaiverRejected
          @ (case margin_sufficiency_block margin of Some b \<Rightarrow> [b] | None \<Rightarrow> [])
          @ push_if (0 < sum_target_open_positions_count summary) TargetPositionNotFlat
          @ push_if (0 < sum_target_active_orders_count summary) TargetActiveOrdersPresent
          @ push_if (0 < sum_target_unknown_orders_count summary) TargetUnknownOrdersPresent
          @ push_if (0 < sum_account_active_orders_count summary) AccountActiveOrdersPresent
          @ push_if (0 < sum_account_unknown_orders_count summary) AccountUnknownOrdersPresent
          @ push_if (0 < sum_account_orphan_orders_count summary) AccountOrphanOrdersPresent
      in \<lparr> cpd_readiness_decision = readiness, cpd_margin_sufficiency = margin,
           cpd_truth_summary = summary, cpd_stop_order_waiver_decision = waiver,
           cpd_allowed = (blocks = []), cpd_blocks = blocks \<rparr>)"

definition canonical_preflight_no_waiver ::
    "broker_live_entry_decision \<Rightarrow> broker_order_margin_sufficiency \<Rightarrow> broker_truth_instrument_summary
       \<Rightarrow> broker_canonical_preflight_decision" where
  "canonical_preflight_no_waiver readiness margin summary =
     canonical_preflight readiness margin summary waiver_not_requested"

section \<open>Facts\<close>

lemma push_if_Nil [simp]: "push_if c b = [] \<longleftrightarrow> \<not> c"
  by (simp add: push_if_def)

lemma in_push_if [simp]: "x \<in> set (push_if c b) \<longleftrightarrow> c \<and> x = b"
  by (auto simp: push_if_def)

lemma push_if_subset [simp]: "set (push_if c b) \<subseteq> A \<longleftrightarrow> (c \<longrightarrow> b \<in> A)"
  by (auto simp: push_if_def)

lemma stop_order_blocks_Nil [simp]: "stop_order_blocks r = [] \<longleftrightarrow> r = StopSupportedFresh"
  by (cases r) (simp_all add: stop_order_blocks_def)

lemma led_allowed_iff:
  "led_allowed (live_entry_allowed num_ms s now config capabilities scope) \<longleftrightarrow>
     led_blocks (live_entry_allowed num_ms s now config capabilities scope) = []"
  by (simp add: live_entry_allowed_def Let_def)

lemma margin_block_None: "margin_sufficiency_block m = None \<longleftrightarrow> (\<exists>r. m = MarginSufficient r)"
  by (cases m) simp_all

text \<open>What a waiver that applies has been checked for.\<close>

definition waiver_granted ::
    "broker_plain_micro_waiver_policy \<Rightarrow> broker_live_entry_scope \<Rightarrow> decimal \<Rightarrow> bool" where
  "waiver_granted policy scope qty \<longleftrightarrow>
     pmw_enabled policy \<and> pmw_operator_approved policy \<and> 0 < qty \<and> qty \<le> pmw_max_qty policy
     \<and> les_account_id scope \<in> set (pmw_allowed_accounts policy)
     \<and> les_symbol scope \<in> set (pmw_allowed_symbols policy)
     \<and> (\<exists>allowed \<in> set (pmw_allowed_order_types policy). eq_ignore_ascii_case allowed (les_order_type scope))
     \<and> (eq_ignore_ascii_case (les_order_type scope) ''market''
        \<or> eq_ignore_ascii_case (les_order_type scope) ''limit'')
     \<and> \<not> pmw_runtime_live_enabled policy \<and> \<not> pmw_command_consumer_to_real_finam_enabled policy
     \<and> \<not> pmw_stop_sltp_bracket_replace_multi_leg_enabled policy"

lemma evaluate_waiver_applied:
  "swd_applied (evaluate_waiver policy readiness scope qty) \<longleftrightarrow>
     StopOrderUnsupportedBlocked \<in> set (led_blocks readiness) \<and> waiver_granted policy scope qty"
  by (auto simp: evaluate_waiver_def Let_def waiver_granted_def list_ex_iff not_le not_less)

lemma canonical_preflight_allowed:
  "cpd_allowed (canonical_preflight readiness margin summary waiver) \<longleftrightarrow>
     (\<forall>b \<in> set (led_blocks readiness). b = StopOrderUnsupportedBlocked \<and> swd_applied waiver)
     \<and> (\<exists>r. margin = MarginSufficient r)
     \<and> sum_target_open_positions_count summary = 0 \<and> sum_target_active_orders_count summary = 0
     \<and> sum_target_unknown_orders_count summary = 0 \<and> sum_account_active_orders_count summary = 0
     \<and> sum_account_unknown_orders_count summary = 0 \<and> sum_account_orphan_orders_count summary = 0"
  by (cases "margin_sufficiency_block margin")
    (auto simp: canonical_preflight_def Let_def filter_empty_conv simp flip: margin_block_None)

lemma live_entry_blocks_fresh:
  assumes "set (led_blocks (live_entry_allowed num_ms s now config capabilities scope)) \<subseteq> {StopOrderUnsupportedBlocked}"
  shows "broker_truth_is_fresh num_ms s now" and "brs_market_session s = SessionOpen"
    and "brs_unknown_order_count s = 0"
    and "brs_stop_order_readiness s \<in> {StopSupportedFresh, StopUnsupportedBlocked}"
    and "les_account_id scope \<in> set (bsc_allowed_accounts (boc_scope config))"
    and "les_symbol scope \<in> set (bsc_allowed_symbols (boc_scope config))"
    and "\<not> blc_blind_retry_after_ambiguous_send_allowed (boc_lifecycle config)"
  using assms
  by (simp_all add: live_entry_allowed_def Let_def live_entry_blocks_def broker_truth_is_fresh_def
      stop_order_blocks_def split: if_splits broker_stop_order_readiness.splits)

lemma live_entry_blocks_unsupported:
  "StopOrderUnsupportedBlocked \<in> set (led_blocks (live_entry_allowed num_ms s now config capabilities scope)) \<longleftrightarrow>
     brs_stop_order_readiness s = StopUnsupportedBlocked"
  by (cases "brs_stop_order_readiness s")
    (simp_all add: live_entry_allowed_def Let_def live_entry_blocks_def stop_order_blocks_def)

lemma margin_sufficient_cash:
  assumes "margin_sufficiency_for_instrument_order mul t i side qty price = Some (MarginSufficient required)"
  shows "0 < qty \<and> (\<exists>spec initial free.
      List.find (\<lambda>s. matches_instrument_id s i) (truth_instruments t) = Some spec
    \<and> (case side of Buy \<Rightarrow> bis_long_initial_margin spec | Sell \<Rightarrow> bis_short_initial_margin spec) = Some initial
    \<and> mul initial qty = Some required
    \<and> Option.bind (truth_cash t) bcs_free_cash = Some free \<and> required \<le> free)"
proof -
  obtain m where m: "required_margin_for_order mul t i side qty price = Some m"
    using assms by (auto simp: margin_sufficiency_for_instrument_order_def)
  have r: "m = MarginDerived required \<and> margin_sufficiency_for_order t required = CashSufficient"
  proof (cases m)
    case (MarginDerived a)
    with assms m show ?thesis
      by (cases "margin_sufficiency_for_order t a") (simp_all add: margin_sufficiency_for_instrument_order_def)
  next
    case (MarginMissing e)
    with assms m show ?thesis
      by (cases e) (simp_all add: margin_sufficiency_for_instrument_order_def)
  qed
  from m r have "0 < qty \<and> (\<exists>spec initial.
      List.find (\<lambda>s. matches_instrument_id s i) (truth_instruments t) = Some spec
    \<and> (case side of Buy \<Rightarrow> bis_long_initial_margin spec | Sell \<Rightarrow> bis_short_initial_margin spec) = Some initial
    \<and> mul initial qty = Some required)"
    by (auto simp: required_margin_for_order_def Option.bind_eq_Some_conv not_le
        split: if_splits option.splits)
  moreover from r have "\<exists>free. Option.bind (truth_cash t) bcs_free_cash = Some free \<and> required \<le> free"
    by (auto simp: margin_sufficiency_for_order_def margin_sufficiency_for_required_margin_def
        split: option.splits if_splits)
  ultimately show ?thesis by blast
qed

lemma summary_clean:
  assumes "summarize_for_instrument add t i = Some summary"
    and "sum_target_open_positions_count summary = 0" and "sum_account_active_orders_count summary = 0"
    and "sum_account_unknown_orders_count summary = 0" and "sum_account_orphan_orders_count summary = 0"
  shows "\<forall>order \<in> set (truth_orders t). orphan_reasons_for_order add t order = Some []
      \<and> (bos_lifecycle order = OrderTerminal \<or> is_inconsistent_active_zero_remaining order)"
    and "\<forall>p \<in> set (truth_positions t). matches_instrument p i \<longrightarrow> bps_qty p = 0"
proof -
  obtain orphans where o: "account_orphan_order_count add t = Some orphans"
    and sum: "sum_account_orphan_orders_count summary = orphans"
      "sum_target_open_positions_count summary = length (open_positions_for_instrument t i)"
      "sum_account_active_orders_count summary = account_wide_active_order_count t"
      "sum_account_unknown_orders_count summary
         = length (filter (\<lambda>order. bos_lifecycle order = OrderUnknown) (truth_orders t))"
    using assms(1) by (auto simp: summarize_for_instrument_def)
  show "\<forall>p \<in> set (truth_positions t). matches_instrument p i \<longrightarrow> bps_qty p = 0"
    using assms(2) sum(2)
    by (auto simp: open_positions_for_instrument_def filter_empty_conv is_open_def)
  have orphan_free: "\<forall>order \<in> set (truth_orders t). orphan_reasons_for_order add t order = Some []"
    using o sum(1) assms(5) by (simp flip: account_orphan_order_count_0)
  have alive: "\<forall>order \<in> set (truth_orders t). \<not> is_active_for_lifecycle order"
    using sum(3) assms(3) by (simp add: account_wide_active_order_count_def filter_empty_conv)
  have known: "\<forall>order \<in> set (truth_orders t). bos_lifecycle order \<noteq> OrderUnknown"
    using sum(4) assms(4) by (simp add: filter_empty_conv)
  have "bos_lifecycle order = OrderTerminal \<or> is_inconsistent_active_zero_remaining order"
    if "order \<in> set (truth_orders t)" for order
    using that alive known
    by (cases "bos_lifecycle order"; cases "quantity_truth order")
      (auto simp: is_active_for_lifecycle_def has_blocking_active_quantity_def
        is_inconsistent_active_zero_remaining_def)
  with orphan_free show "\<forall>order \<in> set (truth_orders t). orphan_reasons_for_order add t order = Some []
      \<and> (bos_lifecycle order = OrderTerminal \<or> is_inconsistent_active_zero_remaining order)" by blast
qed

section \<open>Properties\<close>

text \<open>C19: An order the canonical preflight lets through is sent on a fresh and clean account: every
  feed is fresh and the market open; stop orders are supported, or waived by an enabled and
  operator-approved policy for a plain order within its limits; the quantity is positive, and the
  free cash covers it times the initial margin that the instrument's first specification states
  for the side of the order; the position in the instrument is closed; and every order of the
  account is terminal (or reports itself active with nothing remaining), belongs to the
  account, carries an id, matches exactly one instrument specification, and, when filled,
  has consistent trades for the whole filled quantity.\<close>

theorem canonical_preflight_clean_account:
  assumes "summarize_for_instrument add t i = Some summary"
    and "margin_sufficiency_for_instrument_order mul t i side qty price = Some margin"
    and "readiness = live_entry_allowed num_ms s now config capabilities scope"
    and "cpd_allowed (canonical_preflight readiness margin summary (evaluate_waiver policy readiness scope qty))"
  shows "broker_truth_is_fresh num_ms s now \<and> brs_market_session s = SessionOpen
    \<and> (brs_stop_order_readiness s = StopSupportedFresh
       \<or> brs_stop_order_readiness s = StopUnsupportedBlocked \<and> waiver_granted policy scope qty)
    \<and> 0 < qty \<and> (\<exists>spec initial required free.
          List.find (\<lambda>s. matches_instrument_id s i) (truth_instruments t) = Some spec
        \<and> (case side of Buy \<Rightarrow> bis_long_initial_margin spec | Sell \<Rightarrow> bis_short_initial_margin spec)
            = Some initial
        \<and> mul initial qty = Some required
        \<and> Option.bind (truth_cash t) bcs_free_cash = Some free \<and> required \<le> free)
    \<and> (\<forall>p \<in> set (truth_positions t). matches_instrument p i \<longrightarrow> bps_qty p = 0)
    \<and> (\<forall>order \<in> set (truth_orders t).
        (bos_lifecycle order = OrderTerminal \<or> is_inconsistent_active_zero_remaining order)
        \<and> bos_account_id order = truth_account_id t \<and> has_correlation_id order
        \<and> (\<exists>spec. filter (\<lambda>s. matches_order_identity s order) (truth_instruments t) = [spec])
        \<and> (0 < bos_filled_qty order \<longrightarrow>
            (\<exists>total. dec_sum add 0 (map bts_qty (filter (trade_is_consistent order)
                (trades_matching_order_identity t order))) = Some total \<and> bos_filled_qty order \<le> total)))"
proof -
  note allowed = assms(4) [unfolded canonical_preflight_allowed evaluate_waiver_applied]
  then have blocks: "set (led_blocks readiness) \<subseteq> {StopOrderUnsupportedBlocked}" by blast
  note checks = live_entry_blocks_fresh [OF blocks [unfolded assms(3)]]
  have stop: "brs_stop_order_readiness s = StopSupportedFresh
       \<or> brs_stop_order_readiness s = StopUnsupportedBlocked \<and> waiver_granted policy scope qty"
    using checks(4) allowed live_entry_blocks_unsupported [of num_ms s now config capabilities scope]
    by (auto simp: assms(3))
  from allowed obtain required where "margin = MarginSufficient required" by blast
  with margin_sufficient_cash [of mul t i side qty price required] assms(2)
  have cash: "0 < qty \<and> (\<exists>spec initial required free.
          List.find (\<lambda>s. matches_instrument_id s i) (truth_instruments t) = Some spec
        \<and> (case side of Buy \<Rightarrow> bis_long_initial_margin spec | Sell \<Rightarrow> bis_short_initial_margin spec)
            = Some initial
        \<and> mul initial qty = Some required
        \<and> Option.bind (truth_cash t) bcs_free_cash = Some free \<and> required \<le> free)" by blast
  have orders: "(bos_lifecycle order = OrderTerminal \<or> is_inconsistent_active_zero_remaining order)
        \<and> bos_account_id order = truth_account_id t \<and> has_correlation_id order
        \<and> (\<exists>spec. filter (\<lambda>s. matches_order_identity s order) (truth_instruments t) = [spec])
        \<and> (0 < bos_filled_qty order \<longrightarrow>
            (\<exists>total. dec_sum add 0 (map bts_qty (filter (trade_is_consistent order)
                (trades_matching_order_identity t order))) = Some total \<and> bos_filled_qty order \<le> total))"
    if "order \<in> set (truth_orders t)" for order
  proof -
    have clean: "orphan_reasons_for_order add t order = Some []"
      and dead: "bos_lifecycle order = OrderTerminal \<or> is_inconsistent_active_zero_remaining order"
      using summary_clean(1) [OF assms(1)] allowed that by simp_all
    show ?thesis
      using dead orphan_reasons_Nil(1-3) [OF clean] orphan_reasons_Nil(4) [OF clean] by blast
  qed
  have flat: "\<forall>p \<in> set (truth_positions t). matches_instrument p i \<longrightarrow> bps_qty p = 0"
    using summary_clean(2) [OF assms(1)] allowed by simp
  show ?thesis
    by (intro conjI checks(1,2) stop cash [THEN conjunct1] cash [THEN conjunct2] flat ballI) (use orders in blast)+
qed

definition fresh_feed :: broker_feed_freshness where
  "fresh_feed = \<lparr> bff_observed_ts = Some 0, bff_max_age_ms = 1000 \<rparr>"

definition ready_snapshot :: broker_readiness_snapshot where
  "ready_snapshot = \<lparr> brs_account = fresh_feed, brs_positions = fresh_feed, brs_orders = fresh_feed,
     brs_trades = fresh_feed, brs_quotes = fresh_feed, brs_instrument_spec = fresh_feed,
     brs_schedule = fresh_feed, brs_market_session = SessionOpen, brs_unknown_order_count = 0,
     brs_cash_margin_present = True, brs_instrument_spec_validated = True,
     brs_live_market_data_seen = True, brs_subscription_ready = True,
     brs_stream_or_polling_connected = True, brs_event_sink_degraded = False,
     brs_stop_order_readiness = StopUnsupportedBlocked \<rparr>"

definition micro_account :: broker_account_id where
  "micro_account = BrokerAccountId ''A''"

definition micro_instrument :: instrument_id where
  "micro_instrument = \<lparr> ins_symbol = ''MX'', ins_venue_symbol = Some ''MX@MOEX'', ins_exchange = Moex,
     ins_market = Futures \<rparr>"

definition micro_config :: broker_operational_config where
  "micro_config = \<lparr>
     boc_timeouts = \<lparr> btc_connect_timeout_ms = 1, btc_request_timeout_ms = 1,
       btc_order_submit_timeout_ms = 1, btc_cancel_timeout_ms = 1, btc_reconcile_timeout_ms = 1,
       btc_stream_heartbeat_timeout_ms = 1 \<rparr>,
     boc_freshness = \<lparr> bfc_account_snapshot_max_age_ms = 1, bfc_positions_max_age_ms = 1,
       bfc_orders_max_age_ms = 1, bfc_trades_max_age_ms = 1, bfc_quotes_max_age_ms = 1,
       bfc_instrument_spec_max_age_ms = 1, bfc_schedule_max_age_ms = 1 \<rparr>,
     boc_risk_limits = \<lparr> brl_max_orders_per_run = 1, brl_max_position_qty = 1,
       brl_max_position_lifetime_sec = 1, brl_require_cash_margin_sufficiency = True \<rparr>,
     boc_scope = \<lparr> bsc_allowed_accounts = [micro_account], bsc_allowed_symbols = [''MX''],
       bsc_allowed_order_types = [''LIMIT''], bsc_allowed_sessions = [] \<rparr>,
     boc_lifecycle = \<lparr> blc_begin_submit_persistence_required = True,
       blc_request_cancel_persistence_required = True, blc_idempotency_marker_required = True,
       blc_one_shot_marker_required = True, blc_crash_recovery_state_required = True,
       blc_blind_retry_after_ambiguous_send_allowed = False \<rparr> \<rparr>"

definition micro_capabilities :: broker_capability_matrix where
  "micro_capabilities = \<lparr> cap_supports_market_order = False, cap_supports_limit_order = True,
     cap_supports_cancel = True, cap_supports_replace = False, cap_supports_stop_sltp = False,
     cap_supports_brackets = False, cap_supports_multi_leg = False, cap_supports_readonly_orders = True,
     cap_supports_readonly_trades = True, cap_supports_readonly_positions = True,
     cap_supports_streaming_order_updates = False, cap_supports_streaming_position_updates = False \<rparr>"

definition micro_scope :: broker_live_entry_scope where
  "micro_scope = \<lparr> les_account_id = micro_account, les_symbol = ''MX'', les_order_type = ''limit'' \<rparr>"

definition micro_policy :: broker_plain_micro_waiver_policy where
  "micro_policy = waiver_policy_disabled \<lparr> pmw_enabled := True, pmw_operator_approved := True,
     pmw_allowed_accounts := [micro_account], pmw_allowed_symbols := [''MX''] \<rparr>"

definition micro_spec :: broker_instrument_spec where
  "micro_spec = \<lparr> bis_instrument = \<lparr> ime_internal_symbol = ''MX'', ime_broker = Finam,
       ime_broker_symbol = ''MX@MOEX'', ime_exchange = Moex, ime_market = Futures,
       ime_price_step = 1, ime_qty_step = 1, ime_lot_size = 1, ime_min_qty = 1, ime_step_value = 1,
       ime_currency = ''RUB'', ime_schedule_id = ''s'', ime_expiration_date = None,
       ime_is_tradable = True \<rparr>,
     bis_broker_asset_id = None, bis_board = None, bis_long_initial_margin = Some 10,
     bis_short_initial_margin = None \<rparr>"

definition micro_order :: broker_order_snapshot where
  "micro_order = \<lparr> bos_account_id = micro_account, bos_broker_order_id = Some (BrokerOrderId ''1''),
     bos_client_order_id = None, bos_instrument = micro_instrument, bos_side = Buy,
     bos_order_type = Limit, bos_time_in_force = None, bos_status = Filled,
     bos_lifecycle = lifecycle_for Filled, bos_qty = 1, bos_filled_qty = 1,
     bos_remaining_qty = Some 0, bos_limit_price = None, bos_broker_asset_id = None, bos_board = None,
     bos_expiration_date = None, bos_source_ts = None, bos_received_ts = 0 \<rparr>"

definition micro_trade :: broker_trade_snapshot where
  "micro_trade = \<lparr> bts_account_id = micro_account, bts_broker_trade_id = BrokerTradeId ''t'',
     bts_broker_order_id = Some (BrokerOrderId ''1''), bts_client_order_id = None,
     bts_instrument = micro_instrument, bts_side = Buy, bts_qty = 1, bts_price = 5,
     bts_gross_amount = None, bts_commission = None, bts_broker_asset_id = None, bts_board = None,
     bts_expiration_date = None, bts_source_ts = 0, bts_received_ts = 0 \<rparr>"

definition micro_truth :: broker_truth_snapshot where
  "micro_truth = \<lparr> truth_account_id = micro_account, truth_orders = [micro_order], truth_positions = [],
     truth_cash = Some \<lparr> bcs_account_id = micro_account, bcs_cash = [], bcs_equity = None,
       bcs_free_cash = Some 25, bcs_initial_margin = None, bcs_maintenance_margin = None,
       bcs_source_ts = None, bcs_received_ts = 0 \<rparr>,
     truth_trades = [micro_trade], truth_instruments = [micro_spec], truth_received_ts = 0 \<rparr>"

lemmas micro_defs = micro_truth_def micro_trade_def micro_order_def micro_spec_def micro_policy_def
  micro_scope_def micro_capabilities_def micro_config_def micro_instrument_def micro_account_def

definition exact_add :: "decimal \<Rightarrow> decimal \<Rightarrow> decimal option" where
  "exact_add x y = Some (x + y)"

definition exact_mul :: "decimal \<Rightarrow> decimal \<Rightarrow> decimal option" where
  "exact_mul x y = Some (x * y)"

lemma micro_spec_matches: "matches_order_identity micro_spec micro_order"
  by (simp add: matches_order_identity_def matches_instrument_id_def
      instrument_identity_matches_def spec_instrument_id_def optional_identity_matches_def micro_defs)

lemma micro_trade_matches: "order_trade_instrument_identity_matches micro_order micro_trade"
  by (simp add: order_trade_instrument_identity_matches_def instrument_identity_matches_def
      optional_identity_compatible_def micro_defs)

lemma micro_trades: "trades_matching_order_identity micro_truth micro_order = [micro_trade]"
  by (simp add: trades_matching_order_identity_def micro_defs)

lemma micro_filled: "filled_quantity_reasons exact_add micro_order [micro_trade] = Some []"
proof -
  have "trade_is_consistent micro_order micro_trade"
    by (simp add: trade_is_consistent_def micro_trade_matches) (simp add: micro_defs)
  moreover have "dec_sum exact_add 0 [bts_qty micro_trade] = Some 1"
    by (simp add: exact_add_def micro_defs)
  moreover have "bos_filled_qty micro_order = 1" by (simp add: micro_defs)
  ultimately show ?thesis
    by (simp add: filled_quantity_reasons_def trade_is_consistent_def del: dec_sum.simps)
qed

lemma micro_orphans: "orphan_reasons_for_order exact_add micro_truth micro_order = Some []"
  using micro_spec_matches
  by (simp add: orphan_reasons_for_order_def micro_trades micro_filled
      order_instrument_identity_reasons_def has_correlation_id_def)
    (simp add: micro_defs)

lemma micro_summary:
  "\<exists>summary. summarize_for_instrument exact_add micro_truth micro_instrument = Some summary
     \<and> sum_target_open_positions_count summary = 0 \<and> sum_target_active_orders_count summary = 0
     \<and> sum_target_unknown_orders_count summary = 0 \<and> sum_account_active_orders_count summary = 0
     \<and> sum_account_unknown_orders_count summary = 0 \<and> sum_account_orphan_orders_count summary = 0"
proof -
  have "account_orphan_order_count exact_add micro_truth = Some 0"
  proof -
    have "truth_orders micro_truth = [micro_order]" by (simp add: micro_truth_def)
    then show ?thesis unfolding account_orphan_order_count_0 by (simp add: micro_orphans)
  qed
  then show ?thesis
    by (simp add: summarize_for_instrument_def open_positions_for_instrument_def
        active_orders_for_instrument_def unknown_orders_for_instrument_def is_active_for_lifecycle_def
        account_wide_active_order_count_def micro_truth_def micro_order_def)
qed

lemma micro_margin:
  "margin_sufficiency_for_instrument_order exact_mul micro_truth micro_instrument Buy 1 5
     = Some (MarginSufficient 10)"
  by (simp add: margin_sufficiency_for_instrument_order_def required_margin_for_order_def
      matches_instrument_id_def instrument_identity_matches_def spec_instrument_id_def
      margin_sufficiency_for_order_def margin_sufficiency_for_required_margin_def exact_mul_def micro_defs)

lemma limit_types:
  "eq_ignore_ascii_case ''LIMIT'' ''limit''" "\<not> eq_ignore_ascii_case ''limit'' ''market''"
  by code_simp+

lemma micro_ready:
  "led_blocks (live_entry_allowed (trunc_units 1000000) ready_snapshot 500000000 micro_config
     micro_capabilities micro_scope) = [StopOrderUnsupportedBlocked]"
  by (simp add: live_entry_allowed_def live_entry_blocks_def push_if_def is_fresh_at_def fresh_feed_def
      ready_snapshot_def trunc_units_def i64_as_u64_def stop_order_blocks_def limit_types micro_defs)

theorem canonical_preflight_clean_account_witness:
  "\<exists>summary margin. summarize_for_instrument exact_add micro_truth micro_instrument = Some summary
     \<and> margin_sufficiency_for_instrument_order exact_mul micro_truth micro_instrument Buy 1 5 = Some margin
     \<and> broker_truth_is_fresh (trunc_units 1000000) ready_snapshot 500000000
     \<and> waiver_granted micro_policy micro_scope 1"
proof -
  let ?ready = "live_entry_allowed (trunc_units 1000000) ready_snapshot 500000000 micro_config
     micro_capabilities micro_scope"
  obtain summary where s: "summarize_for_instrument exact_add micro_truth micro_instrument = Some summary"
    and zero: "sum_target_open_positions_count summary = 0" "sum_target_active_orders_count summary = 0"
      "sum_target_unknown_orders_count summary = 0" "sum_account_active_orders_count summary = 0"
      "sum_account_unknown_orders_count summary = 0" "sum_account_orphan_orders_count summary = 0"
    using micro_summary by blast
  have granted: "waiver_granted micro_policy micro_scope 1"
    by (simp add: waiver_granted_def waiver_policy_disabled_def eq_ignore_ascii_case_def micro_defs)
  have "cpd_allowed (canonical_preflight ?ready (MarginSufficient 10) summary
      (evaluate_waiver micro_policy ?ready micro_scope 1))"
    unfolding canonical_preflight_allowed evaluate_waiver_applied by (simp add: micro_ready granted zero)
  from canonical_preflight_clean_account [OF s micro_margin refl this] s micro_margin granted
  show ?thesis by simp
qed

end
