(* ===== verification/Journal.thy ===== *)
theory Journal
  imports RustStrings
begin

text \<open>
  The append-only journal of Stage 6 (\<open>strategy-runtime-core/src/stage6_journal_backend.rs\<close>):
  hash-chained frames, the scan that accepts or rejects a whole journal, checkpoints, and
  the memory and file backends. SHA-256 is the parameter \<open>sha\<close>; the canonical record codec
  (serde_json with the record's own checks) and the two fields the journal reads from a
  record are a \<open>journal_codec\<close>. Offsets and counts, \<open>u64\<close> in the code, are \<open>nat\<close>: they are
  bounded by the length of the bytes scanned.
\<close>

section \<open>Constants and bytes\<close>

type_synonym bytes = "u8 list"

definition journal_magic :: bytes where
  "journal_magic = [0x53, 0x36, 0x4A, 0x4E, 0x4C, 0x56, 0x31, 0]"

definition frame_magic :: bytes where
  "frame_magic = [0x53, 0x36, 0x46, 0x31]"

definition storage_schema_version :: u16 where
  "storage_schema_version = 1"

definition frame_version :: u16 where
  "frame_version = 1"

definition max_record_bytes :: nat where
  "max_record_bytes = 1024 * 1024"

definition ascii_bytes :: "string \<Rightarrow> bytes" where
  "ascii_bytes s = map (\<lambda>c. of_nat (of_char c)) s"

definition frame_hash_domain :: bytes where
  "frame_hash_domain = ascii_bytes ''stage6-journal-frame-v1''"

definition frame_genesis_domain :: bytes where
  "frame_genesis_domain = ascii_bytes ''stage6-journal-frame-genesis-v1''"

definition u16_to_be :: "u16 \<Rightarrow> bytes" where
  "u16_to_be w = [ucast (drop_bit 8 w), ucast w]"

definition u32_to_be :: "u32 \<Rightarrow> bytes" where
  "u32_to_be w = [ucast (drop_bit 24 w), ucast (drop_bit 16 w), ucast (drop_bit 8 w), ucast w]"

fun be_nat :: "nat \<Rightarrow> bytes \<Rightarrow> nat" where
  "be_nat acc [] = acc"
| "be_nat acc (b # bs) = be_nat (acc * 256 + unat b) bs"

definition u16_from_be :: "bytes \<Rightarrow> u16" where
  "u16_from_be bs = of_nat (be_nat 0 bs)"

definition u32_from_be :: "bytes \<Rightarrow> u32" where
  "u32_from_be bs = of_nat (be_nat 0 bs)"

section \<open>Errors and data\<close>

datatype record_decode_failure = DecodeUnsupportedSchema | DecodeFailed

datatype journal_storage_error =
    UnsupportedStorageSchema u16 | InvalidJournalHeader | InvalidFrameHeader
  | InvalidFrameLength nat | TornFrame | FrameHashMismatch | FrameChainMismatch
  | NonCanonicalRecord | RecordDecodeFailed record_decode_failure | TrailingGarbage
  | DurabilityUncertain | CheckpointInvalid | ExternalMutationDetected | JournalIo string

text \<open>How decoding a record fails, as far as the journal tells the cases apart.\<close>

datatype record_error = NonCanonicalEncoding | UnsupportedSchema u64 | OtherRecordError

datatype ('v1, 'later) versioned_record = RecordV1 'v1 | RecordLater 'later

record ('v1, 'later) journal_codec =
  jc_encode :: "('v1, 'later) versioned_record \<Rightarrow> bytes"
  jc_decode :: "bytes \<Rightarrow> record_error + ('v1, 'later) versioned_record"
  jc_record_id :: "('v1, 'later) versioned_record \<Rightarrow> string"
  jc_lifecycle_sequence :: "('v1, 'later) versioned_record \<Rightarrow> u64"

record journal_frontier =
  jf_storage_schema_version :: u16
  jf_frame_count :: nat
  jf_journal_byte_length :: nat
  jf_last_frame_sha256 :: string
  jf_last_record_id :: "string option"
  jf_last_lifecycle_sequence :: "u64 option"

record ('v1, 'later) scanned_journal =
  sj_records :: "'v1 list"
  sj_versioned_records :: "('v1, 'later) versioned_record list"
  sj_frontiers :: "journal_frontier list"
  sj_frontier :: journal_frontier
  sj_last_frame_digest :: bytes

record journal_checkpoint =
  jk_storage_schema_version :: u16
  jk_frontier :: journal_frontier
  jk_checkpoint_sha256 :: string

record journal_append_receipt =
  jr_frame_index :: nat
  jr_frame_start_offset :: nat
  jr_frame_end_offset :: nat
  jr_record_id :: string
  jr_lifecycle_sequence :: u64
  jr_frame_sha256 :: string
  jr_durable_frontier :: journal_frontier

record encoded_frame =
  ef_prefix :: bytes
  ef_hash_bytes :: bytes
  ef_digest :: bytes
  ef_bytes :: bytes

section \<open>Frames\<close>

definition journal_header :: bytes where
  "journal_header = journal_magic @ u16_to_be storage_schema_version"

definition genesis_digest :: "(bytes \<Rightarrow> bytes) \<Rightarrow> bytes" where
  "genesis_digest sha = sha frame_genesis_domain"

text \<open>What one frame feeds to the hash.\<close>

definition frame_hash_input :: "u32 \<Rightarrow> bytes \<Rightarrow> bytes \<Rightarrow> bytes" where
  "frame_hash_input record_length previous record_bytes =
     frame_hash_domain @ u16_to_be frame_version @ u32_to_be record_length @ previous @ record_bytes"

definition frame_digest :: "(bytes \<Rightarrow> bytes) \<Rightarrow> u32 \<Rightarrow> bytes \<Rightarrow> bytes \<Rightarrow> bytes" where
  "frame_digest sha record_length previous record_bytes =
     sha (frame_hash_input record_length previous record_bytes)"

definition validate_record_length :: "nat \<Rightarrow> journal_storage_error + u32" where
  "validate_record_length len =
     (if len = 0 \<or> max_record_bytes < len \<or> 2 ^ 32 - 1 < len then Inl (InvalidFrameLength len)
      else Inr (of_nat len))"

definition encode_frame ::
    "(bytes \<Rightarrow> bytes) \<Rightarrow> bytes \<Rightarrow> bytes \<Rightarrow> journal_storage_error + encoded_frame" where
  "encode_frame sha record_bytes previous =
     and_then (validate_record_length (length record_bytes)) (\<lambda>len.
       let prefix = frame_magic @ u16_to_be frame_version @ u32_to_be len @ previous;
           digest = frame_digest sha len previous record_bytes
       in Inr \<lparr> ef_prefix = prefix, ef_hash_bytes = digest, ef_digest = digest,
                ef_bytes = prefix @ record_bytes @ digest \<rparr>)"

fun map_versioned_record_error :: "record_error \<Rightarrow> journal_storage_error" where
  "map_versioned_record_error NonCanonicalEncoding = NonCanonicalRecord"
| "map_versioned_record_error (UnsupportedSchema v) = RecordDecodeFailed DecodeUnsupportedSchema"
| "map_versioned_record_error OtherRecordError = RecordDecodeFailed DecodeFailed"

definition map_err :: "('e \<Rightarrow> 'f) \<Rightarrow> 'e + 'a \<Rightarrow> 'f + 'a" where
  "map_err f r = (case r of Inl e \<Rightarrow> Inl (f e) | Inr a \<Rightarrow> Inr a)"

definition validate_versioned_record_for_storage ::
    "('v1, 'later) journal_codec \<Rightarrow> ('v1, 'later) versioned_record \<Rightarrow> journal_storage_error + bytes" where
  "validate_versioned_record_for_storage K r =
     and_then (validate_record_length (length (jc_encode K r))) (\<lambda>_.
     and_then (map_err map_versioned_record_error (jc_decode K (jc_encode K r))) (\<lambda>decoded.
       if decoded \<noteq> r then Inl NonCanonicalRecord else Inr (jc_encode K r)))"

section \<open>Frontiers\<close>

definition is_lower_hex_digest :: "string \<Rightarrow> bool" where
  "is_lower_hex_digest s \<longleftrightarrow> length s = 64 \<and> s \<noteq> replicate 64 (CHR ''0'') \<and>
     list_all (\<lambda>c. is_ascii_digit c \<or> (97 \<le> (of_char c :: nat) \<and> (of_char c :: nat) \<le> 102)) s"

definition empty_frontier :: "(bytes \<Rightarrow> bytes) \<Rightarrow> journal_frontier" where
  "empty_frontier sha = \<lparr> jf_storage_schema_version = storage_schema_version, jf_frame_count = 0,
     jf_journal_byte_length = length journal_header,
     jf_last_frame_sha256 = hex_string (genesis_digest sha), jf_last_record_id = None,
     jf_last_lifecycle_sequence = None \<rparr>"

definition validate_frontier ::
    "(bytes \<Rightarrow> bytes) \<Rightarrow> journal_frontier \<Rightarrow> journal_storage_error + unit" where
  "validate_frontier sha f =
     (if jf_storage_schema_version f \<noteq> storage_schema_version
      then Inl (UnsupportedStorageSchema (jf_storage_schema_version f))
      else if \<not> is_lower_hex_digest (jf_last_frame_sha256 f) then Inl CheckpointInvalid
      else if jf_frame_count f = 0
      then (if jf_journal_byte_length f \<noteq> length journal_header
               \<or> jf_last_frame_sha256 f \<noteq> hex_string (genesis_digest sha)
               \<or> jf_last_record_id f \<noteq> None \<or> jf_last_lifecycle_sequence f \<noteq> None
            then Inl CheckpointInvalid else Inr ())
      else if jf_journal_byte_length f \<le> length journal_header
         \<or> jf_last_record_id f = None \<or> jf_last_lifecycle_sequence f = None
      then Inl CheckpointInvalid
      else Inr ())"

section \<open>The scan\<close>

text \<open>
  The fields of the frame at the front of \<open>bs\<close>, checked in the code's order: the bytes of
  its record and its digest.
\<close>

definition read_frame ::
    "(bytes \<Rightarrow> bytes) \<Rightarrow> bytes \<Rightarrow> bytes \<Rightarrow> journal_storage_error + (bytes \<times> bytes)" where
  "read_frame sha previous bs =
     (if length bs < 74
      then (if take (min (length bs) 4) bs = take (min (length bs) 4) frame_magic
            then Inl TornFrame else Inl TrailingGarbage)
      else if take 4 bs \<noteq> frame_magic then Inl InvalidFrameHeader
      else if u16_from_be (take 2 (drop 4 bs)) \<noteq> frame_version then Inl InvalidFrameHeader
      else and_then (validate_record_length (unat (u32_from_be (take 4 (drop 6 bs))))) (\<lambda>declared.
        let len = unat declared; stored_previous = take 32 (drop 10 bs);
            record_bytes = take len (drop 42 bs); stored_hash = take 32 (drop (42 + len) bs);
            computed = frame_digest sha declared stored_previous record_bytes
        in if length bs < 42 + len + 32 then Inl TornFrame
           else if stored_previous \<noteq> previous then Inl FrameChainMismatch
           else if stored_hash \<noteq> computed then Inl FrameHashMismatch
           else Inr (record_bytes, computed)))"

lemma read_frame_Inr_length:
  assumes "read_frame sha previous bs = Inr (record_bytes, digest)"
  shows "74 \<le> length bs"
  using assms by (auto simp: read_frame_def split: if_splits)

function scan_frames ::
    "('v1, 'later) journal_codec \<Rightarrow> (bytes \<Rightarrow> bytes) \<Rightarrow> nat \<Rightarrow> bytes
       \<Rightarrow> ('v1, 'later) versioned_record list \<Rightarrow> journal_frontier list \<Rightarrow> bytes
       \<Rightarrow> journal_storage_error + (('v1, 'later) versioned_record list \<times> journal_frontier list \<times> bytes)" where
  "scan_frames K sha offset previous records frontiers bs =
     (if bs = [] then Inr (records, frontiers, previous)
      else case read_frame sha previous bs of
        Inl e \<Rightarrow> Inl e
      | Inr (record_bytes, computed) \<Rightarrow>
         (case jc_decode K record_bytes of
            Inl e \<Rightarrow> Inl (map_versioned_record_error e)
          | Inr r \<Rightarrow>
             (let frame_total = 42 + length record_bytes + 32
              in scan_frames K sha (offset + frame_total) computed (records @ [r])
                   (frontiers @ [\<lparr> jf_storage_schema_version = storage_schema_version,
                      jf_frame_count = length records + 1,
                      jf_journal_byte_length = offset + frame_total,
                      jf_last_frame_sha256 = hex_string computed,
                      jf_last_record_id = Some (jc_record_id K r),
                      jf_last_lifecycle_sequence = Some (jc_lifecycle_sequence K r) \<rparr>])
                   (drop frame_total bs))))"
  by pat_completeness auto
termination
  by (relation "measure (\<lambda>(K, sha, offset, previous, records, frontiers, bs). length bs)") auto

declare scan_frames.simps [simp del]

fun v1_records :: "('v1, 'later) versioned_record list \<Rightarrow> 'v1 list" where
  "v1_records [] = []"
| "v1_records (RecordV1 r # rs) = r # v1_records rs"
| "v1_records (RecordLater r # rs) = v1_records rs"

definition check_header :: "bytes \<Rightarrow> journal_storage_error + unit" where
  "check_header bs =
     (if length bs < length journal_header then Inl InvalidJournalHeader
      else if take 8 bs \<noteq> journal_magic then Inl InvalidJournalHeader
      else if u16_from_be (take 2 (drop 8 bs)) \<noteq> storage_schema_version
      then Inl (UnsupportedStorageSchema (u16_from_be (take 2 (drop 8 bs))))
      else Inr ())"

definition scan_bytes ::
    "('v1, 'later) journal_codec \<Rightarrow> (bytes \<Rightarrow> bytes) \<Rightarrow> bytes
       \<Rightarrow> journal_storage_error + ('v1, 'later) scanned_journal" where
  "scan_bytes K sha bs =
     and_then (check_header bs) (\<lambda>_.
     and_then (scan_frames K sha (length journal_header) (genesis_digest sha) [] []
                 (drop (length journal_header) bs)) (\<lambda>(records, frontiers, digest).
       let frontier = (if frontiers = [] then empty_frontier sha else last frontiers)
       in and_then (validate_frontier sha frontier) (\<lambda>_.
            Inr \<lparr> sj_records = v1_records records, sj_versioned_records = records,
                  sj_frontiers = frontiers, sj_frontier = frontier,
                  sj_last_frame_digest = digest \<rparr>)))"

definition scan_versioned_framed_bytes ::
    "('v1, 'later) journal_codec \<Rightarrow> (bytes \<Rightarrow> bytes) \<Rightarrow> bytes
       \<Rightarrow> journal_storage_error + ('v1, 'later) versioned_record list" where
  "scan_versioned_framed_bytes K sha bs =
     and_then (check_header bs) (\<lambda>_.
     and_then (scan_frames K sha (length journal_header) (genesis_digest sha) [] []
                 (drop (length journal_header) bs)) (\<lambda>(records, _). Inr records))"

section \<open>Checkpoints\<close>

text \<open>\<open>frontier_json\<close> is the canonical JSON of the digest's input.\<close>

definition checkpoint_digest ::
    "(bytes \<Rightarrow> bytes) \<Rightarrow> (journal_frontier \<Rightarrow> bytes) \<Rightarrow> journal_frontier \<Rightarrow> string" where
  "checkpoint_digest sha frontier_json f =
     hex_string (sha (ascii_bytes ''stage6-journal-checkpoint-v1'' @ frontier_json f))"

definition checkpoint_from_frontier ::
    "(bytes \<Rightarrow> bytes) \<Rightarrow> (journal_frontier \<Rightarrow> bytes) \<Rightarrow> journal_frontier
       \<Rightarrow> journal_storage_error + journal_checkpoint" where
  "checkpoint_from_frontier sha frontier_json f =
     and_then (validate_frontier sha f) (\<lambda>_.
       Inr \<lparr> jk_storage_schema_version = storage_schema_version, jk_frontier = f,
             jk_checkpoint_sha256 = checkpoint_digest sha frontier_json f \<rparr>)"

definition validate_checkpoint ::
    "(bytes \<Rightarrow> bytes) \<Rightarrow> (journal_frontier \<Rightarrow> bytes) \<Rightarrow> journal_checkpoint
       \<Rightarrow> journal_storage_error + unit" where
  "validate_checkpoint sha frontier_json c =
     (if jk_storage_schema_version c \<noteq> storage_schema_version
      then Inl (UnsupportedStorageSchema (jk_storage_schema_version c))
      else and_then (validate_frontier sha (jk_frontier c)) (\<lambda>_.
        if jk_checkpoint_sha256 c \<noteq> checkpoint_digest sha frontier_json (jk_frontier c)
        then Inl CheckpointInvalid else Inr ()))"

definition validate_checkpoint_against_scan ::
    "(bytes \<Rightarrow> bytes) \<Rightarrow> (journal_frontier \<Rightarrow> bytes) \<Rightarrow> journal_checkpoint
       \<Rightarrow> ('v1, 'later) scanned_journal \<Rightarrow> journal_storage_error + unit" where
  "validate_checkpoint_against_scan sha frontier_json c scan =
     and_then (validate_checkpoint sha frontier_json c) (\<lambda>_.
       let count = jf_frame_count (jk_frontier c)
       in if jf_frame_count (sj_frontier scan) < count then Inl CheckpointInvalid
          else (let expected = (if count = 0 then empty_frontier sha else sj_frontiers scan ! (count - 1))
                in if jk_frontier c \<noteq> expected then Inl CheckpointInvalid else Inr ()))"

section \<open>Backends\<close>

definition append_receipt ::
    "('v1, 'later) journal_codec \<Rightarrow> ('v1, 'later) versioned_record \<Rightarrow> nat \<Rightarrow> bytes
       \<Rightarrow> journal_frontier \<Rightarrow> journal_append_receipt" where
  "append_receipt K r start digest f =
     \<lparr> jr_frame_index = jf_frame_count f - 1, jr_frame_start_offset = start,
       jr_frame_end_offset = jf_journal_byte_length f, jr_record_id = jc_record_id K r,
       jr_lifecycle_sequence = jc_lifecycle_sequence K r, jr_frame_sha256 = hex_string digest,
       jr_durable_frontier = f \<rparr>"

record ('v1, 'later) memory_journal =
  mj_bytes :: bytes
  mj_scan :: "('v1, 'later) scanned_journal"

definition memory_from_framed_bytes ::
    "('v1, 'later) journal_codec \<Rightarrow> (bytes \<Rightarrow> bytes) \<Rightarrow> bytes
       \<Rightarrow> journal_storage_error + ('v1, 'later) memory_journal" where
  "memory_from_framed_bytes K sha bs =
     and_then (scan_bytes K sha bs) (\<lambda>scan. Inr \<lparr> mj_bytes = bs, mj_scan = scan \<rparr>)"

text \<open>The fixed empty journal; the code unwraps the scan, so an error here is a panic.\<close>

definition memory_new ::
    "('v1, 'later) journal_codec \<Rightarrow> (bytes \<Rightarrow> bytes) \<Rightarrow> journal_storage_error + ('v1, 'later) memory_journal" where
  "memory_new K sha = memory_from_framed_bytes K sha journal_header"

definition memory_append ::
    "('v1, 'later) journal_codec \<Rightarrow> (bytes \<Rightarrow> bytes) \<Rightarrow> ('v1, 'later) memory_journal
       \<Rightarrow> ('v1, 'later) versioned_record
       \<Rightarrow> ('v1, 'later) memory_journal \<times> (journal_storage_error + journal_append_receipt)" where
  "memory_append K sha m r =
     (case validate_versioned_record_for_storage K r of
        Inl e \<Rightarrow> (m, Inl e)
      | Inr record_bytes \<Rightarrow>
     (case encode_frame sha record_bytes (sj_last_frame_digest (mj_scan m)) of
        Inl e \<Rightarrow> (m, Inl e)
      | Inr frame \<Rightarrow>
         (let m' = m \<lparr> mj_bytes := mj_bytes m @ ef_bytes frame \<rparr>
          in case scan_bytes K sha (mj_bytes m') of
               Inl e \<Rightarrow> (m', Inl e)
             | Inr scan \<Rightarrow>
                 (m' \<lparr> mj_scan := scan \<rparr>,
                  Inr (append_receipt K r (jf_journal_byte_length (sj_frontier (mj_scan m)))
                         (ef_digest frame) (sj_frontier scan))))))"

text \<open>
  The file backend: the bytes on disk, the scan in memory and the flag set from the first
  write on. A fault is what the operating system does to one append.
\<close>

datatype append_fault =
    NoAppendFault | VerifyIoFails string | WriteStopsAfter nat | SyncFails | RescanFails

record ('v1, 'later) file_journal =
  fj_file :: bytes
  fj_scan :: "('v1, 'later) scanned_journal"
  fj_durability_uncertain :: bool

definition file_open_existing ::
    "('v1, 'later) journal_codec \<Rightarrow> (bytes \<Rightarrow> bytes) \<Rightarrow> bytes
       \<Rightarrow> journal_storage_error + ('v1, 'later) file_journal" where
  "file_open_existing K sha bs =
     and_then (scan_bytes K sha bs) (\<lambda>scan.
       Inr \<lparr> fj_file = bs, fj_scan = scan, fj_durability_uncertain = False \<rparr>)"

definition verify_external_frontier ::
    "('v1, 'later) journal_codec \<Rightarrow> (bytes \<Rightarrow> bytes) \<Rightarrow> ('v1, 'later) file_journal
       \<Rightarrow> journal_storage_error + unit" where
  "verify_external_frontier K sha b =
     (if length (fj_file b) \<noteq> jf_journal_byte_length (sj_frontier (fj_scan b))
      then Inl ExternalMutationDetected
      else case scan_bytes K sha (fj_file b) of
        Inl e \<Rightarrow> Inl ExternalMutationDetected
      | Inr observed \<Rightarrow>
          if sj_records observed \<noteq> sj_records (fj_scan b)
             \<or> sj_frontiers observed \<noteq> sj_frontiers (fj_scan b)
             \<or> sj_frontier observed \<noteq> sj_frontier (fj_scan b)
             \<or> sj_last_frame_digest observed \<noteq> sj_last_frame_digest (fj_scan b)
          then Inl ExternalMutationDetected else Inr ())"

definition file_append ::
    "('v1, 'later) journal_codec \<Rightarrow> (bytes \<Rightarrow> bytes) \<Rightarrow> append_fault \<Rightarrow> ('v1, 'later) file_journal
       \<Rightarrow> ('v1, 'later) versioned_record
       \<Rightarrow> ('v1, 'later) file_journal \<times> (journal_storage_error + journal_append_receipt)" where
  "file_append K sha fault b r =
     (if fj_durability_uncertain b then (b, Inl DurabilityUncertain)
      else case fault of VerifyIoFails kind \<Rightarrow> (b, Inl (JournalIo kind)) | _ \<Rightarrow>
     (case verify_external_frontier K sha b of
        Inl e \<Rightarrow> (b, Inl e)
      | Inr _ \<Rightarrow>
     (case validate_versioned_record_for_storage K r of
        Inl e \<Rightarrow> (b, Inl e)
      | Inr record_bytes \<Rightarrow>
     (case encode_frame sha record_bytes (sj_last_frame_digest (fj_scan b)) of
        Inl e \<Rightarrow> (b, Inl e)
      | Inr frame \<Rightarrow>
         (case fault of
            WriteStopsAfter k \<Rightarrow>
              (b \<lparr> fj_file := fj_file b @ take k (ef_prefix frame @ record_bytes @ ef_hash_bytes frame),
                   fj_durability_uncertain := True \<rparr>, Inl DurabilityUncertain)
          | _ \<Rightarrow>
             (let file = fj_file b @ ef_prefix frame @ record_bytes @ ef_hash_bytes frame;
                  unsure = b \<lparr> fj_file := file, fj_durability_uncertain := True \<rparr>
              in if fault = SyncFails \<or> fault = RescanFails then (unsure, Inl DurabilityUncertain)
                 else case scan_bytes K sha file of
                   Inl e \<Rightarrow> (unsure, Inl DurabilityUncertain)
                 | Inr scan \<Rightarrow>
                     (unsure \<lparr> fj_scan := scan, fj_durability_uncertain := False \<rparr>,
                      Inr (append_receipt K r (jf_journal_byte_length (sj_frontier (fj_scan b)))
                             (ef_digest frame) (sj_frontier scan)))))))))"

definition file_framed_bytes ::
    "('v1, 'later) journal_codec \<Rightarrow> (bytes \<Rightarrow> bytes) \<Rightarrow> ('v1, 'later) file_journal
       \<Rightarrow> journal_storage_error + bytes" where
  "file_framed_bytes K sha b =
     (if length (fj_file b) \<noteq> jf_journal_byte_length (sj_frontier (fj_scan b))
      then Inl ExternalMutationDetected
      else and_then (scan_bytes K sha (fj_file b)) (\<lambda>scanned.
        if sj_frontier scanned \<noteq> sj_frontier (fj_scan b) then Inl ExternalMutationDetected
        else Inr (fj_file b)))"

section \<open>Bytes and digests\<close>

lemma be_nat_append: "be_nat acc (xs @ ys) = be_nat (be_nat acc xs) ys"
  by (induction xs arbitrary: acc) simp_all

lemma u16_to_be_length [simp]: "length (u16_to_be w) = 2"
  by (simp add: u16_to_be_def)

lemma u32_to_be_length [simp]: "length (u32_to_be w) = 4"
  by (simp add: u32_to_be_def)

lemma header_lengths [simp]:
  "length frame_magic = 4" "length journal_header = 10" "length journal_magic = 8"
  by (simp_all add: frame_magic_def journal_header_def journal_magic_def)

lemma u32_round_trip: "unat (u32_from_be (u32_to_be w)) = unat w"
proof -
  let ?n = "unat w"
  have "be_nat 0 (u32_to_be w) =
      (((?n div 2 ^ 24) mod 256 * 256 + (?n div 2 ^ 16) mod 256) * 256 + (?n div 2 ^ 8) mod 256) * 256
        + ?n mod 256"
    by (simp add: u32_to_be_def unat_drop_bit_eq drop_bit_eq_div unsigned_ucast_eq take_bit_eq_mod unat_div)
  also have "\<dots> = ?n"
  proof -
    have "?n < 2 ^ LENGTH(32)" by (rule unsigned_less)
    then have "?n div 256 div 256 div 256 < 256" by (simp flip: div_mult2_eq)
    moreover have "?n div 2 ^ 8 = ?n div 256" "?n div 2 ^ 16 = ?n div 256 div 256"
      "?n div 2 ^ 24 = ?n div 256 div 256 div 256"
      by (simp_all flip: div_mult2_eq)
    ultimately show ?thesis
      using div_mult_mod_eq [of ?n 256] div_mult_mod_eq [of "?n div 256" 256]
        div_mult_mod_eq [of "?n div 256 div 256" 256]
      by (simp only: mod_less)
  qed
  finally show ?thesis by (simp add: u32_from_be_def)
qed

lemma u16_versions [simp]:
  "u16_from_be (u16_to_be frame_version) = frame_version"
  "u16_from_be (u16_to_be storage_schema_version) = storage_schema_version"
  by (code_simp)+

definition digest_length :: "(bytes \<Rightarrow> bytes) \<Rightarrow> bool" where
  "digest_length sha \<longleftrightarrow> (\<forall>bs. length (sha bs) = 32)"

lemma hex_digit_facts:
  assumes "n < 16"
  shows "is_ascii_digit (hex_digit n) \<or> (97 \<le> (of_char (hex_digit n) :: nat) \<and> (of_char (hex_digit n) :: nat) \<le> 102)"
    and "hex_digit n = CHR ''0'' \<longleftrightarrow> n = 0"
proof -
  have zero: "c = CHR ''0'' \<longleftrightarrow> of_char c = (48 :: nat)" for c
    using of_char_eq_iff [where 'a = nat, of c "CHR ''0''"] by simp
  have "n \<in> {0, 1, 2, 3, 4, 5, 6, 7, 8, 9, 10, 11, 12, 13, 14, 15}"
    using assms by (simp, arith)
  then show "is_ascii_digit (hex_digit n) \<or> (97 \<le> (of_char (hex_digit n) :: nat) \<and> (of_char (hex_digit n) :: nat) \<le> 102)"
    and "hex_digit n = CHR ''0'' \<longleftrightarrow> n = 0"
    by (auto simp: hex_digit_def is_ascii_digit_def zero)
qed

lemma hex_digit_inject:
  assumes "m < 16" "n < 16" "hex_digit m = hex_digit n"
  shows "m = n"
proof -
  have "of_char (hex_digit m) = (of_char (hex_digit n) :: nat)" using assms(3) by simp
  with assms(1,2) show ?thesis by (simp add: hex_digit_def split: if_splits)
qed

lemma hex_byte_inject: "hex_byte a = hex_byte b \<longleftrightarrow> a = b"
proof
  assume "hex_byte a = hex_byte b"
  moreover have "unat a < 256" "unat b < 256" by (rule unat_u8_less)+
  ultimately have "unat a div 16 = unat b div 16" "unat a mod 16 = unat b mod 16"
    by (auto simp: hex_byte_def intro!: hex_digit_inject)
  then have "unat a = unat b" by (metis div_mult_mod_eq)
  then show "a = b" by (rule unsigned_word_eqI)
qed simp

lemma hex_string_Cons: "hex_string (b # bs) = hex_byte b @ hex_string bs"
  by (simp add: hex_string_def)

lemma hex_string_inject: "hex_string xs = hex_string ys \<longleftrightarrow> xs = ys"
proof (induction xs arbitrary: ys)
  case Nil
  then show ?case by (cases ys) (simp_all add: hex_string_def hex_byte_def)
next
  case (Cons x xs)
  show ?case
  proof (cases ys)
    case Nil
    then show ?thesis by (simp add: hex_string_def hex_byte_def)
  next
    case (Cons y ys')
    have "length (hex_byte x) = length (hex_byte y)" by (simp add: hex_byte_def)
    with Cons Cons.IH show ?thesis by (simp add: hex_string_Cons hex_byte_inject)
  qed
qed

lemma hex_string_digits:
  "list_all (\<lambda>c. is_ascii_digit c \<or> (97 \<le> (of_char c :: nat) \<and> (of_char c :: nat) \<le> 102)) (hex_string bs)"
proof (induction bs)
  case (Cons b bs)
  have "unat b < 256" by (rule unat_u8_less)
  then have "unat b div 16 < 16" "unat b mod 16 < 16" by simp_all
  note hex_digit_facts(1) [OF this(1)] hex_digit_facts(1) [OF this(2)]
  with Cons show ?case by (simp add: hex_string_Cons hex_byte_def)
qed (simp add: hex_string_def)

lemma hex_string_length: "length (hex_string bs) = 2 * length bs"
  by (induction bs) (simp_all add: hex_string_def hex_byte_def)

lemma hex_string_zero: "hex_string (replicate n 0) = replicate (2 * n) (CHR ''0'')"
proof -
  have "hex_digit 0 = CHR ''0''" by code_simp
  then show ?thesis by (induction n) (simp_all add: hex_string_def hex_byte_def)
qed

lemma hex_digest_valid:
  assumes "length digest = 32"
  shows "is_lower_hex_digest (hex_string digest) \<longleftrightarrow> digest \<noteq> replicate 32 0"
proof -
  have "hex_string digest = replicate 64 (CHR ''0'') \<longleftrightarrow> digest = replicate 32 0"
    using hex_string_zero [of 32] hex_string_inject [of digest "replicate 32 0"] by simp
  with assms hex_string_digits [of digest] show ?thesis
    by (simp add: is_lower_hex_digest_def hex_string_length)
qed

section \<open>Frames and their scan\<close>

text \<open>A record the journal takes, the frame of its bytes and the digest that closes it.\<close>

definition storable :: "('v1, 'later) journal_codec \<Rightarrow> ('v1, 'later) versioned_record \<Rightarrow> bool" where
  "storable K r \<longleftrightarrow> is_ok (validate_versioned_record_for_storage K r)"

definition closing_digest :: "(bytes \<Rightarrow> bytes) \<Rightarrow> bytes \<Rightarrow> bytes \<Rightarrow> bytes" where
  "closing_digest sha previous record_bytes =
     frame_digest sha (of_nat (length record_bytes)) previous record_bytes"

definition frame_of :: "(bytes \<Rightarrow> bytes) \<Rightarrow> bytes \<Rightarrow> bytes \<Rightarrow> bytes" where
  "frame_of sha previous record_bytes =
     frame_magic @ u16_to_be frame_version @ u32_to_be (of_nat (length record_bytes)) @ previous
       @ record_bytes @ closing_digest sha previous record_bytes"

lemma validate_record_length_Inr:
  "validate_record_length n = Inr w \<longleftrightarrow> 0 < n \<and> n \<le> max_record_bytes \<and> w = of_nat n"
  by (auto simp: validate_record_length_def max_record_bytes_def)

lemma record_length_word:
  assumes "n \<le> max_record_bytes"
  shows "unat (of_nat n :: u32) = n"
  using assms by (simp add: max_record_bytes_def unsigned_of_nat take_bit_nat_eq_self)

lemma storableD:
  assumes "storable K r"
  shows "validate_versioned_record_for_storage K r = Inr (jc_encode K r)"
    and "0 < length (jc_encode K r)" and "length (jc_encode K r) \<le> max_record_bytes"
    and "jc_decode K (jc_encode K r) = Inr r"
  using assms
  by (auto simp: storable_def validate_versioned_record_for_storage_def map_err_def and_then_Inr_iff
      validate_record_length_Inr split: sum.splits if_splits)
    (auto simp: is_ok_def and_then_def validate_record_length_Inr split: sum.splits if_splits)

lemma encode_frame_storable:
  assumes "storable K r"
  shows "encode_frame sha (jc_encode K r) previous =
      Inr \<lparr> ef_prefix = frame_magic @ u16_to_be frame_version @
               u32_to_be (of_nat (length (jc_encode K r))) @ previous,
            ef_hash_bytes = closing_digest sha previous (jc_encode K r),
            ef_digest = closing_digest sha previous (jc_encode K r),
            ef_bytes = frame_of sha previous (jc_encode K r) \<rparr>"
proof -
  have "validate_record_length (length (jc_encode K r)) = Inr (of_nat (length (jc_encode K r)))"
    using storableD(2,3) [OF assms] by (simp add: validate_record_length_Inr)
  then show ?thesis by (simp add: encode_frame_def frame_of_def closing_digest_def Let_def)
qed

lemma closing_digest_length:
  "digest_length sha \<Longrightarrow> length (closing_digest sha previous record_bytes) = 32"
  by (simp add: closing_digest_def frame_digest_def digest_length_def)

lemma frame_of_length:
  assumes "digest_length sha" and "length previous = 32"
  shows "length (frame_of sha previous record_bytes) = 74 + length record_bytes"
  using assms by (simp add: frame_of_def closing_digest_length)

text \<open>What a frame that reads well looks like.\<close>

definition declared_length :: "bytes \<Rightarrow> nat" where
  "declared_length bs = unat (u32_from_be (take 4 (drop 6 bs)))"

lemma read_frame_Inr_iff:
  "read_frame sha previous bs = Inr (record_bytes, digest) \<longleftrightarrow>
     take 4 bs = frame_magic \<and> u16_from_be (take 2 (drop 4 bs)) = frame_version \<and>
     0 < declared_length bs \<and> declared_length bs \<le> max_record_bytes \<and>
     74 + declared_length bs \<le> length bs \<and> take 32 (drop 10 bs) = previous \<and>
     record_bytes = take (declared_length bs) (drop 42 bs) \<and>
     digest = closing_digest sha previous record_bytes \<and>
     take 32 (drop (42 + declared_length bs) bs) = digest"
proof -
  have "unat (of_nat (declared_length bs) :: u32) = declared_length bs" by (simp add: declared_length_def)
  then show ?thesis
    unfolding read_frame_def and_then_Inr_iff closing_digest_def declared_length_def [symmetric]
    by (auto simp: Let_def and_then_Inr_iff validate_record_length_Inr)
qed

lemma take_drop_append: "m + n \<le> length xs \<Longrightarrow> take n (drop m (xs @ ys)) = take n (drop m xs)"
  by simp

lemma take_drop_take: "m + n \<le> k \<Longrightarrow> take n (drop m (take k xs)) = take n (drop m xs)"
  by (simp add: drop_take)

lemma read_frame_append:
  assumes "read_frame sha previous bs = Inr (record_bytes, digest)"
  shows "read_frame sha previous (bs @ rest) = Inr (record_bytes, digest)"
    and "74 + length record_bytes \<le> length bs"
proof -
  note read = assms [unfolded read_frame_Inr_iff]
  then have long: "74 + declared_length bs \<le> length bs" by blast
  note parts = take_drop_append [of 0 4 bs rest, simplified] take_drop_append [of 4 2 bs rest]
    take_drop_append [of 6 4 bs rest] take_drop_append [of 10 32 bs rest]
    take_drop_append [of 42 "declared_length bs" bs rest]
    take_drop_append [of "42 + declared_length bs" 32 bs rest]
  have same: "take 4 (bs @ rest) = take 4 bs" "take 2 (drop 4 (bs @ rest)) = take 2 (drop 4 bs)"
    "take 4 (drop 6 (bs @ rest)) = take 4 (drop 6 bs)"
    "take 32 (drop 10 (bs @ rest)) = take 32 (drop 10 bs)"
    "take (declared_length bs) (drop 42 (bs @ rest)) = take (declared_length bs) (drop 42 bs)"
    "take 32 (drop (42 + declared_length bs) (bs @ rest)) = take 32 (drop (42 + declared_length bs) bs)"
    using long by (auto intro!: parts)
  then have "declared_length (bs @ rest) = declared_length bs"
    unfolding declared_length_def by (simp only:)
  with read same long show "read_frame sha previous (bs @ rest) = Inr (record_bytes, digest)"
    unfolding read_frame_Inr_iff by (simp only: length_append) simp
  from read long show "74 + length record_bytes \<le> length bs" by auto
qed

lemma frame_parts:
  assumes "length previous = 32"
  shows "take 4 (frame_of sha previous record_bytes) = frame_magic"
    and "take 2 (drop 4 (frame_of sha previous record_bytes)) = u16_to_be frame_version"
    and "take 4 (drop 6 (frame_of sha previous record_bytes)) = u32_to_be (of_nat (length record_bytes))"
    and "take 32 (drop 10 (frame_of sha previous record_bytes)) = previous"
    and "drop 42 (frame_of sha previous record_bytes)
           = record_bytes @ closing_digest sha previous record_bytes"
  using assms by (simp_all add: frame_of_def)

lemma frame_declared_length:
  assumes "length previous = 32" and "length record_bytes \<le> max_record_bytes"
  shows "declared_length (frame_of sha previous record_bytes) = length record_bytes"
  using assms by (simp add: declared_length_def frame_parts u32_round_trip record_length_word)

lemma read_frame_of:
  assumes "digest_length sha" and "length previous = 32"
    and "0 < length record_bytes" and "length record_bytes \<le> max_record_bytes"
  shows "read_frame sha previous (frame_of sha previous record_bytes) =
    Inr (record_bytes, closing_digest sha previous record_bytes)"
proof -
  have "drop (42 + length record_bytes) (frame_of sha previous record_bytes)
      = drop (length record_bytes) (drop 42 (frame_of sha previous record_bytes))"
    by (simp add: add.commute)
  then have "take 32 (drop (42 + length record_bytes) (frame_of sha previous record_bytes))
      = closing_digest sha previous record_bytes"
    using assms(1,2) by (simp only: frame_parts) (simp add: closing_digest_length)
  with assms show ?thesis
    unfolding read_frame_Inr_iff
    by (simp add: frame_parts frame_declared_length frame_of_length closing_digest_length)
qed

lemma read_frame_torn:
  assumes "digest_length sha" and "length previous = 32"
    and "0 < length record_bytes" and "length record_bytes \<le> max_record_bytes"
    and "k < 74 + length record_bytes"
  shows "read_frame sha previous (take k (frame_of sha previous record_bytes)) = Inl TornFrame"
proof -
  let ?frame = "frame_of sha previous record_bytes"
  have k: "length (take k ?frame) = k" using assms(5) frame_of_length [OF assms(1,2)] by simp
  show ?thesis
  proof (cases "k < 74")
    case True
    have "take (min k 4) (take k ?frame) = take (min k 4) (take 4 ?frame)" by (simp add: min_def)
    with True k assms(2) show ?thesis by (simp only: read_frame_def frame_parts) simp
  next
    case False
    have parts: "take 4 (take k ?frame) = frame_magic"
      "take 2 (drop 4 (take k ?frame)) = u16_to_be frame_version"
      "take 4 (drop 6 (take k ?frame)) = u32_to_be (of_nat (length record_bytes))"
      using False take_drop_take [of 4 2 k ?frame] take_drop_take [of 6 4 k ?frame] assms(2)
      by (simp_all add: frame_parts)
    have declared: "validate_record_length (unat (u32_from_be (u32_to_be (of_nat (length record_bytes)))))
        = Inr (of_nat (length record_bytes))"
      using assms(3,4) by (simp add: u32_round_trip record_length_word validate_record_length_Inr)
    show ?thesis
      unfolding read_frame_def parts declared k
      using False assms(4,5) by (simp add: Let_def record_length_word)
  qed
qed

text \<open>The scan of frames, one frame at a time.\<close>

definition frontier_after ::
    "('v1, 'later) journal_codec \<Rightarrow> nat \<Rightarrow> nat \<Rightarrow> bytes \<Rightarrow> ('v1, 'later) versioned_record
       \<Rightarrow> journal_frontier" where
  "frontier_after K count end_offset digest r =
     \<lparr> jf_storage_schema_version = storage_schema_version, jf_frame_count = count,
       jf_journal_byte_length = end_offset, jf_last_frame_sha256 = hex_string digest,
       jf_last_record_id = Some (jc_record_id K r),
       jf_last_lifecycle_sequence = Some (jc_lifecycle_sequence K r) \<rparr>"

lemma scan_frames_Nil [simp]:
  "scan_frames K sha offset previous records frontiers [] = Inr (records, frontiers, previous)"
  by (simp add: scan_frames.simps)

lemma scan_frames_step:
  assumes "read_frame sha previous bs = Inr (record_bytes, digest)"
    and "jc_decode K record_bytes = Inr r"
  shows "scan_frames K sha offset previous records frontiers bs =
    scan_frames K sha (offset + (74 + length record_bytes)) digest (records @ [r])
      (frontiers @ [frontier_after K (length records + 1) (offset + (74 + length record_bytes)) digest r])
      (drop (74 + length record_bytes) bs)"
proof -
  have "bs \<noteq> []" using read_frame_Inr_length [OF assms(1)] by auto
  with assms show ?thesis
    by (subst scan_frames.simps) (simp add: frontier_after_def add_ac Let_def)
qed

lemma scan_frames_error:
  assumes "read_frame sha previous bs = Inl e" and "bs \<noteq> []"
  shows "scan_frames K sha offset previous records frontiers bs = Inl e"
  using assms by (subst scan_frames.simps) simp

lemma scan_frames_cases:
  assumes "scan_frames K sha offset previous records frontiers bs = Inr scanned"
  obtains "bs = []" "scanned = (records, frontiers, previous)"
  | record_bytes digest r where
      "read_frame sha previous bs = Inr (record_bytes, digest)" "jc_decode K record_bytes = Inr r"
      "scan_frames K sha (offset + (74 + length record_bytes)) digest (records @ [r])
        (frontiers @ [frontier_after K (length records + 1) (offset + (74 + length record_bytes)) digest r])
        (drop (74 + length record_bytes) bs) = Inr scanned"
proof (cases "bs = []")
  case True
  with assms that(1) show ?thesis by simp
next
  case False
  obtain record_bytes digest where frame: "read_frame sha previous bs = Inr (record_bytes, digest)"
  proof (cases "read_frame sha previous bs")
    case (Inl e)
    then show ?thesis using assms scan_frames_error [OF Inl False, of K offset records frontiers] by simp
  next
    case (Inr pair)
    then show ?thesis using that by (cases pair) simp
  qed
  obtain r where decoded: "jc_decode K record_bytes = Inr r"
    using assms False frame
    by (cases "jc_decode K record_bytes") (auto simp: scan_frames.simps [of _ _ _ _ _ _ bs])
  show ?thesis
    using that(2) [OF frame decoded] assms scan_frames_step [OF frame decoded] by simp
qed

lemma scan_frames_append:
  assumes "scan_frames K sha offset previous records frontiers bs = Inr (records', frontiers', digest')"
  shows "scan_frames K sha offset previous records frontiers (bs @ rest) =
    scan_frames K sha (offset + length bs) digest' records' frontiers' rest"
  using assms
proof (induction "length bs" arbitrary: offset previous records frontiers bs rule: less_induct)
  case less
  from less.prems show ?case
  proof (cases rule: scan_frames_cases)
    case 1
    then show ?thesis by simp
  next
    case (2 record_bytes digest r)
    note long = read_frame_append(2) [OF 2(1)] and frame = read_frame_append(1) [OF 2(1), of rest]
    have "length (drop (74 + length record_bytes) bs) < length bs" using long by simp
    note less.hyps [OF this 2(3)]
    moreover have "drop (74 + length record_bytes) (bs @ rest) = drop (74 + length record_bytes) bs @ rest"
      using long by simp
    moreover have "offset + (74 + length record_bytes) + length (drop (74 + length record_bytes) bs)
        = offset + length bs"
      using long by simp
    ultimately show ?thesis using scan_frames_step [OF frame 2(2)] by simp
  qed
qed

definition frontiers_end :: "journal_frontier list \<Rightarrow> nat \<Rightarrow> bytes \<Rightarrow> bool" where
  "frontiers_end frontiers offset digest \<longleftrightarrow>
     frontiers \<noteq> [] \<longrightarrow> jf_frame_count (last frontiers) = length frontiers \<and>
       jf_journal_byte_length (last frontiers) = offset \<and>
       jf_last_frame_sha256 (last frontiers) = hex_string digest"

lemma scan_frames_bounds:
  assumes "scan_frames K sha offset previous records frontiers bs = Inr (records', frontiers', digest')"
    and "digest_length sha" and "length previous = 32" and "length frontiers = length records"
    and "frontiers_end frontiers offset previous"
  shows "length digest' = 32 \<and> length frontiers' = length records' \<and>
    length frontiers \<le> length frontiers' \<and>
    (length frontiers' = length frontiers \<longrightarrow> bs = [] \<and> digest' = previous) \<and>
    frontiers_end frontiers' (offset + length bs) digest'"
  using assms
proof (induction "length bs" arbitrary: offset previous records frontiers bs rule: less_induct)
  case less
  from less.prems(1) show ?case
  proof (cases rule: scan_frames_cases)
    case 1
    with less.prems show ?thesis by auto
  next
    case (2 record_bytes digest r)
    note long = read_frame_append(2) [OF 2(1)]
    have shorter: "length (drop (74 + length record_bytes) bs) < length bs" using long by simp
    have "digest = closing_digest sha previous record_bytes"
      using 2(1) unfolding read_frame_Inr_iff by blast
    then have "length digest = 32" using less.prems(2) by (simp add: closing_digest_length)
    moreover have "length (frontiers @ [f]) = length (records @ [r])" for f using less.prems(4) by simp
    moreover have "frontiers_end (frontiers @ [frontier_after K (length records + 1) e digest r]) e digest" for e
      using less.prems(4) by (simp add: frontiers_end_def frontier_after_def)
    ultimately show ?thesis
      using less.hyps [OF shorter 2(3) less.prems(2)] long by auto
  qed
qed

section \<open>The scan of a whole journal\<close>

lemma check_header_append:
  assumes "check_header bs = Inr u"
  shows "check_header (bs @ rest) = Inr u" and "length journal_header \<le> length bs"
  using assms by (auto simp: check_header_def split: if_splits)

lemma scan_bytes_Inr:
  "scan_bytes K sha bs = Inr s \<longleftrightarrow>
     check_header bs = Inr () \<and>
     scan_frames K sha 10 (genesis_digest sha) [] [] (drop 10 bs) =
       Inr (sj_versioned_records s, sj_frontiers s, sj_last_frame_digest s) \<and>
     validate_frontier sha (sj_frontier s) = Inr () \<and>
     sj_frontier s = (if sj_frontiers s = [] then empty_frontier sha else last (sj_frontiers s)) \<and>
     sj_records s = v1_records (sj_versioned_records s)"
  by (cases s) (auto simp: scan_bytes_def and_then_Inr_iff Let_def)

lemma scan_bytes_frames:
  assumes "scan_bytes K sha bs = Inr s" and "digest_length sha"
  shows "length (sj_last_frame_digest s) = 32"
    and "length (sj_frontiers s) = length (sj_versioned_records s)"
    and "jf_journal_byte_length (sj_frontier s) = length bs"
    and "jf_frame_count (sj_frontier s) = length (sj_versioned_records s)"
    and "sj_frontiers s = [] \<longleftrightarrow> drop 10 bs = []"
proof -
  note s = assms(1) [unfolded scan_bytes_Inr]
  have header: "10 \<le> length bs" using s check_header_append(2) [of bs "()"] by simp
  have genesis: "length (genesis_digest sha) = 32"
    using assms(2) by (simp add: genesis_digest_def digest_length_def)
  have *: "length (sj_last_frame_digest s) = 32 \<and> length (sj_frontiers s) = length (sj_versioned_records s) \<and>
      length ([] :: journal_frontier list) \<le> length (sj_frontiers s) \<and>
      (length (sj_frontiers s) = length ([] :: journal_frontier list) \<longrightarrow> drop 10 bs = [] \<and> sj_last_frame_digest s = genesis_digest sha) \<and>
      frontiers_end (sj_frontiers s) (10 + length (drop 10 bs)) (sj_last_frame_digest s)"
    by (rule scan_frames_bounds [OF conjunct1 [OF conjunct2 [OF s]] assms(2) genesis]) (simp_all add: frontiers_end_def)
  then show "length (sj_last_frame_digest s) = 32"
    and "length (sj_frontiers s) = length (sj_versioned_records s)" by simp_all
  show "jf_journal_byte_length (sj_frontier s) = length bs"
    and "jf_frame_count (sj_frontier s) = length (sj_versioned_records s)"
    using * s header by (auto simp: frontiers_end_def empty_frontier_def)
  show "sj_frontiers s = [] \<longleftrightarrow> drop 10 bs = []"
  proof
    assume "drop 10 bs = []"
    with s show "sj_frontiers s = []" by simp
  qed (use * in simp)
qed

text \<open>The scan once the frame of \<open>r\<close> follows the bytes scanned.\<close>

definition scan_after ::
    "('v1, 'later) journal_codec \<Rightarrow> (bytes \<Rightarrow> bytes) \<Rightarrow> nat \<Rightarrow> ('v1, 'later) scanned_journal
       \<Rightarrow> ('v1, 'later) versioned_record \<Rightarrow> ('v1, 'later) scanned_journal" where
  "scan_after K sha end_offset s r =
     (let digest = closing_digest sha (sj_last_frame_digest s) (jc_encode K r);
          f = frontier_after K (length (sj_versioned_records s) + 1) end_offset digest r
      in \<lparr> sj_records = v1_records (sj_versioned_records s @ [r]),
           sj_versioned_records = sj_versioned_records s @ [r],
           sj_frontiers = sj_frontiers s @ [f], sj_frontier = f, sj_last_frame_digest = digest \<rparr>)"

lemma scan_frames_extended:
  assumes "scan_bytes K sha bs = Inr s"
  shows "scan_frames K sha 10 (genesis_digest sha) [] [] (drop 10 (bs @ rest)) =
    scan_frames K sha (length bs) (sj_last_frame_digest s) (sj_versioned_records s) (sj_frontiers s) rest"
proof -
  note s = assms [unfolded scan_bytes_Inr]
  then have "10 \<le> length bs" using check_header_append(2) [of bs "()"] by simp
  then show ?thesis using scan_frames_append [OF conjunct1 [OF conjunct2 [OF s]], of rest] by simp
qed

lemma scan_bytes_torn:
  assumes "scan_bytes K sha bs = Inr s" and "digest_length sha" and "storable K r"
    and "0 < k" and "k < 74 + length (jc_encode K r)"
  shows "scan_bytes K sha (bs @ take k (frame_of sha (sj_last_frame_digest s) (jc_encode K r))) = Inl TornFrame"
proof -
  note prev = scan_bytes_frames(1) [OF assms(1,2)]
  note torn = read_frame_torn [OF assms(2) prev storableD(2,3) [OF assms(3)] assms(5)]
  have "take k (frame_of sha (sj_last_frame_digest s) (jc_encode K r)) \<noteq> []"
    using assms(4) frame_of_length [OF assms(2) prev, of "jc_encode K r"] by auto
  note scan_frames_error [OF torn this, of K "length bs" "sj_versioned_records s" "sj_frontiers s"]
  moreover have "check_header (bs @ rest) = Inr ()" for rest
    using assms(1) check_header_append(1) unfolding scan_bytes_Inr by blast
  ultimately show ?thesis
    using scan_frames_extended [OF assms(1)] by (simp add: scan_bytes_def del: drop_append)
qed

lemma scan_bytes_extended:
  assumes "scan_bytes K sha bs = Inr s" and "digest_length sha" and "storable K r"
    and "closing_digest sha (sj_last_frame_digest s) (jc_encode K r) \<noteq> replicate 32 0"
  shows "scan_bytes K sha (bs @ frame_of sha (sj_last_frame_digest s) (jc_encode K r)) =
    Inr (scan_after K sha (length bs + (74 + length (jc_encode K r))) s r)"
proof -
  let ?digest = "closing_digest sha (sj_last_frame_digest s) (jc_encode K r)"
  let ?f = "frontier_after K (length (sj_versioned_records s) + 1) (length bs + (74 + length (jc_encode K r))) ?digest r"
  note prev = scan_bytes_frames(1) [OF assms(1,2)]
  note frame = read_frame_of [OF assms(2) prev storableD(2,3) [OF assms(3)]]
  have frames: "scan_frames K sha 10 (genesis_digest sha) [] []
      (drop 10 (bs @ frame_of sha (sj_last_frame_digest s) (jc_encode K r))) =
    Inr (sj_versioned_records s @ [r], sj_frontiers s @ [?f], ?digest)"
    unfolding scan_frames_extended [OF assms(1)]
    using scan_frames_step [OF frame storableD(4) [OF assms(3)]] frame_of_length [OF assms(2) prev]
    by simp
  have "10 \<le> length bs" using assms(1) check_header_append(2) [of bs "()"] by (simp add: scan_bytes_Inr)
  then have "validate_frontier sha ?f = Inr ()"
    using assms(2,4) by (simp add: validate_frontier_def frontier_after_def hex_digest_valid closing_digest_length)
  moreover have "check_header (bs @ rest) = Inr ()" for rest
    using assms(1) check_header_append(1) unfolding scan_bytes_Inr by blast
  ultimately show ?thesis
    using frames by (simp add: scan_bytes_Inr scan_after_def Let_def del: drop_append)
qed

section \<open>The contract of a backend\<close>

text \<open>Records appended one after another; the first refusal ends it.\<close>

fun append_all :: "('b \<Rightarrow> 'r \<Rightarrow> 'b \<times> ('e + 'a)) \<Rightarrow> 'b \<Rightarrow> 'r list \<Rightarrow> 'e + 'b" where
  "append_all add b [] = Inr b"
| "append_all add b (r # rs) =
     (case add b r of
        (b', Inl e) \<Rightarrow> Inl e
      | (b', Inr receipt) \<Rightarrow> append_all add b' rs)"

text \<open>The digests that close the frames of \<open>rs\<close>, after \<open>previous\<close>.\<close>

fun digest_chain ::
    "('v1, 'later) journal_codec \<Rightarrow> (bytes \<Rightarrow> bytes) \<Rightarrow> bytes
       \<Rightarrow> ('v1, 'later) versioned_record list \<Rightarrow> bytes list" where
  "digest_chain K sha previous [] = []"
| "digest_chain K sha previous (r # rs) =
     (let digest = closing_digest sha previous (jc_encode K r)
      in digest # digest_chain K sha digest rs)"

text \<open>
  What every backend promises of one append (the trait \<open>Stage6JournalBackend\<close>): a good record
  whose closing digest is not the reserved one is taken, the records grow by it alone, and
  the digest moves along the chain.
\<close>

locale journal_backend =
  fixes inv :: "'b \<Rightarrow> bool"
    and add :: "'b \<Rightarrow> 'r \<Rightarrow> 'b \<times> ('e + 'a)"
    and records :: "'b \<Rightarrow> 'r list"
    and digest :: "'b \<Rightarrow> bytes"
    and good :: "'r \<Rightarrow> bool"
    and close_frame :: "bytes \<Rightarrow> 'r \<Rightarrow> bytes"
    and chain :: "bytes \<Rightarrow> 'r list \<Rightarrow> bytes list"
    and reserved :: bytes
  assumes append_ok: "inv b \<Longrightarrow> good r \<Longrightarrow> close_frame (digest b) r \<noteq> reserved \<Longrightarrow>
        \<exists>b' receipt. add b r = (b', Inr receipt) \<and> inv b' \<and> records b' = records b @ [r] \<and>
          digest b' = close_frame (digest b) r"
    and chain_Cons: "chain d (r # rs) = close_frame d r # chain (close_frame d r) rs"
begin

lemma append_all_ok:
  assumes "inv b" and "list_all good rs" and "reserved \<notin> set (chain (digest b) rs)"
  shows "\<exists>b'. append_all add b rs = Inr b' \<and> inv b' \<and> records b' = records b @ rs \<and>
    digest b' = foldl close_frame (digest b) rs"
  using assms
proof (induction rs arbitrary: b)
  case (Cons r rs)
  then obtain b' receipt where step: "add b r = (b', Inr receipt)" "inv b'"
      "records b' = records b @ [r]" "digest b' = close_frame (digest b) r"
    using append_ok [of b r] by (auto simp: chain_Cons)
  show ?case
    using Cons.IH [OF step(2)] Cons.prems(2,3) step by (auto simp: chain_Cons)
qed simp

end

section \<open>The memory journal\<close>

lemma memory_append_extends:
  assumes "scan_bytes K sha (mj_bytes m) = Inr (mj_scan m)" and "digest_length sha" and "storable K r"
    and "closing_digest sha (sj_last_frame_digest (mj_scan m)) (jc_encode K r) \<noteq> replicate 32 0"
  shows "\<exists>receipt. memory_append K sha m r =
    (\<lparr> mj_bytes = mj_bytes m @ frame_of sha (sj_last_frame_digest (mj_scan m)) (jc_encode K r),
       mj_scan = scan_after K sha (length (mj_bytes m) + (74 + length (jc_encode K r))) (mj_scan m) r \<rparr>,
     Inr receipt)"
  using scan_bytes_extended [OF assms] storableD(1) [OF assms(3)] encode_frame_storable [OF assms(3)]
  by (simp add: memory_append_def Let_def)

definition memory_inv ::
    "('v1, 'later) journal_codec \<Rightarrow> (bytes \<Rightarrow> bytes) \<Rightarrow> ('v1, 'later) memory_journal \<Rightarrow> bool" where
  "memory_inv K sha m \<longleftrightarrow> digest_length sha \<and> scan_bytes K sha (mj_bytes m) = Inr (mj_scan m)"

interpretation memory_backend: journal_backend "memory_inv K sha" "memory_append K sha"
  "\<lambda>m. sj_versioned_records (mj_scan m)" "\<lambda>m. sj_last_frame_digest (mj_scan m)" "storable K"
  "\<lambda>d r. closing_digest sha d (jc_encode K r)" "digest_chain K sha" "replicate 32 0" for K sha
proof (unfold_locales, goal_cases)
  case (1 m r)
  then have inv: "scan_bytes K sha (mj_bytes m) = Inr (mj_scan m)" and sha: "digest_length sha"
    by (auto simp: memory_inv_def)
  show ?case
    using memory_append_extends [OF inv sha 1(2,3)] scan_bytes_extended [OF inv sha 1(2,3)] sha
    by (auto simp: memory_inv_def scan_after_def Let_def)
qed (simp add: Let_def)

lemma scan_empty_journal:
  assumes "digest_length sha" and "genesis_digest sha \<noteq> replicate 32 0"
  shows "scan_bytes K sha journal_header = Inr \<lparr> sj_records = [], sj_versioned_records = [],
    sj_frontiers = [], sj_frontier = empty_frontier sha, sj_last_frame_digest = genesis_digest sha \<rparr>"
proof -
  have "length (genesis_digest sha) = 32" using assms(1) by (simp add: genesis_digest_def digest_length_def)
  then have "validate_frontier sha (empty_frontier sha) = Inr ()"
    using assms(2) by (simp add: validate_frontier_def empty_frontier_def hex_digest_valid)
  moreover have "check_header journal_header = Inr ()" by code_simp
  ultimately show ?thesis by (simp add: scan_bytes_Inr)
qed

section \<open>The file journal\<close>

lemma file_open_existing_Inr:
  "file_open_existing K sha bs = Inr b \<longleftrightarrow>
     scan_bytes K sha bs = Inr (fj_scan b) \<and> fj_file b = bs \<and> \<not> fj_durability_uncertain b"
  by (cases b) (auto simp: file_open_existing_def and_then_Inr_iff)

lemma verify_external_frontier_open:
  assumes "file_open_existing K sha bs = Inr b" and "digest_length sha"
  shows "verify_external_frontier K sha b = Inr ()"
  using assms scan_bytes_frames(3) [of K sha bs "fj_scan b"]
  by (simp add: verify_external_frontier_def file_open_existing_Inr)

lemma file_append_open:
  assumes "file_open_existing K sha bs = Inr b" and "digest_length sha" and "storable K r"
    and "closing_digest sha (sj_last_frame_digest (fj_scan b)) (jc_encode K r) \<noteq> replicate 32 0"
  shows "fst (file_append K sha NoAppendFault b r) =
      \<lparr> fj_file = bs @ frame_of sha (sj_last_frame_digest (fj_scan b)) (jc_encode K r),
        fj_scan = scan_after K sha (length bs + (74 + length (jc_encode K r))) (fj_scan b) r,
        fj_durability_uncertain = False \<rparr>"
    and "fj_file (fst (file_append K sha (WriteStopsAfter k) b r)) =
      bs @ take k (frame_of sha (sj_last_frame_digest (fj_scan b)) (jc_encode K r))"
    and "is_ok (snd (file_append K sha NoAppendFault b r))"
proof -
  note opened = assms(1) [unfolded file_open_existing_Inr]
  note simps = file_append_def verify_external_frontier_open [OF assms(1,2)]
    storableD(1) [OF assms(3)] encode_frame_storable [OF assms(3)]
  have frame: "(frame_magic @ u16_to_be frame_version @ u32_to_be (of_nat (length (jc_encode K r))) @ prev)
      @ jc_encode K r @ closing_digest sha prev (jc_encode K r) = frame_of sha prev (jc_encode K r)" for prev
    by (simp add: frame_of_def)
  show "fj_file (fst (file_append K sha (WriteStopsAfter k) b r)) =
      bs @ take k (frame_of sha (sj_last_frame_digest (fj_scan b)) (jc_encode K r))"
    using opened by (simp add: simps frame del: append_assoc)
  show "fst (file_append K sha NoAppendFault b r) =
      \<lparr> fj_file = bs @ frame_of sha (sj_last_frame_digest (fj_scan b)) (jc_encode K r),
        fj_scan = scan_after K sha (length bs + (74 + length (jc_encode K r))) (fj_scan b) r,
        fj_durability_uncertain = False \<rparr>"
    using opened scan_bytes_extended [OF conjunct1 [OF opened] assms(2-4)]
    by (simp add: simps frame Let_def del: append_assoc)
  show "is_ok (snd (file_append K sha NoAppendFault b r))"
    using opened scan_bytes_extended [OF conjunct1 [OF opened] assms(2-4)]
    by (simp add: simps frame Let_def del: append_assoc)
qed

text \<open>Opening the file again after an append, whatever failed.\<close>

lemma file_append_other_faults:
  assumes "file_open_existing K sha bs = Inr b" and "digest_length sha" and "storable K r"
  shows "fj_file (fst (file_append K sha (VerifyIoFails kind) b r)) = bs"
    and "fj_file (fst (file_append K sha SyncFails b r)) =
      bs @ frame_of sha (sj_last_frame_digest (fj_scan b)) (jc_encode K r)"
    and "fj_file (fst (file_append K sha RescanFails b r)) =
      bs @ frame_of sha (sj_last_frame_digest (fj_scan b)) (jc_encode K r)"
    and "fault \<noteq> NoAppendFault \<Longrightarrow> \<not> is_ok (snd (file_append K sha fault b r))"
proof -
  note opened = assms(1) [unfolded file_open_existing_Inr]
  note simps = file_append_def verify_external_frontier_open [OF assms(1,2)]
    storableD(1) [OF assms(3)] encode_frame_storable [OF assms(3)]
  have frame: "(frame_magic @ u16_to_be frame_version @ u32_to_be (of_nat (length (jc_encode K r))) @ prev)
      @ jc_encode K r @ closing_digest sha prev (jc_encode K r) = frame_of sha prev (jc_encode K r)" for prev
    by (simp add: frame_of_def)
  show "fj_file (fst (file_append K sha (VerifyIoFails kind) b r)) = bs"
    using opened by (simp add: simps)
  show "fj_file (fst (file_append K sha SyncFails b r)) =
      bs @ frame_of sha (sj_last_frame_digest (fj_scan b)) (jc_encode K r)"
    using opened by (simp add: simps frame Let_def del: append_assoc)
  show "fj_file (fst (file_append K sha RescanFails b r)) =
      bs @ frame_of sha (sj_last_frame_digest (fj_scan b)) (jc_encode K r)"
    using opened by (simp add: simps frame Let_def del: append_assoc)
  show "\<not> is_ok (snd (file_append K sha fault b r))" if "fault \<noteq> NoAppendFault"
    using opened that by (cases fault) (simp_all add: simps Let_def)
qed

lemma file_append_acknowledged:
  assumes "file_open_existing K sha bs = Inr b" and "digest_length sha" and "storable K r"
    and "closing_digest sha (sj_last_frame_digest (fj_scan b)) (jc_encode K r) \<noteq> replicate 32 0"
  shows "is_ok (snd (file_append K sha fault b r)) = (fault = NoAppendFault)"
  using file_append_open(3) [OF assms] file_append_other_faults(4) [OF assms(1-3)] by blast

lemma reopen_after_append:
  assumes "file_open_existing K sha bs = Inr b" and "digest_length sha" and "storable K r"
    and "closing_digest sha (sj_last_frame_digest (fj_scan b)) (jc_encode K r) \<noteq> replicate 32 0"
  shows "file_open_existing K sha (fj_file (fst (file_append K sha fault b r))) =
    (case fault of
       VerifyIoFails kind \<Rightarrow> Inr b
     | WriteStopsAfter k \<Rightarrow>
         if k = 0 then Inr b
         else if k < 74 + length (jc_encode K r) then Inl TornFrame
         else Inr (fst (file_append K sha NoAppendFault b r))
     | _ \<Rightarrow> Inr (fst (file_append K sha NoAppendFault b r)))"
proof -
  note scanned = conjunct1 [OF assms(1) [unfolded file_open_existing_Inr]]
  let ?frame = "frame_of sha (sj_last_frame_digest (fj_scan b)) (jc_encode K r)"
  have size: "length ?frame = 74 + length (jc_encode K r)"
    by (rule frame_of_length [OF assms(2) scan_bytes_frames(1) [OF scanned assms(2)]])
  note after = file_append_open [OF assms] file_append_other_faults [OF assms(1-3)]
  have whole: "file_open_existing K sha (bs @ ?frame) = Inr (fst (file_append K sha NoAppendFault b r))"
    using scan_bytes_extended [OF scanned assms(2,3,4)] by (simp add: after file_open_existing_def)
  show ?thesis
  proof (cases fault)
    case (WriteStopsAfter k)
    consider "k = 0" | "0 < k" "k < 74 + length (jc_encode K r)" | "74 + length (jc_encode K r) \<le> k" by linarith
    then show ?thesis
    proof cases
      case 1
      with assms(1) show ?thesis by (simp add: WriteStopsAfter after)
    next
      case 2
      with scan_bytes_torn [OF scanned assms(2,3) 2] show ?thesis
        by (simp add: WriteStopsAfter after file_open_existing_def)
    next
      case 3
      then have "take k ?frame = ?frame" using size by simp
      with 3 whole show ?thesis by (simp add: WriteStopsAfter after(2))
    qed
  next
    case NoAppendFault
    then show ?thesis using whole by (simp add: after(1))
  qed (simp_all only: append_fault.case after whole assms(1))
qed

definition file_inv ::
    "('v1, 'later) journal_codec \<Rightarrow> (bytes \<Rightarrow> bytes) \<Rightarrow> ('v1, 'later) file_journal \<Rightarrow> bool" where
  "file_inv K sha b \<longleftrightarrow> digest_length sha \<and> file_open_existing K sha (fj_file b) = Inr b"

interpretation file_backend: journal_backend "file_inv K sha" "file_append K sha NoAppendFault"
  "\<lambda>b. sj_versioned_records (fj_scan b)" "\<lambda>b. sj_last_frame_digest (fj_scan b)" "storable K"
  "\<lambda>d r. closing_digest sha d (jc_encode K r)" "digest_chain K sha" "replicate 32 0" for K sha
proof (unfold_locales, goal_cases)
  case (1 b r)
  then have inv: "file_open_existing K sha (fj_file b) = Inr b" and sha: "digest_length sha"
    by (auto simp: file_inv_def)
  note scanned = conjunct1 [OF inv [unfolded file_open_existing_Inr]]
  note after = file_append_open(1) [OF inv sha 1(2,3)] and extended = scan_bytes_extended [OF scanned sha 1(2,3)]
  obtain b' res where step: "file_append K sha NoAppendFault b r = (b', res)"
    by (cases "file_append K sha NoAppendFault b r")
  have "\<exists>receipt. res = Inr receipt"
    using step extended inv verify_external_frontier_open [OF inv sha]
      storableD(1) [OF 1(2)] encode_frame_storable [OF 1(2)]
    by (auto simp: file_append_def file_open_existing_Inr frame_of_def Let_def)
  moreover have "file_inv K sha b'"
    using after extended sha by (simp add: step file_inv_def file_open_existing_def)
  ultimately show ?case using after by (auto simp: step scan_after_def Let_def)
qed (simp add: Let_def)

section \<open>Bytes determined by the digests\<close>

lemma u16_to_be_from:
  assumes "length bs = 2"
  shows "u16_to_be (u16_from_be bs) = bs"
proof -
  obtain a b where bs: "bs = [a, b]" using assms by (auto simp: length_Suc_conv numeral_2_eq_2)
  have ab: "unat a < 256" "unat b < 256" by (rule unat_u8_less)+
  then have "unat a * 256 + unat b < 2 ^ 16" by simp
  then have n: "unat (u16_from_be bs) = unat a * 256 + unat b"
    unfolding bs u16_from_be_def be_nat.simps unsigned_of_nat by (simp add: take_bit_nat_eq_self)
  have "unat (ucast (drop_bit 8 (u16_from_be bs)) :: u8) = unat a"
    and "unat (ucast (u16_from_be bs) :: u8) = unat b"
    using ab by (simp_all add: unsigned_ucast_eq unat_div take_bit_eq_mod drop_bit_eq_div n)
  then show ?thesis by (simp add: u16_to_be_def bs unsigned_word_eqI)
qed

lemma u32_to_be_from:
  assumes "length bs = 4"
  shows "u32_to_be (u32_from_be bs) = bs"
proof -
  obtain a b c d where bs: "bs = [a, b, c, d]"
    using assms by (auto simp: length_Suc_conv eval_nat_numeral)
  have small: "unat a < 256" "unat b < 256" "unat c < 256" "unat d < 256" by (rule unat_u8_less)+
  then have "((unat a * 256 + unat b) * 256 + unat c) * 256 + unat d < 2 ^ 32" by simp
  then have n: "unat (u32_from_be bs) = ((unat a * 256 + unat b) * 256 + unat c) * 256 + unat d"
    unfolding bs u32_from_be_def be_nat.simps unsigned_of_nat by (simp add: take_bit_nat_eq_self)
  have divs: "n div 65536 = n div 256 div 256" "n div 16777216 = n div 256 div 256 div 256" for n :: nat
    by (simp_all flip: div_mult2_eq)
  have low: "(x * 256 + y) div 256 = x" "(x * 256 + y) mod 256 = y" if "y < 256" for x y :: nat
    using that by simp_all
  have "unat (ucast (drop_bit 24 (u32_from_be bs)) :: u8) = unat a"
    "unat (ucast (drop_bit 16 (u32_from_be bs)) :: u8) = unat b"
    "unat (ucast (drop_bit 8 (u32_from_be bs)) :: u8) = unat c"
    "unat (ucast (u32_from_be bs) :: u8) = unat d"
    using small low [OF small(2), of "unat a"] low [OF small(3), of "unat a * 256 + unat b"]
      low [OF small(4), of "(unat a * 256 + unat b) * 256 + unat c"]
    by (simp_all add: unsigned_ucast_eq unat_div take_bit_eq_mod drop_bit_eq_div n divs
        del: add_mult_distrib distrib_right_numeral)
  then show ?thesis by (simp add: u32_to_be_def bs unsigned_word_eqI)
qed

text \<open>A frame that reads well is the frame of its record.\<close>

lemma read_frame_exact:
  assumes "read_frame sha previous bs = Inr (record_bytes, digest)" and "digest_length sha"
  shows "bs = frame_of sha previous record_bytes @ drop (74 + length record_bytes) bs"
    and "digest = closing_digest sha previous record_bytes" and "length previous = 32"
proof -
  note read = assms(1) [unfolded read_frame_Inr_iff]
  let ?n = "declared_length bs"
  have long: "74 + ?n \<le> length bs" and "record_bytes = take ?n (drop 42 bs)" using read by blast+
  then have n: "length record_bytes = ?n" by simp
  have "of_nat ?n = u32_from_be (take 4 (drop 6 bs))" by (simp add: declared_length_def)
  then have declared: "u32_to_be (of_nat ?n) = take 4 (drop 6 bs)"
    using long by (simp add: u32_to_be_from)
  have version: "u16_to_be frame_version = take 2 (drop 4 bs)"
  proof -
    have "u16_to_be (u16_from_be (take 2 (drop 4 bs))) = take 2 (drop 4 bs)"
      using long by (intro u16_to_be_from) simp
    with read show ?thesis by simp
  qed
  have pieces: "bs = take 4 bs @ take 2 (drop 4 bs) @ take 4 (drop 6 bs) @ take 32 (drop 10 bs) @
      take ?n (drop 42 bs) @ take 32 (drop (42 + ?n) bs) @ drop (74 + ?n) bs"
  proof -
    have cut: "drop m bs = take k (drop m bs) @ drop (m + k) bs" for m k
      by (metis append_take_drop_id drop_drop add.commute)
    show ?thesis
      using cut [of 0 4] cut [of 4 2] cut [of 6 4] cut [of 10 32] cut [of 42 ?n] cut [of "42 + ?n" 32]
      by (simp add: add.commute add.left_commute)
  qed
  show "digest = closing_digest sha previous record_bytes" using read by blast
  with read have parts: "take 4 bs = frame_magic" "take 32 (drop 10 bs) = previous"
    "take ?n (drop 42 bs) = record_bytes"
    "take 32 (drop (42 + ?n) bs) = closing_digest sha previous record_bytes"
    by simp_all
  show "bs = frame_of sha previous record_bytes @ drop (74 + length record_bytes) bs"
    using pieces unfolding frame_of_def n declared version parts by simp
  show "length previous = 32" using read long by auto
qed

fun frames_of ::
    "('v1, 'later) journal_codec \<Rightarrow> (bytes \<Rightarrow> bytes) \<Rightarrow> bytes
       \<Rightarrow> ('v1, 'later) versioned_record list \<Rightarrow> bytes" where
  "frames_of K sha previous [] = []"
| "frames_of K sha previous (r # rs) =
     frame_of sha previous (jc_encode K r)
       @ frames_of K sha (closing_digest sha previous (jc_encode K r)) rs"

text \<open>The documented contract of \<open>decode_canonical\<close>: it accepts an encoding only.\<close>

definition canonical_decoder :: "('v1, 'later) journal_codec \<Rightarrow> bool" where
  "canonical_decoder K \<longleftrightarrow> (\<forall>bs r. jc_decode K bs = Inr r \<longrightarrow> jc_encode K r = bs)"

lemma scan_frames_exact:
  assumes "scan_frames K sha offset previous records frontiers bs = Inr (records', frontiers', digest')"
    and "digest_length sha" and "canonical_decoder K"
  shows "\<exists>rs. records' = records @ rs \<and> bs = frames_of K sha previous rs \<and>
    list_all (\<lambda>r. jc_decode K (jc_encode K r) = Inr r) rs \<and>
    map jf_last_frame_sha256 frontiers' =
      map jf_last_frame_sha256 frontiers @ map hex_string (digest_chain K sha previous rs)"
  using assms(1)
proof (induction "length bs" arbitrary: offset previous records frontiers bs rule: less_induct)
  case less
  from less.prems show ?case
  proof (cases rule: scan_frames_cases)
    case 1
    then show ?thesis by simp
  next
    case (2 record_bytes digest r)
    have encoded: "jc_encode K r = record_bytes" using 2(2) assms(3) by (simp add: canonical_decoder_def)
    have "length (drop (74 + length record_bytes) bs) < length bs"
      using read_frame_append(2) [OF 2(1)] by simp
    note less.hyps [OF this 2(3)]
    then obtain rs where rs: "records' = (records @ [r]) @ rs"
      "drop (74 + length record_bytes) bs = frames_of K sha digest rs"
      "list_all (\<lambda>r. jc_decode K (jc_encode K r) = Inr r) rs"
      "map jf_last_frame_sha256 frontiers' =
        (map jf_last_frame_sha256 frontiers @ [hex_string digest]) @ map hex_string (digest_chain K sha digest rs)"
      by (auto simp: frontier_after_def)
    note exact = read_frame_exact(1,2) [OF 2(1) assms(2)]
    have "bs = frames_of K sha previous (r # rs)"
      using exact rs(2) by (simp add: encoded)
    with rs 2(2) exact(2) show ?thesis
      by (intro exI [of _ "r # rs"]) (simp add: encoded Let_def)
  qed
qed

text \<open>The inputs of the hash, frame by frame; equal closing digests go back to equal records.\<close>

fun frame_inputs ::
    "('v1, 'later) journal_codec \<Rightarrow> (bytes \<Rightarrow> bytes) \<Rightarrow> bytes
       \<Rightarrow> ('v1, 'later) versioned_record list \<Rightarrow> bytes list" where
  "frame_inputs K sha previous [] = []"
| "frame_inputs K sha previous (r # rs) =
     frame_hash_input (of_nat (length (jc_encode K r))) previous (jc_encode K r)
       # frame_inputs K sha (closing_digest sha previous (jc_encode K r)) rs"

definition journal_inputs ::
    "('v1, 'later) journal_codec \<Rightarrow> (bytes \<Rightarrow> bytes) \<Rightarrow> ('v1, 'later) versioned_record list \<Rightarrow> bytes list" where
  "journal_inputs K sha rs = frame_inputs K sha (genesis_digest sha) rs"

definition end_digest ::
    "('v1, 'later) journal_codec \<Rightarrow> (bytes \<Rightarrow> bytes) \<Rightarrow> bytes
       \<Rightarrow> ('v1, 'later) versioned_record list \<Rightarrow> bytes" where
  "end_digest K sha previous rs = last (previous # digest_chain K sha previous rs)"

lemma end_digest_simps [simp]:
  "end_digest K sha previous [] = previous"
  "end_digest K sha previous (r # rs) = end_digest K sha (closing_digest sha previous (jc_encode K r)) rs"
  by (simp_all add: end_digest_def Let_def)

lemma frame_hash_input_inject:
  assumes "length p = length q" and "frame_hash_input v p xs = frame_hash_input w q ys"
  shows "p = q" and "xs = ys"
  using assms by (simp_all add: frame_hash_input_def)

lemma end_digest_inject:
  assumes "length xs = length ys" and "digest_length sha"
    and "end_digest K sha p xs = end_digest K sha q ys" and "length p = 32" and "length q = 32"
    and "inj_on sha (set (frame_inputs K sha p xs) \<union> set (frame_inputs K sha q ys))"
  shows "p = q \<and> map (jc_encode K) xs = map (jc_encode K) ys"
  using assms
proof (induction xs ys arbitrary: p q rule: list_induct2)
  case (Cons x xs y ys)
  let ?p = "closing_digest sha p (jc_encode K x)" and ?q = "closing_digest sha q (jc_encode K y)"
  have rest: "?p = ?q \<and> map (jc_encode K) xs = map (jc_encode K) ys"
    using Cons.prems closing_digest_length [OF Cons.prems(1)]
    by (intro Cons.IH) (auto intro: inj_on_subset)
  then have "sha (frame_hash_input (of_nat (length (jc_encode K x))) p (jc_encode K x)) =
      sha (frame_hash_input (of_nat (length (jc_encode K y))) q (jc_encode K y))"
    by (simp add: closing_digest_def frame_digest_def)
  then have "frame_hash_input (of_nat (length (jc_encode K x))) p (jc_encode K x) =
      frame_hash_input (of_nat (length (jc_encode K y))) q (jc_encode K y)"
    by (rule inj_onD [OF Cons.prems(5)]) simp_all
  then show ?case
    using frame_hash_input_inject Cons.prems(3,4) rest by (metis list.map(2))
qed simp

lemma decoded_inject:
  assumes "map (jc_encode K) xs = map (jc_encode K) ys"
    and "list_all (\<lambda>r. jc_decode K (jc_encode K r) = Inr r) xs"
    and "list_all (\<lambda>r. jc_decode K (jc_encode K r) = Inr r) ys"
  shows "xs = ys"
  using assms
proof (induction xs arbitrary: ys)
  case (Cons x xs)
  then obtain y ys' where "ys = y # ys'" by (cases ys) auto
  with Cons.prems have "jc_decode K (jc_encode K x) = Inr x" "jc_decode K (jc_encode K x) = Inr y"
    by auto
  with \<open>ys = y # ys'\<close> Cons show ?case by auto
qed simp

lemma digest_chain_length [simp]: "length (digest_chain K sha previous rs) = length rs"
  by (induction rs arbitrary: previous) (simp_all add: Let_def)

lemma digest_chain_take: "digest_chain K sha previous (take n rs) = take n (digest_chain K sha previous rs)"
  by (induction rs arbitrary: previous n) (simp_all add: Let_def take_Cons split: nat.splits)

lemma frame_inputs_take: "set (frame_inputs K sha previous (take n rs)) \<subseteq> set (frame_inputs K sha previous rs)"
  by (induction rs arbitrary: previous n) (auto simp: take_Cons split: nat.splits)

lemma frames_of_take:
  "take (length (frames_of K sha previous (take n rs))) (frames_of K sha previous rs) =
     frames_of K sha previous (take n rs)"
  by (induction rs arbitrary: previous n) (auto simp: take_Cons split: nat.splits)

text \<open>The bytes and the frontiers of a journal that scans, from its records.\<close>

lemma check_header_exact:
  assumes "check_header bs = Inr ()"
  shows "take 10 bs = journal_header"
proof -
  have long: "10 \<le> length bs" and magic: "take 8 bs = journal_magic"
    and version: "u16_from_be (take 2 (drop 8 bs)) = storage_schema_version"
    using assms by (auto simp: check_header_def split: if_splits)
  have "u16_to_be (u16_from_be (take 2 (drop 8 bs))) = take 2 (drop 8 bs)"
    using long by (intro u16_to_be_from) simp
  with magic version have "journal_header = take 8 bs @ take 2 (drop 8 bs)"
    by (simp add: journal_header_def)
  also have "\<dots> = take 10 bs" using take_add [of 8 2 bs] by simp
  finally show ?thesis by simp
qed

lemma scan_bytes_exact:
  assumes "scan_bytes K sha bs = Inr s" and "digest_length sha" and "canonical_decoder K"
  shows "bs = journal_header @ frames_of K sha (genesis_digest sha) (sj_versioned_records s)"
    and "list_all (\<lambda>r. jc_decode K (jc_encode K r) = Inr r) (sj_versioned_records s)"
    and "map jf_last_frame_sha256 (sj_frontiers s) =
      map hex_string (digest_chain K sha (genesis_digest sha) (sj_versioned_records s))"
proof -
  note s = assms(1) [unfolded scan_bytes_Inr]
  note scan_frames_exact [OF conjunct1 [OF conjunct2 [OF s]] assms(2,3)]
  then have frames: "drop 10 bs = frames_of K sha (genesis_digest sha) (sj_versioned_records s) \<and>
      list_all (\<lambda>r. jc_decode K (jc_encode K r) = Inr r) (sj_versioned_records s) \<and>
      map jf_last_frame_sha256 (sj_frontiers s) =
        map hex_string (digest_chain K sha (genesis_digest sha) (sj_versioned_records s))"
    by auto
  then show "list_all (\<lambda>r. jc_decode K (jc_encode K r) = Inr r) (sj_versioned_records s)"
    and "map jf_last_frame_sha256 (sj_frontiers s) =
      map hex_string (digest_chain K sha (genesis_digest sha) (sj_versioned_records s))"
    by auto
  have "bs = take 10 bs @ drop 10 bs" by simp
  with frames check_header_exact [OF conjunct1 [OF s]]
  show "bs = journal_header @ frames_of K sha (genesis_digest sha) (sj_versioned_records s)"
    by simp
qed

section \<open>A sample codec and journal\<close>

fun sample_encode :: "(bytes, bytes) versioned_record \<Rightarrow> bytes" where
  "sample_encode (RecordV1 p) = 1 # p"
| "sample_encode (RecordLater p) = 2 # p"

definition sample_decode :: "bytes \<Rightarrow> record_error + (bytes, bytes) versioned_record" where
  "sample_decode bs =
     (case bs of [] \<Rightarrow> Inl OtherRecordError
      | b # p \<Rightarrow> if b = 1 then Inr (RecordV1 p) else if b = 2 then Inr (RecordLater p)
                else Inl (UnsupportedSchema (ucast b)))"

definition sample_journal_codec :: "(bytes, bytes) journal_codec" where
  "sample_journal_codec = \<lparr> jc_encode = sample_encode, jc_decode = sample_decode,
     jc_record_id = (\<lambda>r. ''r1''), jc_lifecycle_sequence = (\<lambda>r. 1) \<rparr>"

definition sample_sha :: "bytes \<Rightarrow> bytes" where
  "sample_sha bs = of_nat (length bs) # replicate 31 1"

definition sample_record :: "(bytes, bytes) versioned_record" where
  "sample_record = RecordV1 [7, 8]"

lemma sample_journal_facts:
  "digest_length sample_sha" "canonical_decoder sample_journal_codec"
  "jc_encode sample_journal_codec sample_record = [1, 7, 8]"
  "storable sample_journal_codec sample_record"
  "closing_digest sample_sha previous record_bytes \<noteq> replicate 32 0"
  "genesis_digest sample_sha \<noteq> replicate 32 0"
proof -
  show "digest_length sample_sha" by (simp add: digest_length_def sample_sha_def)
  show "canonical_decoder sample_journal_codec"
    by (auto simp: canonical_decoder_def sample_journal_codec_def sample_decode_def
        split: list.splits if_splits)
  show encoded: "jc_encode sample_journal_codec sample_record = [1, 7, 8]"
    by (simp add: sample_journal_codec_def sample_record_def)
  have "jc_decode sample_journal_codec [1, 7, 8] = Inr sample_record"
    by (simp add: sample_journal_codec_def sample_decode_def sample_record_def)
  then show "storable sample_journal_codec sample_record"
    by (simp add: storable_def validate_versioned_record_for_storage_def encoded map_err_def
        validate_record_length_def max_record_bytes_def)
  have zero: "replicate 32 (0 :: u8) = 0 # replicate 31 0"
    by (simp add: numeral_eq_Suc)
  have ones: "replicate 31 (1 :: u8) \<noteq> replicate 31 0" by (simp add: numeral_eq_Suc)
  show "closing_digest sample_sha previous record_bytes \<noteq> replicate 32 0"
    "genesis_digest sample_sha \<noteq> replicate 32 0"
    using ones by (simp_all only: zero closing_digest_def frame_digest_def genesis_digest_def sample_sha_def) simp_all
qed

lemma sample_file_open:
  "\<exists>b. file_open_existing sample_journal_codec sample_sha journal_header = Inr b \<and>
       fj_file b = journal_header"
  using scan_empty_journal [OF sample_journal_facts(1,6), of sample_journal_codec]
  by (simp add: file_open_existing_def)

section \<open>Properties of the journal\<close>

lemma digest_chain_append:
  "digest_chain K sha d (rs @ rs') = digest_chain K sha d rs
     @ digest_chain K sha (foldl (\<lambda>d r. closing_digest sha d (jc_encode K r)) d rs) rs'"
  by (induction rs arbitrary: d) (simp_all add: Let_def)

text \<open>C20: Round trip. Any records the journal accepts are stored and read back: appended one
  after another to a new memory journal they all succeed, the framed bytes open as a journal
  file, that file takes further records in the same way, and opening it again gives exactly
  all the records in their order. (No digest may be the all-zero digest, which the code
  reserves as invalid.)\<close>

theorem journal_round_trip:
  assumes "digest_length sha" and "list_all (storable K) (rs @ later)"
    and "replicate 32 0 \<notin> set (genesis_digest sha # digest_chain K sha (genesis_digest sha) (rs @ later))"
  shows "\<exists>b. and_then (and_then (and_then (memory_new K sha)
                (\<lambda>m. append_all (memory_append K sha) m rs))
                (\<lambda>m. file_open_existing K sha (mj_bytes m)))
                (\<lambda>b. append_all (file_append K sha NoAppendFault) b later) = Inr b \<and>
             file_open_existing K sha (fj_file b) = Inr b \<and>
             sj_versioned_records (fj_scan b) = rs @ later"
proof -
  let ?m = "\<lparr> mj_bytes = journal_header, mj_scan = \<lparr> sj_records = [], sj_versioned_records = [],
    sj_frontiers = [], sj_frontier = empty_frontier sha, sj_last_frame_digest = genesis_digest sha \<rparr> \<rparr>"
  have genesis: "genesis_digest sha \<noteq> replicate 32 0" using assms(3) by auto
  note empty = scan_empty_journal [OF assms(1) genesis, of K]
  then have new: "memory_new K sha = Inr ?m" by (simp add: memory_new_def memory_from_framed_bytes_def)
  have "memory_inv K sha ?m" using empty assms(1) by (simp add: memory_inv_def)
  then obtain m where m: "append_all (memory_append K sha) ?m rs = Inr m" "memory_inv K sha m"
    "sj_versioned_records (mj_scan m) = rs"
    "sj_last_frame_digest (mj_scan m) =
       foldl (\<lambda>d r. closing_digest sha d (jc_encode K r)) (genesis_digest sha) rs"
    using memory_backend.append_all_ok [of K sha ?m rs] assms(2,3) by (auto simp: digest_chain_append)
  let ?b = "\<lparr> fj_file = mj_bytes m, fj_scan = mj_scan m, fj_durability_uncertain = False \<rparr>"
  have opened: "file_open_existing K sha (mj_bytes m) = Inr ?b"
    using m(2) by (simp add: memory_inv_def file_open_existing_def)
  then have "file_inv K sha ?b" using assms(1) by (simp add: file_inv_def)
  then obtain b where "append_all (file_append K sha NoAppendFault) ?b later = Inr b" "file_inv K sha b"
    "sj_versioned_records (fj_scan b) = rs @ later"
    using file_backend.append_all_ok [of K sha ?b later] m assms(2,3) by (auto simp: digest_chain_append)
  with m(1) show ?thesis by (simp add: new opened file_inv_def)
qed

theorem journal_round_trip_witness:
  "\<exists>b. and_then (and_then (and_then (memory_new sample_journal_codec sample_sha)
            (\<lambda>m. append_all (memory_append sample_journal_codec sample_sha) m [sample_record, sample_record]))
          (\<lambda>m. file_open_existing sample_journal_codec sample_sha (mj_bytes m)))
          (\<lambda>b. append_all (file_append sample_journal_codec sample_sha NoAppendFault) b [sample_record]) = Inr b \<and>
        file_open_existing sample_journal_codec sample_sha (fj_file b) = Inr b \<and>
        sj_versioned_records (fj_scan b) = [sample_record, sample_record] @ [sample_record]"
  by (rule journal_round_trip)
    (auto simp: sample_journal_facts Let_def dest: sym)

text \<open>C21: Crash safety of an append. An append is acknowledged exactly when nothing failed. When
  the operating system fails it at any point, reopening the file yields the journal before the
  append (nothing was written), the journal an undisturbed append leaves (the whole frame was
  written), or the torn-frame error (a part of it was), never a journal with other records.\<close>

theorem journal_crash_recovery:
  assumes "digest_length sha" and "file_open_existing K sha bs = Inr b" and "storable K r"
    and "closing_digest sha (sj_last_frame_digest (fj_scan b)) (jc_encode K r) \<noteq> replicate 32 0"
  shows "is_ok (snd (file_append K sha fault b r)) = (fault = NoAppendFault) \<and>
    file_open_existing K sha (fj_file (fst (file_append K sha fault b r))) =
    (case fault of
       VerifyIoFails kind \<Rightarrow> Inr b
     | WriteStopsAfter k \<Rightarrow>
         if k = 0 then Inr b
         else if k < 74 + length (jc_encode K r) then Inl TornFrame
         else Inr (fst (file_append K sha NoAppendFault b r))
     | _ \<Rightarrow> Inr (fst (file_append K sha NoAppendFault b r)))"
  using file_append_acknowledged [OF assms(2,1,3,4)] reopen_after_append [OF assms(2,1,3,4)] by blast

theorem journal_crash_recovery_witness:
  "\<exists>b. file_open_existing sample_journal_codec sample_sha journal_header = Inr b \<and>
     file_open_existing sample_journal_codec sample_sha
       (fj_file (fst (file_append sample_journal_codec sample_sha (WriteStopsAfter 5) b sample_record))) =
     Inl TornFrame"
proof -
  obtain b where "file_open_existing sample_journal_codec sample_sha journal_header = Inr b"
    using sample_file_open by blast
  with journal_crash_recovery [OF sample_journal_facts(1) this sample_journal_facts(4,5), of "WriteStopsAfter 5"]
  show ?thesis by simp
qed

lemma checkpoint_prefix_digest:
  assumes "digest_length sha" and "canonical_decoder K"
    and "scan_bytes K sha bs = Inr s" and "n \<le> length (sj_versioned_records s)" and "0 < n"
    and "jf_last_frame_sha256 (sj_frontiers s ! (n - 1)) = hex_string digest"
  shows "end_digest K sha (genesis_digest sha) (take n (sj_versioned_records s)) = digest"
proof -
  let ?chain = "digest_chain K sha (genesis_digest sha) (sj_versioned_records s)"
  note frontiers = scan_bytes_exact(3) [OF assms(3,1,2)]
  have n: "n - 1 < length ?chain" using assms(4,5) by simp
  then have "hex_string (?chain ! (n - 1)) = hex_string digest"
    using assms(6) frontiers scan_bytes_frames(2) [OF assms(3,1)] by (metis digest_chain_length nth_map)
  moreover have filled: "take n ?chain \<noteq> []" using n assms(5) by (cases ?chain) auto
  moreover have "last (take n ?chain) = ?chain ! (n - 1)"
    using assms(4,5) by (subst last_conv_nth [OF filled]) (simp add: min_def)
  ultimately show ?thesis
    by (simp add: end_digest_def digest_chain_take hex_string_inject)
qed

lemma frontier_end_digest:
  assumes "digest_length sha" and "canonical_decoder K" and "scan_bytes K sha bs = Inr s"
    and "jf_frame_count (sj_frontier s) = n" and "0 < n"
  shows "jf_last_frame_sha256 (sj_frontier s) =
    hex_string (end_digest K sha (genesis_digest sha) (sj_versioned_records s))"
proof -
  note sizes = scan_bytes_frames(2,4) [OF assms(3,1)]
  then have n: "length (sj_frontiers s) = n" using assms(4) by simp
  with assms(5) have "sj_frontiers s \<noteq> []" by auto
  then have "sj_frontier s = sj_frontiers s ! (n - 1)"
    using assms(3) n by (simp add: scan_bytes_Inr last_conv_nth)
  moreover have "jf_last_frame_sha256 (sj_frontiers s ! (n - 1)) =
      hex_string (digest_chain K sha (genesis_digest sha) (sj_versioned_records s) ! (n - 1))"
    using scan_bytes_exact(3) [OF assms(3,1,2)] n sizes assms(5)
    by (metis diff_less digest_chain_length nth_map zero_less_one)
  ultimately have "jf_last_frame_sha256 (sj_frontiers s ! (n - 1)) = jf_last_frame_sha256 (sj_frontier s)"
    and "jf_last_frame_sha256 (sj_frontiers s ! (n - 1)) =
      hex_string (digest_chain K sha (genesis_digest sha) (sj_versioned_records s) ! (n - 1))" by simp_all
  then show ?thesis
    using checkpoint_prefix_digest [OF assms(1-3) _ assms(5)] sizes n by (metis order_refl take_all)
qed

lemma validate_checkpoint_against_scan_Inr:
  assumes "validate_checkpoint_against_scan sha frontier_json c s = Inr u" and "0 < jf_frame_count (jk_frontier c)"
  shows "jf_frame_count (jk_frontier c) \<le> jf_frame_count (sj_frontier s)"
    and "jk_frontier c = sj_frontiers s ! (jf_frame_count (jk_frontier c) - 1)"
  using assms by (auto simp: validate_checkpoint_against_scan_def and_then_Inr_iff Let_def split: if_splits)

text \<open>C22: Rollback and tamper evidence. A checkpoint taken from one journal is accepted by
  another only if the other starts with every byte of the first, as long as SHA-256 has no
  collision among the hash inputs of the two journals: a journal cut back, rewritten or
  replaced before the checkpoint does not validate.\<close>

theorem checkpoint_detects_tampering:
  assumes "digest_length sha" and "canonical_decoder K"
    and "scan_bytes K sha old = Inr s" and "scan_bytes K sha new = Inr s'"
    and "checkpoint_from_frontier sha frontier_json (sj_frontier s) = Inr c"
    and "validate_checkpoint_against_scan sha frontier_json c s' = Inr ()"
    and "inj_on sha (set (journal_inputs K sha (sj_versioned_records s))
                     \<union> set (journal_inputs K sha (sj_versioned_records s')))"
  shows "take (length old) new = old"
proof -
  let ?g = "genesis_digest sha" and ?n = "length (sj_versioned_records s)"
  have g: "length ?g = 32" using assms(1) by (simp add: genesis_digest_def digest_length_def)
  have c: "jk_frontier c = sj_frontier s"
    using assms(5) by (auto simp: checkpoint_from_frontier_def and_then_Inr_iff)
  have count: "jf_frame_count (jk_frontier c) = ?n"
    using scan_bytes_frames(4) [OF assms(3,1)] by (simp add: c)
  note old = scan_bytes_exact [OF assms(3,1,2)] and new = scan_bytes_exact [OF assms(4,1,2)]
  have "take ?n (sj_versioned_records s') = sj_versioned_records s"
  proof (cases "?n = 0")
    case False
    then have n: "0 < ?n" by simp
    note agreed = validate_checkpoint_against_scan_Inr [OF assms(6), unfolded count, OF n]
    have long: "?n \<le> length (sj_versioned_records s')"
      using agreed(1) scan_bytes_frames(4) [OF assms(4,1)] by simp
    let ?prefix = "take ?n (sj_versioned_records s')"
    have "length ?prefix = ?n" using long by simp
    moreover have "end_digest K sha ?g ?prefix = end_digest K sha ?g (sj_versioned_records s)"
      using frontier_end_digest [OF assms(1-3) _ n] agreed(2) c count
      by (intro checkpoint_prefix_digest [OF assms(1,2,4) long n]) simp
    moreover have "inj_on sha (set (frame_inputs K sha ?g ?prefix)
        \<union> set (frame_inputs K sha ?g (sj_versioned_records s)))"
      using assms(7) frame_inputs_take [of K sha ?g ?n "sj_versioned_records s'"]
      by (auto simp: journal_inputs_def intro: inj_on_subset)
    ultimately have "map (jc_encode K) ?prefix = map (jc_encode K) (sj_versioned_records s)"
      using end_digest_inject [OF _ assms(1) _ g g, of ?prefix _ K] by blast
    then show ?thesis
      by (rule decoded_inject) (use old(2) new(2) in \<open>simp_all add: list.pred_set\<close>,
        meson in_set_takeD)
  qed simp
  then show ?thesis
    using frames_of_take [of K sha ?g ?n "sj_versioned_records s'"] old(1) new(1) by (metis append_take_drop_id
      length_append same_append_eq take_add append_eq_conv_conj)
qed

definition sample_later_record :: "(bytes, bytes) versioned_record" where
  "sample_later_record = RecordLater [9, 10, 11]"

lemma sample_later_storable: "storable sample_journal_codec sample_later_record"
proof -
  have "jc_encode sample_journal_codec sample_later_record = [2, 9, 10, 11]"
    and "jc_decode sample_journal_codec [2, 9, 10, 11] = Inr sample_later_record"
    by (simp_all add: sample_journal_codec_def sample_decode_def sample_later_record_def)
  then show ?thesis
    by (simp add: storable_def validate_versioned_record_for_storage_def map_err_def
        validate_record_length_def max_record_bytes_def)
qed

lemma checkpoint_of_scan:
  assumes "scan_bytes K sha bs = Inr s"
  shows "\<exists>c. checkpoint_from_frontier sha frontier_json (sj_frontier s) = Inr c \<and>
    jk_frontier c = sj_frontier s \<and> validate_checkpoint sha frontier_json c = Inr ()"
proof -
  have "validate_frontier sha (sj_frontier s) = Inr ()" using assms unfolding scan_bytes_Inr by blast
  then show ?thesis by (simp add: checkpoint_from_frontier_def validate_checkpoint_def)
qed

theorem checkpoint_detects_tampering_witness:
  "\<exists>old new s s' c. scan_bytes sample_journal_codec sample_sha old = Inr s \<and>
     scan_bytes sample_journal_codec sample_sha new = Inr s' \<and>
     sj_versioned_records s = [sample_record] \<and>
     sj_versioned_records s' = [sample_record, sample_later_record] \<and>
     validate_checkpoint_against_scan sample_sha (\<lambda>f. []) c s' = Inr () \<and>
     take (length old) new = old"
proof -
  let ?K = "sample_journal_codec" and ?sha = sample_sha
  note sha = sample_journal_facts(1)
  obtain s0 where s0: "scan_bytes ?K ?sha journal_header = Inr s0" "sj_versioned_records s0 = []"
      "sj_frontiers s0 = []" "sj_last_frame_digest s0 = genesis_digest ?sha"
    using scan_empty_journal [OF sha sample_journal_facts(6), of ?K] by simp
  let ?old = "journal_header @ frame_of ?sha (sj_last_frame_digest s0) (jc_encode ?K sample_record)"
  let ?s = "scan_after ?K ?sha (length journal_header + (74 + length (jc_encode ?K sample_record))) s0 sample_record"
  have s: "scan_bytes ?K ?sha ?old = Inr ?s"
    by (rule scan_bytes_extended [OF s0(1) sha sample_journal_facts(4,5)])
  let ?new = "?old @ frame_of ?sha (sj_last_frame_digest ?s) (jc_encode ?K sample_later_record)"
  let ?s' = "scan_after ?K ?sha (length ?old + (74 + length (jc_encode ?K sample_later_record))) ?s sample_later_record"
  have s': "scan_bytes ?K ?sha ?new = Inr ?s'"
    by (rule scan_bytes_extended [OF s sha sample_later_storable sample_journal_facts(5)])
  obtain c where c: "checkpoint_from_frontier ?sha (\<lambda>f. []) (sj_frontier ?s) = Inr c"
      "jk_frontier c = sj_frontier ?s" "validate_checkpoint ?sha (\<lambda>f. []) c = Inr ()"
    using checkpoint_of_scan [OF s] by blast
  have records: "sj_versioned_records ?s = [sample_record]"
    "sj_versioned_records ?s' = [sample_record, sample_later_record]"
    by (simp_all add: scan_after_def Let_def s0)
  have valid: "validate_checkpoint_against_scan ?sha (\<lambda>f. []) c ?s' = Inr ()"
    using c(3) by (simp add: validate_checkpoint_against_scan_def c(2) scan_after_def Let_def
        frontier_after_def s0)
  have "inj_on ?sha (set (journal_inputs ?K ?sha (sj_versioned_records ?s))
      \<union> set (journal_inputs ?K ?sha (sj_versioned_records ?s')))"
    unfolding records
    by (simp add: journal_inputs_def frame_hash_input_def sample_sha_def frame_hash_domain_def
        ascii_bytes_def closing_digest_def frame_digest_def genesis_digest_def inj_on_def
        sample_journal_codec_def sample_record_def sample_later_record_def)
  then have "take (length ?old) ?new = ?old"
    by (rule checkpoint_detects_tampering [OF sha sample_journal_facts(2) s s' c(1) valid])
  with s s' records valid show ?thesis by blast
qed

end
