(* ===== verification/RuntimeHost.thy ===== *)
theory RuntimeHost
  imports BrokerTruth CommentPolicy
begin

text \<open>
  What the runtime host promises a strategy (\<open>runtime_host.rs\<close>): the startup sequence and its
  validation, the event clock, the bootstrap snapshot and the guard of live entries; the
  broker orders a hybrid strategy owns (\<open>hybrid_runtime_ids.rs\<close>); and the deterministic
  request ids (\<open>request_id.rs\<close>). The wall clock \<open>now\<close> and the UUID-v5 function are parameters.
\<close>

section \<open>The startup sequence\<close>

datatype lifecycle_step =
    LoadBrokerTruthSnapshot | LoadRuntimeState | NotifyBootstrapSnapshot
  | NotifyRuntimeStateRestored | WarmupHistory | RecoverPendingStreams

definition alor_compatible_order :: "lifecycle_step list" where
  "alor_compatible_order =
     [LoadBrokerTruthSnapshot, LoadRuntimeState, NotifyBootstrapSnapshot,
      NotifyRuntimeStateRestored, WarmupHistory, RecoverPendingStreams]"

record lifecycle_plan =
  lp_schema_version :: u16
  lp_steps :: "lifecycle_step list"
  lp_warmup_live_orders_allowed :: bool
  lp_broker_truth_before_strategy_state :: bool
  lp_pending_recovery_after_warmup :: bool

definition alor_compatible_plan :: lifecycle_plan where
  "alor_compatible_plan =
     \<lparr> lp_schema_version = 1, lp_steps = alor_compatible_order,
       lp_warmup_live_orders_allowed = False, lp_broker_truth_before_strategy_state = True,
       lp_pending_recovery_after_warmup = True \<rparr>"

datatype lifecycle_issue =
    MissingStep lifecycle_step | StepOutOfOrder lifecycle_step nat nat
  | DuplicateStep lifecycle_step | WarmupAllowsLiveOrders
  | BrokerTruthNotBeforeStrategyState | PendingRecoveryBeforeWarmup

fun positions_from :: "nat \<Rightarrow> 'a \<Rightarrow> 'a list \<Rightarrow> nat list" where
  "positions_from i x [] = []"
| "positions_from i x (y # ys) = (if y = x then i # positions_from (Suc i) x ys else positions_from (Suc i) x ys)"

text \<open>The check of the required step at place \<open>expected\<close> of the canonical order.\<close>

definition check_step :: "lifecycle_step list \<Rightarrow> lifecycle_step \<Rightarrow> nat \<Rightarrow> lifecycle_issue list" where
  "check_step steps required expected =
     (case positions_from 0 required steps of
        [] \<Rightarrow> [MissingStep required]
      | [actual] \<Rightarrow> if actual \<noteq> expected then [StepOutOfOrder required expected actual] else []
      | _ \<Rightarrow> [DuplicateStep required])"

fun check_steps :: "lifecycle_step list \<Rightarrow> lifecycle_step list \<Rightarrow> lifecycle_issue list" where
  "check_steps steps [] = []"
| "check_steps steps (required # rest) =
     check_step steps required (hd (positions_from 0 required alor_compatible_order))
       @ check_steps steps rest"

definition validate_lifecycle :: "lifecycle_plan \<Rightarrow> lifecycle_issue list" where
  "validate_lifecycle plan =
     check_steps (lp_steps plan) alor_compatible_order
     @ (if lp_warmup_live_orders_allowed plan then [WarmupAllowsLiveOrders] else [])
     @ (if \<not> lp_broker_truth_before_strategy_state plan then [BrokerTruthNotBeforeStrategyState] else [])
     @ (if \<not> lp_pending_recovery_after_warmup plan then [PendingRecoveryBeforeWarmup] else [])"

datatype intent_class = EntryIntent | ExitIntent | CancelCleanup | ProtectiveRepair

definition is_entry_intent :: "intent_class \<Rightarrow> bool" where
  "is_entry_intent c \<longleftrightarrow> c = EntryIntent"

definition is_risk_reducing_or_cleanup :: "intent_class \<Rightarrow> bool" where
  "is_risk_reducing_or_cleanup c \<longleftrightarrow> c \<in> {ExitIntent, CancelCleanup, ProtectiveRepair}"

record runtime_host_contract =
  rhc_schema_version :: u16
  rhc_lifecycle_plan :: lifecycle_plan
  rhc_intent_classes_required :: bool
  rhc_command_prepared_hook_required :: bool
  rhc_blocked_intent_rollback_required :: bool
  rhc_broker_truth_bootstrap_required :: bool
  rhc_risk_reducing_passthrough_when_blocked :: bool

definition alor_compatible_paper_shadow :: runtime_host_contract where
  "alor_compatible_paper_shadow =
     \<lparr> rhc_schema_version = 1, rhc_lifecycle_plan = alor_compatible_plan,
       rhc_intent_classes_required = True, rhc_command_prepared_hook_required = True,
       rhc_blocked_intent_rollback_required = True, rhc_broker_truth_bootstrap_required = True,
       rhc_risk_reducing_passthrough_when_blocked = True \<rparr>"

definition lifecycle_issues :: "runtime_host_contract \<Rightarrow> lifecycle_issue list" where
  "lifecycle_issues c = validate_lifecycle (rhc_lifecycle_plan c)"

section \<open>The event clock\<close>

record event_clock =
  ec_last_event_ts :: "timestamp option"
  ec_strategy_now_ts :: "timestamp option"

definition clock_bootstrap :: event_clock where
  "clock_bootstrap = \<lparr> ec_last_event_ts = None, ec_strategy_now_ts = None \<rparr>"

definition option_or :: "'a option \<Rightarrow> 'a option \<Rightarrow> 'a option" where
  "option_or a b = (case a of None \<Rightarrow> b | Some x \<Rightarrow> Some x)"

definition clock_advance ::
    "timestamp \<Rightarrow> event_clock \<Rightarrow> timestamp option \<Rightarrow> event_clock \<times> timestamp" where
  "clock_advance now clock event_ts =
     (let upcoming = (case option_or (option_or event_ts (ec_strategy_now_ts clock))
                            (ec_last_event_ts clock) of None \<Rightarrow> now | Some ts \<Rightarrow> ts);
          monotonic = (case ec_strategy_now_ts clock of
                         None \<Rightarrow> upcoming | Some current \<Rightarrow> max current upcoming)
      in (\<lparr> ec_last_event_ts = Some upcoming, ec_strategy_now_ts = Some monotonic \<rparr>, monotonic))"

text \<open>The times a strategy is given for a sequence of events, each with the wall clock at it.\<close>

fun clock_run :: "event_clock \<Rightarrow> (timestamp option \<times> timestamp) list \<Rightarrow> timestamp list" where
  "clock_run clock [] = []"
| "clock_run clock ((event_ts, now) # events) =
     (let (clock', ts) = clock_advance now clock event_ts in ts # clock_run clock' events)"

section \<open>Bootstrap and the live guard\<close>

record host_bootstrap_snapshot =
  hbs_account_id :: broker_account_id
  hbs_instrument :: instrument_id
  hbs_target_position_qty :: quantity
  hbs_target_open_positions :: "broker_position_snapshot list"
  hbs_target_active_orders :: "broker_order_snapshot list"
  hbs_account_active_orders_count :: nat
  hbs_target_is_flat :: bool
  hbs_received_ts :: timestamp

definition from_broker_truth ::
    "(decimal \<Rightarrow> decimal \<Rightarrow> decimal option) \<Rightarrow> broker_truth_snapshot \<Rightarrow> instrument_id
       \<Rightarrow> host_bootstrap_snapshot option" where
  "from_broker_truth add truth i =
     map_option (\<lambda>qty.
       \<lparr> hbs_account_id = truth_account_id truth, hbs_instrument = i,
         hbs_target_position_qty = qty,
         hbs_target_open_positions = open_positions_for_instrument truth i,
         hbs_target_active_orders = active_orders_for_instrument truth i,
         hbs_account_active_orders_count = account_wide_active_order_count truth,
         hbs_target_is_flat = (qty = 0), hbs_received_ts = truth_received_ts truth \<rparr>)
       (target_position_qty add truth i)"

record live_guard_input =
  lg_allow_live_orders :: bool
  lg_readiness :: broker_readiness
  lg_readiness_stale :: bool
  lg_has_seen_final_strategy_bar :: bool
  lg_bars_stream_has_data :: bool
  lg_operator_live_arm_present :: bool
  lg_target_has_open_position :: bool

record live_guard_decision =
  lgd_live_entry_allowed :: bool
  lgd_close_only_allowed :: bool
  lgd_reasons :: "readiness_reason list"

text \<open>The derived \<open>Debug\<close> name of a phase.\<close>

fun phase_debug :: "readiness_phase \<Rightarrow> string" where
  "phase_debug Starting = ''Starting''"
| "phase_debug AuthPending = ''AuthPending''"
| "phase_debug AuthReady = ''AuthReady''"
| "phase_debug ReferenceDataLoading = ''ReferenceDataLoading''"
| "phase_debug StreamsConnecting = ''StreamsConnecting''"
| "phase_debug StreamsSubscribed = ''StreamsSubscribed''"
| "phase_debug SnapshotsLoading = ''SnapshotsLoading''"
| "phase_debug Reconciliation = ''Reconciliation''"
| "phase_debug LiveReady = ''LiveReady''"
| "phase_debug Degraded = ''Degraded''"
| "phase_debug Blocked = ''Blocked''"
| "phase_debug Stopped = ''Stopped''"

definition live_guard :: "live_guard_input \<Rightarrow> live_guard_decision" where
  "live_guard input =
     (let reasons = br_reasons (lg_readiness input)
        @ (if \<not> lg_allow_live_orders input
           then [OtherReadinessReason ''allow_live_orders=false''] else [])
        @ (if br_phase (lg_readiness input) \<noteq> LiveReady
           then [OtherReadinessReason (''phase='' @ phase_debug (br_phase (lg_readiness input)))] else [])
        @ (if lg_readiness_stale input then [ReconciliationStale] else [])
        @ (if \<not> lg_has_seen_final_strategy_bar input
           then [if lg_bars_stream_has_data input
                 then OtherReadinessReason ''waiting_for_next_bar_after_restart''
                 else FirstLiveBarMissing] else [])
        @ (if \<not> lg_operator_live_arm_present input then [OperatorLiveArmMissing] else [])
      in \<lparr> lgd_live_entry_allowed = (reasons = []),
           lgd_close_only_allowed = (reasons \<noteq> [] \<and> lg_target_has_open_position input),
           lgd_reasons = reasons \<rparr>)"

section \<open>The orders a hybrid strategy owns\<close>

datatype owned_order_role = RoleEntry | RoleExit | RoleTakeProfit | RoleStopLoss | RoleUnknown

datatype owned_order_lifecycle = OwnedActive | OwnedTerminal | OwnedUnknown

record owned_order_update =
  oou_order_id :: broker_order_id
  oou_role :: owned_order_role
  oou_lifecycle :: owned_order_lifecycle

record owned_stop_order_update =
  osu_stop_order_id :: "string option"
  osu_exchange_order_id :: "broker_order_id option"
  osu_role :: owned_order_role
  osu_lifecycle :: owned_order_lifecycle
  osu_triggered :: bool

record owned_ids_bootstrap =
  oib_working_orders_strategy :: "owned_order_update list"
  oib_working_stop_orders_strategy :: "owned_stop_order_update list"

datatype owned_id_blocker_kind =
  FutureStopBracketOnly | StopOrderMissingExchangeOrderId | UnknownOrderLifecycle

record owned_id_blocker =
  oib_kind :: owned_id_blocker_kind
  oib_order_id :: "broker_order_id option"

record owned_ids =
  oi_tp_order_id :: "broker_order_id option"
  oi_sl_exchange_order_id :: "broker_order_id option"
  oi_working_orders :: "broker_order_id set"
  oi_blockers :: "owned_id_blocker list"

definition owned_ids_new :: owned_ids where
  "owned_ids_new = \<lparr> oi_tp_order_id = None, oi_sl_exchange_order_id = None,
     oi_working_orders = {}, oi_blockers = [] \<rparr>"

definition push_blocker :: "owned_id_blocker_kind \<Rightarrow> broker_order_id option \<Rightarrow> owned_ids \<Rightarrow> owned_ids" where
  "push_blocker kind target ids =
     ids \<lparr> oi_blockers := oi_blockers ids @ [\<lparr> oib_kind = kind, oib_order_id = target \<rparr>] \<rparr>"

definition apply_order_update :: "owned_ids \<Rightarrow> owned_order_update \<Rightarrow> owned_ids" where
  "apply_order_update ids u =
     (case oou_lifecycle u of
        OwnedActive \<Rightarrow>
          (let ids = ids \<lparr> oi_working_orders := insert (oou_order_id u) (oi_working_orders ids) \<rparr>
           in if oou_role u = RoleTakeProfit then ids \<lparr> oi_tp_order_id := Some (oou_order_id u) \<rparr> else ids)
      | OwnedTerminal \<Rightarrow>
          (let ids = ids \<lparr> oi_working_orders := oi_working_orders ids - {oou_order_id u} \<rparr>
           in if oi_tp_order_id ids = Some (oou_order_id u) then ids \<lparr> oi_tp_order_id := None \<rparr> else ids)
      | OwnedUnknown \<Rightarrow> push_blocker UnknownOrderLifecycle (Some (oou_order_id u)) ids)"

definition apply_stop_order_update ::
    "owned_ids \<Rightarrow> owned_stop_order_update \<Rightarrow> owned_ids \<times> broker_order_id list" where
  "apply_stop_order_update ids u =
     (if osu_role u \<noteq> RoleStopLoss then (ids, [])
      else let
        ids1 = (case osu_exchange_order_id u of
                  Some x \<Rightarrow> push_blocker FutureStopBracketOnly (Some x)
                             (ids \<lparr> oi_sl_exchange_order_id := Some x \<rparr>)
                | None \<Rightarrow> if osu_lifecycle u = OwnedActive
                          then push_blocker StopOrderMissingExchangeOrderId None ids else ids);
        (ids2, targets) =
          (if osu_triggered u
           then (ids1 \<lparr> oi_tp_order_id := None \<rparr>,
                 case oi_tp_order_id ids1 of None \<Rightarrow> [] | Some tp \<Rightarrow> [tp])
           else (ids1, []));
        ids3 = (if osu_lifecycle u = OwnedTerminal \<and> \<not> osu_triggered u
                then ids2 \<lparr> oi_sl_exchange_order_id := None \<rparr> else ids2)
      in (ids3, targets))"

definition apply_owned_bootstrap :: "owned_ids \<Rightarrow> owned_ids_bootstrap \<Rightarrow> owned_ids" where
  "apply_owned_bootstrap ids b =
     foldl (\<lambda>ids u. fst (apply_stop_order_update ids u))
       (foldl apply_order_update
          (ids \<lparr> oi_working_orders := {}, oi_tp_order_id := None,
                 oi_sl_exchange_order_id := None, oi_blockers := [] \<rparr>)
          (oib_working_orders_strategy b))
       (oib_working_stop_orders_strategy b)"

definition cancel_all_protection_targets :: "owned_ids \<Rightarrow> owned_ids \<times> broker_order_id list" where
  "cancel_all_protection_targets ids =
     (ids \<lparr> oi_tp_order_id := None, oi_sl_exchange_order_id := None \<rparr>,
      (case oi_tp_order_id ids of None \<Rightarrow> [] | Some tp \<Rightarrow> [tp])
        @ (case oi_sl_exchange_order_id ids of None \<Rightarrow> [] | Some sl \<Rightarrow> [sl]))"

definition owned_restore_from_state :: "owned_ids \<Rightarrow> owned_ids" where
  "owned_restore_from_state state = state"

section \<open>Deterministic request ids\<close>

record request_id_input =
  rii_strategy_id :: string
  rii_account_alias :: string
  rii_symbol :: string
  rii_action :: string
  rii_bar_ts :: int
  rii_seq :: u8

definition legacy_input :: "string \<Rightarrow> string \<Rightarrow> string \<Rightarrow> string \<Rightarrow> int \<Rightarrow> u8 \<Rightarrow> request_id_input" where
  "legacy_input strategy_id account_alias symbol action bar_ts seq =
     \<lparr> rii_strategy_id = strategy_id, rii_account_alias = account_alias, rii_symbol = symbol,
       rii_action = action, rii_bar_ts = bar_ts, rii_seq = seq \<rparr>"

definition account_instrument_input ::
    "string \<Rightarrow> broker_account_id \<Rightarrow> instrument_id \<Rightarrow> string \<Rightarrow> int \<Rightarrow> u8 \<Rightarrow> request_id_input" where
  "account_instrument_input strategy_id account i action bar_ts seq =
     \<lparr> rii_strategy_id = strategy_id, rii_account_alias = account_id_str account,
       rii_symbol = ins_symbol i, rii_action = action, rii_bar_ts = bar_ts, rii_seq = seq \<rparr>"

definition namespace_name :: "request_id_input \<Rightarrow> string" where
  "namespace_name x =
     rii_strategy_id x @ ''|'' @ rii_account_alias x @ ''|'' @ rii_symbol x @ ''|''
       @ rii_action x @ ''|'' @ int_to_string (rii_bar_ts x) @ ''|''
       @ nat_to_string (unat (rii_seq x))"

definition deterministic_request_id ::
    "(string \<Rightarrow> u8 list) \<Rightarrow> request_id_input \<Rightarrow> strategy_request_id" where
  "deterministic_request_id uuid_v5_url x = StrategyRequestId (uuid_v5_url (namespace_name x))"

definition request_id_from_legacy_parts ::
    "(string \<Rightarrow> u8 list) \<Rightarrow> string \<Rightarrow> string \<Rightarrow> string \<Rightarrow> string \<Rightarrow> int \<Rightarrow> u8 \<Rightarrow> strategy_request_id" where
  "request_id_from_legacy_parts uuid_v5_url strategy_id portfolio symbol action bar_ts seq =
     deterministic_request_id uuid_v5_url (legacy_input strategy_id portfolio symbol action bar_ts seq)"

definition request_id_for_account_instrument ::
    "(string \<Rightarrow> u8 list) \<Rightarrow> string \<Rightarrow> broker_account_id \<Rightarrow> instrument_id \<Rightarrow> string \<Rightarrow> int \<Rightarrow> u8
       \<Rightarrow> strategy_request_id" where
  "request_id_for_account_instrument uuid_v5_url strategy_id account i action bar_ts seq =
     deterministic_request_id uuid_v5_url
       (account_instrument_input strategy_id account i action bar_ts seq)"

fun market_request_seq :: "order_side \<Rightarrow> u8" where
  "market_request_seq Buy = 3"
| "market_request_seq Sell = 4"

definition market_request_id ::
    "(string \<Rightarrow> u8 list) \<Rightarrow> string \<Rightarrow> broker_account_id \<Rightarrow> instrument_id \<Rightarrow> int \<Rightarrow> order_side
       \<Rightarrow> strategy_request_id" where
  "market_request_id uuid_v5_url strategy_id account i created_ts_utc side =
     request_id_for_account_instrument uuid_v5_url strategy_id account i ''market''
       created_ts_utc (market_request_seq side)"

section \<open>Facts: the startup sequence\<close>

lemma in_positions_from:
  "k \<in> set (positions_from i x ys) \<longleftrightarrow> (\<exists>j < length ys. k = i + j \<and> ys ! j = x)"
  by (induction ys arbitrary: i) (auto simp: Ex_less_Suc2)

lemma check_step_Nil: "check_step steps required expected = [] \<longleftrightarrow> positions_from 0 required steps = [expected]"
  by (simp add: check_step_def split: list.splits)

lemma check_steps_canonical:
  "check_steps steps alor_compatible_order = [] \<longleftrightarrow>
     (\<forall>i < 6. positions_from 0 (alor_compatible_order ! i) steps = [i])"
  by (auto simp: alor_compatible_order_def check_step_Nil numeral_eq_Suc All_less_Suc)

lemma canonical_length [simp]: "length alor_compatible_order = 6"
  by (simp add: alor_compatible_order_def)

lemma canonical_step: "\<exists>i < 6. alor_compatible_order ! i = step"
  by (cases step) (simp_all add: alor_compatible_order_def numeral_eq_Suc Ex_less_Suc)

lemma check_steps_Nil: "check_steps steps alor_compatible_order = [] \<longleftrightarrow> steps = alor_compatible_order"
proof
  assume "check_steps steps alor_compatible_order = []"
  then have only: "positions_from 0 (alor_compatible_order ! i) steps = [i]" if "i < 6" for i
    using that by (simp add: check_steps_canonical)
  have place: "j < length steps \<and> steps ! j = alor_compatible_order ! i \<longleftrightarrow> j = i" if "i < 6" for i j
    using in_positions_from [of j 0 "alor_compatible_order ! i" steps] only [OF that] by auto
  have "j < 6" if "j < length steps" for j
    using canonical_step [of "steps ! j"] place that by metis
  then have "\<not> 6 < length steps" by auto
  moreover have "5 < length steps" using place [of 5 5] by simp
  ultimately have six: "length steps = 6" by linarith
  show "steps = alor_compatible_order"
  proof (rule nth_equalityI)
    show "steps ! i = alor_compatible_order ! i" if "i < length steps" for i
      using place [of i i] that six by simp
  qed (simp add: six)
next
  assume "steps = alor_compatible_order"
  then show "check_steps steps alor_compatible_order = []" by (simp, code_simp)
qed

section \<open>Facts: the event clock\<close>

lemma clock_run_max:
  assumes "ec_strategy_now_ts clock = Some now" and "i < length events"
  shows "clock_run clock events ! i = Max (insert now (set (List.map_filter fst (take (Suc i) events))))"
  using assms
proof (induction events arbitrary: clock now i)
  case (Cons event events)
  obtain event_ts wall where event: "event = (event_ts, wall)" by (cases event)
  let ?step = "clock_advance wall clock event_ts"
  let ?now = "case event_ts of None \<Rightarrow> now | Some t \<Rightarrow> max now t"
  have step: "snd ?step = ?now" "ec_strategy_now_ts (fst ?step) = Some ?now"
    using Cons.prems(1) by (auto simp: clock_advance_def option_or_def Let_def split: option.splits)
  show ?case
  proof (cases i)
    case 0
    with step show ?thesis
      by (auto simp: event Let_def map_filter_simps max_def split: prod.splits option.splits)
  next
    case (Suc j)
    then have "clock_run (fst ?step) events ! j
        = Max (insert ?now (set (List.map_filter fst (take (Suc j) events))))"
      using Cons.IH [OF step(2), of j] Cons.prems(2) by simp
    moreover have "finite (set (List.map_filter fst (take (Suc j) events)))" by simp
    ultimately show ?thesis using Suc
      by (cases "set (List.map_filter fst (take (Suc j) events)) = {}")
        (auto simp: event Let_def map_filter_simps split_beta ac_simps split: option.splits)
  qed
qed simp

section \<open>Facts: the orders a strategy owns\<close>

definition tp_is_working :: "owned_ids \<Rightarrow> bool" where
  "tp_is_working ids \<longleftrightarrow> set_option (oi_tp_order_id ids) \<subseteq> oi_working_orders ids"

datatype owned_event =
    OrderUpdate owned_order_update | StopUpdate owned_stop_order_update
  | Bootstrapped owned_ids_bootstrap | ProtectionCanceled

fun owned_step :: "owned_ids \<Rightarrow> owned_event \<Rightarrow> owned_ids" where
  "owned_step ids (OrderUpdate u) = apply_order_update ids u"
| "owned_step ids (StopUpdate u) = fst (apply_stop_order_update ids u)"
| "owned_step ids (Bootstrapped b) = apply_owned_bootstrap ids b"
| "owned_step ids ProtectionCanceled = fst (cancel_all_protection_targets ids)"

lemma tp_is_working_order: "tp_is_working ids \<Longrightarrow> tp_is_working (apply_order_update ids u)"
  by (auto simp: tp_is_working_def apply_order_update_def push_blocker_def Let_def
      split: owned_order_lifecycle.splits option.splits if_splits)

lemma stop_update_targets:
  "snd (apply_stop_order_update ids u) = [] \<or>
   (\<exists>tp. oi_tp_order_id ids = Some tp \<and> snd (apply_stop_order_update ids u) = [tp])"
  by (auto simp: apply_stop_order_update_def push_blocker_def Let_def split: option.splits)

lemma stop_update_targets_working:
  assumes "tp_is_working ids"
  shows "set (snd (apply_stop_order_update ids u)) \<subseteq> oi_working_orders ids"
  using assms stop_update_targets [of ids u] by (auto simp: tp_is_working_def)

lemma stop_update_working [simp]:
  "oi_working_orders (fst (apply_stop_order_update ids u)) = oi_working_orders ids"
  "oi_tp_order_id (fst (apply_stop_order_update ids u)) =
     (if osu_role u = RoleStopLoss \<and> osu_triggered u then None else oi_tp_order_id ids)"
  by (simp_all add: apply_stop_order_update_def push_blocker_def Let_def split: option.splits)

lemma tp_is_working_stop: "tp_is_working ids \<Longrightarrow> tp_is_working (fst (apply_stop_order_update ids u))"
  by (simp add: tp_is_working_def)

lemma tp_is_working_foldl:
  assumes "\<And>ids x. tp_is_working ids \<Longrightarrow> tp_is_working (f ids x)" and "tp_is_working ids"
  shows "tp_is_working (foldl f ids xs)"
  using assms(2) by (induction xs arbitrary: ids) (simp_all add: assms(1))

lemma tp_is_working_bootstrap: "tp_is_working (apply_owned_bootstrap ids b)"
  unfolding apply_owned_bootstrap_def
  by (intro tp_is_working_foldl tp_is_working_stop tp_is_working_order) (simp_all add: tp_is_working_def)

lemma tp_is_working_step: "tp_is_working ids \<Longrightarrow> tp_is_working (owned_step ids e)"
  by (cases e) (auto simp: tp_is_working_order tp_is_working_stop tp_is_working_bootstrap
      cancel_all_protection_targets_def tp_is_working_def [of "ids \<lparr> oi_tp_order_id := _, oi_sl_exchange_order_id := _ \<rparr>"])

section \<open>Facts: request ids\<close>

definition no_bar :: "string \<Rightarrow> bool" where
  "no_bar s \<longleftrightarrow> CHR ''|'' \<notin> set s"

lemma nat_to_string_no_bar: "no_bar (nat_to_string n)" "CHR ''-'' \<notin> set (nat_to_string n)"
  using nat_to_string_digits [of n] by (auto simp: no_bar_def is_ascii_digit_def)

lemma nat_to_string_inject: "nat_to_string m = nat_to_string n \<longleftrightarrow> m = n"
  by (metis digits_value_nat_to_string)

lemma int_to_string_inject_all: "int_to_string i = int_to_string j \<longleftrightarrow> i = j"
proof -
  have "''-'' @ nat_to_string m \<noteq> nat_to_string n" for m n
    using nat_to_string_no_bar(2) [of n] by (metis append_Cons list.set_intros(1))
  then show ?thesis
    by (auto simp: int_to_string_def nat_to_string_inject dest: sym)
qed

lemma int_to_string_no_bar: "no_bar (int_to_string i)"
  using nat_to_string_no_bar by (simp add: int_to_string_def no_bar_def)

definition separable :: "request_id_input \<Rightarrow> bool" where
  "separable x \<longleftrightarrow> no_bar (rii_strategy_id x) \<and> no_bar (rii_account_alias x) \<and>
     no_bar (rii_symbol x) \<and> no_bar (rii_action x)"

lemma namespace_name_inject:
  assumes "separable x" and "separable y" and "namespace_name x = namespace_name y"
  shows "x = y"
proof -
  note bars = assms(1,2) [unfolded separable_def no_bar_def] int_to_string_no_bar [unfolded no_bar_def]
  have "rii_strategy_id x = rii_strategy_id y \<and> rii_account_alias x = rii_account_alias y \<and>
      rii_symbol x = rii_symbol y \<and> rii_action x = rii_action y \<and>
      int_to_string (rii_bar_ts x) = int_to_string (rii_bar_ts y) \<and>
      nat_to_string (unat (rii_seq x)) = nat_to_string (unat (rii_seq y))"
    using assms(3) bars by (simp add: namespace_name_def split_at_separator)
  then show ?thesis
    by (cases x; cases y) (auto simp: int_to_string_inject_all nat_to_string_inject intro: unsigned_word_eqI)
qed

section \<open>Properties\<close>

text \<open>The lifecycle check is exact. A plan passes it without an issue just when its steps
  are the canonical startup sequence, each once and in its place (broker truth, strategy
  state, the two notifications, warmup, recovery of pending streams), and its three flags
  keep live orders out of warmup, broker truth first and recovery last.\<close>

theorem lifecycle_check_exact:
  "validate_lifecycle plan = [] \<longleftrightarrow>
     plan = alor_compatible_plan \<lparr> lp_schema_version := lp_schema_version plan \<rparr>"
proof -
  have "validate_lifecycle plan = [] \<longleftrightarrow>
      lp_steps plan = alor_compatible_order \<and> \<not> lp_warmup_live_orders_allowed plan \<and>
      lp_broker_truth_before_strategy_state plan \<and> lp_pending_recovery_after_warmup plan"
    by (simp add: validate_lifecycle_def check_steps_Nil)
  then show ?thesis by (cases plan) (auto simp: alor_compatible_plan_def)
qed

text \<open>The strategy clock is the running maximum. Once an event with a time has started it,
  the time a strategy is given at each event is the greatest event time seen so far: an
  event out of order or without a time never moves the clock back, and the wall clock is
  never consulted.\<close>

theorem event_clock_running_max:
  assumes "i < length events"
  shows "clock_run clock_bootstrap ((Some t, now) # events) ! Suc i =
    Max (insert t (set (List.map_filter fst (take (Suc i) events))))"
proof -
  let ?clock = "\<lparr> ec_last_event_ts = Some t, ec_strategy_now_ts = Some t \<rparr>"
  have "clock_advance now clock_bootstrap (Some t) = (?clock, t)"
    by (simp add: clock_advance_def clock_bootstrap_def option_or_def)
  then show ?thesis using clock_run_max [of ?clock t i events] assms by simp
qed

theorem event_clock_running_max_witness:
  "clock_run clock_bootstrap [(Some 5, 0), (Some 3, 9), (None, 9), (Some 8, 9)] ! 2 = 5"
  using event_clock_running_max [of 1 "[(Some 3, 9), (None, 9), (Some 8, 9)]" 5 0]
  by (simp add: map_filter_simps numeral_2_eq_2)

text \<open>A stop that triggers cancels a working order only. From a bootstrap on, whatever
  order, stop-order and bootstrap updates arrive and whatever state was restored before it,
  every order the strategy is told to cancel because its stop triggered is an order it
  tracks as working.\<close>

theorem stop_targets_are_working:
  "set (snd (apply_stop_order_update (foldl owned_step (apply_owned_bootstrap restored b) events) u))
     \<subseteq> oi_working_orders (foldl owned_step (apply_owned_bootstrap restored b) events)"
  by (rule stop_update_targets_working
      [OF tp_is_working_foldl [where f = owned_step, OF tp_is_working_step tp_is_working_bootstrap]])

text \<open>A bootstrap that reports a triggered stop forgets the take-profit order without handing it
  out for cancellation.\<close>

lemma bootstrap_loses_cancel_target:
  "apply_owned_bootstrap owned_ids_new
     \<lparr> oib_working_orders_strategy =
         [\<lparr> oou_order_id = BrokerOrderId ''7'', oou_role = RoleTakeProfit, oou_lifecycle = OwnedActive \<rparr>],
       oib_working_stop_orders_strategy =
         [\<lparr> osu_stop_order_id = None, osu_exchange_order_id = None, osu_role = RoleStopLoss,
            osu_lifecycle = OwnedTerminal, osu_triggered = True \<rparr>] \<rparr> =
   \<lparr> oi_tp_order_id = None, oi_sl_exchange_order_id = None,
     oi_working_orders = {BrokerOrderId ''7''}, oi_blockers = [] \<rparr>"
  by (simp add: apply_owned_bootstrap_def apply_order_update_def apply_stop_order_update_def
      owned_ids_new_def)

text \<open>C23: Request ids do not collide. When no part holds the separator and UUID-v5 does not map
  the two names to one value, equal deterministic request ids come from the same strategy,
  account, symbol, action, bar time and sequence number.\<close>

theorem request_id_unique:
  assumes "separable x" and "separable y"
    and "inj_on uuid_v5_url {namespace_name x, namespace_name y}"
    and "deterministic_request_id uuid_v5_url x = deterministic_request_id uuid_v5_url y"
  shows "x = y"
proof -
  have "uuid_v5_url (namespace_name x) = uuid_v5_url (namespace_name y)"
    using assms(4) by (simp add: deterministic_request_id_def)
  then have "namespace_name x = namespace_name y" by (rule inj_onD [OF assms(3)]) simp_all
  with assms(1,2) show ?thesis by (rule namespace_name_inject)
qed

definition sample_uuid :: "string \<Rightarrow> u8 list" where
  "sample_uuid s = map (\<lambda>c. of_nat (of_char c)) s"

theorem request_id_unique_witness:
  "legacy_input ''s'' ''A'' ''SI'' ''market'' 60 3 \<noteq> legacy_input ''s'' ''A'' ''SI'' ''market'' 60 4 \<and>
   deterministic_request_id sample_uuid (legacy_input ''s'' ''A'' ''SI'' ''market'' 60 3) \<noteq>
   deterministic_request_id sample_uuid (legacy_input ''s'' ''A'' ''SI'' ''market'' 60 4)"
proof -
  let ?x = "legacy_input ''s'' ''A'' ''SI'' ''market'' 60 3"
  let ?y = "legacy_input ''s'' ''A'' ''SI'' ''market'' 60 4"
  have sep: "separable ?x" "separable ?y" by (simp_all add: separable_def no_bar_def legacy_input_def)
  have "(of_nat (of_char c) :: u8) = of_nat (of_char d) \<longleftrightarrow> c = d" for c d
  proof -
    have "(of_char e :: nat) mod 256 < 256" for e :: char by simp
    then have "(of_char c :: nat) < 256" "(of_char d :: nat) < 256" by simp_all
    then have "(of_nat (of_char c) :: u8) = of_nat (of_char d) \<longleftrightarrow> (of_char c :: nat) = of_char d"
      by (simp add: word_of_nat_eq_iff take_bit_nat_eq_self)
    then show ?thesis by simp
  qed
  then have "inj_on sample_uuid {namespace_name ?x, namespace_name ?y}"
    by (auto simp: sample_uuid_def inj_on_def list_eq_iff_nth_eq)
  moreover have differ: "?x \<noteq> ?y" by (simp add: legacy_input_def)
  ultimately show ?thesis using request_id_unique [OF sep, of sample_uuid] by blast
qed

text \<open>With the separator inside a part two different inputs share a name.\<close>

lemma request_id_separator_collision:
  "deterministic_request_id uuid_v5_url (legacy_input ''s|A'' ''B'' ''SI'' ''market'' 60 3) =
   deterministic_request_id uuid_v5_url (legacy_input ''s'' ''A|B'' ''SI'' ''market'' 60 3)"
  by (simp add: deterministic_request_id_def namespace_name_def legacy_input_def)

end
