(* ===== verification/HybridBoundary.thy ===== *)
theory HybridBoundary
  imports RuntimeHost
begin

text \<open>
  The boundary between the host and a hybrid strategy (\<open>hybrid_strategy_boundary.rs\<close>): the
  acknowledgements as the strategy sees them, the attribution carried in an order comment,
  and the validation of a bootstrap. Floating point enters through the operations of an
  \<open>f64_ops\<close>, a parameter.
\<close>

section \<open>Strings\<close>

text \<open>Rust's \<open>split\<close> by a character, and \<open>split_once\<close>.\<close>

fun str_split :: "char \<Rightarrow> string \<Rightarrow> string list" where
  "str_split x [] = [[]]"
| "str_split x (c # s) =
     (if c = x then [] # str_split x s
      else case str_split x s of [] \<Rightarrow> [[c]] | part # parts \<Rightarrow> (c # part) # parts)"

fun split_once :: "char \<Rightarrow> string \<Rightarrow> (string \<times> string) option" where
  "split_once x [] = None"
| "split_once x (c # s) =
     (if c = x then Some ([], s)
      else map_option (\<lambda>(before, after). (c # before, after)) (split_once x s))"

definition is_ascii :: "string \<Rightarrow> bool" where
  "is_ascii s \<longleftrightarrow> list_all (\<lambda>c. (of_char c :: nat) < 128) s"

section \<open>Acknowledgements\<close>

datatype hybrid_ack_status =
  HybridAccepted | HybridConfirmed | HybridRejected | HybridDuplicate | HybridExpired | HybridError

datatype hybrid_ack_error_code = HybridTradingWindowClosed | HybridOtherError string

fun map_hybrid_ack_status :: "command_ack_status \<Rightarrow> hybrid_ack_status option" where
  "map_hybrid_ack_status AckAccepted = Some HybridAccepted"
| "map_hybrid_ack_status AckSubmitted = Some HybridConfirmed"
| "map_hybrid_ack_status AckRecovered = Some HybridConfirmed"
| "map_hybrid_ack_status AckRejected = Some HybridRejected"
| "map_hybrid_ack_status AckDuplicate = Some HybridDuplicate"
| "map_hybrid_ack_status AckExpired = Some HybridExpired"
| "map_hybrid_ack_status AckError = Some HybridError"
| "map_hybrid_ack_status AckTimeout = None"
| "map_hybrid_ack_status AckUnknownPending = None"

text \<open>The derived \<open>Debug\<close> name of a reason code.\<close>

fun reason_code_debug :: "command_ack_reason_code \<Rightarrow> string" where
  "reason_code_debug FeatureDisabled = ''FeatureDisabled''"
| "reason_code_debug SyntheticSubmitted = ''SyntheticSubmitted''"
| "reason_code_debug LocalValidationRejected = ''LocalValidationRejected''"
| "reason_code_debug BrokerRejectedReason = ''BrokerRejected''"
| "reason_code_debug TransportTimeoutReason = ''TransportTimeout''"
| "reason_code_debug TimeoutUnknownPendingReason = ''TimeoutUnknownPending''"
| "reason_code_debug CancelTimeoutUnknownPendingReason = ''CancelTimeoutUnknownPending''"
| "reason_code_debug RecoveredByBrokerTruth = ''RecoveredByBrokerTruth''"
| "reason_code_debug ReconciliationRequiredReason = ''ReconciliationRequired''"
| "reason_code_debug DuplicateCommand = ''DuplicateCommand''"
| "reason_code_debug ExpiredCommand = ''ExpiredCommand''"
| "reason_code_debug ManualInterventionRequiredReason = ''ManualInterventionRequired''"
| "reason_code_debug DryRunOnly = ''DryRunOnly''"
| "reason_code_debug RateLimitedReason = ''RateLimited''"
| "reason_code_debug BrokerMaintenanceReason = ''BrokerMaintenance''"
| "reason_code_debug TradingWindowClosed = ''TradingWindowClosed''"
| "reason_code_debug ResponseDecodeErrorReason = ''ResponseDecodeError''"
| "reason_code_debug UnauthorizedReason = ''Unauthorized''"

definition map_hybrid_ack_error_code ::
    "command_ack_reason_code option \<Rightarrow> hybrid_ack_error_code option" where
  "map_hybrid_ack_error_code reason =
     map_option (\<lambda>code. if code = TradingWindowClosed then HybridTradingWindowClosed
                        else HybridOtherError (reason_code_debug code)) reason"

record hybrid_command_ack =
  hca_request_id :: strategy_request_id
  hca_status :: hybrid_ack_status
  hca_broker_order_id :: "broker_order_id option"
  hca_error_code :: "hybrid_ack_error_code option"
  hca_error_message :: "string option"
  hca_processed_ts_utc :: int

definition is_window_closed_recoverable_reject :: "hybrid_command_ack \<Rightarrow> bool" where
  "is_window_closed_recoverable_reject ack \<longleftrightarrow>
     hca_status ack \<in> {HybridRejected, HybridExpired, HybridError}
     \<and> hca_broker_order_id ack = None
     \<and> hca_error_code ack = Some HybridTradingWindowClosed"

section \<open>Attribution\<close>

datatype hybrid_owner = IntradayBreakout | MeanReversion

datatype hybrid_order_role =
  HybridEntry | HybridExit | HybridTakeProfit | HybridStopLoss | HybridCancel | HybridRepair

record hybrid_attribution =
  hat_internal_comment :: string
  hat_strategy_id :: string
  hat_cycle_id :: string
  hat_owner :: "hybrid_owner option"
  hat_role :: "hybrid_order_role option"

datatype attribution_error = InvalidSourceComment | StructuredFieldsMismatch

text \<open>The mutable locals of the parser's loop.\<close>

record attribution_fields =
  af_strategy_id :: "string option"
  af_cycle_id :: "string option"
  af_owner :: "hybrid_owner option"
  af_role :: "hybrid_order_role option"

definition owner_of_code :: "string \<Rightarrow> hybrid_owner option" where
  "owner_of_code v =
     (if v = ''MR'' then Some MeanReversion
      else if v = ''BO'' then Some IntradayBreakout else None)"

definition role_of_code :: "string \<Rightarrow> hybrid_order_role option" where
  "role_of_code v =
     (if v = ''ENTRY'' then Some HybridEntry
      else if v = ''TP'' then Some HybridTakeProfit
      else if v = ''SL'' then Some HybridStopLoss
      else if v = ''EXIT'' then Some HybridExit
      else if v = ''CANCEL'' then Some HybridCancel else None)"

definition set_attribution_field ::
    "string \<Rightarrow> string \<Rightarrow> attribution_fields \<Rightarrow> attribution_fields" where
  "set_attribution_field key v found =
     (if key = ''sid'' then found \<lparr> af_strategy_id := Some v \<rparr>
      else if key = ''c'' then found \<lparr> af_cycle_id := Some v \<rparr>
      else if key = ''o'' then found \<lparr> af_owner := owner_of_code v \<rparr>
      else if key = ''r'' then found \<lparr> af_role := role_of_code v \<rparr>
      else found)"

fun parse_attribution_parts ::
    "attribution_fields \<Rightarrow> string list \<Rightarrow> attribution_error + attribution_fields" where
  "parse_attribution_parts found [] = Inr found"
| "parse_attribution_parts found (part # parts) =
     (case split_once (CHR ''='') part of
        None \<Rightarrow> Inl InvalidSourceComment
      | Some (key, v) \<Rightarrow> parse_attribution_parts (set_attribution_field key v found) parts)"

definition no_attribution_fields :: attribution_fields where
  "no_attribution_fields =
     \<lparr> af_strategy_id = None, af_cycle_id = None, af_owner = None, af_role = None \<rparr>"

definition parse_source_comment :: "string \<Rightarrow> attribution_error + hybrid_attribution" where
  "parse_source_comment comment =
     (if \<not> is_ascii comment \<or> \<not> starts_with comment ''HYB|'' then Inl InvalidSourceComment
      else and_then (parse_attribution_parts no_attribution_fields
                       (drop 1 (str_split (CHR ''|'') comment))) (\<lambda>found.
           and_then (ok_or (af_strategy_id found) InvalidSourceComment) (\<lambda>strategy_id.
           and_then (ok_or (af_cycle_id found) InvalidSourceComment) (\<lambda>cycle_id.
             Inr \<lparr> hat_internal_comment = comment, hat_strategy_id = strategy_id,
                   hat_cycle_id = cycle_id, hat_owner = af_owner found,
                   hat_role = af_role found \<rparr>))))"

definition validate_source_equivalence :: "hybrid_attribution \<Rightarrow> attribution_error + unit" where
  "validate_source_equivalence a =
     and_then (parse_source_comment (hat_internal_comment a)) (\<lambda>parsed.
       if parsed = a then Inr () else Inl StructuredFieldsMismatch)"

definition belongs_to :: "hybrid_attribution \<Rightarrow> string \<Rightarrow> bool" where
  "belongs_to a strategy_id \<longleftrightarrow> hat_strategy_id a = strategy_id"

text \<open>\<open>TryFrom\<close> of the wire form, which has the fields of the attribution.\<close>

definition attribution_try_from :: "hybrid_attribution \<Rightarrow> attribution_error + hybrid_attribution" where
  "attribution_try_from wire =
     and_then (parse_source_comment (hat_internal_comment wire)) (\<lambda>parsed.
       if hat_strategy_id parsed = hat_strategy_id wire \<and> hat_cycle_id parsed = hat_cycle_id wire
          \<and> hat_owner parsed = hat_owner wire \<and> hat_role parsed = hat_role wire
       then Inr parsed else Inl StructuredFieldsMismatch)"

section \<open>Bootstrap\<close>

text \<open>The operations on \<open>f64\<close> the program uses.\<close>

record 'f f64_ops =
  f_add :: "'f \<Rightarrow> 'f \<Rightarrow> 'f"
  f_sub :: "'f \<Rightarrow> 'f \<Rightarrow> 'f"
  f_mul :: "'f \<Rightarrow> 'f \<Rightarrow> 'f"
  f_div :: "'f \<Rightarrow> 'f \<Rightarrow> 'f"
  f_abs :: "'f \<Rightarrow> 'f"
  f_min :: "'f \<Rightarrow> 'f \<Rightarrow> 'f"
  f_signum :: "'f \<Rightarrow> 'f"
  f_less :: "'f \<Rightarrow> 'f \<Rightarrow> bool"
  f_less_eq :: "'f \<Rightarrow> 'f \<Rightarrow> bool"
  f_eq :: "'f \<Rightarrow> 'f \<Rightarrow> bool"
  f_of_nat :: "nat \<Rightarrow> 'f"
  f_epsilon :: 'f

record 'f hybrid_order_event =
  hoe_order_id :: broker_order_id
  hoe_request_id :: "strategy_request_id option"
  hoe_instrument :: instrument_id
  hoe_status :: string
  hoe_side :: string
  hoe_order_type :: string
  hoe_qty :: 'f
  hoe_filled_qty :: 'f
  hoe_price :: 'f
  hoe_existing :: bool
  hoe_attribution :: "hybrid_attribution option"
  hoe_source_ts_utc :: int

record 'f hybrid_stop_order_event =
  hso_stop_order_id :: broker_stop_order_id
  hso_exchange_order_id :: "broker_order_id option"
  hso_instrument :: instrument_id
  hso_status :: string
  hso_side :: string
  hso_qty :: 'f
  hso_filled_qty :: 'f
  hso_stop_price :: 'f
  hso_price :: 'f
  hso_existing :: bool
  hso_attribution :: "hybrid_attribution option"
  hso_end_ts_utc :: "int option"
  hso_source_ts_utc :: int

record 'f hybrid_position_event =
  hpe_instrument :: instrument_id
  hpe_qty :: 'f
  hpe_existing :: bool
  hpe_avg_price :: 'f
  hpe_source_ts_utc :: int

record 'f hybrid_bootstrap_snapshot =
  hyb_broker_truth :: host_bootstrap_snapshot
  hyb_positions_strategy :: "'f hybrid_position_event list"
  hyb_working_orders_strategy :: "'f hybrid_order_event list"
  hyb_working_stop_orders_strategy :: "'f hybrid_stop_order_event list"
  hyb_snapshot_ts_utc :: "int option"

datatype bootstrap_validation_error =
    DuplicateTargetPosition | DuplicateOrderId | DuplicateStopOrderId | BootstrapInstrumentMismatch
  | BrokerTruthPositionMismatch | BrokerTruthQuantityNotRepresentable

definition validate_hybrid_bootstrap ::
    "'f f64_ops \<Rightarrow> (decimal \<Rightarrow> 'f option) \<Rightarrow> 'f hybrid_bootstrap_snapshot
       \<Rightarrow> bootstrap_validation_error + unit" where
  "validate_hybrid_bootstrap F to_f64 s =
     (let target = hbs_instrument (hyb_broker_truth s)
      in if list_ex (\<lambda>p. hpe_instrument p \<noteq> target) (hyb_positions_strategy s)
            \<or> list_ex (\<lambda>x. hoe_instrument x \<noteq> target) (hyb_working_orders_strategy s)
            \<or> list_ex (\<lambda>x. hso_instrument x \<noteq> target) (hyb_working_stop_orders_strategy s)
         then Inl BootstrapInstrumentMismatch
         else if 1 < length (hyb_positions_strategy s) then Inl DuplicateTargetPosition
         else if \<not> distinct (map hoe_order_id (hyb_working_orders_strategy s)) then Inl DuplicateOrderId
         else if \<not> distinct (map hso_stop_order_id (hyb_working_stop_orders_strategy s))
         then Inl DuplicateStopOrderId
         else and_then (ok_or (to_f64 (hbs_target_position_qty (hyb_broker_truth s)))
                          BrokerTruthQuantityNotRepresentable) (\<lambda>broker_qty.
           let differs = (case hyb_positions_strategy s of
                 p # _ \<Rightarrow> f_less F (f_epsilon F) (f_abs F (f_sub F (hpe_qty p) broker_qty))
               | [] \<Rightarrow> f_less F (f_epsilon F) (f_abs F broker_qty))
           in if differs then Inl BrokerTruthPositionMismatch else Inr ()))"

section \<open>Facts\<close>

lemma parse_source_comment_Inr:
  assumes "parse_source_comment comment = Inr a"
  shows "hat_internal_comment a = comment"
proof (cases "\<not> is_ascii comment \<or> \<not> starts_with comment ''HYB|''")
  case True
  with assms show ?thesis by (simp only: parse_source_comment_def if_True sum.distinct)
next
  case False
  with assms have *: "and_then (parse_attribution_parts no_attribution_fields
      (drop 1 (str_split (CHR ''|'') comment))) (\<lambda>found.
        and_then (ok_or (af_strategy_id found) InvalidSourceComment) (\<lambda>strategy_id.
        and_then (ok_or (af_cycle_id found) InvalidSourceComment) (\<lambda>cycle_id.
          Inr \<lparr> hat_internal_comment = comment, hat_strategy_id = strategy_id,
                hat_cycle_id = cycle_id, hat_owner = af_owner found, hat_role = af_role found \<rparr>))) = Inr a"
    by (simp only: parse_source_comment_def if_False)
  obtain found where "parse_attribution_parts no_attribution_fields
      (drop 1 (str_split (CHR ''|'') comment)) = Inr found"
    using * by (cases "parse_attribution_parts no_attribution_fields
      (drop 1 (str_split (CHR ''|'') comment))") (simp_all del: str_split.simps)
  with * show ?thesis by (auto simp: and_then_Inr_iff)
qed

lemma validate_source_equivalence_Inr:
  "validate_source_equivalence a = Inr () \<longleftrightarrow> parse_source_comment (hat_internal_comment a) = Inr a"
  unfolding validate_source_equivalence_def and_then_Inr_iff by (metis Inl_Inr_False)

lemma attribution_try_from_Inr:
  "attribution_try_from wire = Inr a \<longleftrightarrow> parse_source_comment (hat_internal_comment wire) = Inr a \<and> a = wire"
proof -
  have "a = wire" if "hat_internal_comment a = hat_internal_comment wire" "hat_strategy_id a = hat_strategy_id wire"
      "hat_cycle_id a = hat_cycle_id wire" "hat_owner a = hat_owner wire" "hat_role a = hat_role wire" for a
    using that by (cases a; cases wire) simp
  then show ?thesis
    unfolding attribution_try_from_def and_then_Inr_iff
    by (metis Inl_Inr_False Inr_inject parse_source_comment_Inr)
qed

end
