(* ===== verification/DurableIdentity.thy ===== *)
theory DurableIdentity
  imports Journal HybridBoundary
begin

text \<open>
  Durable identities and records of Stage 6
  (\<open>strategy-runtime-core/src/stage6_durable_identity.rs\<close>): the identity of a request, the
  immutable snapshot of its command, and the records of its lifecycle with every check made
  when one is built or decoded. SHA-256 and serde_json are a \<open>stage6_env\<close>.
\<close>

section \<open>Errors, digests and sequence numbers\<close>

datatype durable_identity_error =
    PlaceClientIdentityMismatch | RequestIdentityMismatch | AccountMismatchError
  | InstrumentMismatchError | AttributionMismatch | ActionMismatch | CancelTargetMismatch
  | SequenceZero | InvalidSha256 | UnsupportedSchemaError | RecordIdentityMismatch
  | PayloadDigestMismatch | EventPayloadMismatch | DecodeFailedError | InvalidAccountIdentity
  | InvalidInstrumentIdentity | InvalidAttribution | ActionRoleMismatch
  | UnsupportedDurablePlaceOrderType | InvalidDurablePlacePriceShape
  | InvalidDurablePlaceQuantity | NonCanonicalEncodingError | UnsupportedEventPayload
  | InvalidDispatchAttemptOrdinal | InvalidCancelOutcomePayload | InvalidActionEvent
  | InvalidConflictPayload

datatype sha256_digest = Sha256Digest string
datatype journal_record_id = JournalRecordId string
datatype lifecycle_sequence = LifecycleSequence u64

fun digest_str :: "sha256_digest \<Rightarrow> string" where
  "digest_str (Sha256Digest s) = s"

fun record_id_str :: "journal_record_id \<Rightarrow> string" where
  "record_id_str (JournalRecordId s) = s"

fun sequence_get :: "lifecycle_sequence \<Rightarrow> u64" where
  "sequence_get (LifecycleSequence w) = w"

definition sequence_new :: "u64 \<Rightarrow> durable_identity_error + lifecycle_sequence" where
  "sequence_new w = (if w = 0 then Inl SequenceZero else Inr (LifecycleSequence w))"

definition digest_parse :: "string \<Rightarrow> durable_identity_error + sha256_digest" where
  "digest_parse s = (if is_lower_hex_digest s then Inr (Sha256Digest s) else Inl InvalidSha256)"

definition record_id_parse_exact :: "string \<Rightarrow> durable_identity_error + journal_record_id" where
  "record_id_parse_exact s =
     (if is_lower_hex_digest s then Inr (JournalRecordId s) else Inl RecordIdentityMismatch)"

definition digest_of :: "(bytes \<Rightarrow> bytes) \<Rightarrow> bytes \<Rightarrow> sha256_digest" where
  "digest_of sha bs = Sha256Digest (hex_string (sha bs))"

definition u64_to_be :: "u64 \<Rightarrow> bytes" where
  "u64_to_be w = [ucast (drop_bit 56 w), ucast (drop_bit 48 w), ucast (drop_bit 40 w),
     ucast (drop_bit 32 w), ucast (drop_bit 24 w), ucast (drop_bit 16 w), ucast (drop_bit 8 w),
     ucast w]"

definition derive_record_id ::
    "(bytes \<Rightarrow> bytes) \<Rightarrow> strategy_request_id \<Rightarrow> lifecycle_sequence \<Rightarrow> journal_record_id" where
  "derive_record_id sha request sequence =
     JournalRecordId (hex_string (sha (ascii_bytes ''stage6-journal-record-v1''
       @ uuid_bytes request @ u64_to_be (sequence_get sequence))))"

section \<open>The identity of a request\<close>

datatype durable_action = DurablePlace | DurableCancel

record durable_identity =
  dri_strategy_request_id :: strategy_request_id
  dri_durable_client_order_id :: client_order_id
  dri_account_id :: broker_account_id
  dri_instrument :: instrument_id
  dri_attribution :: hybrid_attribution
  dri_action :: durable_action
  dri_target_broker_order_id :: "broker_order_id option"
  dri_target_order_client_order_id :: "client_order_id option"

definition role_fits_action :: "durable_action \<Rightarrow> hybrid_order_role option \<Rightarrow> bool" where
  "role_fits_action action role = (case action of
     DurablePlace \<Rightarrow> role \<in> {Some HybridEntry, Some HybridExit, Some HybridTakeProfit, Some HybridStopLoss}
   | DurableCancel \<Rightarrow> role = Some HybridCancel)"

definition validate_durable_domain ::
    "broker_account_id \<Rightarrow> instrument_id \<Rightarrow> hybrid_attribution \<Rightarrow> durable_action
       \<Rightarrow> durable_identity_error + unit" where
  "validate_durable_domain account i a action =
     (if account_id_str account = [] then Inl InvalidAccountIdentity
      else if ins_symbol i = [] \<or> ins_venue_symbol i = Some [] then Inl InvalidInstrumentIdentity
      else if hat_strategy_id a = [] \<or> hat_cycle_id a = [] \<or> hat_owner a = None \<or> hat_role a = None
         \<or> \<not> is_ok (validate_source_equivalence a) then Inl InvalidAttribution
      else if \<not> role_fits_action action (hat_role a) then Inl ActionRoleMismatch
      else Inr ())"

definition validate_identity_self :: "durable_identity \<Rightarrow> durable_identity_error + unit" where
  "validate_identity_self x =
     (if dri_durable_client_order_id x
         \<noteq> client_order_id_from_strategy_request (dri_strategy_request_id x)
      then Inl PlaceClientIdentityMismatch
      else and_then (validate_durable_domain (dri_account_id x) (dri_instrument x)
                       (dri_attribution x) (dri_action x)) (\<lambda>_.
        case dri_action x of
          DurablePlace \<Rightarrow>
            (if dri_target_broker_order_id x = None \<and> dri_target_order_client_order_id x = None
             then Inr () else Inl ActionMismatch)
        | DurableCancel \<Rightarrow>
            (if dri_target_broker_order_id x \<noteq> None \<and> hat_role (dri_attribution x) = Some HybridCancel
             then Inr () else Inl CancelTargetMismatch)))"

definition identity_from_place ::
    "place_order \<Rightarrow> hybrid_attribution \<Rightarrow> durable_identity_error + durable_identity" where
  "identity_from_place command a =
     (if po_client_order_id command \<noteq> client_order_id_from_strategy_request (po_request_id command)
      then Inl PlaceClientIdentityMismatch
      else if po_comment command \<noteq> Some (hat_internal_comment a) then Inl AttributionMismatch
      else let x = \<lparr> dri_strategy_request_id = po_request_id command,
             dri_durable_client_order_id = client_order_id_from_strategy_request (po_request_id command),
             dri_account_id = po_account_id command, dri_instrument = po_instrument command,
             dri_attribution = a, dri_action = DurablePlace, dri_target_broker_order_id = None,
             dri_target_order_client_order_id = None \<rparr>
        in and_then (validate_identity_self x) (\<lambda>_. Inr x))"

definition identity_from_cancel ::
    "cancel_order \<Rightarrow> instrument_id \<Rightarrow> hybrid_attribution \<Rightarrow> durable_identity_error + durable_identity" where
  "identity_from_cancel command i a =
     (let x = \<lparr> dri_strategy_request_id = co_request_id command,
        dri_durable_client_order_id = client_order_id_from_strategy_request (co_request_id command),
        dri_account_id = co_account_id command, dri_instrument = i, dri_attribution = a,
        dri_action = DurableCancel, dri_target_broker_order_id = Some (co_order_id command),
        dri_target_order_client_order_id = co_client_order_id command \<rparr>
      in and_then (validate_identity_self x) (\<lambda>_. Inr x))"

section \<open>The snapshot of a command\<close>

record durable_place =
  dpl_request_id :: strategy_request_id
  dpl_durable_client_order_id :: client_order_id
  dpl_account_id :: broker_account_id
  dpl_instrument :: instrument_id
  dpl_side :: order_side
  dpl_order_type :: order_type
  dpl_quantity :: quantity
  dpl_limit_price :: "price option"
  dpl_time_in_force :: time_in_force
  dpl_ttl_ms :: "u64 option"
  dpl_created_ts :: timestamp
  dpl_attribution :: hybrid_attribution

record durable_cancel =
  dcl_request_id :: strategy_request_id
  dcl_durable_cancel_client_order_id :: client_order_id
  dcl_account_id :: broker_account_id
  dcl_instrument :: instrument_id
  dcl_target_broker_order_id :: broker_order_id
  dcl_target_order_client_order_id :: "client_order_id option"
  dcl_ttl_ms :: "u64 option"
  dcl_created_ts :: timestamp
  dcl_attribution :: hybrid_attribution

datatype durable_command = PlaceSnapshot durable_place | CancelSnapshot durable_cancel

record place_order_shape =
  pos_side :: order_side
  pos_order_type :: order_type
  pos_quantity :: quantity
  pos_limit_price :: "price option"
  pos_time_in_force :: time_in_force

definition validate_durable_place_shape ::
    "order_type \<Rightarrow> quantity \<Rightarrow> price option \<Rightarrow> durable_identity_error + unit" where
  "validate_durable_place_shape type qty limit_price =
     (if qty \<le> 0 then Inl InvalidDurablePlaceQuantity
      else case type of
        Market \<Rightarrow> if limit_price = None then Inr () else Inl InvalidDurablePlacePriceShape
      | Limit \<Rightarrow>
          (case limit_price of
             Some price \<Rightarrow> if 0 < price then Inr () else Inl InvalidDurablePlacePriceShape
           | None \<Rightarrow> Inl InvalidDurablePlacePriceShape)
      | _ \<Rightarrow> Inl UnsupportedDurablePlaceOrderType)"

definition place_shape_new ::
    "order_side \<Rightarrow> order_type \<Rightarrow> quantity \<Rightarrow> price option \<Rightarrow> time_in_force
       \<Rightarrow> durable_identity_error + place_order_shape" where
  "place_shape_new side type qty limit_price tif =
     and_then (validate_durable_place_shape type qty limit_price) (\<lambda>_.
       Inr \<lparr> pos_side = side, pos_order_type = type, pos_quantity = qty,
             pos_limit_price = limit_price, pos_time_in_force = tif \<rparr>)"

definition shape_matches ::
    "place_order_shape \<Rightarrow> order_side \<Rightarrow> order_type \<Rightarrow> quantity \<Rightarrow> price option \<Rightarrow> time_in_force \<Rightarrow> bool" where
  "shape_matches shape side type qty limit_price tif \<longleftrightarrow>
     pos_side shape = side \<and> pos_order_type shape = type \<and> pos_quantity shape = qty
     \<and> pos_limit_price shape = limit_price \<and> pos_time_in_force shape = tif"

fun validate_intrinsic :: "durable_command \<Rightarrow> durable_identity_error + unit" where
  "validate_intrinsic (PlaceSnapshot p) =
     and_then (validate_durable_domain (dpl_account_id p) (dpl_instrument p) (dpl_attribution p)
                 DurablePlace) (\<lambda>_.
       if dpl_durable_client_order_id p \<noteq> client_order_id_from_strategy_request (dpl_request_id p)
       then Inl PlaceClientIdentityMismatch
       else validate_durable_place_shape (dpl_order_type p) (dpl_quantity p) (dpl_limit_price p))"
| "validate_intrinsic (CancelSnapshot c) =
     and_then (validate_durable_domain (dcl_account_id c) (dcl_instrument c) (dcl_attribution c)
                 DurableCancel) (\<lambda>_.
       if dcl_durable_cancel_client_order_id c \<noteq> client_order_id_from_strategy_request (dcl_request_id c)
       then Inl CancelTargetMismatch
       else Inr ())"

definition validate_common ::
    "durable_identity \<Rightarrow> strategy_request_id \<Rightarrow> broker_account_id \<Rightarrow> instrument_id \<Rightarrow> durable_action
       \<Rightarrow> durable_identity_error + unit" where
  "validate_common x request account i action =
     (if dri_strategy_request_id x \<noteq> request then Inl RequestIdentityMismatch
      else if dri_account_id x \<noteq> account then Inl AccountMismatchError
      else if dri_instrument x \<noteq> i then Inl InstrumentMismatchError
      else if dri_action x \<noteq> action then Inl ActionMismatch
      else Inr ())"

definition snapshot_from_place ::
    "durable_identity \<Rightarrow> place_order \<Rightarrow> durable_identity_error + durable_command" where
  "snapshot_from_place x command =
     and_then (validate_identity_self x) (\<lambda>_.
     and_then (validate_common x (po_request_id command) (po_account_id command)
                 (po_instrument command) DurablePlace) (\<lambda>_.
       if po_client_order_id command \<noteq> dri_durable_client_order_id x
       then Inl PlaceClientIdentityMismatch
       else if po_comment command \<noteq> Some (hat_internal_comment (dri_attribution x))
       then Inl AttributionMismatch
       else let snapshot = PlaceSnapshot
              \<lparr> dpl_request_id = po_request_id command,
                dpl_durable_client_order_id = po_client_order_id command,
                dpl_account_id = po_account_id command, dpl_instrument = po_instrument command,
                dpl_side = po_side command, dpl_order_type = po_order_type command,
                dpl_quantity = po_qty command, dpl_limit_price = po_limit_price command,
                dpl_time_in_force = po_time_in_force command, dpl_ttl_ms = po_ttl_ms command,
                dpl_created_ts = po_created_ts command, dpl_attribution = dri_attribution x \<rparr>
            in and_then (validate_intrinsic snapshot) (\<lambda>_. Inr snapshot)))"

definition snapshot_from_cancel ::
    "durable_identity \<Rightarrow> cancel_order \<Rightarrow> durable_identity_error + durable_command" where
  "snapshot_from_cancel x command =
     and_then (validate_identity_self x) (\<lambda>_.
       if dri_strategy_request_id x \<noteq> co_request_id command then Inl RequestIdentityMismatch
       else if dri_account_id x \<noteq> co_account_id command then Inl AccountMismatchError
       else if dri_action x \<noteq> DurableCancel then Inl ActionMismatch
       else if dri_target_broker_order_id x \<noteq> Some (co_order_id command)
          \<or> dri_target_order_client_order_id x \<noteq> co_client_order_id command
       then Inl CancelTargetMismatch
       else let snapshot = CancelSnapshot
              \<lparr> dcl_request_id = co_request_id command,
                dcl_durable_cancel_client_order_id = dri_durable_client_order_id x,
                dcl_account_id = co_account_id command, dcl_instrument = dri_instrument x,
                dcl_target_broker_order_id = co_order_id command,
                dcl_target_order_client_order_id = co_client_order_id command,
                dcl_ttl_ms = co_ttl_ms command, dcl_created_ts = co_created_ts command,
                dcl_attribution = dri_attribution x \<rparr>
            in and_then (validate_intrinsic snapshot) (\<lambda>_. Inr snapshot))"

definition matches_broker_command ::
    "durable_command \<Rightarrow> durable_identity \<Rightarrow> broker_command \<Rightarrow> bool" where
  "matches_broker_command snapshot x command = (case command of
     PlaceOrder place \<Rightarrow> snapshot_from_place x place = Inr snapshot
   | CancelOrder cancel \<Rightarrow> snapshot_from_cancel x cancel = Inr snapshot)"

text \<open>The command in its broker-neutral form, rebuilt from the snapshot.\<close>

fun snapshot_broker_command :: "durable_command \<Rightarrow> broker_command" where
  "snapshot_broker_command (PlaceSnapshot p) = PlaceOrder
     \<lparr> po_request_id = dpl_request_id p, po_created_ts = dpl_created_ts p,
       po_ttl_ms = dpl_ttl_ms p, po_account_id = dpl_account_id p,
       po_client_order_id = dpl_durable_client_order_id p, po_instrument = dpl_instrument p,
       po_side = dpl_side p, po_order_type = dpl_order_type p, po_qty = dpl_quantity p,
       po_limit_price = dpl_limit_price p, po_time_in_force = dpl_time_in_force p,
       po_comment = Some (hat_internal_comment (dpl_attribution p)) \<rparr>"
| "snapshot_broker_command (CancelSnapshot c) = CancelOrder
     \<lparr> co_request_id = dcl_request_id c, co_created_ts = dcl_created_ts c,
       co_ttl_ms = dcl_ttl_ms c, co_account_id = dcl_account_id c,
       co_order_id = dcl_target_broker_order_id c,
       co_client_order_id = dcl_target_order_client_order_id c \<rparr>"

definition canonical_broker_command_sha256 ::
    "(bytes \<Rightarrow> bytes) \<Rightarrow> (broker_command \<Rightarrow> bytes) \<Rightarrow> durable_command \<Rightarrow> durable_identity
       \<Rightarrow> durable_identity_error + sha256_digest" where
  "canonical_broker_command_sha256 sha command_json snapshot x =
     and_then (validate_intrinsic snapshot) (\<lambda>_.
       let command = snapshot_broker_command snapshot
       in if \<not> matches_broker_command snapshot x command then Inl RequestIdentityMismatch
          else Inr (digest_of sha (command_json command)))"

fun snapshot_action :: "durable_command \<Rightarrow> durable_action" where
  "snapshot_action (PlaceSnapshot p) = DurablePlace"
| "snapshot_action (CancelSnapshot c) = DurableCancel"

fun snapshot_created_at :: "durable_command \<Rightarrow> timestamp" where
  "snapshot_created_at (PlaceSnapshot p) = dpl_created_ts p"
| "snapshot_created_at (CancelSnapshot c) = dcl_created_ts c"

fun snapshot_place_shape :: "durable_command \<Rightarrow> place_order_shape option" where
  "snapshot_place_shape (PlaceSnapshot p) = Some
     \<lparr> pos_side = dpl_side p, pos_order_type = dpl_order_type p, pos_quantity = dpl_quantity p,
       pos_limit_price = dpl_limit_price p, pos_time_in_force = dpl_time_in_force p \<rparr>"
| "snapshot_place_shape (CancelSnapshot c) = None"

definition validate_snapshot_identity ::
    "durable_identity \<Rightarrow> durable_command \<Rightarrow> durable_identity_error + unit" where
  "validate_snapshot_identity x snapshot = (case snapshot of
     PlaceSnapshot p \<Rightarrow>
       and_then (validate_common x (dpl_request_id p) (dpl_account_id p) (dpl_instrument p)
                   DurablePlace) (\<lambda>_.
         if dpl_durable_client_order_id p \<noteq> dri_durable_client_order_id x
         then Inl PlaceClientIdentityMismatch
         else if dpl_attribution p \<noteq> dri_attribution x then Inl AttributionMismatch
         else Inr ())
   | CancelSnapshot c \<Rightarrow>
       and_then (validate_common x (dcl_request_id c) (dcl_account_id c) (dcl_instrument c)
                   DurableCancel) (\<lambda>_.
         if dcl_durable_cancel_client_order_id c \<noteq> dri_durable_client_order_id x
            \<or> Some (dcl_target_broker_order_id c) \<noteq> dri_target_broker_order_id x
            \<or> dcl_target_order_client_order_id c \<noteq> dri_target_order_client_order_id x
         then Inl CancelTargetMismatch
         else if dcl_attribution c \<noteq> dri_attribution x then Inl AttributionMismatch
         else Inr ()))"

definition derive_p1d3_outcome_id ::
    "(bytes \<Rightarrow> bytes) \<Rightarrow> string \<Rightarrow> broker_order_id \<Rightarrow> u64 \<Rightarrow> string \<Rightarrow> journal_record_id" where
  "derive_p1d3_outcome_id sha operational_identity_sha256 order transition_ordinal outcome_kind =
     (let field = (\<lambda>s. u64_to_be (of_nat (length s)) @ ascii_bytes s)
      in JournalRecordId (hex_string (sha (ascii_bytes ''stage6-p1d3-outcome-record-v1''
           @ field operational_identity_sha256 @ field (broker_order_id_str order)
           @ field outcome_kind @ u64_to_be transition_ordinal))))"

section \<open>Records of a lifecycle\<close>

definition durable_record_schema_version :: u16 where
  "durable_record_schema_version = 1"

datatype durable_event_kind =
    RequestAcceptedKind | DispatchAttemptRecordedKind | BrokerOrderObservedKind
  | BrokerTradeObservedKind | CancelOutcomeObservedKind | ReconciliationObservedKind
  | RequestFinalizedKind | ConflictObservedKind

datatype reconciliation_disposition =
  NoBrokerOrderFound | BrokerOrderFound broker_order_id | Inconclusive

datatype cancel_outcome =
  CancelOutcomeCanceled | AlreadyTerminalNonExecution | ExecutionObserved | CancelOutcomeRejected

datatype request_final_disposition = FinalCompleted | FinalCanceled | FinalRejected

datatype conflict_kind =
    ConflictingReplayKind | IdentityDriftKind | BrokerOrderConflictKind
  | BrokerTradeConflictKind | CausalLinkConflictKind

datatype journal_payload =
    RequestAccepted durable_command
  | BrokerOrderObserved broker_order_id
  | BrokerTradeObserved broker_trade_id broker_order_id
  | DispatchAttemptRecorded u32 sha256_digest
  | CancelOutcomeObserved broker_order_id cancel_outcome
  | ReconciliationObserved reconciliation_disposition
  | RequestFinalized request_final_disposition
  | ConflictObserved conflict_kind "journal_record_id option" "sha256_digest option"
      "sha256_digest option"
  | MarkerPayload

record durable_record =
  drc_schema_version :: u16
  drc_journal_record_id :: journal_record_id
  drc_lifecycle_sequence :: lifecycle_sequence
  drc_previous_record_id :: "journal_record_id option"
  drc_causal_parent_id :: "journal_record_id option"
  drc_identity :: durable_identity
  drc_event_kind :: durable_event_kind
  drc_payload :: journal_payload
  drc_canonical_payload_sha256 :: sha256_digest
  drc_source_evidence_sha256 :: sha256_digest

text \<open>
  What the code takes from libraries: SHA-256, the serde_json text of a payload and of a
  record, and the grammar of the record's wire form (\<open>None\<close> is text that is no record).
\<close>

record stage6_env =
  s6_sha :: "bytes \<Rightarrow> bytes"
  s6_payload_json :: "journal_payload \<Rightarrow> bytes"
  s6_record_json :: "durable_record \<Rightarrow> bytes"
  s6_record_wire :: "bytes \<Rightarrow> durable_record option"

fun event_matches_payload :: "durable_event_kind \<Rightarrow> journal_payload \<Rightarrow> bool" where
  "event_matches_payload kind (RequestAccepted c) = (kind = RequestAcceptedKind)"
| "event_matches_payload kind (BrokerOrderObserved i) = (kind = BrokerOrderObservedKind)"
| "event_matches_payload kind (BrokerTradeObserved t i) = (kind = BrokerTradeObservedKind)"
| "event_matches_payload kind (DispatchAttemptRecorded n d) = (kind = DispatchAttemptRecordedKind)"
| "event_matches_payload kind (CancelOutcomeObserved i x) = (kind = CancelOutcomeObservedKind)"
| "event_matches_payload kind (ReconciliationObserved d) = (kind = ReconciliationObservedKind)"
| "event_matches_payload kind (RequestFinalized d) = (kind = RequestFinalizedKind)"
| "event_matches_payload kind (ConflictObserved k i e x) = (kind = ConflictObservedKind)"
| "event_matches_payload kind MarkerPayload = False"

fun action_allows_payload :: "durable_action \<Rightarrow> journal_payload \<Rightarrow> bool" where
  "action_allows_payload action (RequestAccepted c) = True"
| "action_allows_payload action (DispatchAttemptRecorded n d) = True"
| "action_allows_payload action (BrokerOrderObserved i) = (action = DurablePlace)"
| "action_allows_payload action (BrokerTradeObserved t i) = (action = DurablePlace)"
| "action_allows_payload action (CancelOutcomeObserved i x) = (action = DurableCancel)"
| "action_allows_payload action (ReconciliationObserved d) = (action = DurablePlace \<or> d = Inconclusive)"
| "action_allows_payload action (RequestFinalized d) = True"
| "action_allows_payload action (ConflictObserved k i e x) = True"
| "action_allows_payload action MarkerPayload = False"

definition validate_action_event ::
    "durable_action \<Rightarrow> journal_payload \<Rightarrow> durable_identity_error + unit" where
  "validate_action_event action payload =
     (if action_allows_payload action payload then Inr () else Inl InvalidActionEvent)"

definition conflict_digests_invalid ::
    "journal_record_id option \<Rightarrow> sha256_digest option \<Rightarrow> sha256_digest option \<Rightarrow> bool" where
  "conflict_digests_invalid conflicting expected observed \<longleftrightarrow>
     (conflicting = None \<and> expected = None \<and> observed = None)
     \<or> ((expected \<noteq> None) \<noteq> (observed \<noteq> None))"

definition validate_payload_shape ::
    "durable_identity \<Rightarrow> journal_payload \<Rightarrow> durable_identity_error + unit" where
  "validate_payload_shape x payload = (case payload of
     DispatchAttemptRecorded attempt_ordinal accepted \<Rightarrow>
       if attempt_ordinal = 0 then Inl InvalidDispatchAttemptOrdinal else Inr ()
   | CancelOutcomeObserved target outcome \<Rightarrow>
       if dri_action x \<noteq> DurableCancel \<or> dri_target_broker_order_id x \<noteq> Some target
       then Inl InvalidCancelOutcomePayload else Inr ()
   | ConflictObserved kind conflicting expected observed \<Rightarrow>
       if conflict_digests_invalid conflicting expected observed
       then Inl InvalidConflictPayload else Inr ()
   | _ \<Rightarrow> Inr ())"

definition validate_record :: "stage6_env \<Rightarrow> durable_record \<Rightarrow> durable_identity_error + unit" where
  "validate_record E r =
     (let x = drc_identity r; payload = drc_payload r
      in if drc_schema_version r \<noteq> durable_record_schema_version then Inl UnsupportedSchemaError
         else if drc_journal_record_id r
                 \<noteq> derive_record_id (s6_sha E) (dri_strategy_request_id x) (drc_lifecycle_sequence r)
         then Inl RecordIdentityMismatch
         else if drc_canonical_payload_sha256 r \<noteq> digest_of (s6_sha E) (s6_payload_json E payload)
         then Inl PayloadDigestMismatch
         else if payload = MarkerPayload then Inl UnsupportedEventPayload
         else if \<not> event_matches_payload (drc_event_kind r) payload then Inl EventPayloadMismatch
         else and_then (validate_action_event (dri_action x) payload) (\<lambda>_.
              and_then (case payload of
                          RequestAccepted command \<Rightarrow> validate_snapshot_identity x command
                        | _ \<Rightarrow> Inr ()) (\<lambda>_.
              and_then (validate_payload_shape x payload) (\<lambda>_.
                validate_identity_self x))))"

definition build_record ::
    "stage6_env \<Rightarrow> durable_identity \<Rightarrow> durable_event_kind \<Rightarrow> journal_payload \<Rightarrow> lifecycle_sequence
       \<Rightarrow> journal_record_id option \<Rightarrow> journal_record_id option \<Rightarrow> sha256_digest
       \<Rightarrow> durable_identity_error + durable_record" where
  "build_record E x kind payload sequence previous causal_parent evidence =
     and_then (validate_identity_self x) (\<lambda>_.
       let r = \<lparr> drc_schema_version = durable_record_schema_version,
             drc_journal_record_id = derive_record_id (s6_sha E) (dri_strategy_request_id x) sequence,
             drc_lifecycle_sequence = sequence, drc_previous_record_id = previous,
             drc_causal_parent_id = causal_parent, drc_identity = x, drc_event_kind = kind,
             drc_payload = payload,
             drc_canonical_payload_sha256 = digest_of (s6_sha E) (s6_payload_json E payload),
             drc_source_evidence_sha256 = evidence \<rparr>
       in and_then (validate_record E r) (\<lambda>_. Inr r))"

text \<open>The constructors, one per event.\<close>

definition request_accepted_record ::
    "stage6_env \<Rightarrow> durable_identity \<Rightarrow> durable_command \<Rightarrow> lifecycle_sequence
       \<Rightarrow> journal_record_id option \<Rightarrow> journal_record_id option \<Rightarrow> sha256_digest
       \<Rightarrow> durable_identity_error + durable_record" where
  "request_accepted_record E x command sequence previous causal_parent evidence =
     and_then (validate_snapshot_identity x command) (\<lambda>_.
       build_record E x RequestAcceptedKind (RequestAccepted command) sequence previous
         causal_parent evidence)"

definition dispatch_attempt_record ::
    "stage6_env \<Rightarrow> durable_identity \<Rightarrow> u32 \<Rightarrow> sha256_digest \<Rightarrow> lifecycle_sequence
       \<Rightarrow> journal_record_id option \<Rightarrow> sha256_digest \<Rightarrow> durable_identity_error + durable_record" where
  "dispatch_attempt_record E x attempt_ordinal accepted sequence previous evidence =
     (if attempt_ordinal = 0 then Inl InvalidDispatchAttemptOrdinal
      else build_record E x DispatchAttemptRecordedKind
             (DispatchAttemptRecorded attempt_ordinal accepted) sequence previous previous evidence)"

definition broker_order_record ::
    "stage6_env \<Rightarrow> durable_identity \<Rightarrow> broker_order_id \<Rightarrow> lifecycle_sequence
       \<Rightarrow> journal_record_id option \<Rightarrow> sha256_digest \<Rightarrow> durable_identity_error + durable_record" where
  "broker_order_record E x order sequence previous evidence =
     (if dri_action x \<noteq> DurablePlace then Inl InvalidActionEvent
      else build_record E x BrokerOrderObservedKind (BrokerOrderObserved order) sequence previous
             previous evidence)"

definition broker_trade_record ::
    "stage6_env \<Rightarrow> durable_identity \<Rightarrow> broker_trade_id \<Rightarrow> broker_order_id \<Rightarrow> lifecycle_sequence
       \<Rightarrow> journal_record_id option \<Rightarrow> sha256_digest \<Rightarrow> durable_identity_error + durable_record" where
  "broker_trade_record E x trade order sequence previous evidence =
     (if dri_action x \<noteq> DurablePlace then Inl InvalidActionEvent
      else build_record E x BrokerTradeObservedKind (BrokerTradeObserved trade order) sequence
             previous previous evidence)"

definition cancel_outcome_record ::
    "stage6_env \<Rightarrow> durable_identity \<Rightarrow> broker_order_id \<Rightarrow> cancel_outcome \<Rightarrow> lifecycle_sequence
       \<Rightarrow> journal_record_id option \<Rightarrow> sha256_digest \<Rightarrow> durable_identity_error + durable_record" where
  "cancel_outcome_record E x target outcome sequence previous evidence =
     (if dri_action x \<noteq> DurableCancel \<or> dri_target_broker_order_id x \<noteq> Some target
      then Inl InvalidCancelOutcomePayload
      else build_record E x CancelOutcomeObservedKind (CancelOutcomeObserved target outcome)
             sequence previous previous evidence)"

definition reconciliation_record ::
    "stage6_env \<Rightarrow> durable_identity \<Rightarrow> reconciliation_disposition \<Rightarrow> lifecycle_sequence
       \<Rightarrow> journal_record_id option \<Rightarrow> sha256_digest \<Rightarrow> durable_identity_error + durable_record" where
  "reconciliation_record E x disposition sequence previous evidence =
     and_then (validate_action_event (dri_action x) (ReconciliationObserved disposition)) (\<lambda>_.
       build_record E x ReconciliationObservedKind (ReconciliationObserved disposition) sequence
         previous previous evidence)"

definition request_finalized_record ::
    "stage6_env \<Rightarrow> durable_identity \<Rightarrow> request_final_disposition \<Rightarrow> lifecycle_sequence
       \<Rightarrow> journal_record_id option \<Rightarrow> sha256_digest \<Rightarrow> durable_identity_error + durable_record" where
  "request_finalized_record E x disposition sequence previous evidence =
     build_record E x RequestFinalizedKind (RequestFinalized disposition) sequence previous
       previous evidence"

definition conflict_record ::
    "stage6_env \<Rightarrow> durable_identity \<Rightarrow> conflict_kind \<Rightarrow> journal_record_id option
       \<Rightarrow> sha256_digest option \<Rightarrow> sha256_digest option \<Rightarrow> lifecycle_sequence
       \<Rightarrow> journal_record_id option \<Rightarrow> sha256_digest \<Rightarrow> durable_identity_error + durable_record" where
  "conflict_record E x kind conflicting expected observed sequence previous evidence =
     (if conflict_digests_invalid conflicting expected observed then Inl InvalidConflictPayload
      else build_record E x ConflictObservedKind (ConflictObserved kind conflicting expected observed)
             sequence previous previous evidence)"

section \<open>The canonical encoding of a record\<close>

text \<open>
  The checks made while the wire form is deserialised: every digest and record id parses, the
  sequence is not zero, every attribution matches its comment, the identity and the snapshot
  validate. A failure of any of them, or of \<open>validate\<close>, is reported as a failed decode.
\<close>

definition record_id_ok :: "journal_record_id \<Rightarrow> bool" where
  "record_id_ok i \<longleftrightarrow> is_ok (record_id_parse_exact (record_id_str i))"

definition digest_ok :: "sha256_digest \<Rightarrow> bool" where
  "digest_ok d \<longleftrightarrow> is_ok (digest_parse (digest_str d))"

definition identity_wire_ok :: "durable_identity \<Rightarrow> bool" where
  "identity_wire_ok x \<longleftrightarrow>
     is_ok (attribution_try_from (dri_attribution x)) \<and> is_ok (validate_identity_self x)"

fun snapshot_wire_ok :: "durable_command \<Rightarrow> bool" where
  "snapshot_wire_ok (PlaceSnapshot p) \<longleftrightarrow>
     is_ok (attribution_try_from (dpl_attribution p)) \<and> is_ok (validate_intrinsic (PlaceSnapshot p))"
| "snapshot_wire_ok (CancelSnapshot c) \<longleftrightarrow>
     is_ok (attribution_try_from (dcl_attribution c)) \<and> is_ok (validate_intrinsic (CancelSnapshot c))"

fun payload_wire_ok :: "journal_payload \<Rightarrow> bool" where
  "payload_wire_ok (RequestAccepted command) = snapshot_wire_ok command"
| "payload_wire_ok (DispatchAttemptRecorded n accepted) = digest_ok accepted"
| "payload_wire_ok (ConflictObserved kind conflicting expected observed) =
     (pred_option record_id_ok conflicting \<and> pred_option digest_ok expected
      \<and> pred_option digest_ok observed)"
| "payload_wire_ok payload = True"

definition record_wire_ok :: "durable_record \<Rightarrow> bool" where
  "record_wire_ok r \<longleftrightarrow>
     record_id_ok (drc_journal_record_id r) \<and> sequence_get (drc_lifecycle_sequence r) \<noteq> 0
     \<and> pred_option record_id_ok (drc_previous_record_id r)
     \<and> pred_option record_id_ok (drc_causal_parent_id r)
     \<and> identity_wire_ok (drc_identity r) \<and> payload_wire_ok (drc_payload r)
     \<and> digest_ok (drc_canonical_payload_sha256 r) \<and> digest_ok (drc_source_evidence_sha256 r)"

definition deserialize_record :: "stage6_env \<Rightarrow> bytes \<Rightarrow> durable_record option" where
  "deserialize_record E bs = (case s6_record_wire E bs of
     None \<Rightarrow> None
   | Some r \<Rightarrow> if record_wire_ok r \<and> is_ok (validate_record E r) then Some r else None)"

definition decode_record :: "stage6_env \<Rightarrow> bytes \<Rightarrow> durable_identity_error + durable_record" where
  "decode_record E bs =
     and_then (ok_or (deserialize_record E bs) DecodeFailedError) (\<lambda>r.
     and_then (validate_record E r) (\<lambda>_.
       if s6_record_json E r \<noteq> bs then Inl NonCanonicalEncodingError else Inr r))"

section \<open>The codec of the journal\<close>

definition map_v1_error :: "durable_identity_error \<Rightarrow> record_error" where
  "map_v1_error e =
     (if e = UnsupportedSchemaError then UnsupportedSchema 1
      else if e = NonCanonicalEncodingError then NonCanonicalEncoding
      else OtherRecordError)"

text \<open>
  Dispatch on the schema version that \<open>probe_schema_version\<close> reads; the codec of the later
  record versions is a parameter.
\<close>

record 'later versioned_env =
  ve_v1 :: stage6_env
  ve_probe :: "bytes \<Rightarrow> record_error + u64"
  ve_later_encode :: "'later \<Rightarrow> bytes"
  ve_later_decode :: "u64 \<Rightarrow> bytes \<Rightarrow> record_error + 'later"
  ve_later_record_id :: "'later \<Rightarrow> journal_record_id"
  ve_later_sequence :: "'later \<Rightarrow> lifecycle_sequence"

definition versioned_decode ::
    "'later versioned_env \<Rightarrow> bytes \<Rightarrow> record_error + (durable_record, 'later) versioned_record" where
  "versioned_decode V bs =
     and_then (ve_probe V bs) (\<lambda>version.
       if version = 1 then map_err map_v1_error (and_then (decode_record (ve_v1 V) bs) (\<lambda>r. Inr (RecordV1 r)))
       else if version \<in> {2, 3, 4}
       then and_then (ve_later_decode V version bs) (\<lambda>r. Inr (RecordLater r))
       else Inl (UnsupportedSchema version))"

fun versioned_encode :: "'later versioned_env \<Rightarrow> (durable_record, 'later) versioned_record \<Rightarrow> bytes" where
  "versioned_encode V (RecordV1 r) = s6_record_json (ve_v1 V) r"
| "versioned_encode V (RecordLater r) = ve_later_encode V r"

fun versioned_record_id :: "'later versioned_env \<Rightarrow> (durable_record, 'later) versioned_record \<Rightarrow> string" where
  "versioned_record_id V (RecordV1 r) = record_id_str (drc_journal_record_id r)"
| "versioned_record_id V (RecordLater r) = record_id_str (ve_later_record_id V r)"

fun versioned_sequence :: "'later versioned_env \<Rightarrow> (durable_record, 'later) versioned_record \<Rightarrow> u64" where
  "versioned_sequence V (RecordV1 r) = sequence_get (drc_lifecycle_sequence r)"
| "versioned_sequence V (RecordLater r) = sequence_get (ve_later_sequence V r)"

definition versioned_codec :: "'later versioned_env \<Rightarrow> (durable_record, 'later) journal_codec" where
  "versioned_codec V = \<lparr> jc_encode = versioned_encode V, jc_decode = versioned_decode V,
     jc_record_id = versioned_record_id V, jc_lifecycle_sequence = versioned_sequence V \<rparr>"

end
