(* ===== verification/DurableRecords.thy ===== *)
theory DurableRecords
  imports DurableIdentity
begin

text \<open>
  What the durable identities, snapshots and records of \<open>DurableIdentity\<close> guarantee: a snapshot
  gives back the command it was taken of, a record that was built validates, is stored by the
  journal and is read back.
\<close>

section \<open>Snapshots\<close>

lemma validate_common_Inr:
  "validate_common x request account i action = Inr u \<longleftrightarrow>
     dri_strategy_request_id x = request \<and> dri_account_id x = account \<and> dri_instrument x = i
     \<and> dri_action x = action"
  by (auto simp: validate_common_def)

lemma identity_self_client:
  "validate_identity_self x = Inr u \<Longrightarrow>
     dri_durable_client_order_id x = client_order_id_from_strategy_request (dri_strategy_request_id x)"
  by (auto simp: validate_identity_self_def split: if_splits)

lemma identity_self_domain:
  "validate_identity_self x = Inr u \<Longrightarrow>
     validate_durable_domain (dri_account_id x) (dri_instrument x) (dri_attribution x) (dri_action x) = Inr ()"
  by (cases "validate_durable_domain (dri_account_id x) (dri_instrument x) (dri_attribution x) (dri_action x)")
    (auto simp: validate_identity_self_def split: if_splits)

lemma durable_domain_attribution:
  assumes "validate_durable_domain account i a action = Inr u"
  shows "attribution_try_from a = Inr a"
proof -
  from assms have "validate_source_equivalence a = Inr ()"
    by (cases "validate_source_equivalence a") (auto simp: validate_durable_domain_def split: if_splits)
  then show ?thesis by (simp add: validate_source_equivalence_Inr attribution_try_from_Inr)
qed

definition place_snapshot :: "durable_identity \<Rightarrow> place_order \<Rightarrow> durable_command" where
  "place_snapshot x command = PlaceSnapshot
     \<lparr> dpl_request_id = po_request_id command,
       dpl_durable_client_order_id = po_client_order_id command,
       dpl_account_id = po_account_id command, dpl_instrument = po_instrument command,
       dpl_side = po_side command, dpl_order_type = po_order_type command,
       dpl_quantity = po_qty command, dpl_limit_price = po_limit_price command,
       dpl_time_in_force = po_time_in_force command, dpl_ttl_ms = po_ttl_ms command,
       dpl_created_ts = po_created_ts command, dpl_attribution = dri_attribution x \<rparr>"

lemma snapshot_from_place_Inr:
  "snapshot_from_place x command = Inr s \<longleftrightarrow>
     validate_identity_self x = Inr () \<and>
     dri_strategy_request_id x = po_request_id command \<and> dri_account_id x = po_account_id command \<and>
     dri_instrument x = po_instrument command \<and> dri_action x = DurablePlace \<and>
     po_client_order_id command = dri_durable_client_order_id x \<and>
     po_comment command = Some (hat_internal_comment (dri_attribution x)) \<and>
     validate_durable_place_shape (po_order_type command) (po_qty command) (po_limit_price command) = Inr ()
     \<and> s = place_snapshot x command"
  (is "?l \<longleftrightarrow> ?r")
proof
  assume ?l
  then show ?r
    by (auto simp: snapshot_from_place_def and_then_Inr_iff validate_common_Inr Let_def place_snapshot_def
        split: if_splits)
next
  assume r: ?r
  then have "validate_durable_domain (po_account_id command) (po_instrument command) (dri_attribution x)
      DurablePlace = Inr ()"
    using identity_self_domain [of x "()"] by simp
  moreover from r have "dri_durable_client_order_id x
      = client_order_id_from_strategy_request (po_request_id command)"
    using identity_self_client [of x "()"] by simp
  ultimately show ?l using r
    by (simp add: snapshot_from_place_def validate_common_def Let_def place_snapshot_def)
qed

definition cancel_snapshot :: "durable_identity \<Rightarrow> cancel_order \<Rightarrow> durable_command" where
  "cancel_snapshot x command = CancelSnapshot
     \<lparr> dcl_request_id = co_request_id command,
       dcl_durable_cancel_client_order_id = dri_durable_client_order_id x,
       dcl_account_id = co_account_id command, dcl_instrument = dri_instrument x,
       dcl_target_broker_order_id = co_order_id command,
       dcl_target_order_client_order_id = co_client_order_id command,
       dcl_ttl_ms = co_ttl_ms command, dcl_created_ts = co_created_ts command,
       dcl_attribution = dri_attribution x \<rparr>"

lemma snapshot_from_cancel_Inr:
  "snapshot_from_cancel x command = Inr s \<longleftrightarrow>
     validate_identity_self x = Inr () \<and>
     dri_strategy_request_id x = co_request_id command \<and> dri_account_id x = co_account_id command \<and>
     dri_action x = DurableCancel \<and> dri_target_broker_order_id x = Some (co_order_id command) \<and>
     dri_target_order_client_order_id x = co_client_order_id command \<and> s = cancel_snapshot x command"
  (is "?l \<longleftrightarrow> ?r")
proof
  assume ?l
  then show ?r
    by (auto simp: snapshot_from_cancel_def and_then_Inr_iff Let_def cancel_snapshot_def split: if_splits)
next
  assume r: ?r
  then have "validate_durable_domain (co_account_id command) (dri_instrument x) (dri_attribution x)
      DurableCancel = Inr ()"
    using identity_self_domain [of x "()"] by simp
  moreover from r have "dri_durable_client_order_id x
      = client_order_id_from_strategy_request (co_request_id command)"
    using identity_self_client [of x "()"] by simp
  ultimately show ?l using r
    by (simp add: snapshot_from_cancel_def Let_def cancel_snapshot_def)
qed

lemma snapshot_of_command:
  assumes "matches_broker_command s x command"
  shows "snapshot_broker_command s = command" and "validate_intrinsic s = Inr ()"
    and "validate_snapshot_identity x s = Inr ()" and "validate_identity_self x = Inr ()"
    and "snapshot_wire_ok s" and "snapshot_action s = dri_action x"
proof -
  have "snapshot_broker_command s = command \<and> validate_intrinsic s = Inr () \<and>
      validate_snapshot_identity x s = Inr () \<and> validate_identity_self x = Inr () \<and>
      snapshot_wire_ok s \<and> snapshot_action s = dri_action x"
  proof (cases command)
    case (PlaceOrder place)
    with assms have r: "snapshot_from_place x place = Inr s" by (simp add: matches_broker_command_def)
    note r = r [unfolded snapshot_from_place_Inr]
    from r have domain: "validate_durable_domain (po_account_id place) (po_instrument place)
        (dri_attribution x) DurablePlace = Inr ()"
      using identity_self_domain [of x "()"] by simp
    from r have "po_client_order_id place = client_order_id_from_strategy_request (po_request_id place)"
      using identity_self_client [of x "()"] by simp
    with r domain durable_domain_attribution [OF domain] PlaceOrder show ?thesis
      by (simp add: place_snapshot_def validate_snapshot_identity_def validate_common_def)
  next
    case (CancelOrder cancel)
    with assms have r: "snapshot_from_cancel x cancel = Inr s" by (simp add: matches_broker_command_def)
    note r = r [unfolded snapshot_from_cancel_Inr]
    from r have domain: "validate_durable_domain (co_account_id cancel) (dri_instrument x)
        (dri_attribution x) DurableCancel = Inr ()"
      using identity_self_domain [of x "()"] by simp
    from r have "dri_durable_client_order_id x = client_order_id_from_strategy_request (co_request_id cancel)"
      using identity_self_client [of x "()"] by simp
    with r domain durable_domain_attribution [OF domain] CancelOrder show ?thesis
      by (simp add: cancel_snapshot_def validate_snapshot_identity_def validate_common_def)
  qed
  then show "snapshot_broker_command s = command" "validate_intrinsic s = Inr ()"
    "validate_snapshot_identity x s = Inr ()" "validate_identity_self x = Inr ()"
    "snapshot_wire_ok s" "snapshot_action s = dri_action x" by blast+
qed

section \<open>Records\<close>

lemma build_record_Inr:
  assumes "build_record E x kind payload sequence previous causal_parent evidence = Inr r"
  shows "validate_record E r = Inr ()" and "validate_identity_self x = Inr ()"
    and "drc_identity r = x" and "drc_payload r = payload" and "drc_lifecycle_sequence r = sequence"
    and "drc_previous_record_id r = previous" and "drc_causal_parent_id r = causal_parent"
    and "drc_source_evidence_sha256 r = evidence" and "drc_event_kind r = kind"
  using assms by (auto simp: build_record_def and_then_Inr_iff Let_def)

lemma validate_record_event: "validate_record E r = Inr u \<Longrightarrow> event_matches_payload (drc_event_kind r) (drc_payload r)"
  by (auto simp: validate_record_def Let_def split: if_splits)

text \<open>What a record carries from outside its constructor, as the types of the code guarantee it.\<close>

definition parts_ok ::
    "journal_payload \<Rightarrow> lifecycle_sequence \<Rightarrow> journal_record_id option \<Rightarrow> journal_record_id option
       \<Rightarrow> sha256_digest \<Rightarrow> bool" where
  "parts_ok payload sequence previous causal_parent evidence \<longleftrightarrow>
     payload_wire_ok payload \<and> sequence_get sequence \<noteq> 0 \<and> pred_option record_id_ok previous
     \<and> pred_option record_id_ok causal_parent \<and> digest_ok evidence"

text \<open>
  What is assumed of the libraries for one record: its two digests are not the reserved all-zero
  digest, its JSON is read back as written, announces schema version 1 and fits a frame.
\<close>

definition record_env_ok :: "'later versioned_env \<Rightarrow> durable_record \<Rightarrow> bool" where
  "record_env_ok V r \<longleftrightarrow>
     record_id_ok (drc_journal_record_id r) \<and> digest_ok (drc_canonical_payload_sha256 r)
     \<and> s6_record_wire (ve_v1 V) (s6_record_json (ve_v1 V) r) = Some r
     \<and> ve_probe V (s6_record_json (ve_v1 V) r) = Inr 1
     \<and> length (s6_record_json (ve_v1 V) r) \<in> {1..max_record_bytes}"

lemma decode_built_record:
  assumes "build_record (ve_v1 V) x kind payload sequence previous causal_parent evidence = Inr r"
    and "parts_ok payload sequence previous causal_parent evidence" and "record_env_ok V r"
  shows "decode_record (ve_v1 V) (s6_record_json (ve_v1 V) r) = Inr r"
proof -
  note built = build_record_Inr [OF assms(1)]
  have "validate_durable_domain (dri_account_id x) (dri_instrument x) (dri_attribution x) (dri_action x) = Inr ()"
    using built(2) by (rule identity_self_domain)
  then have "identity_wire_ok (drc_identity r)"
    using durable_domain_attribution built(2,3) by (simp add: identity_wire_ok_def)
  then have "record_wire_ok r"
    using assms(2,3) built by (simp add: record_wire_ok_def parts_ok_def record_env_ok_def)
  then show ?thesis
    using assms(3) built(1) by (simp add: decode_record_def deserialize_record_def record_env_ok_def)
qed

lemma built_record_storable:
  assumes "build_record (ve_v1 V) x kind payload sequence previous causal_parent evidence = Inr r"
    and "parts_ok payload sequence previous causal_parent evidence" and "record_env_ok V r"
  shows "storable (versioned_codec V) (RecordV1 r)"
proof -
  have "versioned_decode V (s6_record_json (ve_v1 V) r) = Inr (RecordV1 r)"
    using decode_built_record [OF assms] assms(3)
    by (simp add: versioned_decode_def map_err_def record_env_ok_def)
  moreover have "is_ok (validate_record_length (length (s6_record_json (ve_v1 V) r)))"
    using assms(3) by (auto simp: validate_record_length_def record_env_ok_def max_record_bytes_def)
  ultimately show ?thesis
    by (auto simp: storable_def validate_versioned_record_for_storage_def versioned_codec_def map_err_def
        and_then_def split: sum.splits)
qed

text \<open>The decoder accepts an encoding only, if that of the later versions does.\<close>

lemma versioned_canonical_decoder:
  assumes "\<And>version bs r. ve_later_decode V version bs = Inr r \<Longrightarrow> ve_later_encode V r = bs"
  shows "canonical_decoder (versioned_codec V)"
  using assms
  by (auto simp: canonical_decoder_def versioned_codec_def versioned_decode_def decode_record_def
      map_err_def and_then_Inr_iff split: if_splits sum.splits)

text \<open>A snapshot pins its command. Whatever command a snapshot was taken of, placing or
  cancelling, the snapshot gives back exactly that command, its recomputed digest is the
  SHA-256 of that command's JSON, and a record of the request accepts it.\<close>

theorem snapshot_recovers_command:
  assumes "(case command of PlaceOrder place \<Rightarrow> snapshot_from_place x place
      | CancelOrder cancel \<Rightarrow> snapshot_from_cancel x cancel) = Inr snapshot"
  shows "snapshot_broker_command snapshot = command \<and>
    canonical_broker_command_sha256 sha json snapshot x = Inr (digest_of sha (json command)) \<and>
    validate_snapshot_identity x snapshot = Inr ()"
proof -
  have m: "matches_broker_command snapshot x command"
    using assms by (cases command) (simp_all add: matches_broker_command_def)
  note facts = snapshot_of_command [OF m]
  have "canonical_broker_command_sha256 sha json snapshot x = Inr (digest_of sha (json command))"
    using facts m by (simp add: canonical_broker_command_sha256_def)
  with facts show ?thesis by simp
qed

definition sample_attribution :: hybrid_attribution where
  "sample_attribution = \<lparr> hat_internal_comment = ''HYB|sid=s|c=c1|o=BO|r=ENTRY'', hat_strategy_id = ''s'',
     hat_cycle_id = ''c1'', hat_owner = Some IntradayBreakout, hat_role = Some HybridEntry \<rparr>"

definition sample_instrument :: instrument_id where
  "sample_instrument = \<lparr> ins_symbol = ''S'', ins_venue_symbol = None, ins_exchange = Moex, ins_market = Futures \<rparr>"

definition sample_request :: strategy_request_id where
  "sample_request = StrategyRequestId (replicate 16 1)"

definition sample_command :: place_order where
  "sample_command = \<lparr> po_request_id = sample_request, po_created_ts = 0, po_ttl_ms = None,
     po_account_id = BrokerAccountId ''A'',
     po_client_order_id = client_order_id_from_strategy_request sample_request,
     po_instrument = sample_instrument, po_side = Buy, po_order_type = Market, po_qty = 1,
     po_limit_price = None, po_time_in_force = Day, po_comment = Some ''HYB|sid=s|c=c1|o=BO|r=ENTRY'' \<rparr>"

definition sample_identity :: durable_identity where
  "sample_identity = \<lparr> dri_strategy_request_id = sample_request,
     dri_durable_client_order_id = client_order_id_from_strategy_request sample_request,
     dri_account_id = BrokerAccountId ''A'', dri_instrument = sample_instrument,
     dri_attribution = sample_attribution, dri_action = DurablePlace,
     dri_target_broker_order_id = None, dri_target_order_client_order_id = None \<rparr>"

lemma sample_attribution_ok: "validate_source_equivalence sample_attribution = Inr ()"
  by code_simp

lemma sample_identity_ok: "validate_identity_self sample_identity = Inr ()"
proof -
  have "hat_owner sample_attribution = Some IntradayBreakout" "hat_role sample_attribution = Some HybridEntry"
    "hat_strategy_id sample_attribution \<noteq> []" "hat_cycle_id sample_attribution \<noteq> []"
    by (simp_all add: sample_attribution_def)
  then show ?thesis
    by (simp add: validate_identity_self_def sample_identity_def validate_durable_domain_def
        sample_attribution_ok role_fits_action_def sample_instrument_def)
qed

lemma sample_snapshot:
  "snapshot_from_place sample_identity sample_command = Inr (place_snapshot sample_identity sample_command)"
  unfolding snapshot_from_place_Inr using sample_identity_ok
  by (simp add: sample_identity_def sample_command_def sample_attribution_def validate_durable_place_shape_def)

theorem snapshot_recovers_command_witness:
  "snapshot_broker_command (place_snapshot sample_identity sample_command) = PlaceOrder sample_command \<and>
   canonical_broker_command_sha256 sample_sha (\<lambda>_. []) (place_snapshot sample_identity sample_command)
     sample_identity = Inr (digest_of sample_sha []) \<and>
   validate_snapshot_identity sample_identity (place_snapshot sample_identity sample_command) = Inr ()"
  using snapshot_recovers_command [where command = "PlaceOrder sample_command" and x = sample_identity
      and sha = sample_sha and json = "\<lambda>_. []"]
    sample_snapshot by simp

end
