(* ===== verification/BTreeMaps.thy ===== *)
theory BTreeMaps
  imports Prelude "HOL-Library.List_Lexorder" "HOL-Library.Char_ord"
begin

text \<open>
  The standard library's \<open>BTreeMap\<close> as the list of its entries in key order: \<open>insert\<close>
  overwrites, \<open>get\<close> is \<open>map_of\<close>, iteration yields the list. Strings compare by their bytes.
\<close>

fun btree_insert :: "'k::linorder \<Rightarrow> 'v \<Rightarrow> ('k \<times> 'v) list \<Rightarrow> ('k \<times> 'v) list" where
  "btree_insert k v [] = [(k, v)]"
| "btree_insert k v ((k', v') # m) =
     (if k < k' then (k, v) # (k', v') # m
      else if k = k' then (k, v) # m
      else (k', v') # btree_insert k v m)"

definition btree_wf :: "('k::linorder \<times> 'v) list \<Rightarrow> bool" where
  "btree_wf m \<longleftrightarrow> sorted_wrt (<) (map fst m)"

lemma btree_wf_Nil [simp]: "btree_wf []"
  by (simp add: btree_wf_def)

lemma btree_insert_keys: "fst ` set (btree_insert k v m) = insert k (fst ` set m)"
proof (induction m)
  case (Cons p m)
  obtain k' v' where p: "p = (k', v')" by (cases p)
  consider "k < k'" | "k = k'" | "k' < k" by fastforce
  then show ?case using Cons by cases (simp_all add: p insert_commute)
qed simp

lemma btree_wf_insert [simp]: "btree_wf m \<Longrightarrow> btree_wf (btree_insert k v m)"
proof (induction m)
  case (Cons p m)
  obtain k' v' where p: "p = (k', v')" by (cases p)
  from Cons.prems have ks: "\<forall>x \<in> fst ` set m. k' < x" and wf: "btree_wf m"
    by (auto simp: btree_wf_def p)
  have "btree_wf (btree_insert k v m)" by (rule Cons.IH [OF wf])
  moreover have "\<forall>x \<in> fst ` set (btree_insert k v m). k' < x" if "k' < k"
    using ks that by (simp add: btree_insert_keys)
  ultimately show ?case using ks wf
    by (auto simp: btree_wf_def p)
qed (simp add: btree_wf_def)

lemma btree_get_insert [simp]:
  assumes "btree_wf m"
  shows "map_of (btree_insert k v m) k' = (if k' = k then Some v else map_of m k')"
  using assms
proof (induction m)
  case (Cons p m)
  obtain q w where p: "p = (q, w)" by (cases p)
  from Cons.prems have wf: "btree_wf m" by (simp add: btree_wf_def p)
  show ?case using Cons.IH [OF wf] by (auto simp: p)
qed simp

lemma btree_wf_distinct: "btree_wf m \<Longrightarrow> distinct (map fst m)"
  by (simp add: btree_wf_def strict_sorted_iff)

lemma btree_ext:
  assumes "btree_wf m" and "btree_wf m'" and "map_of m = map_of m'"
  shows "m = m'"
proof (rule map_sorted_distinct_set_unique [where f = fst])
  note d = assms(1,2) [THEN btree_wf_distinct]
  then show "distinct (map fst m)" "distinct (map fst m')" by simp_all
  show "sorted (map fst m)" "sorted (map fst m')"
    using assms(1,2) by (simp_all add: btree_wf_def strict_sorted_imp_sorted)
  show "set m = set m'"
    using d assms(3) by (metis map_of_eq_Some_iff subsetI subset_antisym surj_pair)
  show "inj_on fst (set m \<union> set m')"
    using d \<open>set m = set m'\<close> by (simp add: distinct_map)
qed

end
