(* ===== verification/Replay.thy ===== *)
theory Replay
  imports DurableRecords BTreeMaps
begin

text \<open>
  The crash/replay state machine of Stage 6 (\<open>strategy-runtime-core/src/stage6_replay.rs\<close>): the
  state of one request as its records are applied, and the replay of a whole journal into the
  recovered requests. UUID display and the serde texts are a \<open>replay_env\<close>.

  An error leaves the caller with no state: \<open>replay\<close> returns it and drops everything, so the
  operations here return the error alone. The additions of the code have overflow checks;
  their panic is the error \<open>ReplayPanic\<close>.
\<close>

section \<open>States, errors and results\<close>

datatype dispatch_safety_state =
  ReadyForFirstDispatch | DispatchReconciliationRequired | RetryEligibleSameIdentity | DispatchForbidden

datatype replay_error =
    SequenceStartInvalid | SequenceGap | PreviousRecordMismatch | IdentityDrift | ConflictingReplay
  | CausalParentMissing | DispatchAttemptInvalid | BlindRedispatchBlocked | BrokerOrderConflict
  | BrokerTradeConflict | CancelTargetConflict | CancelOutcomeConflict | ReplayInvalidActionEvent
  | EventAfterFinalization | ReplayInvalidTransition | ReplayPanic

record recovered_request =
  rrq_strategy_request_id :: strategy_request_id
  rrq_durable_client_order_id :: client_order_id
  rrq_action :: durable_action
  rrq_last_unique_sequence :: u64
  rrq_last_unique_record_id :: journal_record_id
  rrq_dispatch_safety_state :: dispatch_safety_state
  rrq_dispatch_attempt_count :: u32
  rrq_known_broker_order_id :: "broker_order_id option"
  rrq_observed_broker_trade_ids :: "broker_trade_id list"
  rrq_cancel_outcome :: "cancel_outcome option"
  rrq_final_disposition :: "request_final_disposition option"
  rrq_conflict_observed :: bool

record replay_snapshot =
  rps_replay_schema_version :: u16
  rps_requests :: "recovered_request list"
  rps_semantic_fingerprint :: sha256_digest

definition replay_schema_version :: u16 where
  "replay_schema_version = 1"

record replay_env =
  rpe_stage6 :: stage6_env
  rpe_uuid_str :: "strategy_request_id \<Rightarrow> string"
  rpe_attribution_json :: "hybrid_attribution \<Rightarrow> bytes"
  rpe_request_json :: "recovered_request \<Rightarrow> bytes"
  rpe_fingerprint_json :: "u16 \<Rightarrow> recovered_request list \<Rightarrow> bytes"

definition request_fingerprint :: "replay_env \<Rightarrow> recovered_request \<Rightarrow> sha256_digest" where
  "request_fingerprint R q = digest_of (s6_sha (rpe_stage6 R)) (rpe_request_json R q)"

definition find_request :: "replay_snapshot \<Rightarrow> strategy_request_id \<Rightarrow> recovered_request option" where
  "find_request s request = find (\<lambda>q. rrq_strategy_request_id q = request) (rps_requests s)"

text \<open>The digest must parse, so an all-zero digest is a panic.\<close>

definition replay_fingerprint ::
    "replay_env \<Rightarrow> recovered_request list \<Rightarrow> replay_error + sha256_digest" where
  "replay_fingerprint R requests =
     map_err (\<lambda>_. ReplayPanic) (digest_parse (hex_string (s6_sha (rpe_stage6 R)
       (ascii_bytes ''stage6-replay-snapshot-v1''
          @ rpe_fingerprint_json R replay_schema_version requests))))"

definition from_recovered_requests ::
    "replay_env \<Rightarrow> recovered_request list \<Rightarrow> replay_error + replay_snapshot" where
  "from_recovered_requests R requests =
     and_then (replay_fingerprint R requests) (\<lambda>fingerprint.
       Inr \<lparr> rps_replay_schema_version = replay_schema_version, rps_requests = requests,
             rps_semantic_fingerprint = fingerprint \<rparr>)"

section \<open>One request\<close>

record working_request =
  wrq_identity :: durable_identity
  wrq_accepted_payload_sha256 :: sha256_digest
  wrq_last_sequence :: u64
  wrq_last_record_id :: journal_record_id
  wrq_dispatch_safety_state :: dispatch_safety_state
  wrq_dispatch_attempt_count :: u32
  wrq_known_broker_order_id :: "broker_order_id option"
  wrq_trades :: "(string \<times> broker_order_id) list"
  wrq_cancel_outcome :: "cancel_outcome option"
  wrq_final_disposition :: "request_final_disposition option"
  wrq_conflict_observed :: bool

definition from_first :: "durable_record \<Rightarrow> replay_error + working_request" where
  "from_first r =
     (if drc_event_kind r \<noteq> RequestAcceptedKind \<or> sequence_get (drc_lifecycle_sequence r) \<noteq> 1
         \<or> drc_previous_record_id r \<noteq> None
      then Inl SequenceStartInvalid
      else Inr \<lparr> wrq_identity = drc_identity r,
             wrq_accepted_payload_sha256 = drc_canonical_payload_sha256 r,
             wrq_last_sequence = 1, wrq_last_record_id = drc_journal_record_id r,
             wrq_dispatch_safety_state = ReadyForFirstDispatch, wrq_dispatch_attempt_count = 0,
             wrq_known_broker_order_id = None, wrq_trades = [], wrq_cancel_outcome = None,
             wrq_final_disposition = None, wrq_conflict_observed = False \<rparr>)"

definition validate_identity ::
    "working_request \<Rightarrow> durable_identity \<Rightarrow> replay_error + unit" where
  "validate_identity w observed =
     (if dri_action (wrq_identity w) = DurableCancel
         \<and> (dri_target_broker_order_id (wrq_identity w) \<noteq> dri_target_broker_order_id observed
            \<or> dri_target_order_client_order_id (wrq_identity w) \<noteq> dri_target_order_client_order_id observed)
      then Inl CancelTargetConflict
      else if wrq_identity w \<noteq> observed then Inl IdentityDrift
      else Inr ())"

definition validate_event_for_action ::
    "durable_action \<Rightarrow> journal_payload \<Rightarrow> replay_error + unit" where
  "validate_event_for_action action payload =
     (if action_allows_payload action payload then Inr () else Inl ReplayInvalidActionEvent)"

definition u64_add :: "u64 \<Rightarrow> u64 \<Rightarrow> u64 option" where
  "u64_add a b = (if unat a + unat b < 2 ^ 64 then Some (a + b) else None)"

text \<open>The checks on the position of a record that \<open>apply\<close> and \<open>advance_causal_only\<close> share.\<close>

definition check_position ::
    "working_request \<Rightarrow> durable_identity \<Rightarrow> lifecycle_sequence \<Rightarrow> journal_record_id option
       \<Rightarrow> replay_error + unit" where
  "check_position w x sequence previous =
     and_then (validate_identity w x) (\<lambda>_.
       if wrq_final_disposition w \<noteq> None then Inl EventAfterFinalization
       else and_then (ok_or (u64_add (wrq_last_sequence w) 1) ReplayPanic) (\<lambda>expected.
         if sequence_get sequence \<noteq> expected then Inl SequenceGap
         else if previous \<noteq> Some (wrq_last_record_id w) then Inl PreviousRecordMismatch
         else Inr ()))"

definition require_dispatch_attempt :: "working_request \<Rightarrow> replay_error + unit" where
  "require_dispatch_attempt w =
     (if wrq_dispatch_attempt_count w = 0 then Inl ReplayInvalidTransition else Inr ())"

definition establish_broker_order ::
    "working_request \<Rightarrow> broker_order_id \<Rightarrow> replay_error + working_request" where
  "establish_broker_order w order =
     (if wrq_known_broker_order_id w \<noteq> None \<and> wrq_known_broker_order_id w \<noteq> Some order
      then Inl BrokerOrderConflict
      else Inr (w \<lparr> wrq_known_broker_order_id := Some order \<rparr>))"

definition apply_dispatch_attempt ::
    "working_request \<Rightarrow> u32 \<Rightarrow> sha256_digest \<Rightarrow> replay_error + working_request" where
  "apply_dispatch_attempt w attempt_ordinal accepted =
     (if accepted \<noteq> wrq_accepted_payload_sha256 w then Inl DispatchAttemptInvalid
      else and_then (ok_or (u32_add (wrq_dispatch_attempt_count w) 1) ReplayPanic) (\<lambda>expected.
        if attempt_ordinal \<noteq> expected then Inl DispatchAttemptInvalid
        else let accept = Inr (w \<lparr> wrq_dispatch_attempt_count := attempt_ordinal,
               wrq_dispatch_safety_state := DispatchReconciliationRequired \<rparr>)
          in case wrq_dispatch_safety_state w of
               ReadyForFirstDispatch \<Rightarrow>
                 if wrq_dispatch_attempt_count w = 0 \<and> attempt_ordinal = 1 then accept
                 else Inl DispatchAttemptInvalid
             | RetryEligibleSameIdentity \<Rightarrow>
                 if dri_action (wrq_identity w) = DurablePlace then accept
                 else Inl ReplayInvalidActionEvent
             | DispatchReconciliationRequired \<Rightarrow> Inl BlindRedispatchBlocked
             | DispatchForbidden \<Rightarrow> Inl DispatchAttemptInvalid))"

definition apply_reconciliation ::
    "working_request \<Rightarrow> reconciliation_disposition \<Rightarrow> replay_error + working_request" where
  "apply_reconciliation w disposition =
     and_then (require_dispatch_attempt w) (\<lambda>_.
       case disposition of
         NoBrokerOrderFound \<Rightarrow>
           if dri_action (wrq_identity w) \<noteq> DurablePlace then Inl ReplayInvalidActionEvent
           else if wrq_dispatch_safety_state w \<noteq> DispatchReconciliationRequired
              \<or> wrq_known_broker_order_id w \<noteq> None
           then Inl ReplayInvalidTransition
           else Inr (w \<lparr> wrq_dispatch_safety_state := RetryEligibleSameIdentity \<rparr>)
       | BrokerOrderFound order \<Rightarrow>
           if dri_action (wrq_identity w) \<noteq> DurablePlace then Inl ReplayInvalidActionEvent
           else and_then (establish_broker_order w order) (\<lambda>w'.
             Inr (w' \<lparr> wrq_dispatch_safety_state := DispatchForbidden \<rparr>))
       | Inconclusive \<Rightarrow>
           if wrq_dispatch_safety_state w \<noteq> DispatchReconciliationRequired
              \<or> wrq_known_broker_order_id w \<noteq> None
           then Inl ReplayInvalidTransition
           else Inr w)"

definition observe_trade ::
    "working_request \<Rightarrow> broker_trade_id \<Rightarrow> broker_order_id \<Rightarrow> replay_error + working_request" where
  "observe_trade w trade order =
     (case map_of (wrq_trades w) (broker_trade_id_str trade) of
        Some existing \<Rightarrow> if existing \<noteq> order then Inl BrokerTradeConflict else Inr w
      | None \<Rightarrow> Inr (w \<lparr> wrq_trades := btree_insert (broker_trade_id_str trade) order (wrq_trades w) \<rparr>))"

definition apply_payload ::
    "working_request \<Rightarrow> journal_payload \<Rightarrow> replay_error + working_request" where
  "apply_payload w payload = (case payload of
     RequestAccepted command \<Rightarrow> Inl ReplayInvalidTransition
   | DispatchAttemptRecorded attempt_ordinal accepted \<Rightarrow>
       apply_dispatch_attempt w attempt_ordinal accepted
   | BrokerOrderObserved order \<Rightarrow>
       and_then (require_dispatch_attempt w) (\<lambda>_.
       and_then (establish_broker_order w order) (\<lambda>w'.
         Inr (w' \<lparr> wrq_dispatch_safety_state := DispatchForbidden \<rparr>)))
   | BrokerTradeObserved trade order \<Rightarrow>
       and_then (require_dispatch_attempt w) (\<lambda>_.
       and_then (observe_trade w trade order) (\<lambda>w'.
       and_then (establish_broker_order w' order) (\<lambda>w''.
         Inr (w'' \<lparr> wrq_dispatch_safety_state := DispatchForbidden \<rparr>))))
   | ReconciliationObserved disposition \<Rightarrow> apply_reconciliation w disposition
   | CancelOutcomeObserved target outcome \<Rightarrow>
       (if dri_action (wrq_identity w) \<noteq> DurableCancel
           \<or> dri_target_broker_order_id (wrq_identity w) \<noteq> Some target
        then Inl CancelTargetConflict
        else and_then (require_dispatch_attempt w) (\<lambda>_.
          if wrq_cancel_outcome w \<noteq> None then Inl CancelOutcomeConflict
          else Inr (w \<lparr> wrq_cancel_outcome := Some outcome,
                        wrq_dispatch_safety_state := DispatchForbidden \<rparr>)))
   | RequestFinalized disposition \<Rightarrow>
       Inr (w \<lparr> wrq_final_disposition := Some disposition,
                wrq_dispatch_safety_state := DispatchForbidden \<rparr>)
   | ConflictObserved kind conflicting expected observed \<Rightarrow>
       Inr (w \<lparr> wrq_conflict_observed := True, wrq_dispatch_safety_state := DispatchForbidden \<rparr>)
   | MarkerPayload \<Rightarrow> Inl ReplayInvalidTransition)"

definition apply_record :: "working_request \<Rightarrow> durable_record \<Rightarrow> replay_error + working_request" where
  "apply_record w r =
     and_then (check_position w (drc_identity r) (drc_lifecycle_sequence r) (drc_previous_record_id r)) (\<lambda>_.
     and_then (validate_event_for_action (dri_action (wrq_identity w)) (drc_payload r)) (\<lambda>_.
     and_then (apply_payload w (drc_payload r)) (\<lambda>w'.
       Inr (w' \<lparr> wrq_last_sequence := sequence_get (drc_lifecycle_sequence r),
                 wrq_last_record_id := drc_journal_record_id r \<rparr>))))"

definition advance_causal_only ::
    "working_request \<Rightarrow> durable_identity \<Rightarrow> lifecycle_sequence \<Rightarrow> journal_record_id option
       \<Rightarrow> journal_record_id \<Rightarrow> replay_error + working_request" where
  "advance_causal_only w x sequence previous record_id =
     and_then (check_position w x sequence previous) (\<lambda>_.
       Inr (w \<lparr> wrq_last_sequence := sequence_get sequence, wrq_last_record_id := record_id \<rparr>))"

definition is_finalized :: "working_request \<Rightarrow> bool" where
  "is_finalized w \<longleftrightarrow> wrq_final_disposition w \<noteq> None"

definition into_recovered :: "working_request \<Rightarrow> recovered_request" where
  "into_recovered w =
     \<lparr> rrq_strategy_request_id = dri_strategy_request_id (wrq_identity w),
       rrq_durable_client_order_id = dri_durable_client_order_id (wrq_identity w),
       rrq_action = dri_action (wrq_identity w),
       rrq_last_unique_sequence = wrq_last_sequence w,
       rrq_last_unique_record_id = wrq_last_record_id w,
       rrq_dispatch_safety_state = wrq_dispatch_safety_state w,
       rrq_dispatch_attempt_count = wrq_dispatch_attempt_count w,
       rrq_known_broker_order_id = wrq_known_broker_order_id w,
       rrq_observed_broker_trade_ids = map (BrokerTradeId \<circ> fst) (wrq_trades w),
       rrq_cancel_outcome = wrq_cancel_outcome w,
       rrq_final_disposition = wrq_final_disposition w,
       rrq_conflict_observed = wrq_conflict_observed w \<rparr>"

section \<open>The outcome of a working limit order\<close>

datatype replay_effect_kind =
    PlaceEffect broker_order_id "broker_trade_id option"
  | CancelEffect broker_order_id client_order_id cancel_outcome

record replay_effect =
  rfx_request_id :: strategy_request_id
  rfx_durable_request_client_id :: client_order_id
  rfx_account_id :: broker_account_id
  rfx_instrument :: instrument_id
  rfx_attribution_fingerprint_sha256 :: string
  rfx_accepted_command_payload_sha256 :: string
  rfx_accepted_stage6_identity_sha256 :: string
  rfx_stage6_dispatch_record_id :: string
  rfx_kind :: replay_effect_kind

definition effect_drifts :: "working_request \<Rightarrow> replay_effect \<Rightarrow> lifecycle_sequence \<Rightarrow> bool" where
  "effect_drifts w f sequence \<longleftrightarrow>
     rfx_request_id f \<noteq> dri_strategy_request_id (wrq_identity w)
     \<or> rfx_durable_request_client_id f \<noteq> dri_durable_client_order_id (wrq_identity w)
     \<or> rfx_account_id f \<noteq> dri_account_id (wrq_identity w)
     \<or> rfx_instrument f \<noteq> dri_instrument (wrq_identity w)
     \<or> rfx_accepted_command_payload_sha256 f \<noteq> digest_str (wrq_accepted_payload_sha256 w)
     \<or> rfx_stage6_dispatch_record_id f \<noteq> record_id_str (wrq_last_record_id w)
     \<or> sequence_get sequence \<le> wrq_last_sequence w
     \<or> wrq_dispatch_attempt_count w \<noteq> 1
     \<or> wrq_dispatch_safety_state w \<noteq> DispatchReconciliationRequired"

definition apply_effect_kind ::
    "working_request \<Rightarrow> replay_effect_kind \<Rightarrow> replay_error + working_request" where
  "apply_effect_kind w kind = (case kind of
     PlaceEffect order trade \<Rightarrow>
       if dri_action (wrq_identity w) \<noteq> DurablePlace
          \<or> dri_target_broker_order_id (wrq_identity w) \<noteq> None
          \<or> dri_target_order_client_order_id (wrq_identity w) \<noteq> None
       then Inl ReplayInvalidActionEvent
       else and_then (establish_broker_order w order) (\<lambda>w'.
         case trade of
           None \<Rightarrow> Inr w'
         | Some t \<Rightarrow>
             if map_of (wrq_trades w') (broker_trade_id_str t) \<noteq> None then Inl BrokerTradeConflict
             else Inr (w' \<lparr> wrq_trades := btree_insert (broker_trade_id_str t) order (wrq_trades w') \<rparr>))
   | CancelEffect target target_client outcome \<Rightarrow>
       if dri_action (wrq_identity w) \<noteq> DurableCancel
          \<or> dri_target_broker_order_id (wrq_identity w) \<noteq> Some target
          \<or> (dri_target_order_client_order_id (wrq_identity w) \<noteq> None
             \<and> dri_target_order_client_order_id (wrq_identity w) \<noteq> Some target_client)
       then Inl CancelTargetConflict
       else if wrq_cancel_outcome w \<noteq> None then Inl CancelOutcomeConflict
       else Inr (w \<lparr> wrq_cancel_outcome := Some outcome \<rparr>))"

definition apply_p1d3_outcome ::
    "replay_env \<Rightarrow> working_request \<Rightarrow> replay_effect \<Rightarrow> lifecycle_sequence \<Rightarrow> journal_record_id
       \<Rightarrow> replay_error + working_request" where
  "apply_p1d3_outcome R w f sequence record_id =
     (if wrq_final_disposition w \<noteq> None then Inl EventAfterFinalization
      else if effect_drifts w f sequence then Inl IdentityDrift
      else if rfx_attribution_fingerprint_sha256 f
              \<noteq> hex_string (s6_sha (rpe_stage6 R)
                   (rpe_attribution_json R (dri_attribution (wrq_identity w))))
      then Inl IdentityDrift
      else if \<not> is_ok (digest_parse (rfx_accepted_stage6_identity_sha256 f)) then Inl IdentityDrift
      else and_then (apply_effect_kind w (rfx_kind f)) (\<lambda>w'.
        Inr (w' \<lparr> wrq_dispatch_safety_state := DispatchForbidden,
                  wrq_last_sequence := sequence_get sequence, wrq_last_record_id := record_id \<rparr>)))"

section \<open>A journal\<close>

text \<open>The two maps of the loop: canonical bytes by record id, and requests by id.\<close>

type_synonym replay_loop_state = "(string \<times> bytes) list \<times> (string \<times> working_request) list"

definition replay_record ::
    "replay_env \<Rightarrow> replay_loop_state \<Rightarrow> durable_record \<Rightarrow> replay_error + replay_loop_state" where
  "replay_record R st r =
     (let (seen, requests) = st;
          record_key = record_id_str (drc_journal_record_id r);
          canonical = s6_record_json (rpe_stage6 R) r;
          request_key = rpe_uuid_str R (dri_strategy_request_id (drc_identity r))
      in case map_of seen record_key of
           Some previous \<Rightarrow> if previous = canonical then Inr st else Inl ConflictingReplay
         | None \<Rightarrow>
             (if (case drc_causal_parent_id r of
                    None \<Rightarrow> False | Some parent \<Rightarrow> map_of seen (record_id_str parent) = None)
              then Inl CausalParentMissing
              else and_then (case map_of requests request_key of
                     None \<Rightarrow> from_first r
                   | Some w \<Rightarrow> apply_record w r) (\<lambda>w.
                Inr (btree_insert record_key canonical seen, btree_insert request_key w requests))))"

fun replay_records ::
    "replay_env \<Rightarrow> replay_loop_state \<Rightarrow> durable_record list \<Rightarrow> replay_error + replay_loop_state" where
  "replay_records R st [] = Inr st"
| "replay_records R st (r # rs) = and_then (replay_record R st r) (\<lambda>st'. replay_records R st' rs)"

definition replay_journal :: "replay_env \<Rightarrow> durable_record list \<Rightarrow> replay_error + replay_snapshot" where
  "replay_journal R records =
     and_then (replay_records R ([], []) records) (\<lambda>(seen, requests).
       from_recovered_requests R (map (into_recovered \<circ> snd) requests))"

end
