(* ===== verification/ReplayFacts.thy ===== *)
theory ReplayFacts
  imports Replay
begin

text \<open>
  What replay guarantees: no second dispatch without a reconciliation that found no broker
  order, one request at a time, no matter how the journal interleaves or repeats the records.
\<close>

section \<open>The steps of one request\<close>

lemmas apply_defs = apply_record_def check_position_def validate_identity_def
  validate_event_for_action_def apply_payload_def apply_dispatch_attempt_def apply_reconciliation_def
  observe_trade_def establish_broker_order_def require_dispatch_attempt_def

fun is_dispatch_attempt :: "journal_payload \<Rightarrow> bool" where
  "is_dispatch_attempt (DispatchAttemptRecorded n d) = True"
| "is_dispatch_attempt payload = False"

fun is_conflict :: "journal_payload \<Rightarrow> bool" where
  "is_conflict (ConflictObserved k i e x) = True"
| "is_conflict payload = False"

text \<open>The broker order a payload attests, and whether the payload settles the request's dispatch.\<close>

fun attested_order :: "journal_payload \<Rightarrow> broker_order_id option" where
  "attested_order (BrokerOrderObserved order) = Some order"
| "attested_order (BrokerTradeObserved trade order) = Some order"
| "attested_order (ReconciliationObserved (BrokerOrderFound order)) = Some order"
| "attested_order payload = None"

fun forbids_dispatch :: "journal_payload \<Rightarrow> bool" where
  "forbids_dispatch (BrokerOrderObserved order) = True"
| "forbids_dispatch (BrokerTradeObserved trade order) = True"
| "forbids_dispatch (ReconciliationObserved (BrokerOrderFound order)) = True"
| "forbids_dispatch (CancelOutcomeObserved target outcome) = True"
| "forbids_dispatch (RequestFinalized disposition) = True"
| "forbids_dispatch (ConflictObserved k i e x) = True"
| "forbids_dispatch payload = False"

lemma u64_add_Some: "u64_add a b = Some c \<Longrightarrow> unat c = unat a + unat b"
  by (auto simp: u64_add_def unat_word_ariths split: if_splits)

lemma apply_record_position:
  assumes "apply_record w r = Inr w'"
  shows "drc_identity r = wrq_identity w" and "wrq_final_disposition w = None"
    and "u64_add (wrq_last_sequence w) 1 = Some (sequence_get (drc_lifecycle_sequence r))"
    and "drc_previous_record_id r = Some (wrq_last_record_id w)"
    and "action_allows_payload (dri_action (wrq_identity w)) (drc_payload r)"
    and "wrq_last_sequence w' = sequence_get (drc_lifecycle_sequence r)"
    and "wrq_last_record_id w' = drc_journal_record_id r"
  using assms
  by (auto simp: apply_record_def check_position_def validate_identity_def validate_event_for_action_def
      and_then_Inr_iff ok_or_Inr_iff split: if_splits)

lemma apply_record_payload:
  assumes "apply_record w r = Inr w'"
  obtains w1 where "apply_payload w (drc_payload r) = Inr w1"
    and "w' = w1 \<lparr> wrq_last_sequence := sequence_get (drc_lifecycle_sequence r),
                   wrq_last_record_id := drc_journal_record_id r \<rparr>"
  using assms by (auto simp: apply_record_def and_then_Inr_iff)

lemma apply_payload_frame:
  assumes "apply_payload w payload = Inr w'"
  shows "wrq_identity w' = wrq_identity w"
    and "wrq_accepted_payload_sha256 w' = wrq_accepted_payload_sha256 w"
    and "wrq_last_sequence w' = wrq_last_sequence w" and "wrq_last_record_id w' = wrq_last_record_id w"
  using assms
  by (auto simp: apply_defs and_then_Inr_iff Let_def
      split: journal_payload.splits reconciliation_disposition.splits if_splits
        dispatch_safety_state.splits option.splits)

lemma apply_payload_state:
  assumes "apply_payload w payload = Inr w'"
  shows "wrq_dispatch_safety_state w' =
    (if is_dispatch_attempt payload then DispatchReconciliationRequired
     else if forbids_dispatch payload then DispatchForbidden
     else if payload = ReconciliationObserved NoBrokerOrderFound then RetryEligibleSameIdentity
     else wrq_dispatch_safety_state w)"
  using assms
  by (auto simp: apply_defs and_then_Inr_iff Let_def
      split: journal_payload.splits reconciliation_disposition.splits if_splits
        dispatch_safety_state.splits option.splits)

lemma apply_payload_count:
  assumes "apply_payload w payload = Inr w'"
  shows "unat (wrq_dispatch_attempt_count w') =
    unat (wrq_dispatch_attempt_count w) + (if is_dispatch_attempt payload then 1 else 0)"
  using assms
  by (auto simp: apply_defs and_then_Inr_iff ok_or_Inr_iff Let_def dest!: u32_add_Some
      split: journal_payload.splits reconciliation_disposition.splits if_splits
        dispatch_safety_state.splits option.splits)

lemma apply_payload_known:
  assumes "apply_payload w payload = Inr w'"
  shows "wrq_known_broker_order_id w' =
      (case attested_order payload of None \<Rightarrow> wrq_known_broker_order_id w | Some order \<Rightarrow> Some order)"
    and "attested_order payload = Some order \<Longrightarrow>
      wrq_known_broker_order_id w = None \<or> wrq_known_broker_order_id w = Some order"
  using assms
  by (auto simp: apply_defs and_then_Inr_iff Let_def
      split: journal_payload.splits reconciliation_disposition.splits if_splits
        dispatch_safety_state.splits option.splits)

lemma apply_payload_flags:
  assumes "apply_payload w payload = Inr w'"
  shows "wrq_conflict_observed w' = (wrq_conflict_observed w \<or> is_conflict payload)"
    and "wrq_final_disposition w' =
      (case payload of RequestFinalized disposition \<Rightarrow> Some disposition | _ \<Rightarrow> wrq_final_disposition w)"
  using assms
  by (auto simp: apply_defs and_then_Inr_iff Let_def
      split: journal_payload.splits reconciliation_disposition.splits if_splits
        dispatch_safety_state.splits option.splits)

lemma apply_payload_guard:
  assumes "apply_payload w payload = Inr w'"
  shows "is_dispatch_attempt payload \<Longrightarrow> wrq_dispatch_safety_state w = ReadyForFirstDispatch
      \<or> wrq_dispatch_safety_state w = RetryEligibleSameIdentity"
    and "\<not> is_dispatch_attempt payload \<Longrightarrow> \<not> forbids_dispatch payload \<Longrightarrow>
      wrq_dispatch_safety_state w = DispatchReconciliationRequired"
    and "wrq_dispatch_safety_state w' \<noteq> ReadyForFirstDispatch"
  using assms
  by (auto simp: apply_defs and_then_Inr_iff Let_def
      split: journal_payload.splits reconciliation_disposition.splits if_splits
        dispatch_safety_state.splits option.splits)

text \<open>The same for a whole record.\<close>

lemma apply_record_facts:
  assumes "apply_record w r = Inr w'"
  shows "wrq_identity w' = wrq_identity w"
    and "wrq_accepted_payload_sha256 w' = wrq_accepted_payload_sha256 w"
    and "wrq_dispatch_safety_state w' =
      (if is_dispatch_attempt (drc_payload r) then DispatchReconciliationRequired
       else if forbids_dispatch (drc_payload r) then DispatchForbidden
       else if drc_payload r = ReconciliationObserved NoBrokerOrderFound then RetryEligibleSameIdentity
       else wrq_dispatch_safety_state w)"
    and "unat (wrq_dispatch_attempt_count w') =
      unat (wrq_dispatch_attempt_count w) + (if is_dispatch_attempt (drc_payload r) then 1 else 0)"
    and "wrq_known_broker_order_id w' = (case attested_order (drc_payload r) of
        None \<Rightarrow> wrq_known_broker_order_id w | Some order \<Rightarrow> Some order)"
    and "wrq_conflict_observed w' = (wrq_conflict_observed w \<or> is_conflict (drc_payload r))"
    and "wrq_final_disposition w' = (case drc_payload r of
        RequestFinalized disposition \<Rightarrow> Some disposition | _ \<Rightarrow> None)"
    and "wrq_dispatch_safety_state w' \<noteq> ReadyForFirstDispatch"
    and "unat (wrq_last_sequence w') = unat (wrq_last_sequence w) + 1"
proof -
  obtain w1 where p: "apply_payload w (drc_payload r) = Inr w1"
    and w': "w' = w1 \<lparr> wrq_last_sequence := sequence_get (drc_lifecycle_sequence r),
                   wrq_last_record_id := drc_journal_record_id r \<rparr>"
    using assms by (rule apply_record_payload)
  show "wrq_identity w' = wrq_identity w"
    using apply_payload_frame(1) [OF p] by (simp add: w')
  show "wrq_accepted_payload_sha256 w' = wrq_accepted_payload_sha256 w"
    using apply_payload_frame(2) [OF p] by (simp add: w')
  show "wrq_dispatch_safety_state w' =
      (if is_dispatch_attempt (drc_payload r) then DispatchReconciliationRequired
       else if forbids_dispatch (drc_payload r) then DispatchForbidden
       else if drc_payload r = ReconciliationObserved NoBrokerOrderFound then RetryEligibleSameIdentity
       else wrq_dispatch_safety_state w)"
    using apply_payload_state [OF p] by (simp add: w')
  show "unat (wrq_dispatch_attempt_count w') =
      unat (wrq_dispatch_attempt_count w) + (if is_dispatch_attempt (drc_payload r) then 1 else 0)"
    using apply_payload_count [OF p] by (simp add: w')
  show "wrq_known_broker_order_id w' = (case attested_order (drc_payload r) of
        None \<Rightarrow> wrq_known_broker_order_id w | Some order \<Rightarrow> Some order)"
    using apply_payload_known(1) [OF p] by (simp add: w')
  show "wrq_conflict_observed w' = (wrq_conflict_observed w \<or> is_conflict (drc_payload r))"
    using apply_payload_flags(1) [OF p] by (simp add: w')
  show "wrq_dispatch_safety_state w' \<noteq> ReadyForFirstDispatch"
    using apply_payload_guard(3) [OF p] by (simp add: w')
  show "wrq_final_disposition w' = (case drc_payload r of
        RequestFinalized disposition \<Rightarrow> Some disposition | _ \<Rightarrow> None)"
    using apply_record_position(2) [OF assms] apply_payload_flags(2) [OF p]
    by (simp add: w' split: journal_payload.splits)
  show "unat (wrq_last_sequence w') = unat (wrq_last_sequence w) + 1"
    using u64_add_Some [OF apply_record_position(3) [OF assms]] apply_record_position(6) [OF assms]
    by simp
qed

section \<open>All the records of one request\<close>

fun apply_all :: "working_request \<Rightarrow> durable_record list \<Rightarrow> replay_error + working_request" where
  "apply_all w [] = Inr w"
| "apply_all w (r # rs) = and_then (apply_record w r) (\<lambda>w'. apply_all w' rs)"

text \<open>From no state: the first record creates the request.\<close>

fun reduce_all :: "working_request option \<Rightarrow> durable_record list \<Rightarrow> replay_error + working_request option" where
  "reduce_all w [] = Inr w"
| "reduce_all None (r # rs) = and_then (from_first r) (\<lambda>w. reduce_all (Some w) rs)"
| "reduce_all (Some w) (r # rs) = and_then (apply_record w r) (\<lambda>w'. reduce_all (Some w') rs)"

lemma reduce_all_append:
  "reduce_all w (rs @ rs') = and_then (reduce_all w rs) (\<lambda>w'. reduce_all w' rs')"
  by (induction w rs rule: reduce_all.induct) (auto simp: and_then_def split: sum.splits)

lemma reduce_all_Some: "reduce_all (Some w) rs = and_then (apply_all w rs) (\<lambda>w'. Inr (Some w'))"
  by (induction rs arbitrary: w) (auto simp: and_then_def split: sum.splits)

lemma apply_all_append:
  "apply_all w (rs @ rs') = and_then (apply_all w rs) (\<lambda>w'. apply_all w' rs')"
  by (induction rs arbitrary: w) (auto simp: and_then_def split: sum.splits)

lemma forbidden_step:
  assumes "apply_record w r = Inr w'" and "wrq_dispatch_safety_state w = DispatchForbidden"
  shows "wrq_dispatch_safety_state w' = DispatchForbidden" and "\<not> is_dispatch_attempt (drc_payload r)"
proof -
  obtain w1 where p: "apply_payload w (drc_payload r) = Inr w1"
    using assms(1) by (rule apply_record_payload)
  show d: "\<not> is_dispatch_attempt (drc_payload r)" using apply_payload_guard(1) [OF p] assms(2) by auto
  show "wrq_dispatch_safety_state w' = DispatchForbidden"
    using apply_record_facts(3) [OF assms(1)] apply_payload_guard(2) [OF p] assms(2) d
    by (auto split: if_splits)
qed

lemma forbidden_forever:
  assumes "apply_all w rs = Inr w'" and "wrq_dispatch_safety_state w = DispatchForbidden"
  shows "wrq_dispatch_safety_state w' = DispatchForbidden"
    and "list_all (\<lambda>r. \<not> is_dispatch_attempt (drc_payload r)) rs"
proof -
  have "wrq_dispatch_safety_state w' = DispatchForbidden
      \<and> list_all (\<lambda>r. \<not> is_dispatch_attempt (drc_payload r)) rs"
    using assms
  proof (induction rs arbitrary: w)
    case (Cons r rs)
    then obtain w1 where "apply_record w r = Inr w1" "apply_all w1 rs = Inr w'"
      by (auto simp: and_then_Inr_iff)
    then show ?case using Cons.IH [of w1] forbidden_step [of w r w1] Cons.prems(2) by simp
  qed simp
  then show "wrq_dispatch_safety_state w' = DispatchForbidden"
    "list_all (\<lambda>r. \<not> is_dispatch_attempt (drc_payload r)) rs" by simp_all
qed

text \<open>What must have happened before a dispatch attempt other than the first record after acceptance.\<close>

lemma redispatch_needs_reconciliation:
  assumes "reduce_all None (first # between @ [r]) = Inr w" and "between \<noteq> []"
    and "is_dispatch_attempt (drc_payload r)"
  shows "drc_payload (last between) = ReconciliationObserved NoBrokerOrderFound"
    and "list_all (\<lambda>x. \<not> forbids_dispatch (drc_payload x)) between"
proof -
  obtain w0 w1 w2 where "from_first first = Inr w0" and w1: "apply_all w0 between = Inr w1"
    and w2: "apply_record w1 r = Inr w2"
    using assms(1) by (auto simp: reduce_all_append reduce_all_Some and_then_Inr_iff)
  obtain w3 where "apply_payload w1 (drc_payload r) = Inr w3" using w2 by (rule apply_record_payload)
  then have dispatchable: "wrq_dispatch_safety_state w1 = ReadyForFirstDispatch
      \<or> wrq_dispatch_safety_state w1 = RetryEligibleSameIdentity"
    using assms(3) by (rule apply_payload_guard(1))
  show "list_all (\<lambda>x. \<not> forbids_dispatch (drc_payload x)) between"
  proof (rule ccontr)
    assume "\<not> list_all (\<lambda>x. \<not> forbids_dispatch (drc_payload x)) between"
    then obtain x where "x \<in> set between" and x: "forbids_dispatch (drc_payload x)"
      by (auto simp: list_all_iff)
    then obtain before after where "between = before @ x # after" by (meson split_list)
    with w1 obtain w4 w5 where x5: "apply_record w4 x = Inr w5" and after: "apply_all w5 after = Inr w1"
      by (auto simp: apply_all_append and_then_Inr_iff)
    have "\<not> is_dispatch_attempt (drc_payload x)" using x by (cases "drc_payload x") simp_all
    then have "wrq_dispatch_safety_state w5 = DispatchForbidden"
      using apply_record_facts(3) [OF x5] x by simp
    then have "wrq_dispatch_safety_state w1 = DispatchForbidden" by (rule forbidden_forever(1) [OF after])
    with dispatchable show False by simp
  qed
  obtain before l where between: "between = before @ [l]" using assms(2) by (cases between rule: rev_cases) auto
  with w1 obtain w4 where l: "apply_record w4 l = Inr w1"
    by (auto simp: apply_all_append and_then_Inr_iff)
  obtain w5 where p: "apply_payload w4 (drc_payload l) = Inr w5" using l by (rule apply_record_payload)
  have retry: "wrq_dispatch_safety_state w1 = RetryEligibleSameIdentity"
    using dispatchable apply_record_facts(8) [OF l] by blast
  have "drc_payload l = ReconciliationObserved NoBrokerOrderFound"
    using retry apply_record_facts(3) [OF l] apply_payload_guard(2) [OF p] by (auto split: if_splits)
  then show "drc_payload (last between) = ReconciliationObserved NoBrokerOrderFound"
    by (simp add: between)
qed

section \<open>The journal, request by request\<close>

definition request_key :: "replay_env \<Rightarrow> durable_record \<Rightarrow> string" where
  "request_key R r = rpe_uuid_str R (dri_strategy_request_id (drc_identity r))"

definition record_key :: "durable_record \<Rightarrow> string" where
  "record_key r = record_id_str (drc_journal_record_id r)"

text \<open>The records that are not repetitions: the first of each record id.\<close>

fun fresh_records :: "string set \<Rightarrow> durable_record list \<Rightarrow> durable_record list" where
  "fresh_records seen [] = []"
| "fresh_records seen (r # rs) =
     (if record_key r \<in> seen then fresh_records seen rs
      else r # fresh_records (insert (record_key r) seen) rs)"

definition records_of :: "replay_env \<Rightarrow> string \<Rightarrow> durable_record list \<Rightarrow> durable_record list" where
  "records_of R key rs = filter (\<lambda>r. request_key R r = key) (fresh_records {} rs)"

lemma replay_record_wf:
  assumes "replay_record R st r = Inr st'" and "btree_wf (fst st)" and "btree_wf (snd st)"
  shows "btree_wf (fst st')" and "btree_wf (snd st')"
  using assms
  by (auto simp: replay_record_def Let_def and_then_Inr_iff split: option.splits if_splits prod.splits)

lemma replay_records_wf:
  assumes "replay_records R st rs = Inr st'" and "btree_wf (fst st)" and "btree_wf (snd st)"
  shows "btree_wf (fst st') \<and> btree_wf (snd st')"
  using assms
proof (induction rs arbitrary: st)
  case (Cons r rs)
  then obtain st1 where "replay_record R st r = Inr st1" "replay_records R st1 rs = Inr st'"
    by (auto simp: and_then_Inr_iff)
  then show ?case using Cons.IH [of st1] replay_record_wf [of R st r st1] Cons.prems by simp
qed simp

lemma replay_record_seen:
  assumes "replay_record R st r = Inr st'" and "record_key r \<in> fst ` set (fst st)"
  shows "st' = st" and "map_of (fst st) (record_key r) = Some (s6_record_json (rpe_stage6 R) r)"
proof -
  obtain c where "map_of (fst st) (record_key r) = Some c"
    using assms(2) by (cases "map_of (fst st) (record_key r)") (auto simp: map_of_eq_None_iff)
  then show "st' = st" "map_of (fst st) (record_key r) = Some (s6_record_json (rpe_stage6 R) r)"
    using assms(1) by (auto simp: replay_record_def record_key_def Let_def split: prod.splits if_splits)
qed

lemma replay_record_fresh:
  assumes "replay_record R st r = Inr st'" and "record_key r \<notin> fst ` set (fst st)"
  obtains w where "reduce_all (map_of (snd st) (request_key R r)) [r] = Inr (Some w)"
    and "st' = (btree_insert (record_key r) (s6_record_json (rpe_stage6 R) r) (fst st),
                btree_insert (request_key R r) w (snd st))"
proof -
  obtain seen requests where st: "st = (seen, requests)" by (cases st)
  have "map_of seen (record_key r) = None" using assms(2) by (simp add: map_of_eq_None_iff st)
  with assms(1) obtain w where "(case map_of requests (request_key R r) of
        None \<Rightarrow> from_first r | Some w \<Rightarrow> apply_record w r) = Inr w"
    and "st' = (btree_insert (record_key r) (s6_record_json (rpe_stage6 R) r) seen,
                btree_insert (request_key R r) w requests)"
    by (auto simp: replay_record_def record_key_def request_key_def st Let_def and_then_Inr_iff
        split: if_splits)
  then show ?thesis by (intro that) (auto simp: st split: option.splits)
qed

text \<open>Each request is reduced from its own records alone.\<close>

lemma replay_records_split:
  assumes "replay_records R st rs = Inr st'" and "btree_wf (fst st)" and "btree_wf (snd st)"
  shows "reduce_all (map_of (snd st) key)
      (filter (\<lambda>r. request_key R r = key) (fresh_records (fst ` set (fst st)) rs)) = Inr (map_of (snd st') key)"
  using assms
proof (induction rs arbitrary: st)
  case (Cons r rs)
  then obtain st1 where step: "replay_record R st r = Inr st1" and rest: "replay_records R st1 rs = Inr st'"
    by (auto simp: and_then_Inr_iff)
  note wf = replay_record_wf [OF step Cons.prems(2,3)]
  note IH = Cons.IH [OF rest wf]
  show ?case
  proof (cases "record_key r \<in> fst ` set (fst st)")
    case True
    with replay_record_seen(1) [OF step True] IH show ?thesis by simp
  next
    case False
    obtain w where w: "reduce_all (map_of (snd st) (request_key R r)) [r] = Inr (Some w)"
      and st1: "st1 = (btree_insert (record_key r) (s6_record_json (rpe_stage6 R) r) (fst st),
                btree_insert (request_key R r) w (snd st))"
      using step False by (rule replay_record_fresh)
    have keys: "fst ` set (fst st1) = insert (record_key r) (fst ` set (fst st))"
      by (simp add: st1 btree_insert_keys)
    show ?thesis
    proof (cases "request_key R r = key")
      case True
      then have "map_of (snd st1) key = Some w" using Cons.prems(3) by (simp add: st1)
      then show ?thesis
        using IH w True False reduce_all_append [of "map_of (snd st) key" "[r]"] keys by simp
    next
      case False
      then have "map_of (snd st1) key = map_of (snd st) key" using Cons.prems(3) by (auto simp: st1)
      then show ?thesis using IH keys False \<open>record_key r \<notin> fst ` set (fst st)\<close> by simp
    qed
  qed
qed simp

lemma replay_journal_Inr:
  assumes "replay_journal R rs = Inr s"
  obtains requests where "btree_wf requests" and "\<forall>key. reduce_all None (records_of R key rs) = Inr (map_of requests key)"
    and "from_recovered_requests R (map (into_recovered \<circ> snd) requests) = Inr s"
proof -
  obtain seen requests where st: "replay_records R ([], []) rs = Inr (seen, requests)"
    and s: "from_recovered_requests R (map (into_recovered \<circ> snd) requests) = Inr s"
    using assms by (auto simp: replay_journal_def and_then_Inr_iff)
  have "reduce_all None (records_of R key rs) = Inr (map_of requests key)" for key
    using replay_records_split [OF st, of key] by (simp add: records_of_def)
  moreover have "btree_wf requests" using replay_records_wf [OF st] by simp
  ultimately show ?thesis using s by (intro that) auto
qed

section \<open>What the recovered state says of the records\<close>

fun attested_trade :: "journal_payload \<Rightarrow> broker_trade_id option" where
  "attested_trade (BrokerTradeObserved trade order) = Some trade"
| "attested_trade payload = None"

definition event_ok :: "durable_record \<Rightarrow> bool" where
  "event_ok r \<longleftrightarrow> event_matches_payload (drc_event_kind r) (drc_payload r)"

definition describes :: "durable_record list \<Rightarrow> working_request \<Rightarrow> bool" where
  "describes us w \<longleftrightarrow> us \<noteq> [] \<and>
     list_all (\<lambda>r. drc_identity r = wrq_identity w) us \<and>
     unat (wrq_last_sequence w) = length us \<and>
     wrq_last_record_id w = drc_journal_record_id (last us) \<and>
     unat (wrq_dispatch_attempt_count w) = length (filter (\<lambda>r. is_dispatch_attempt (drc_payload r)) us) \<and>
     (case wrq_known_broker_order_id w of
        None \<Rightarrow> list_all (\<lambda>r. attested_order (drc_payload r) = None) us
      | Some order \<Rightarrow> list_ex (\<lambda>r. attested_order (drc_payload r) = Some order) us \<and>
          list_all (\<lambda>r. attested_order (drc_payload r) \<in> {None, Some order}) us) \<and>
     btree_wf (wrq_trades w) \<and>
     fst ` set (wrq_trades w)
       = broker_trade_id_str ` set (List.map_filter (\<lambda>r. attested_trade (drc_payload r)) us) \<and>
     wrq_conflict_observed w = list_ex (\<lambda>r. is_conflict (drc_payload r)) us \<and>
     wrq_final_disposition w
       = (case drc_payload (last us) of RequestFinalized disposition \<Rightarrow> Some disposition | _ \<Rightarrow> None)"

lemma observe_trade_trades:
  assumes "observe_trade w trade order = Inr w'" and "btree_wf (wrq_trades w)"
  shows "btree_wf (wrq_trades w')"
    and "fst ` set (wrq_trades w') = insert (broker_trade_id_str trade) (fst ` set (wrq_trades w))"
proof -
  have "btree_wf (wrq_trades w') \<and>
      fst ` set (wrq_trades w') = insert (broker_trade_id_str trade) (fst ` set (wrq_trades w))"
  proof (cases "map_of (wrq_trades w) (broker_trade_id_str trade)")
    case None
    with assms(1) have "wrq_trades w' = btree_insert (broker_trade_id_str trade) order (wrq_trades w)"
      by (auto simp: observe_trade_def)
    then show ?thesis using assms(2) by (simp add: btree_insert_keys)
  next
    case (Some existing)
    then have "broker_trade_id_str trade \<in> fst ` set (wrq_trades w)"
      by (metis domI dom_map_of_conv_image_fst)
    with assms Some show ?thesis by (auto simp: observe_trade_def insert_absorb split: if_splits)
  qed
  then show "btree_wf (wrq_trades w')"
    "fst ` set (wrq_trades w') = insert (broker_trade_id_str trade) (fst ` set (wrq_trades w))" by simp_all
qed

lemma apply_payload_trades:
  assumes "apply_payload w payload = Inr w'" and "btree_wf (wrq_trades w)"
  shows "btree_wf (wrq_trades w')" and "fst ` set (wrq_trades w') = fst ` set (wrq_trades w)
    \<union> (case attested_trade payload of None \<Rightarrow> {} | Some t \<Rightarrow> {broker_trade_id_str t})"
proof -
  have "btree_wf (wrq_trades w') \<and> fst ` set (wrq_trades w') = fst ` set (wrq_trades w)
    \<union> (case attested_trade payload of None \<Rightarrow> {} | Some t \<Rightarrow> {broker_trade_id_str t})"
  proof (cases "attested_trade payload")
    case None
    with assms have "wrq_trades w' = wrq_trades w"
      by (auto simp: apply_payload_def apply_dispatch_attempt_def apply_reconciliation_def
          establish_broker_order_def and_then_Inr_iff Let_def
          split: journal_payload.splits reconciliation_disposition.splits if_splits
            dispatch_safety_state.splits)
    with assms(2) None show ?thesis by simp
  next
    case (Some t)
    then obtain order where payload: "payload = BrokerTradeObserved t order"
      by (cases payload) simp_all
    with assms(1) obtain w1 where w1: "observe_trade w t order = Inr w1" "wrq_trades w' = wrq_trades w1"
      by (auto simp: apply_payload_def establish_broker_order_def and_then_Inr_iff split: if_splits)
    with observe_trade_trades [OF w1(1) assms(2)] Some show ?thesis by simp
  qed
  then show "btree_wf (wrq_trades w')" "fst ` set (wrq_trades w') = fst ` set (wrq_trades w)
    \<union> (case attested_trade payload of None \<Rightarrow> {} | Some t \<Rightarrow> {broker_trade_id_str t})" by simp_all
qed

lemma event_ok_accepted:
  assumes "from_first r = Inr w" and "event_ok r"
  obtains command where "drc_payload r = RequestAccepted command"
proof -
  have "drc_event_kind r = RequestAcceptedKind" using assms(1) by (auto simp: from_first_def split: if_splits)
  with assms(2) show ?thesis by (cases "drc_payload r") (simp_all add: event_ok_def that)
qed

lemma describes_first:
  assumes "from_first r = Inr w" and "event_ok r"
  shows "describes [r] w"
proof -
  obtain command where "drc_payload r = RequestAccepted command" using assms by (rule event_ok_accepted)
  with assms(1) show ?thesis
    by (auto simp: from_first_def describes_def map_filter_simps split: if_splits)
qed

lemma describes_step:
  assumes "describes us w" and "apply_record w r = Inr w'"
  shows "describes (us @ [r]) w'"
proof -
  obtain w1 where p: "apply_payload w (drc_payload r) = Inr w1"
    and w': "w' = w1 \<lparr> wrq_last_sequence := sequence_get (drc_lifecycle_sequence r),
                   wrq_last_record_id := drc_journal_record_id r \<rparr>"
    using assms(2) by (rule apply_record_payload)
  note d = assms(1) [unfolded describes_def]
  note facts = apply_record_facts [OF assms(2)]
  have "case wrq_known_broker_order_id w' of
        None \<Rightarrow> list_all (\<lambda>r. attested_order (drc_payload r) = None) (us @ [r])
      | Some order \<Rightarrow> list_ex (\<lambda>r. attested_order (drc_payload r) = Some order) (us @ [r]) \<and>
          list_all (\<lambda>r. attested_order (drc_payload r) \<in> {None, Some order}) (us @ [r])"
    using d facts(5) apply_payload_known(2) [OF p]
    by (cases "attested_order (drc_payload r)"; cases "wrq_known_broker_order_id w")
      (auto simp: list_all_iff)
  moreover have "btree_wf (wrq_trades w')" "fst ` set (wrq_trades w')
      = broker_trade_id_str ` set (List.map_filter (\<lambda>r. attested_trade (drc_payload r)) (us @ [r]))"
    using d apply_payload_trades [OF p] by (auto simp: w' map_filter_def split: option.splits)
  ultimately show ?thesis
    using d facts apply_record_position [OF assms(2)] by (auto simp: describes_def)
qed

lemma reduce_all_describes:
  assumes "reduce_all None us = Inr (Some w)" and "list_all event_ok us"
  shows "describes us w"
  using assms
proof (induction us arbitrary: w rule: rev_induct)
  case (snoc r us)
  show ?case
  proof (cases us)
    case Nil
    with snoc.prems show ?thesis by (auto simp: and_then_Inr_iff intro: describes_first)
  next
    case (Cons first rest)
    with snoc.prems obtain w0 where "reduce_all None us = Inr (Some w0)" "apply_record w0 r = Inr w"
      by (auto simp: reduce_all_append reduce_all_Some and_then_Inr_iff)
    with snoc show ?thesis by (auto intro: describes_step)
  qed
qed simp

lemma fresh_records_subset: "set (fresh_records seen rs) \<subseteq> set rs"
  by (induction seen rs rule: fresh_records.induct) auto

lemma records_of_event_ok: "list_all event_ok rs \<Longrightarrow> list_all event_ok (records_of R key rs)"
  using fresh_records_subset [of "{}" rs] by (auto simp: records_of_def list_all_iff)

section \<open>Properties of replay\<close>

text \<open>C26: No blind redispatch. In a journal that replays, whatever other requests and repetitions
  lie between, a second dispatch attempt of a request directly follows a reconciliation of that
  request that found no broker order, and nothing before it attests an order, a trade, a
  cancel outcome, a conflict or the end of the request.\<close>

theorem no_blind_redispatch:
  assumes "replay_journal R rs = Inr s" and "list_all event_ok rs" and "records_of R key rs = us"
    and "i < j" and "j < length us"
    and "is_dispatch_attempt (drc_payload (us ! i))" and "is_dispatch_attempt (drc_payload (us ! j))"
  shows "drc_payload (us ! (j - 1)) = ReconciliationObserved NoBrokerOrderFound \<and>
    list_all (\<lambda>r. \<not> forbids_dispatch (drc_payload r)) (take j us)"
proof -
  obtain requests where run: "reduce_all None us = Inr (map_of requests key)"
    using assms(1,3) replay_journal_Inr by metis
  obtain first rest where us: "us = first # rest" using assms(5) by (cases us) auto
  then obtain w0 where w0: "from_first first = Inr w0" using run by (auto simp: and_then_Inr_iff)
  have "event_ok first" using records_of_event_ok [OF assms(2), of R key] assms(3) us by simp
  with w0 obtain command where accepted: "drc_payload first = RequestAccepted command"
    by (rule event_ok_accepted)
  then have i: "i \<noteq> 0" using assms(6) us by (cases i) auto
  then obtain n where j: "j = Suc n" "n \<noteq> 0" using assms(4) by (cases j) auto
  have split: "us = first # take n rest @ [us ! j] @ drop j rest"
    using assms(5) by (simp add: us j id_take_nth_drop [symmetric])
  then have "reduce_all None ((first # take n rest @ [us ! j]) @ drop j rest) = Inr (map_of requests key)"
    using run by simp
  then obtain w where w: "reduce_all None (first # take n rest @ [us ! j]) = Inr w"
    unfolding reduce_all_append [of _ "first # take n rest @ [us ! j]"] and_then_Inr_iff by blast
  have n: "n < length rest" using assms(5) by (simp add: us j)
  then have "take n rest \<noteq> []" using j by auto
  note redispatch_needs_reconciliation [OF w this assms(7)]
  moreover have "last (take n rest) = us ! (j - 1)"
    using n j by (cases n) (simp_all add: us take_Suc_conv_app_nth)
  moreover have "take j us = first # take n rest" by (simp add: us j)
  ultimately show ?thesis using accepted by simp
qed

text \<open>C28: The interleaving of requests does not matter. Two journals that replay and hold the
  same records of each request in the same order recover the same requests, with the same
  fingerprint.\<close>

theorem replay_is_per_request:
  assumes "replay_journal R rs = Inr s" and "replay_journal R rs' = Inr s'"
    and "\<forall>key. records_of R key rs = records_of R key rs'"
  shows "s = s'"
proof -
  obtain requests where 1: "btree_wf requests"
    "\<forall>key. reduce_all None (records_of R key rs) = Inr (map_of requests key)"
    "from_recovered_requests R (map (into_recovered \<circ> snd) requests) = Inr s"
    using assms(1) by (rule replay_journal_Inr)
  obtain requests' where 2: "btree_wf requests'"
    "\<forall>key. reduce_all None (records_of R key rs') = Inr (map_of requests' key)"
    "from_recovered_requests R (map (into_recovered \<circ> snd) requests') = Inr s'"
    using assms(2) by (rule replay_journal_Inr)
  have "map_of requests key = map_of requests' key" for key
    using 1(2) 2(2) assms(3) by simp
  then have "requests = requests'" using btree_ext [OF 1(1) 2(1)] by blast
  with 1(3) 2(3) show ?thesis by simp
qed

lemma replay_records_append:
  "replay_records R st (rs @ rs') = and_then (replay_records R st rs) (\<lambda>st'. replay_records R st' rs')"
  by (induction rs arbitrary: st) (auto simp: and_then_def split: sum.splits)

lemma replay_record_keeps_seen:
  assumes "replay_record R st r = Inr st'" and "btree_wf (fst st)"
    and "map_of (fst st) k = Some c"
  shows "map_of (fst st') k = Some c"
proof (cases "record_key r \<in> fst ` set (fst st)")
  case True
  with replay_record_seen(1) [OF assms(1)] assms(3) show ?thesis by simp
next
  case False
  then have "map_of (fst st) (record_key r) = None" by (simp add: map_of_eq_None_iff)
  then have "k \<noteq> record_key r" using assms(3) by auto
  from assms(1) False obtain w where
    "st' = (btree_insert (record_key r) (s6_record_json (rpe_stage6 R) r) (fst st),
            btree_insert (request_key R r) w (snd st))" by (rule replay_record_fresh)
  then show ?thesis using assms(2,3) \<open>k \<noteq> record_key r\<close> by simp
qed

lemma replay_record_records:
  assumes "replay_record R st r = Inr st'" and "btree_wf (fst st)"
  shows "map_of (fst st') (record_key r) = Some (s6_record_json (rpe_stage6 R) r)"
proof (cases "record_key r \<in> fst ` set (fst st)")
  case True
  with replay_record_seen [OF assms(1)] show ?thesis by simp
next
  case False
  from assms(1) False obtain w where
    "st' = (btree_insert (record_key r) (s6_record_json (rpe_stage6 R) r) (fst st),
            btree_insert (request_key R r) w (snd st))" by (rule replay_record_fresh)
  then show ?thesis using assms(2) by simp
qed

lemma replay_records_seen:
  assumes "replay_records R ([], []) rs = Inr st" and "r \<in> set rs"
  shows "map_of (fst st) (record_key r) = Some (s6_record_json (rpe_stage6 R) r)"
  using assms
proof (induction rs arbitrary: st rule: rev_induct)
  case (snoc x rs)
  then obtain st0 where st0: "replay_records R ([], []) rs = Inr st0" and x: "replay_record R st0 x = Inr st"
    by (auto simp: replay_records_append and_then_Inr_iff)
  have "btree_wf (fst st0)" using replay_records_wf [OF st0] by simp
  with snoc.IH [OF st0] snoc.prems(2) replay_record_keeps_seen [OF x] replay_record_records [OF x]
  show ?case by (cases "r = x") auto
qed simp

lemma replay_record_again:
  assumes "replay_records R ([], []) rs = Inr st" and "r \<in> set rs"
  shows "replay_record R st r = Inr st"
proof -
  obtain seen requests where st: "st = (seen, requests)" by (cases st)
  have "map_of seen (record_id_str (drc_journal_record_id r)) = Some (s6_record_json (rpe_stage6 R) r)"
    using replay_records_seen [OF assms] by (simp add: st record_key_def)
  then show ?thesis by (simp add: replay_record_def st)
qed

text \<open>Repetitions do not matter. A journal and the same journal with every record kept only at
  its first occurrence replay alike, to the same snapshot or the same error.\<close>

theorem replay_ignores_repetitions:
  "replay_journal R (rev (remdups (rev rs))) = replay_journal R rs"
proof -
  have "replay_records R ([], []) (rev (remdups (rev rs))) = replay_records R ([], []) rs"
  proof (induction rs rule: rev_induct)
    case (snoc r rs)
    show ?case
    proof (cases "r \<in> set rs")
      case True
      then have "replay_records R ([], []) (rs @ [r]) = replay_records R ([], []) rs"
        using replay_record_again [of R rs _ r]
        by (cases "replay_records R ([], []) rs") (simp_all add: replay_records_append)
      with True snoc show ?thesis by simp
    next
      case False
      with snoc show ?thesis by (simp add: replay_records_append)
    qed
  qed simp
  then show ?thesis by (simp add: replay_journal_def)
qed

text \<open>C27: The recovered state is exact. Each recovered request counts its records and dispatch
  attempts, points at its last record, knows a broker order exactly when a record attests it
  (and then all of them attest the same), lists each observed trade once, and carries the
  conflict flag and the final disposition its records carry.\<close>

theorem recovered_request_exact:
  assumes "replay_journal R rs = Inr s" and "list_all event_ok rs" and "q \<in> set (rps_requests s)"
    and "us = records_of R (rpe_uuid_str R (rrq_strategy_request_id q)) rs"
  shows "unat (rrq_last_unique_sequence q) = length us \<and>
    rrq_last_unique_record_id q = drc_journal_record_id (last us) \<and>
    unat (rrq_dispatch_attempt_count q) = length (filter (\<lambda>r. is_dispatch_attempt (drc_payload r)) us) \<and>
    (case rrq_known_broker_order_id q of
       None \<Rightarrow> list_all (\<lambda>r. attested_order (drc_payload r) = None) us
     | Some order \<Rightarrow> list_ex (\<lambda>r. attested_order (drc_payload r) = Some order) us \<and>
         list_all (\<lambda>r. attested_order (drc_payload r) \<in> {None, Some order}) us) \<and>
    distinct (rrq_observed_broker_trade_ids q) \<and>
    set (rrq_observed_broker_trade_ids q) = set (List.map_filter (\<lambda>r. attested_trade (drc_payload r)) us) \<and>
    rrq_conflict_observed q = list_ex (\<lambda>r. is_conflict (drc_payload r)) us \<and>
    rrq_final_disposition q
      = (case drc_payload (last us) of RequestFinalized disposition \<Rightarrow> Some disposition | _ \<Rightarrow> None)"
proof -
  obtain requests where wf: "btree_wf requests"
    and run: "\<forall>key. reduce_all None (records_of R key rs) = Inr (map_of requests key)"
    and s: "from_recovered_requests R (map (into_recovered \<circ> snd) requests) = Inr s"
    using assms(1) by (rule replay_journal_Inr)
  have "rps_requests s = map (into_recovered \<circ> snd) requests"
    using s by (auto simp: from_recovered_requests_def and_then_Inr_iff)
  then obtain key w where kw: "(key, w) \<in> set requests" and q: "q = into_recovered w"
    using assms(3) by auto
  then have reduced: "reduce_all None (records_of R key rs) = Inr (Some w)"
    using run map_of_is_SomeI [OF btree_wf_distinct [OF wf] kw] by simp
  note d = reduce_all_describes [OF reduced records_of_event_ok [OF assms(2)], unfolded describes_def]
  have "request_key R (hd (records_of R key rs)) = key"
    using d by (cases "records_of R key rs") (auto simp: records_of_def filter_eq_Cons_iff)
  moreover have "drc_identity (hd (records_of R key rs)) = wrq_identity w"
    using d by (cases "records_of R key rs") auto
  ultimately have "us = records_of R key rs" by (simp add: assms(4) q into_recovered_def request_key_def)
  note d = d [folded this]
  have ids: "set (rrq_observed_broker_trade_ids q) = BrokerTradeId ` fst ` set (wrq_trades w)"
    by (simp add: q into_recovered_def image_comp)
  have "BrokerTradeId (broker_trade_id_str t) = t" for t by (cases t) simp
  then have "set (rrq_observed_broker_trade_ids q) = set (List.map_filter (\<lambda>r. attested_trade (drc_payload r)) us)"
    using d by (simp add: ids image_image)
  moreover have "distinct (rrq_observed_broker_trade_ids q)"
    using btree_wf_distinct [of "wrq_trades w"] d
    by (auto simp: q into_recovered_def distinct_map inj_on_def)
  ultimately show ?thesis using d by (simp add: q into_recovered_def)
qed

section \<open>A sample journal\<close>

text \<open>Two requests \<open>a\<close> and \<open>b\<close>; a record is named by its request and its sequence number.\<close>

definition sample_replay_env :: replay_env where
  "sample_replay_env = \<lparr> rpe_stage6 = \<lparr> s6_sha = (\<lambda>_. replicate 32 1), s6_payload_json = (\<lambda>_. []),
       s6_record_json = (\<lambda>r. ascii_bytes (record_id_str (drc_journal_record_id r))),
       s6_record_wire = (\<lambda>_. None) \<rparr>,
     rpe_uuid_str = (\<lambda>q. if uuid_bytes q = [] then ''a'' else ''b''),
     rpe_attribution_json = (\<lambda>_. []), rpe_request_json = (\<lambda>_. []), rpe_fingerprint_json = (\<lambda>_ _. []) \<rparr>"

definition sample_journal_record ::
    "u8 list \<Rightarrow> string \<Rightarrow> u64 \<Rightarrow> string option \<Rightarrow> durable_event_kind \<Rightarrow> journal_payload \<Rightarrow> durable_record" where
  "sample_journal_record q i n previous kind payload =
     \<lparr> drc_schema_version = 1, drc_journal_record_id = JournalRecordId i,
       drc_lifecycle_sequence = LifecycleSequence n,
       drc_previous_record_id = map_option JournalRecordId previous,
       drc_causal_parent_id = map_option JournalRecordId previous,
       drc_identity = \<lparr> dri_strategy_request_id = StrategyRequestId q,
         dri_durable_client_order_id = ClientOrderId ''c'', dri_account_id = BrokerAccountId ''A'',
         dri_instrument = sample_instrument, dri_attribution = sample_attribution,
         dri_action = DurablePlace, dri_target_broker_order_id = None,
         dri_target_order_client_order_id = None \<rparr>,
       drc_event_kind = kind, drc_payload = payload,
       drc_canonical_payload_sha256 = Sha256Digest ''d'', drc_source_evidence_sha256 = Sha256Digest ''e'' \<rparr>"

definition sample_accepted :: journal_payload where
  "sample_accepted = RequestAccepted (CancelSnapshot
     \<lparr> dcl_request_id = StrategyRequestId [], dcl_durable_cancel_client_order_id = ClientOrderId ''c'',
       dcl_account_id = BrokerAccountId ''A'', dcl_instrument = sample_instrument,
       dcl_target_broker_order_id = BrokerOrderId ''o'', dcl_target_order_client_order_id = None,
       dcl_ttl_ms = None, dcl_created_ts = 0, dcl_attribution = sample_attribution \<rparr>)"

definition sample_a :: "durable_record list" where
  "sample_a =
     [sample_journal_record [] ''a1'' 1 None RequestAcceptedKind sample_accepted,
      sample_journal_record [] ''a2'' 2 (Some ''a1'') DispatchAttemptRecordedKind
        (DispatchAttemptRecorded 1 (Sha256Digest ''d'')),
      sample_journal_record [] ''a3'' 3 (Some ''a2'') ReconciliationObservedKind
        (ReconciliationObserved NoBrokerOrderFound),
      sample_journal_record [] ''a4'' 4 (Some ''a3'') DispatchAttemptRecordedKind
        (DispatchAttemptRecorded 2 (Sha256Digest ''d'')),
      sample_journal_record [] ''a5'' 5 (Some ''a4'') BrokerTradeObservedKind
        (BrokerTradeObserved (BrokerTradeId ''t'') (BrokerOrderId ''o''))]"

definition sample_b :: "durable_record list" where
  "sample_b =
     [sample_journal_record [1] ''b1'' 1 None RequestAcceptedKind sample_accepted,
      sample_journal_record [1] ''b2'' 2 (Some ''b1'') RequestFinalizedKind (RequestFinalized FinalRejected)]"

lemmas sample_replay_defs = sample_replay_env_def sample_journal_record_def sample_accepted_def
  replay_record_def record_key_def request_key_def from_first_def apply_defs u64_add_def u32_add_def
  less_char_def Let_def

lemma sample_fingerprint:
  "from_recovered_requests sample_replay_env qs = Inr \<lparr> rps_replay_schema_version = 1, rps_requests = qs,
     rps_semantic_fingerprint = Sha256Digest (hex_string (replicate 32 1)) \<rparr>"
proof -
  have "replicate 32 (1 :: u8) \<noteq> replicate 32 0" by (simp add: numeral_eq_Suc)
  then have "is_lower_hex_digest (hex_string (replicate 32 (1 :: u8)))"
    by (simp only: hex_digest_valid length_replicate) simp
  then show ?thesis
    by (simp add: from_recovered_requests_def replay_fingerprint_def digest_parse_def map_err_def
        sample_replay_env_def replay_schema_version_def)
qed

lemma sample_replays:
  "\<exists>st. replay_records sample_replay_env ([], []) (sample_a @ sample_b) = Inr st"
  "\<exists>st. replay_records sample_replay_env ([], []) (take 3 sample_a @ sample_b @ drop 2 sample_a) = Inr st"
  by (simp_all add: sample_a_def sample_b_def sample_replay_defs)

lemma sample_first_request:
  "\<exists>seen w requests. replay_records sample_replay_env ([], []) (sample_a @ sample_b)
     = Inr (seen, (''a'', w) # requests) \<and> dri_strategy_request_id (wrq_identity w) = StrategyRequestId []"
  by (simp add: sample_a_def sample_b_def sample_replay_defs)

lemma sample_replay_ok:
  "\<exists>s. replay_journal sample_replay_env (sample_a @ sample_b) = Inr s"
  "\<exists>s. replay_journal sample_replay_env (take 3 sample_a @ sample_b @ drop 2 sample_a) = Inr s"
  using sample_replays by (auto simp: replay_journal_def sample_fingerprint split_beta)

lemma sample_records_of:
  "records_of sample_replay_env ''a'' (sample_a @ sample_b) = sample_a"
  "records_of sample_replay_env key (take 3 sample_a @ sample_b @ drop 2 sample_a)
     = records_of sample_replay_env key (sample_a @ sample_b)"
  "list_all event_ok (sample_a @ sample_b)"
  by (auto simp: records_of_def sample_a_def sample_b_def sample_replay_defs event_ok_def)

theorem no_blind_redispatch_witness:
  "is_dispatch_attempt (drc_payload (sample_a ! 1)) \<and> is_dispatch_attempt (drc_payload (sample_a ! 3)) \<and>
   drc_payload (sample_a ! 2) = ReconciliationObserved NoBrokerOrderFound"
proof -
  obtain s where s: "replay_journal sample_replay_env (sample_a @ sample_b) = Inr s"
    using sample_replay_ok(1) by blast
  have d: "is_dispatch_attempt (drc_payload (sample_a ! 1))" "is_dispatch_attempt (drc_payload (sample_a ! 3))"
    "length sample_a = 5"
    by (simp_all add: sample_a_def sample_journal_record_def)
  then show ?thesis
    using no_blind_redispatch [OF s sample_records_of(3,1), of 1 3] by simp
qed

theorem replay_is_per_request_witness:
  "\<exists>s s'. replay_journal sample_replay_env (sample_a @ sample_b) = Inr s \<and>
     replay_journal sample_replay_env (take 3 sample_a @ sample_b @ drop 2 sample_a) = Inr s' \<and>
     sample_a @ sample_b \<noteq> take 3 sample_a @ sample_b @ drop 2 sample_a \<and> s = s'"
proof -
  obtain s s' where s: "replay_journal sample_replay_env (sample_a @ sample_b) = Inr s"
    and s': "replay_journal sample_replay_env (take 3 sample_a @ sample_b @ drop 2 sample_a) = Inr s'"
    using sample_replay_ok by blast
  have "length (sample_a @ sample_b) \<noteq> length (take 3 sample_a @ sample_b @ drop 2 sample_a)"
    by (simp add: sample_a_def sample_b_def)
  moreover have "s = s'" by (rule replay_is_per_request [OF s s']) (simp only: sample_records_of(2) simp_thms)
  ultimately show ?thesis using s s' by metis
qed

theorem recovered_request_exact_witness:
  "\<exists>s q. replay_journal sample_replay_env (sample_a @ sample_b) = Inr s \<and> q \<in> set (rps_requests s) \<and>
     unat (rrq_dispatch_attempt_count q) = 2 \<and>
     set (rrq_observed_broker_trade_ids q) = {BrokerTradeId ''t''}"
proof -
  obtain s where s: "replay_journal sample_replay_env (sample_a @ sample_b) = Inr s"
    using sample_replay_ok(1) by blast
  moreover obtain seen w requests where
    run: "replay_records sample_replay_env ([], []) (sample_a @ sample_b) = Inr (seen, (''a'', w) # requests)"
    and w: "dri_strategy_request_id (wrq_identity w) = StrategyRequestId []"
    using sample_first_request by blast
  ultimately have q: "into_recovered w \<in> set (rps_requests s)"
    "rrq_strategy_request_id (into_recovered w) = StrategyRequestId []"
    by (auto simp: replay_journal_def sample_fingerprint into_recovered_def)
  have "rpe_uuid_str sample_replay_env (rrq_strategy_request_id (into_recovered w)) = ''a''"
    by (simp add: q(2) sample_replay_env_def)
  then have us: "sample_a = records_of sample_replay_env
      (rpe_uuid_str sample_replay_env (rrq_strategy_request_id (into_recovered w))) (sample_a @ sample_b)"
    using sample_records_of(1) by simp
  have "length (filter (\<lambda>r. is_dispatch_attempt (drc_payload r)) sample_a) = 2"
    "List.map_filter (\<lambda>r. attested_trade (drc_payload r)) sample_a = [BrokerTradeId ''t'']"
    by (simp_all add: sample_a_def sample_journal_record_def sample_accepted_def map_filter_simps)
  with recovered_request_exact [OF s sample_records_of(3) q(1) us] s q(1) show ?thesis by auto
qed

end
