(* ===== verification/Stage6.thy ===== *)
theory Stage6
  imports ReplayFacts
begin

text \<open>
  Stage 6 from end to end: a command becomes a durable record, the record a frame of the
  journal file, the file is reopened after a crash and its records replayed. The properties
  here compose \<open>DurableRecords\<close>, \<open>Journal\<close> and \<open>ReplayFacts\<close>.
\<close>

lemma storable_event_ok:
  assumes "storable (versioned_codec V) (RecordV1 r)"
  shows "event_ok r"
proof -
  have "jc_decode (versioned_codec V) (jc_encode (versioned_codec V) (RecordV1 r)) = Inr (RecordV1 r)"
    using storableD [OF assms] by simp
  then have "decode_record (ve_v1 V) (s6_record_json (ve_v1 V) r) = Inr r"
    by (auto simp: versioned_codec_def versioned_decode_def map_err_def and_then_Inr_iff
        split: if_splits sum.splits)
  then have "validate_record (ve_v1 V) r = Inr ()"
    by (auto simp: decode_record_def and_then_Inr_iff split: if_splits)
  then show ?thesis by (simp add: event_ok_def validate_record_event)
qed

lemma fresh_records_append:
  "fresh_records seen (rs @ rs') = fresh_records seen rs @ fresh_records (seen \<union> record_key ` set rs) rs'"
proof (induction seen rs rule: fresh_records.induct)
  case (2 seen r rs)
  then show ?case by (cases "record_key r \<in> seen") (simp_all add: insert_absorb Un_commute)
qed simp

text \<open>After a dispatch attempt \<open>r\<close> another one \<open>d\<close> of the same request replays only when the request's
  newest record before it is a reconciliation that found no broker order.\<close>

lemma later_dispatch_reconciled:
  assumes "is_dispatch_attempt (drc_payload r)" and "is_dispatch_attempt (drc_payload d)"
    and "event_ok r" and "request_key R d = request_key R r"
    and "record_key r \<notin> record_key ` set rs" and "record_key d \<notin> record_key ` set (rs @ [r] @ ms)"
    and "is_ok (replay_journal R (rs @ [r] @ ms @ [d]))"
  shows "drc_payload (last (records_of R (request_key R r) (rs @ [r] @ ms)))
    = ReconciliationObserved NoBrokerOrderFound"
proof -
  let ?key = "request_key R r"
  define later where "later = filter (\<lambda>x. request_key R x = ?key)
    (fresh_records (insert (record_key r) (record_key ` set rs)) ms)"
  obtain s where "replay_journal R (rs @ [r] @ ms @ [d]) = Inr s"
    using assms(7) by (cases "replay_journal R (rs @ [r] @ ms @ [d])") simp_all
  then obtain requests where
    run: "reduce_all None (records_of R ?key (rs @ [r] @ ms @ [d])) = Inr (map_of requests ?key)"
    using replay_journal_Inr by metis
  have before: "records_of R ?key (rs @ [r] @ ms) = records_of R ?key rs @ r # later"
    using assms(5) by (simp add: records_of_def fresh_records_append later_def Un_commute)
  have "records_of R ?key (rs @ [r] @ ms @ [d]) = records_of R ?key (rs @ [r] @ ms) @ [d]"
    using assms(4,6) by (simp add: records_of_def fresh_records_append image_Un)
  note run = run [unfolded this before]
  show ?thesis
  proof (cases "records_of R ?key rs")
    case Nil
    with run obtain w where "from_first r = Inr w" by (auto simp: and_then_Inr_iff)
    then obtain command where "drc_payload r = RequestAccepted command"
      using assms(3) by (rule event_ok_accepted)
    with assms(1) show ?thesis by simp
  next
    case (Cons first rest)
    with run have "reduce_all None (first # (rest @ r # later) @ [d]) = Inr (map_of requests ?key)" by simp
    from redispatch_needs_reconciliation(1) [OF this _ assms(2)] show ?thesis
      unfolding before Cons by simp
  qed
qed

lemma v1_records_snoc: "v1_records (rs @ [RecordV1 r]) = v1_records rs @ [r]"
  by (induction rs rule: v1_records.induct) simp_all

lemma appended_records:
  assumes "file_open_existing K sha bs = Inr b" and "digest_length sha" and "storable K (RecordV1 r)"
    and "closing_digest sha (sj_last_frame_digest (fj_scan b)) (jc_encode K (RecordV1 r)) \<noteq> replicate 32 0"
  shows "sj_records (fj_scan (fst (file_append K sha NoAppendFault b (RecordV1 r)))) = sj_records (fj_scan b) @ [r]"
proof -
  have "sj_records (fj_scan b) = v1_records (sj_versioned_records (fj_scan b))"
    using conjunct1 [OF assms(1) [unfolded file_open_existing_Inr]] by (simp add: scan_bytes_Inr)
  then show ?thesis
    by (simp add: file_append_open(1) [OF assms] scan_after_def Let_def v1_records_snoc)
qed

text \<open>C24: A dispatch that may have been sent is never forgotten. Appending a dispatch attempt is
  acknowledged, which is when the order may be sent, exactly when no call failed. Whichever call
  failed, the file reopens as the torn-frame error or as the unchanged journal, both only after a
  failure, or with the attempt as its last record. From then on, whatever records are appended,
  another dispatch attempt of the request replays only if the newest record of the request
  before it is a reconciliation that found no broker order.\<close>

theorem dispatch_survives_crash:
  assumes "digest_length sha" and "file_open_existing (versioned_codec V) sha bs = Inr b"
    and "storable (versioned_codec V) (RecordV1 r)"
    and "closing_digest sha (sj_last_frame_digest (fj_scan b)) (s6_record_json (ve_v1 V) r) \<noteq> replicate 32 0"
    and "is_dispatch_attempt (drc_payload r)"
    and "record_key r \<notin> record_key ` set (sj_records (fj_scan b))"
  shows "is_ok (snd (file_append (versioned_codec V) sha fault b (RecordV1 r))) = (fault = NoAppendFault)
    \<and> (case file_open_existing (versioned_codec V) sha
           (fj_file (fst (file_append (versioned_codec V) sha fault b (RecordV1 r)))) of
        Inl e \<Rightarrow> e = TornFrame \<and> fault \<noteq> NoAppendFault
      | Inr b' \<Rightarrow> b' = b \<and> fault \<noteq> NoAppendFault
          \<or> sj_records (fj_scan b') = sj_records (fj_scan b) @ [r])
    \<and> (\<forall>ms d. is_dispatch_attempt (drc_payload d) \<longrightarrow> request_key R d = request_key R r \<longrightarrow>
          record_key d \<notin> record_key ` set (sj_records (fj_scan b) @ [r] @ ms) \<longrightarrow>
          is_ok (replay_journal R (sj_records (fj_scan b) @ [r] @ ms @ [d])) \<longrightarrow>
          drc_payload (last (records_of R (request_key R r) (sj_records (fj_scan b) @ [r] @ ms)))
            = ReconciliationObserved NoBrokerOrderFound)"
proof -
  let ?K = "versioned_codec V"
  have closing: "closing_digest sha (sj_last_frame_digest (fj_scan b)) (jc_encode ?K (RecordV1 r)) \<noteq> replicate 32 0"
    using assms(4) by (simp add: versioned_codec_def)
  note ack = file_append_acknowledged [OF assms(2,1,3) closing, of fault]
  note reopened = reopen_after_append [OF assms(2,1,3) closing, of fault]
  note records = appended_records [OF assms(2,1,3) closing]
  note later = later_dispatch_reconciled [OF assms(5) _ storable_event_ok [OF assms(3)] _ assms(6)]
  have reopens: "case file_open_existing ?K sha (fj_file (fst (file_append ?K sha fault b (RecordV1 r)))) of
        Inl e \<Rightarrow> e = TornFrame \<and> fault \<noteq> NoAppendFault
      | Inr b' \<Rightarrow> b' = b \<and> fault \<noteq> NoAppendFault
          \<or> sj_records (fj_scan b') = sj_records (fj_scan b) @ [r]"
    unfolding reopened by (cases fault) (simp_all add: records)
  show ?thesis using ack reopens later by blast
qed

text \<open>C25: An accepted command survives in the journal. A command that yields an identity and a
  snapshot yields a record the journal takes; once its append is acknowledged, opening the
  file again finds that record last, and its snapshot gives back exactly the command.\<close>

theorem accepted_command_survives:
  assumes "digest_length sha" and "file_open_existing (versioned_codec V) sha bs = Inr b"
    and "(case command of PlaceOrder place \<Rightarrow> snapshot_from_place x place
      | CancelOrder cancel \<Rightarrow> snapshot_from_cancel x cancel) = Inr snapshot"
    and "request_accepted_record (ve_v1 V) x snapshot sequence previous causal_parent evidence = Inr r"
    and "sequence_get sequence \<noteq> 0 \<and> pred_option record_id_ok previous
      \<and> pred_option record_id_ok causal_parent \<and> digest_ok evidence"
    and "record_env_ok V r"
    and "closing_digest sha (sj_last_frame_digest (fj_scan b)) (s6_record_json (ve_v1 V) r) \<noteq> replicate 32 0"
  shows "\<exists>b'. file_open_existing (versioned_codec V) sha
        (fj_file (fst (file_append (versioned_codec V) sha NoAppendFault b (RecordV1 r)))) = Inr b' \<and>
      is_ok (snd (file_append (versioned_codec V) sha NoAppendFault b (RecordV1 r))) \<and>
      sj_records (fj_scan b') = sj_records (fj_scan b) @ [r] \<and>
      drc_payload r = RequestAccepted snapshot \<and> snapshot_broker_command snapshot = command"
proof -
  have m: "matches_broker_command snapshot x command"
    using assms(3) by (cases command) (simp_all add: matches_broker_command_def)
  note snapshot = snapshot_of_command [OF m]
  have built: "build_record (ve_v1 V) x RequestAcceptedKind (RequestAccepted snapshot) sequence previous
      causal_parent evidence = Inr r"
    using assms(4) snapshot(3) by (simp add: request_accepted_record_def)
  have "parts_ok (RequestAccepted snapshot) sequence previous causal_parent evidence"
    using assms(5) snapshot(5) by (simp add: parts_ok_def)
  from built_record_storable [OF built this assms(6)]
  have storable: "storable (versioned_codec V) (RecordV1 r)" .
  have closing: "closing_digest sha (sj_last_frame_digest (fj_scan b))
      (jc_encode (versioned_codec V) (RecordV1 r)) \<noteq> replicate 32 0"
    using assms(7) by (simp add: versioned_codec_def)
  show ?thesis
    using reopen_after_append [OF assms(2,1) storable closing, of NoAppendFault]
      file_append_acknowledged [OF assms(2,1) storable closing, of NoAppendFault]
      appended_records [OF assms(2,1) storable closing] build_record_Inr(4) [OF built] snapshot(1)
    by simp
qed

section \<open>Sample records\<close>

text \<open>The history of one request: accepted, dispatched, reconciled with no order found, dispatched
  again. A record is encoded by its sequence number.\<close>

definition sample_id_sha :: "bytes \<Rightarrow> bytes" where
  "sample_id_sha bs = last bs # replicate 31 1"

definition sample_evidence :: sha256_digest where
  "sample_evidence = digest_of sample_id_sha [1]"

definition sample_record_id :: "u64 \<Rightarrow> journal_record_id" where
  "sample_record_id n = derive_record_id sample_id_sha sample_request (LifecycleSequence n)"

abbreviation sample_previous :: "u64 \<Rightarrow> journal_record_id option" where
  "sample_previous n \<equiv> (if n = 1 then None else Some (sample_record_id (n - 1)))"

definition sample_durable_record :: "u64 \<Rightarrow> durable_event_kind \<Rightarrow> journal_payload \<Rightarrow> durable_record" where
  "sample_durable_record n kind payload =
     \<lparr> drc_schema_version = 1, drc_journal_record_id = sample_record_id n,
       drc_lifecycle_sequence = LifecycleSequence n, drc_previous_record_id = sample_previous n,
       drc_causal_parent_id = sample_previous n, drc_identity = sample_identity, drc_event_kind = kind,
       drc_payload = payload, drc_canonical_payload_sha256 = digest_of sample_id_sha [1],
       drc_source_evidence_sha256 = sample_evidence \<rparr>"

definition sample_snapshot_record :: durable_record where
  "sample_snapshot_record = sample_durable_record 1 RequestAcceptedKind
     (RequestAccepted (place_snapshot sample_identity sample_command))"

definition sample_dispatch :: "u64 \<Rightarrow> u32 \<Rightarrow> durable_record" where
  "sample_dispatch n attempt = sample_durable_record n DispatchAttemptRecordedKind
     (DispatchAttemptRecorded attempt sample_evidence)"

definition sample_reconciliation :: durable_record where
  "sample_reconciliation = sample_durable_record 3 ReconciliationObservedKind
     (ReconciliationObserved NoBrokerOrderFound)"

definition sample_json :: "durable_record \<Rightarrow> bytes" where
  "sample_json r = [ucast (sequence_get (drc_lifecycle_sequence r))]"

definition sample_versioned :: "unit versioned_env" where
  "sample_versioned =
     \<lparr> ve_v1 = \<lparr> s6_sha = sample_id_sha, s6_payload_json = (\<lambda>_. [1]), s6_record_json = sample_json,
         s6_record_wire = (\<lambda>bs. List.find (\<lambda>r. sample_json r = bs) [sample_snapshot_record, sample_dispatch 2 1]) \<rparr>,
       ve_probe = (\<lambda>_. Inr 1), ve_later_encode = (\<lambda>_. []),
       ve_later_decode = (\<lambda>_ _. Inl OtherRecordError),
       ve_later_record_id = (\<lambda>_. JournalRecordId []), ve_later_sequence = (\<lambda>_. LifecycleSequence 1) \<rparr>"

lemma sample_id_sha_hex: "is_lower_hex_digest (hex_string (sample_id_sha bs))"
proof -
  have "replicate 31 (1 :: u8) \<noteq> replicate 31 0" by (simp add: numeral_eq_Suc)
  then have "sample_id_sha bs \<noteq> replicate 32 0" by (auto simp: sample_id_sha_def numeral_eq_Suc)
  then show ?thesis by (subst hex_digest_valid) (simp_all add: sample_id_sha_def)
qed

lemma sample_parts_ok:
  "digest_ok sample_evidence" "digest_ok (digest_of sample_id_sha bs)" "record_id_ok (sample_record_id n)"
  by (simp_all add: digest_ok_def sample_evidence_def digest_of_def digest_parse_def sample_id_sha_hex
      record_id_ok_def record_id_parse_exact_def sample_record_id_def derive_record_id_def)

lemma sample_built_record:
  assumes "event_matches_payload kind payload" and "action_allows_payload DurablePlace payload"
    and "case payload of RequestAccepted command \<Rightarrow> validate_snapshot_identity sample_identity command = Inr ()
      | _ \<Rightarrow> validate_payload_shape sample_identity payload = Inr ()"
  shows "build_record (ve_v1 sample_versioned) sample_identity kind payload (LifecycleSequence n)
    (sample_previous n) (sample_previous n) sample_evidence = Inr (sample_durable_record n kind payload)"
  using assms sample_identity_ok
  by (cases payload)
    (simp_all add: build_record_def validate_record_def validate_action_event_def sample_versioned_def
      sample_durable_record_def durable_record_schema_version_def sample_identity_def
      sample_record_id_def validate_payload_shape_def)

lemma sample_record_env_ok:
  "record_env_ok sample_versioned sample_snapshot_record"
  "record_env_ok sample_versioned (sample_dispatch 2 1)"
  by (simp_all add: record_env_ok_def sample_versioned_def sample_json_def sample_snapshot_record_def
      sample_dispatch_def sample_durable_record_def sample_parts_ok max_record_bytes_def)

lemma sample_snapshot_valid:
  "validate_snapshot_identity sample_identity (place_snapshot sample_identity sample_command) = Inr ()"
  "snapshot_wire_ok (place_snapshot sample_identity sample_command)"
proof -
  have "matches_broker_command (place_snapshot sample_identity sample_command) sample_identity
      (PlaceOrder sample_command)"
    by (simp add: matches_broker_command_def sample_snapshot)
  note snapshot_of_command(3,5) [OF this]
  then show "validate_snapshot_identity sample_identity (place_snapshot sample_identity sample_command) = Inr ()"
    "snapshot_wire_ok (place_snapshot sample_identity sample_command)" by blast+
qed

lemma sample_snapshot_built:
  "request_accepted_record (ve_v1 sample_versioned) sample_identity (place_snapshot sample_identity sample_command)
     (LifecycleSequence 1) None None sample_evidence = Inr sample_snapshot_record"
  using sample_built_record [of RequestAcceptedKind "RequestAccepted (place_snapshot sample_identity sample_command)" 1]
  by (simp add: request_accepted_record_def sample_snapshot_valid sample_snapshot_record_def)

lemma sample_storable:
  "storable (versioned_codec sample_versioned) (RecordV1 sample_snapshot_record)"
  "storable (versioned_codec sample_versioned) (RecordV1 (sample_dispatch 2 1))"
proof -
  have "build_record (ve_v1 sample_versioned) sample_identity RequestAcceptedKind
      (RequestAccepted (place_snapshot sample_identity sample_command)) (LifecycleSequence 1) None None
      sample_evidence = Inr sample_snapshot_record"
    using sample_snapshot_built by (simp add: request_accepted_record_def sample_snapshot_valid)
  moreover have "parts_ok (RequestAccepted (place_snapshot sample_identity sample_command))
      (LifecycleSequence 1) None None sample_evidence"
    by (simp add: parts_ok_def sample_parts_ok sample_snapshot_valid)
  ultimately show "storable (versioned_codec sample_versioned) (RecordV1 sample_snapshot_record)"
    using sample_record_env_ok(1) by (rule built_record_storable)
  show "storable (versioned_codec sample_versioned) (RecordV1 (sample_dispatch 2 1))"
    unfolding sample_dispatch_def
    by (rule built_record_storable [OF sample_built_record _ sample_record_env_ok(2) [unfolded sample_dispatch_def]])
      (simp_all add: parts_ok_def sample_parts_ok validate_payload_shape_def)
qed

lemma sample_stage6_open: "\<exists>b. file_open_existing (versioned_codec sample_versioned) sample_sha journal_header = Inr b
    \<and> sj_records (fj_scan b) = []"
  using scan_empty_journal [OF sample_journal_facts(1,6), of "versioned_codec sample_versioned"]
  by (simp add: file_open_existing_def)

lemma sample_stage6_append:
  assumes "file_open_existing (versioned_codec sample_versioned) sample_sha bs = Inr b"
    and "storable (versioned_codec sample_versioned) (RecordV1 r)"
    and "fault = NoAppendFault \<or> fault = SyncFails"
  shows "\<exists>b'. file_open_existing (versioned_codec sample_versioned) sample_sha
      (fj_file (fst (file_append (versioned_codec sample_versioned) sample_sha fault b (RecordV1 r)))) = Inr b'
    \<and> sj_records (fj_scan b') = sj_records (fj_scan b) @ [r]"
  using reopen_after_append [OF assms(1) sample_journal_facts(1) assms(2) sample_journal_facts(5), of fault]
    appended_records [OF assms(1) sample_journal_facts(1) assms(2) sample_journal_facts(5)] assms(3)
  by auto

definition sample_id_rest :: string where
  "sample_id_rest = hex_string (replicate 31 1)"

lemma sample_record_id_str:
  "record_id_str (sample_record_id n) = hex_byte (last (u64_to_be n)) @ sample_id_rest"
proof -
  have "last (xs @ u64_to_be n) = last (u64_to_be n)" for xs
    by (simp add: u64_to_be_def)
  then show ?thesis
    by (simp add: sample_record_id_def derive_record_id_def sample_id_sha_def sample_id_rest_def
      hex_string_Cons del: append_assoc flip: append_assoc)
qed

lemma sample_record_ids:
  "record_id_str (sample_record_id 1) = ''01'' @ sample_id_rest"
  "record_id_str (sample_record_id 2) = ''02'' @ sample_id_rest"
  "record_id_str (sample_record_id 3) = ''03'' @ sample_id_rest"
  "record_id_str (sample_record_id 4) = ''04'' @ sample_id_rest"
  unfolding sample_record_id_str by (simp_all, code_simp+)

lemma sample_keys:
  "record_key sample_snapshot_record = ''01'' @ sample_id_rest"
  "record_key (sample_dispatch n attempt) = record_id_str (sample_record_id n)"
  by (simp_all add: record_key_def sample_snapshot_record_def sample_dispatch_def sample_durable_record_def
      sample_record_ids)

lemma sample_reconciled_replays:
  "is_ok (replay_journal sample_replay_env
     ([sample_snapshot_record, sample_dispatch 2 1] @ [sample_reconciliation] @ [sample_dispatch 4 2]))"
proof -
  have "\<exists>st. replay_records sample_replay_env ([], [])
      ([sample_snapshot_record, sample_dispatch 2 1] @ [sample_reconciliation] @ [sample_dispatch 4 2]) = Inr st"
    by (simp add: sample_snapshot_record_def sample_dispatch_def sample_reconciliation_def sample_evidence_def
        sample_durable_record_def sample_identity_def sample_replay_defs sample_record_ids)
  then show ?thesis by (auto simp: replay_journal_def sample_fingerprint split_beta)
qed

text \<open>The attempt reaches the file although the sync fails: sending again at once does not replay,
  and replays after a reconciliation that found no order.\<close>

theorem dispatch_survives_crash_witness:
  "\<exists>b b'. sj_records (fj_scan b) = [sample_snapshot_record] \<and>
     is_ok (snd (file_append (versioned_codec sample_versioned) sample_sha SyncFails b
       (RecordV1 (sample_dispatch 2 1)))) = False \<and>
     file_open_existing (versioned_codec sample_versioned) sample_sha
       (fj_file (fst (file_append (versioned_codec sample_versioned) sample_sha SyncFails b
          (RecordV1 (sample_dispatch 2 1))))) = Inr b' \<and>
     sj_records (fj_scan b') = [sample_snapshot_record, sample_dispatch 2 1] \<and>
     is_ok (replay_journal sample_replay_env (sj_records (fj_scan b') @ [sample_dispatch 4 2])) = False \<and>
     is_ok (replay_journal sample_replay_env
       (sj_records (fj_scan b') @ [sample_reconciliation] @ [sample_dispatch 4 2])) = True"
proof -
  let ?K = "versioned_codec sample_versioned"
  obtain b0 where b0: "file_open_existing ?K sample_sha journal_header = Inr b0" "sj_records (fj_scan b0) = []"
    using sample_stage6_open by blast
  then obtain bs b where b: "file_open_existing ?K sample_sha bs = Inr b"
    "sj_records (fj_scan b) = [sample_snapshot_record]"
    using sample_stage6_append [OF b0(1) sample_storable(1), of NoAppendFault] by auto
  obtain b' where b': "file_open_existing ?K sample_sha
       (fj_file (fst (file_append ?K sample_sha SyncFails b (RecordV1 (sample_dispatch 2 1))))) = Inr b'"
    "sj_records (fj_scan b') = [sample_snapshot_record, sample_dispatch 2 1]"
    using sample_stage6_append [OF b(1) sample_storable(2), of SyncFails] b(2) by auto
  have closing: "closing_digest sample_sha (sj_last_frame_digest (fj_scan b))
      (s6_record_json (ve_v1 sample_versioned) (sample_dispatch 2 1)) \<noteq> replicate 32 0"
    by (rule sample_journal_facts(5))
  have dispatch: "is_dispatch_attempt (drc_payload (sample_dispatch n attempt))"
    "request_key sample_replay_env (sample_dispatch n attempt) = request_key sample_replay_env (sample_dispatch 2 1)"
    for n attempt by (simp_all add: sample_dispatch_def sample_durable_record_def request_key_def)
  have fresh: "record_key (sample_dispatch 2 1) \<notin> record_key ` set (sj_records (fj_scan b))"
    by (simp add: b(2) sample_keys sample_record_ids)
  note survives = dispatch_survives_crash [OF sample_journal_facts(1) b(1) sample_storable(2) closing
      dispatch(1) fresh, of SyncFails sample_replay_env]
  have "record_key (sample_dispatch 4 2) \<notin> record_key ` set (sj_records (fj_scan b) @ [sample_dispatch 2 1] @ [])"
    by (simp add: b(2) sample_keys sample_record_ids)
  moreover have "drc_payload (last (records_of sample_replay_env (request_key sample_replay_env (sample_dispatch 2 1))
      (sj_records (fj_scan b) @ [sample_dispatch 2 1] @ []))) \<noteq> ReconciliationObserved NoBrokerOrderFound"
    using fresh by (simp add: b(2) records_of_def sample_dispatch_def sample_durable_record_def)
  ultimately have "\<not> is_ok (replay_journal sample_replay_env
      (sj_records (fj_scan b) @ [sample_dispatch 2 1] @ [] @ [sample_dispatch 4 2]))"
    using survives dispatch by blast
  moreover have "\<not> is_ok (snd (file_append ?K sample_sha SyncFails b (RecordV1 (sample_dispatch 2 1))))"
    using survives by blast
  ultimately show ?thesis
    using b(2) b' sample_reconciled_replays by (intro exI [of _ b] exI [of _ b']) simp
qed

theorem accepted_command_survives_witness:
  "\<exists>b b'. file_open_existing (versioned_codec sample_versioned) sample_sha journal_header = Inr b \<and>
     file_open_existing (versioned_codec sample_versioned) sample_sha
       (fj_file (fst (file_append (versioned_codec sample_versioned) sample_sha
          NoAppendFault b (RecordV1 sample_snapshot_record)))) = Inr b' \<and>
     sj_records (fj_scan b') = [sample_snapshot_record] \<and>
     snapshot_broker_command (place_snapshot sample_identity sample_command) = PlaceOrder sample_command"
proof -
  obtain b where b: "file_open_existing (versioned_codec sample_versioned) sample_sha journal_header = Inr b"
    "sj_records (fj_scan b) = []"
    using sample_stage6_open by blast
  have taken: "(case PlaceOrder sample_command of PlaceOrder place \<Rightarrow> snapshot_from_place sample_identity place
      | CancelOrder cancel \<Rightarrow> snapshot_from_cancel sample_identity cancel)
      = Inr (place_snapshot sample_identity sample_command)"
    by (simp add: sample_snapshot)
  have parts: "sequence_get (LifecycleSequence 1) \<noteq> 0 \<and> pred_option record_id_ok None
      \<and> pred_option record_id_ok None \<and> digest_ok sample_evidence"
    by (simp add: sample_parts_ok)
  have "closing_digest sample_sha (sj_last_frame_digest (fj_scan b))
      (s6_record_json (ve_v1 sample_versioned) sample_snapshot_record) \<noteq> replicate 32 0"
    by (rule sample_journal_facts(5))
  from accepted_command_survives [OF sample_journal_facts(1) b(1) taken sample_snapshot_built parts
      sample_record_env_ok(1) this] b
  show ?thesis by auto
qed

end
