(* ===== verification/TradeLedger.thy ===== *)
theory TradeLedger
  imports HybridBoundary "HOL-Library.Multiset"
begin

text \<open>
  The trade ledger (\<open>trade_ledger.rs\<close>): fills are attributed to the strategy once their broker
  order is known, repeated fills are dropped, and the attributed ones are netted into a
  position and closed trades. The arithmetic on \<open>f64\<close> is an \<open>f64_ops\<close>, the iteration order of
  a hash map a parameter.
\<close>

section \<open>Data\<close>

record 'f trade_record =
  trr_ts_utc :: int
  trr_trade_id :: "broker_trade_id option"
  trr_order_id :: broker_order_id
  trr_symbol :: string
  trr_side :: string
  trr_qty :: 'f
  trr_price :: 'f
  trr_commission :: 'f
  trr_owned :: bool

record 'f order_record =
  odr_order_id :: broker_order_id
  odr_symbol :: string
  odr_side :: string
  odr_qty :: 'f
  odr_filled :: 'f
  odr_price :: 'f
  odr_status :: string
  odr_ts_utc :: int
  odr_owned :: bool

record 'f closed_trade_record =
  ctr_entry_ts_utc :: int
  ctr_exit_ts_utc :: int
  ctr_symbol :: string
  ctr_side :: string
  ctr_qty :: 'f
  ctr_entry_price :: 'f
  ctr_exit_price :: 'f
  ctr_commission_total :: 'f
  ctr_pnl_gross :: 'f
  ctr_pnl_net :: 'f

record 'f ledger_summary =
  lsm_strategy_id :: string
  lsm_symbol :: string
  lsm_trades_total :: nat
  lsm_win_rate :: 'f
  lsm_pnl_gross_total :: 'f
  lsm_pnl_net_total :: 'f
  lsm_commission_total :: 'f
  lsm_gross_profit :: 'f
  lsm_gross_loss :: 'f
  lsm_avg_pnl :: 'f
  lsm_max_pnl :: 'f
  lsm_min_pnl :: 'f

datatype ledger_blocker_kind = PendingExactMatchBlocker | ObservedOrderNotStrategyOwned

record ledger_blocker =
  lbl_kind :: ledger_blocker_kind
  lbl_order_id :: broker_order_id

datatype fill_disposition =
  StrategyAttributed | ObservedOnly | PendingExactBrokerOrderMatch | DuplicateIdempotent

record fill_apply_outcome =
  fao_order_id :: broker_order_id
  fao_disposition :: fill_disposition

record order_apply_outcome =
  oao_order_id :: broker_order_id
  oao_adopted_pending_strategy_trades :: nat
  oao_observed_pending_trades :: nat

record ledger_trade_key =
  tky_trade_id :: broker_trade_id
  tky_order_id :: broker_order_id

record 'f trade_ledger =
  tlg_orders :: "broker_order_id \<Rightarrow> 'f order_record option"
  tlg_trades :: "'f trade_record list"
  tlg_observed_trades :: "'f trade_record list"
  tlg_pending_trades_by_order_id :: "broker_order_id \<Rightarrow> 'f trade_record list option"
  tlg_active_blockers :: "ledger_blocker list"
  tlg_blocker_history :: "ledger_blocker list"
  tlg_seen_trade_keys :: "ledger_trade_key set"
  tlg_closed_trades :: "'f closed_trade_record list"
  tlg_realized_pnl :: 'f
  tlg_position_qty :: 'f
  tlg_position_cost :: 'f
  tlg_entry_ts_utc :: "int option"
  tlg_entry_price :: 'f
  tlg_entry_side :: "string option"
  tlg_entry_symbol :: "string option"
  tlg_open_commission_total :: 'f

definition f_zero :: "'f f64_ops \<Rightarrow> 'f" where
  "f_zero F = f_of_nat F 0"

definition f_one :: "'f f64_ops \<Rightarrow> 'f" where
  "f_one F = f_of_nat F 1"

definition trade_ledger_default :: "'f f64_ops \<Rightarrow> 'f trade_ledger" where
  "trade_ledger_default F = \<lparr> tlg_orders = Map.empty, tlg_trades = [], tlg_observed_trades = [],
     tlg_pending_trades_by_order_id = Map.empty, tlg_active_blockers = [], tlg_blocker_history = [],
     tlg_seen_trade_keys = {}, tlg_closed_trades = [], tlg_realized_pnl = f_zero F,
     tlg_position_qty = f_zero F, tlg_position_cost = f_zero F, tlg_entry_ts_utc = None,
     tlg_entry_price = f_zero F, tlg_entry_side = None, tlg_entry_symbol = None,
     tlg_open_commission_total = f_zero F \<rparr>"

section \<open>The position\<close>

definition is_flat_qty :: "'f f64_ops \<Rightarrow> 'f \<Rightarrow> bool" where
  "is_flat_qty F qty = f_less_eq F (f_abs F qty) (f_epsilon F)"

definition average_price :: "'f f64_ops \<Rightarrow> 'f trade_ledger \<Rightarrow> 'f" where
  "average_price F l =
     (if is_flat_qty F (tlg_position_qty l) then f_zero F
      else f_div F (tlg_position_cost l) (tlg_position_qty l))"

text \<open>The first part of \<open>apply_fill\<close>: quantity, cost and realised result, by the side of the fill.\<close>

definition fill_buy :: "'f f64_ops \<Rightarrow> 'f \<Rightarrow> 'f \<Rightarrow> 'f trade_ledger \<Rightarrow> 'f trade_ledger" where
  "fill_buy F qty price l =
     (if f_less F (tlg_position_qty l) (f_zero F)
      then let avg_price = average_price F l;
               cover_qty = f_min F qty (f_abs F (tlg_position_qty l));
               l' = l \<lparr> tlg_realized_pnl := f_add F (tlg_realized_pnl l)
                          (f_mul F (f_sub F avg_price price) cover_qty),
                        tlg_position_qty := f_add F (tlg_position_qty l) cover_qty,
                        tlg_position_cost := f_add F (tlg_position_cost l) (f_mul F avg_price cover_qty) \<rparr>;
               remaining = f_sub F qty cover_qty
           in if f_less F (f_zero F) remaining
              then l' \<lparr> tlg_position_qty := f_add F (tlg_position_qty l') remaining,
                        tlg_position_cost := f_add F (tlg_position_cost l') (f_mul F remaining price) \<rparr>
              else l'
      else l \<lparr> tlg_position_qty := f_add F (tlg_position_qty l) qty,
               tlg_position_cost := f_add F (tlg_position_cost l) (f_mul F qty price) \<rparr>)"

definition fill_sell :: "'f f64_ops \<Rightarrow> 'f \<Rightarrow> 'f \<Rightarrow> 'f trade_ledger \<Rightarrow> 'f trade_ledger" where
  "fill_sell F qty price l =
     (if f_less F (f_zero F) (tlg_position_qty l)
      then let avg_price = average_price F l;
               close_qty = f_min F qty (tlg_position_qty l);
               l' = l \<lparr> tlg_realized_pnl := f_add F (tlg_realized_pnl l)
                          (f_mul F (f_sub F price avg_price) close_qty),
                        tlg_position_qty := f_sub F (tlg_position_qty l) close_qty,
                        tlg_position_cost := f_sub F (tlg_position_cost l) (f_mul F avg_price close_qty) \<rparr>;
               remaining = f_sub F qty close_qty
           in if f_less F (f_zero F) remaining
              then l' \<lparr> tlg_position_qty := f_sub F (tlg_position_qty l') remaining,
                        tlg_position_cost := f_sub F (tlg_position_cost l') (f_mul F remaining price) \<rparr>
              else l'
      else l \<lparr> tlg_position_qty := f_sub F (tlg_position_qty l) qty,
               tlg_position_cost := f_sub F (tlg_position_cost l) (f_mul F qty price) \<rparr>)"

definition fill_position :: "'f f64_ops \<Rightarrow> 'f trade_record \<Rightarrow> 'f trade_ledger \<Rightarrow> 'f trade_ledger" where
  "fill_position F trade l =
     (if trr_side trade = ''buy'' then fill_buy F (trr_qty trade) (trr_price trade) l
      else if trr_side trade = ''sell'' then fill_sell F (trr_qty trade) (trr_price trade) l
      else l)"

text \<open>The record of the closing of a position held before the fill.\<close>

definition close_position ::
    "'f f64_ops \<Rightarrow> 'f trade_record \<Rightarrow> 'f \<Rightarrow> 'f \<Rightarrow> bool \<Rightarrow> 'f \<Rightarrow> 'f trade_ledger \<Rightarrow> 'f trade_ledger" where
  "close_position F trade before_qty before_avg_price flipped close_ratio l =
     (let entry_price = (if f_less F (f_zero F) (tlg_entry_price l) then tlg_entry_price l
                         else f_abs F before_avg_price);
          entry_side = (case tlg_entry_side l of
              Some side \<Rightarrow> side
            | None \<Rightarrow> if f_less F (f_zero F) before_qty then ''buy'' else ''sell'');
          symbol = (case tlg_entry_symbol l of Some s \<Rightarrow> s | None \<Rightarrow> trr_symbol trade);
          close_qty = f_abs F before_qty;
          pnl_gross = (if entry_side = ''buy''
                       then f_mul F (f_sub F (trr_price trade) entry_price) close_qty
                       else f_mul F (f_sub F entry_price (trr_price trade)) close_qty);
          commission_total = (if flipped
              then f_add F (tlg_open_commission_total l) (f_mul F (trr_commission trade) close_ratio)
              else f_add F (tlg_open_commission_total l) (trr_commission trade));
          pnl_net = f_sub F pnl_gross commission_total;
          closed = \<lparr> ctr_entry_ts_utc = (case tlg_entry_ts_utc l of Some t \<Rightarrow> t | None \<Rightarrow> trr_ts_utc trade),
                     ctr_exit_ts_utc = trr_ts_utc trade, ctr_symbol = symbol, ctr_side = entry_side,
                     ctr_qty = close_qty, ctr_entry_price = entry_price, ctr_exit_price = trr_price trade,
                     ctr_commission_total = commission_total, ctr_pnl_gross = pnl_gross,
                     ctr_pnl_net = pnl_net \<rparr>
      in (if f_less F (f_zero F) entry_price
          then l \<lparr> tlg_closed_trades := tlg_closed_trades l @ [closed] \<rparr> else l)
         \<lparr> tlg_entry_ts_utc := None, tlg_entry_side := None, tlg_entry_symbol := None,
           tlg_entry_price := f_zero F, tlg_open_commission_total := f_zero F \<rparr>)"

definition apply_fill :: "'f f64_ops \<Rightarrow> 'f trade_record \<Rightarrow> 'f trade_ledger \<Rightarrow> 'f trade_ledger" where
  "apply_fill F trade l0 =
     (let before_qty = tlg_position_qty l0;
          before_avg_price = (if is_flat_qty F before_qty then f_zero F
                              else f_div F (tlg_position_cost l0) before_qty);
          l = fill_position F trade l0;
          is_flat = is_flat_qty F (tlg_position_qty l);
          was_flat = is_flat_qty F before_qty;
          flipped = (\<not> was_flat \<and> \<not> is_flat
                     \<and> \<not> f_eq F (f_signum F before_qty) (f_signum F (tlg_position_qty l)));
          close_ratio = (if flipped \<and> f_less F (f_zero F) (trr_qty trade)
                         then f_min F (f_div F (f_abs F before_qty) (trr_qty trade)) (f_one F)
                         else f_one F)
      in if \<not> was_flat \<and> (is_flat \<or> flipped)
         then let l' = close_position F trade before_qty before_avg_price flipped close_ratio l
              in if flipped
                 then l' \<lparr> tlg_entry_ts_utc := Some (trr_ts_utc trade),
                           tlg_entry_side := Some (if f_less F (f_zero F) (tlg_position_qty l')
                                                   then ''buy'' else ''sell''),
                           tlg_entry_symbol := Some (trr_symbol trade),
                           tlg_entry_price := f_abs F (average_price F l'),
                           tlg_open_commission_total :=
                             f_mul F (trr_commission trade) (f_sub F (f_one F) close_ratio) \<rparr>
                 else l'
         else if was_flat \<and> \<not> is_flat
         then l \<lparr> tlg_entry_ts_utc := Some (trr_ts_utc trade), tlg_entry_side := Some (trr_side trade),
                  tlg_entry_symbol := Some (trr_symbol trade),
                  tlg_entry_price := f_abs F (average_price F l),
                  tlg_open_commission_total := trr_commission trade \<rparr>
         else if \<not> is_flat
         then l \<lparr> tlg_entry_price := f_abs F (average_price F l),
                  tlg_open_commission_total :=
                    f_add F (tlg_open_commission_total l) (trr_commission trade) \<rparr>
         else l)"

section \<open>Attribution\<close>

definition activate_blocker ::
    "ledger_blocker_kind \<Rightarrow> broker_order_id \<Rightarrow> 'f trade_ledger \<Rightarrow> 'f trade_ledger" where
  "activate_blocker kind order l =
     (if list_ex (\<lambda>b. lbl_kind b = kind \<and> lbl_order_id b = order) (tlg_active_blockers l) then l
      else let blocker = \<lparr> lbl_kind = kind, lbl_order_id = order \<rparr>
           in l \<lparr> tlg_active_blockers := tlg_active_blockers l @ [blocker],
                  tlg_blocker_history := tlg_blocker_history l @ [blocker] \<rparr>)"

definition resolve_active_blocker ::
    "ledger_blocker_kind \<Rightarrow> broker_order_id \<Rightarrow> 'f trade_ledger \<Rightarrow> 'f trade_ledger" where
  "resolve_active_blocker kind order l =
     l \<lparr> tlg_active_blockers :=
       filter (\<lambda>b. \<not> (lbl_kind b = kind \<and> lbl_order_id b = order)) (tlg_active_blockers l) \<rparr>"

definition apply_owned_fill :: "'f f64_ops \<Rightarrow> 'f trade_record \<Rightarrow> 'f trade_ledger \<Rightarrow> 'f trade_ledger" where
  "apply_owned_fill F trade l =
     (let l' = apply_fill F trade l in l' \<lparr> tlg_trades := tlg_trades l' @ [trade] \<rparr>)"

definition mark_duplicate_if_seen ::
    "'f trade_record \<Rightarrow> 'f trade_ledger \<Rightarrow> 'f trade_ledger \<times> bool" where
  "mark_duplicate_if_seen trade l =
     (case trr_trade_id trade of
        None \<Rightarrow> (l, False)
      | Some trade_id \<Rightarrow>
          (let key = \<lparr> tky_trade_id = trade_id, tky_order_id = trr_order_id trade \<rparr>
           in (l \<lparr> tlg_seen_trade_keys := insert key (tlg_seen_trade_keys l) \<rparr>,
               key \<in> tlg_seen_trade_keys l)))"

definition observe_only :: "'f trade_record \<Rightarrow> broker_order_id \<Rightarrow> 'f trade_ledger \<Rightarrow> 'f trade_ledger" where
  "observe_only trade order l =
     activate_blocker ObservedOrderNotStrategyOwned order
       (l \<lparr> tlg_observed_trades := tlg_observed_trades l @ [trade] \<rparr>)"

definition adopt_pending ::
    "'f f64_ops \<Rightarrow> bool \<Rightarrow> broker_order_id \<Rightarrow> 'f trade_record \<Rightarrow> 'f trade_ledger \<Rightarrow> 'f trade_ledger" where
  "adopt_pending F owned order trade l =
     (let trade' = trade \<lparr> trr_owned := owned \<rparr>
      in if owned then apply_owned_fill F trade' l else observe_only trade' order l)"

definition record_order ::
    "'f f64_ops \<Rightarrow> 'f order_record \<Rightarrow> 'f trade_ledger \<Rightarrow> 'f trade_ledger \<times> order_apply_outcome" where
  "record_order F r l =
     (let order = odr_order_id r;
          pending = (case tlg_pending_trades_by_order_id l order of None \<Rightarrow> [] | Some ts \<Rightarrow> ts);
          l1 = l \<lparr> tlg_orders := (tlg_orders l)(order \<mapsto> r),
                   tlg_pending_trades_by_order_id := (tlg_pending_trades_by_order_id l)(order := None) \<rparr>;
          l2 = (if pending \<noteq> [] then resolve_active_blocker PendingExactMatchBlocker order l1 else l1)
      in (fold (adopt_pending F (odr_owned r) order) pending l2,
          \<lparr> oao_order_id = order,
            oao_adopted_pending_strategy_trades = (if odr_owned r then length pending else 0),
            oao_observed_pending_trades = (if odr_owned r then 0 else length pending) \<rparr>))"

definition record_fill ::
    "'f f64_ops \<Rightarrow> 'f trade_record \<Rightarrow> 'f trade_ledger \<Rightarrow> 'f trade_ledger \<times> fill_apply_outcome" where
  "record_fill F trade l =
     (let order = trr_order_id trade; (l1, duplicate) = mark_duplicate_if_seen trade l
      in if duplicate then (l1, \<lparr> fao_order_id = order, fao_disposition = DuplicateIdempotent \<rparr>)
         else case tlg_orders l1 order of
           Some r \<Rightarrow>
             if odr_owned r
             then (apply_owned_fill F (trade \<lparr> trr_owned := True \<rparr>) l1,
                   \<lparr> fao_order_id = order, fao_disposition = StrategyAttributed \<rparr>)
             else (observe_only (trade \<lparr> trr_owned := False \<rparr>) order l1,
                   \<lparr> fao_order_id = order, fao_disposition = ObservedOnly \<rparr>)
         | None \<Rightarrow>
             (activate_blocker PendingExactMatchBlocker order
                (l1 \<lparr> tlg_pending_trades_by_order_id := (tlg_pending_trades_by_order_id l1)(order \<mapsto>
                   (case tlg_pending_trades_by_order_id l1 order of None \<Rightarrow> [] | Some ts \<Rightarrow> ts) @ [trade]) \<rparr>),
              \<lparr> fao_order_id = order, fao_disposition = PendingExactBrokerOrderMatch \<rparr>))"

section \<open>Summary and queries\<close>

record 'f summary_totals =
  smt_gross_profit :: 'f
  smt_gross_loss :: 'f
  smt_max_pnl :: 'f
  smt_min_pnl :: 'f
  smt_pnl_gross_total :: 'f
  smt_pnl_net_total :: 'f
  smt_commission_total :: 'f

definition summary_step ::
    "'f f64_ops \<Rightarrow> nat \<times> 'f closed_trade_record \<Rightarrow> 'f summary_totals \<Rightarrow> 'f summary_totals" where
  "summary_step F entry t =
     (let (idx, trade) = entry;
          t1 = t \<lparr> smt_pnl_gross_total := f_add F (smt_pnl_gross_total t) (ctr_pnl_gross trade),
                   smt_pnl_net_total := f_add F (smt_pnl_net_total t) (ctr_pnl_net trade),
                   smt_commission_total := f_add F (smt_commission_total t) (ctr_commission_total trade) \<rparr>;
          t2 = (if f_less_eq F (f_zero F) (ctr_pnl_gross trade)
                then t1 \<lparr> smt_gross_profit := f_add F (smt_gross_profit t1) (ctr_pnl_gross trade) \<rparr>
                else t1 \<lparr> smt_gross_loss := f_add F (smt_gross_loss t1) (f_abs F (ctr_pnl_gross trade)) \<rparr>);
          t3 = (if idx = 0 \<or> f_less F (smt_max_pnl t2) (ctr_pnl_net trade)
                then t2 \<lparr> smt_max_pnl := ctr_pnl_net trade \<rparr> else t2)
      in if idx = 0 \<or> f_less F (ctr_pnl_net trade) (smt_min_pnl t3)
         then t3 \<lparr> smt_min_pnl := ctr_pnl_net trade \<rparr> else t3)"

definition ledger_summary_of ::
    "'f f64_ops \<Rightarrow> 'f trade_ledger \<Rightarrow> string \<Rightarrow> string \<Rightarrow> 'f ledger_summary" where
  "ledger_summary_of F l strategy_id symbol =
     (let closed = tlg_closed_trades l;
          total = length closed;
          zero = f_zero F;
          t = fold (summary_step F) (enumerate 0 closed)
                \<lparr> smt_gross_profit = zero, smt_gross_loss = zero, smt_max_pnl = zero, smt_min_pnl = zero,
                  smt_pnl_gross_total = zero, smt_pnl_net_total = zero, smt_commission_total = zero \<rparr>;
          wins = length (filter (\<lambda>c. f_less F zero (ctr_pnl_net c)) closed)
      in \<lparr> lsm_strategy_id = strategy_id, lsm_symbol = symbol, lsm_trades_total = total,
           lsm_win_rate = (if total = 0 then zero else f_div F (f_of_nat F wins) (f_of_nat F total)),
           lsm_pnl_gross_total = smt_pnl_gross_total t, lsm_pnl_net_total = smt_pnl_net_total t,
           lsm_commission_total = smt_commission_total t, lsm_gross_profit = smt_gross_profit t,
           lsm_gross_loss = smt_gross_loss t,
           lsm_avg_pnl = (if total = 0 then zero else f_div F (smt_pnl_net_total t) (f_of_nat F total)),
           lsm_max_pnl = smt_max_pnl t, lsm_min_pnl = smt_min_pnl t \<rparr>)"

definition orders_total :: "'f trade_ledger \<Rightarrow> nat" where
  "orders_total l = card (dom (tlg_orders l))"

definition pending_trades_total ::
    "(broker_order_id set \<Rightarrow> broker_order_id list) \<Rightarrow> 'f trade_ledger \<Rightarrow> nat" where
  "pending_trades_total iter l =
     sum_list (map (\<lambda>order. case tlg_pending_trades_by_order_id l order of None \<Rightarrow> 0 | Some ts \<Rightarrow> length ts)
       (iter (dom (tlg_pending_trades_by_order_id l))))"

end
