(* ===== verification/TradeLedgerFacts.thy ===== *)
theory TradeLedgerFacts
  imports TradeLedger
begin

text \<open>
  What the trade ledger guarantees over any history of orders and fills: every accepted fill is
  accounted for exactly once, the position is the sum of the attributed fills, and where the
  closed trades fall short of the realised result.
\<close>

section \<open>What the operations leave alone\<close>

lemma fill_position_frame [frame_rules]:
  "tlg_orders (fill_position F t l) = tlg_orders l"
  "tlg_trades (fill_position F t l) = tlg_trades l"
  "tlg_observed_trades (fill_position F t l) = tlg_observed_trades l"
  "tlg_pending_trades_by_order_id (fill_position F t l) = tlg_pending_trades_by_order_id l"
  "tlg_active_blockers (fill_position F t l) = tlg_active_blockers l"
  "tlg_seen_trade_keys (fill_position F t l) = tlg_seen_trade_keys l"
  by (simp_all add: fill_position_def fill_buy_def fill_sell_def Let_def)

lemma close_position_frame [frame_rules]:
  "tlg_orders (close_position F t q p b c l) = tlg_orders l"
  "tlg_trades (close_position F t q p b c l) = tlg_trades l"
  "tlg_observed_trades (close_position F t q p b c l) = tlg_observed_trades l"
  "tlg_pending_trades_by_order_id (close_position F t q p b c l) = tlg_pending_trades_by_order_id l"
  "tlg_active_blockers (close_position F t q p b c l) = tlg_active_blockers l"
  "tlg_seen_trade_keys (close_position F t q p b c l) = tlg_seen_trade_keys l"
  "tlg_realized_pnl (close_position F t q p b c l) = tlg_realized_pnl l"
  "tlg_position_qty (close_position F t q p b c l) = tlg_position_qty l"
  "tlg_position_cost (close_position F t q p b c l) = tlg_position_cost l"
  by (simp_all add: close_position_def Let_def)

lemma apply_fill_frame [frame_rules]:
  "tlg_orders (apply_fill F t l) = tlg_orders l"
  "tlg_trades (apply_fill F t l) = tlg_trades l"
  "tlg_observed_trades (apply_fill F t l) = tlg_observed_trades l"
  "tlg_pending_trades_by_order_id (apply_fill F t l) = tlg_pending_trades_by_order_id l"
  "tlg_active_blockers (apply_fill F t l) = tlg_active_blockers l"
  "tlg_seen_trade_keys (apply_fill F t l) = tlg_seen_trade_keys l"
  "tlg_realized_pnl (apply_fill F t l) = tlg_realized_pnl (fill_position F t l)"
  "tlg_position_qty (apply_fill F t l) = tlg_position_qty (fill_position F t l)"
  "tlg_position_cost (apply_fill F t l) = tlg_position_cost (fill_position F t l)"
  by (simp_all add: apply_fill_def Let_def frame_rules)

lemma activate_blocker_frame [frame_rules]:
  "tlg_orders (activate_blocker k i l) = tlg_orders l"
  "tlg_trades (activate_blocker k i l) = tlg_trades l"
  "tlg_observed_trades (activate_blocker k i l) = tlg_observed_trades l"
  "tlg_pending_trades_by_order_id (activate_blocker k i l) = tlg_pending_trades_by_order_id l"
  "tlg_seen_trade_keys (activate_blocker k i l) = tlg_seen_trade_keys l"
  "tlg_realized_pnl (activate_blocker k i l) = tlg_realized_pnl l"
  "tlg_position_qty (activate_blocker k i l) = tlg_position_qty l"
  "tlg_position_cost (activate_blocker k i l) = tlg_position_cost l"
  by (simp_all add: activate_blocker_def Let_def)

lemma set_activate_blocker:
  "set (tlg_active_blockers (activate_blocker k i l))
     = insert \<lparr> lbl_kind = k, lbl_order_id = i \<rparr> (set (tlg_active_blockers l))"
proof (cases "list_ex (\<lambda>b. lbl_kind b = k \<and> lbl_order_id b = i) (tlg_active_blockers l)")
  case True
  then obtain b :: ledger_blocker where "b \<in> set (tlg_active_blockers l)" "lbl_kind b = k" "lbl_order_id b = i"
    by (auto simp: list_ex_iff)
  moreover have "b = \<lparr> lbl_kind = lbl_kind b, lbl_order_id = lbl_order_id b \<rparr>" by (cases b) simp
  ultimately have "\<lparr> lbl_kind = k, lbl_order_id = i \<rparr> \<in> set (tlg_active_blockers l)" by metis
  with True show ?thesis by (simp add: activate_blocker_def insert_absorb)
qed (simp add: activate_blocker_def Let_def)

section \<open>Adopting pending fills\<close>

lemma adopt_pending_frame [frame_rules]:
  "tlg_orders (adopt_pending F owned i t l) = tlg_orders l"
  "tlg_pending_trades_by_order_id (adopt_pending F owned i t l) = tlg_pending_trades_by_order_id l"
  "tlg_seen_trade_keys (adopt_pending F owned i t l) = tlg_seen_trade_keys l"
  "tlg_trades (adopt_pending F owned i t l)
     = tlg_trades l @ (if owned then [t \<lparr> trr_owned := True \<rparr>] else [])"
  "tlg_observed_trades (adopt_pending F owned i t l)
     = tlg_observed_trades l @ (if owned then [] else [t \<lparr> trr_owned := False \<rparr>])"
  "\<lparr> lbl_kind = PendingExactMatchBlocker, lbl_order_id = j \<rparr> \<in> set (tlg_active_blockers (adopt_pending F owned i t l))
     \<longleftrightarrow> \<lparr> lbl_kind = PendingExactMatchBlocker, lbl_order_id = j \<rparr> \<in> set (tlg_active_blockers l)"
  by (simp_all add: adopt_pending_def apply_owned_fill_def observe_only_def Let_def frame_rules
      set_activate_blocker)

lemma adopt_all_frame [frame_rules]:
  "tlg_orders (fold (adopt_pending F owned i) ts l) = tlg_orders l"
  "tlg_pending_trades_by_order_id (fold (adopt_pending F owned i) ts l) = tlg_pending_trades_by_order_id l"
  "tlg_seen_trade_keys (fold (adopt_pending F owned i) ts l) = tlg_seen_trade_keys l"
  "tlg_trades (fold (adopt_pending F owned i) ts l)
     = tlg_trades l @ (if owned then map (\<lambda>t. t \<lparr> trr_owned := True \<rparr>) ts else [])"
  "tlg_observed_trades (fold (adopt_pending F owned i) ts l)
     = tlg_observed_trades l @ (if owned then [] else map (\<lambda>t. t \<lparr> trr_owned := False \<rparr>) ts)"
  "\<lparr> lbl_kind = PendingExactMatchBlocker, lbl_order_id = j \<rparr>
       \<in> set (tlg_active_blockers (fold (adopt_pending F owned i) ts l))
     \<longleftrightarrow> \<lparr> lbl_kind = PendingExactMatchBlocker, lbl_order_id = j \<rparr> \<in> set (tlg_active_blockers l)"
  by (induction ts arbitrary: l) (simp_all add: frame_rules)

section \<open>Histories\<close>

datatype 'f ledger_event = LedgerOrder "'f order_record" | LedgerFill "'f trade_record"

fun ledger_step :: "'f f64_ops \<Rightarrow> 'f ledger_event \<Rightarrow> 'f trade_ledger \<Rightarrow> 'f trade_ledger" where
  "ledger_step F (LedgerOrder r) l = fst (record_order F r l)"
| "ledger_step F (LedgerFill t) l = fst (record_fill F t l)"

definition run_ledger :: "'f f64_ops \<Rightarrow> 'f ledger_event list \<Rightarrow> 'f trade_ledger" where
  "run_ledger F es = fold (ledger_step F) es (trade_ledger_default F)"

definition fill_key :: "'f trade_record \<Rightarrow> ledger_trade_key option" where
  "fill_key t = map_option (\<lambda>i. \<lparr> tky_trade_id = i, tky_order_id = trr_order_id t \<rparr>) (trr_trade_id t)"

text \<open>The fills that are not repetitions: a fill without a trade id never is one.\<close>

fun accepted_fills :: "ledger_trade_key set \<Rightarrow> 'f ledger_event list \<Rightarrow> 'f trade_record list" where
  "accepted_fills seen [] = []"
| "accepted_fills seen (LedgerOrder r # es) = accepted_fills seen es"
| "accepted_fills seen (LedgerFill t # es) =
     (case fill_key t of
        None \<Rightarrow> t # accepted_fills seen es
      | Some key \<Rightarrow>
          if key \<in> seen then accepted_fills seen es else t # accepted_fills (insert key seen) es)"

definition pending_of :: "'f trade_ledger \<Rightarrow> broker_order_id \<Rightarrow> 'f trade_record list" where
  "pending_of l i = (case tlg_pending_trades_by_order_id l i of None \<Rightarrow> [] | Some ts \<Rightarrow> ts)"

text \<open>A fill apart from the flag the ledger sets, and the fills of one order wherever they stand.\<close>

definition plain :: "'f trade_record \<Rightarrow> 'f trade_record" where
  "plain t = t \<lparr> trr_owned := False \<rparr>"

definition fills_of :: "broker_order_id \<Rightarrow> 'f trade_record list \<Rightarrow> 'f trade_record multiset" where
  "fills_of i ts = mset (map plain (filter (\<lambda>t. trr_order_id t = i) ts))"

definition accounted :: "'f trade_ledger \<Rightarrow> broker_order_id \<Rightarrow> 'f trade_record multiset" where
  "accounted l i = fills_of i (tlg_trades l) + fills_of i (tlg_observed_trades l) + fills_of i (pending_of l i)"

lemma fills_of_simps [simp]:
  "fills_of i [] = {#}"
  "fills_of i (ts @ ts') = fills_of i ts + fills_of i ts'"
  "fills_of i (t # ts) = (if trr_order_id t = i then {# plain t #} else {#}) + fills_of i ts"
  by (simp_all add: fills_of_def)

lemma fills_of_owned [simp]: "fills_of i (map (\<lambda>t. t \<lparr> trr_owned := b \<rparr>) ts) = fills_of i ts"
  by (induction ts) (simp_all add: plain_def)

lemma plain_owned [simp]: "plain (t \<lparr> trr_owned := b \<rparr>) = plain t"
  by (simp add: plain_def)

definition ledger_inv :: "'f trade_ledger \<Rightarrow> bool" where
  "ledger_inv l \<longleftrightarrow> (\<forall>i.
     (pending_of l i = [] \<or> tlg_orders l i = None) \<and>
     (\<forall>t \<in> set (pending_of l i). trr_order_id t = i) \<and>
     (\<lparr> lbl_kind = PendingExactMatchBlocker, lbl_order_id = i \<rparr> \<in> set (tlg_active_blockers l))
       = (pending_of l i \<noteq> []))"

lemma record_order_accounted:
  assumes "ledger_inv l"
  shows "ledger_inv (fst (record_order F r l))"
    and "accounted (fst (record_order F r l)) i = accounted l i"
    and "tlg_seen_trade_keys (fst (record_order F r l)) = tlg_seen_trade_keys l"
proof -
  let ?o = "odr_order_id r"
  have other: "fills_of i (pending_of l ?o) = {#}" if "i \<noteq> ?o"
    using assms that by (auto simp: ledger_inv_def fills_of_def filter_empty_conv)
  show "tlg_seen_trade_keys (fst (record_order F r l)) = tlg_seen_trade_keys l"
    by (simp add: record_order_def Let_def frame_rules resolve_active_blocker_def)
  show "accounted (fst (record_order F r l)) i = accounted l i"
    using other
    by (cases "i = ?o")
      (auto simp: accounted_def record_order_def Let_def frame_rules resolve_active_blocker_def pending_of_def
        split: option.splits)
  show "ledger_inv (fst (record_order F r l))"
    using assms
    by (auto simp: ledger_inv_def record_order_def Let_def frame_rules resolve_active_blocker_def pending_of_def
        split: option.splits if_splits)
qed

lemma mark_duplicate_if_seen_eq:
  "mark_duplicate_if_seen t l =
     (l \<lparr> tlg_seen_trade_keys := tlg_seen_trade_keys l \<union> set_option (fill_key t) \<rparr>,
      fill_key t \<noteq> None \<and> the (fill_key t) \<in> tlg_seen_trade_keys l)"
  by (cases "trr_trade_id t") (simp_all add: mark_duplicate_if_seen_def fill_key_def Let_def)

lemma record_fill_accounted:
  assumes "ledger_inv l"
  shows "ledger_inv (fst (record_fill F t l))"
    and "accounted (fst (record_fill F t l)) i = accounted l i +
      (if fill_key t \<noteq> None \<and> the (fill_key t) \<in> tlg_seen_trade_keys l then {#} else fills_of i [t])"
    and "tlg_seen_trade_keys (fst (record_fill F t l)) = tlg_seen_trade_keys l \<union> set_option (fill_key t)"
proof -
  note simps = record_fill_def mark_duplicate_if_seen_eq Let_def frame_rules apply_owned_fill_def
    observe_only_def set_activate_blocker
  show "tlg_seen_trade_keys (fst (record_fill F t l)) = tlg_seen_trade_keys l \<union> set_option (fill_key t)"
    by (simp add: simps split: option.splits)
  show "accounted (fst (record_fill F t l)) i = accounted l i +
      (if fill_key t \<noteq> None \<and> the (fill_key t) \<in> tlg_seen_trade_keys l then {#} else fills_of i [t])"
    by (auto simp: simps accounted_def pending_of_def split: option.splits)
  show "ledger_inv (fst (record_fill F t l))"
    using assms by (auto simp: ledger_inv_def simps pending_of_def split: option.splits if_splits)
qed

lemma accepted_fills_step:
  "accepted_fills seen (LedgerFill t # es) =
     (if fill_key t \<noteq> None \<and> the (fill_key t) \<in> seen then [] else [t])
       @ accepted_fills (seen \<union> set_option (fill_key t)) es"
  by (cases "fill_key t") (auto simp: insert_absorb)

lemma run_accounted:
  assumes "ledger_inv l"
  shows "ledger_inv (fold (ledger_step F) es l)"
    and "accounted (fold (ledger_step F) es l) i =
      accounted l i + fills_of i (accepted_fills (tlg_seen_trade_keys l) es)"
proof -
  have "ledger_inv (fold (ledger_step F) es l) \<and> accounted (fold (ledger_step F) es l) i =
      accounted l i + fills_of i (accepted_fills (tlg_seen_trade_keys l) es)"
    using assms
  proof (induction es arbitrary: l)
    case (Cons e es)
    show ?case
    proof (cases e)
      case (LedgerOrder r)
      with Cons.IH [OF record_order_accounted(1) [OF Cons.prems, of F r]] show ?thesis
        by (simp add: record_order_accounted(2,3) [OF Cons.prems])
    next
      case (LedgerFill t)
      note step = record_fill_accounted [OF Cons.prems, of F t]
      from Cons.IH [OF step(1)] LedgerFill show ?thesis
        by (simp add: step(2,3) accepted_fills_step del: accepted_fills.simps(3))
    qed
  qed simp
  then show "ledger_inv (fold (ledger_step F) es l)"
    "accounted (fold (ledger_step F) es l) i =
      accounted l i + fills_of i (accepted_fills (tlg_seen_trade_keys l) es)" by simp_all
qed

lemma ledger_inv_default: "ledger_inv (trade_ledger_default F)"
  by (simp add: ledger_inv_def trade_ledger_default_def pending_of_def)

text \<open>C29: Every fill is accounted for once. Whatever orders and fills arrive in whatever order, the
  fills of a broker order that are not repetitions stand, each exactly once, among the
  attributed, the observed and the pending ones; fills are pending only while their order is
  unknown, and exactly then the ledger shows the blocker for it.\<close>

theorem ledger_accounts_every_fill:
  "fills_of i (tlg_trades (run_ledger F es)) + fills_of i (tlg_observed_trades (run_ledger F es))
     + fills_of i (pending_of (run_ledger F es) i) = fills_of i (accepted_fills {} es) \<and>
   (pending_of (run_ledger F es) i = [] \<or> tlg_orders (run_ledger F es) i = None) \<and>
   (\<lparr> lbl_kind = PendingExactMatchBlocker, lbl_order_id = i \<rparr> \<in> set (tlg_active_blockers (run_ledger F es)))
     = (pending_of (run_ledger F es) i \<noteq> [])"
proof -
  have "accounted (trade_ledger_default F) i = {#}" "tlg_seen_trade_keys (trade_ledger_default F) = {}"
    by (simp_all add: accounted_def trade_ledger_default_def pending_of_def)
  then show ?thesis
    using run_accounted(1) [OF ledger_inv_default [of F], of F es] run_accounted(2) [OF ledger_inv_default [of F], of F es i]
    by (simp add: run_ledger_def accounted_def ledger_inv_def)
qed

section \<open>The books are the attributed fills\<close>

text \<open>The position, its entry, the realised result and the closed trades of a ledger: what is left of
  it when orders, fills, blockers and seen keys are forgotten.\<close>

definition books_only :: "'f trade_ledger \<Rightarrow> 'f trade_ledger" where
  "books_only l = l \<lparr> tlg_orders := Map.empty, tlg_trades := [], tlg_observed_trades := [],
     tlg_pending_trades_by_order_id := Map.empty, tlg_active_blockers := [], tlg_blocker_history := [],
     tlg_seen_trade_keys := {} \<rparr>"

lemma books_only_fields [simp]:
  "tlg_closed_trades (books_only l) = tlg_closed_trades l" "tlg_realized_pnl (books_only l) = tlg_realized_pnl l"
  "tlg_position_qty (books_only l) = tlg_position_qty l" "tlg_position_cost (books_only l) = tlg_position_cost l"
  "tlg_entry_ts_utc (books_only l) = tlg_entry_ts_utc l" "tlg_entry_price (books_only l) = tlg_entry_price l"
  "tlg_entry_side (books_only l) = tlg_entry_side l" "tlg_entry_symbol (books_only l) = tlg_entry_symbol l"
  "tlg_open_commission_total (books_only l) = tlg_open_commission_total l"
  by (simp_all add: books_only_def)

lemma average_price_books: "average_price F (books_only l) = average_price F l"
  by (simp add: average_price_def)

lemma fill_position_books: "fill_position F t (books_only l) = books_only (fill_position F t l)"
  by (simp add: fill_position_def fill_buy_def fill_sell_def average_price_books Let_def)
    (simp add: books_only_def)

lemma close_position_books:
  "close_position F t q p b c (books_only l) = books_only (close_position F t q p b c l)"
  by (simp add: close_position_def Let_def) (simp add: books_only_def)

lemma apply_fill_books: "apply_fill F t (books_only l) = books_only (apply_fill F t l)"
  by (simp add: apply_fill_def fill_position_books close_position_books average_price_books Let_def)
    (simp add: books_only_def average_price_def)

lemma books_only_default: "books_only (trade_ledger_default F) = trade_ledger_default F"
  by (simp add: books_only_def trade_ledger_default_def)

definition books_follow :: "'f f64_ops \<Rightarrow> 'f trade_ledger \<Rightarrow> bool" where
  "books_follow F l \<longleftrightarrow> books_only l = fold (apply_fill F) (tlg_trades l) (trade_ledger_default F)"

lemma books_follow_cong:
  assumes "books_follow F l" and "tlg_trades l' = tlg_trades l" and "books_only l' = books_only l"
  shows "books_follow F l'"
  using assms by (simp add: books_follow_def)

lemma apply_owned_fill_follow: "books_follow F l \<Longrightarrow> books_follow F (apply_owned_fill F t l)"
proof -
  assume "books_follow F l"
  then have "apply_fill F t (books_only l) = fold (apply_fill F) (tlg_trades l @ [t]) (trade_ledger_default F)"
    by (simp add: books_follow_def)
  moreover have "books_only (apply_owned_fill F t l) = books_only (apply_fill F t l)"
    by (simp add: apply_owned_fill_def Let_def books_only_def)
  ultimately show ?thesis
    by (simp add: books_follow_def apply_fill_books apply_owned_fill_def Let_def frame_rules)
qed

lemma observe_only_follow: "books_follow F l \<Longrightarrow> books_follow F (observe_only t i l)"
  by (erule books_follow_cong) (simp_all add: observe_only_def activate_blocker_def Let_def books_only_def)

lemma adopt_all_follow: "books_follow F l \<Longrightarrow> books_follow F (fold (adopt_pending F owned i) ts l)"
  by (induction ts arbitrary: l)
    (simp_all add: adopt_pending_def apply_owned_fill_follow observe_only_follow Let_def)

lemma ledger_step_follow:
  assumes "books_follow F l"
  shows "books_follow F (ledger_step F x l)"
proof (cases x)
  case (LedgerOrder r)
  let ?l1 = "l \<lparr> tlg_orders := (tlg_orders l)(odr_order_id r \<mapsto> r),
      tlg_pending_trades_by_order_id := (tlg_pending_trades_by_order_id l)(odr_order_id r := None) \<rparr>"
  have "books_follow F (resolve_active_blocker PendingExactMatchBlocker (odr_order_id r) ?l1)" "books_follow F ?l1"
    using assms by (simp_all add: books_follow_def resolve_active_blocker_def books_only_def)
  with LedgerOrder show ?thesis by (simp add: record_order_def Let_def adopt_all_follow)
next
  case (LedgerFill t)
  let ?l1 = "l \<lparr> tlg_seen_trade_keys := tlg_seen_trade_keys l \<union> set_option (fill_key t) \<rparr>"
  have 1: "books_follow F ?l1" using assms by (simp add: books_follow_def books_only_def)
  have "books_follow F (activate_blocker PendingExactMatchBlocker i
      (?l1 \<lparr> tlg_pending_trades_by_order_id := m \<rparr>))" for i m
    by (rule books_follow_cong [OF 1]) (simp_all add: frame_rules activate_blocker_def books_only_def Let_def)
  then show ?thesis
    using 1 LedgerFill
    by (auto simp: record_fill_def mark_duplicate_if_seen_eq Let_def apply_owned_fill_follow
        observe_only_follow split: option.splits)
qed

lemma run_ledger_follow: "books_follow F (run_ledger F es)"
proof -
  have "books_follow F (fold (ledger_step F) es l)" if "books_follow F l" for l
    using that by (induction es arbitrary: l) (simp_all add: ledger_step_follow)
  moreover have "books_follow F (trade_ledger_default F)"
    by (simp add: books_follow_def books_only_default) (simp add: trade_ledger_default_def)
  ultimately show ?thesis by (simp add: run_ledger_def)
qed

text \<open>What the books of any run of fills look like, whatever the arithmetic.\<close>

definition entry_matches_position :: "'f f64_ops \<Rightarrow> 'f trade_ledger \<Rightarrow> bool" where
  "entry_matches_position F l \<longleftrightarrow>
     (if is_flat_qty F (tlg_position_qty l)
      then tlg_entry_ts_utc l = None \<and> tlg_entry_side l = None \<and> tlg_entry_symbol l = None
         \<and> tlg_entry_price l = f_zero F \<and> tlg_open_commission_total l = f_zero F
      else tlg_entry_ts_utc l \<noteq> None \<and> tlg_entry_side l \<noteq> None \<and> tlg_entry_symbol l \<noteq> None
         \<and> tlg_entry_price l = f_abs F (f_div F (tlg_position_cost l) (tlg_position_qty l)))"

definition closed_trade_consistent :: "'f f64_ops \<Rightarrow> 'f closed_trade_record \<Rightarrow> bool" where
  "closed_trade_consistent F c \<longleftrightarrow> f_less F (f_zero F) (ctr_entry_price c)
     \<and> ctr_pnl_gross c = f_mul F (if ctr_side c = ''buy'' then f_sub F (ctr_exit_price c) (ctr_entry_price c)
         else f_sub F (ctr_entry_price c) (ctr_exit_price c)) (ctr_qty c)
     \<and> ctr_pnl_net c = f_sub F (ctr_pnl_gross c) (ctr_commission_total c)"

definition books_ok :: "'f f64_ops \<Rightarrow> 'f trade_ledger \<Rightarrow> bool" where
  "books_ok F l \<longleftrightarrow> entry_matches_position F l \<and> (\<forall>c \<in> set (tlg_closed_trades l). closed_trade_consistent F c)"

lemma fill_position_entry:
  "tlg_closed_trades (fill_position F t l) = tlg_closed_trades l"
  "tlg_entry_ts_utc (fill_position F t l) = tlg_entry_ts_utc l"
  "tlg_entry_price (fill_position F t l) = tlg_entry_price l"
  "tlg_entry_side (fill_position F t l) = tlg_entry_side l"
  "tlg_entry_symbol (fill_position F t l) = tlg_entry_symbol l"
  "tlg_open_commission_total (fill_position F t l) = tlg_open_commission_total l"
  by (simp_all add: fill_position_def fill_buy_def fill_sell_def Let_def)

lemma close_position_closed:
  "c \<in> set (tlg_closed_trades (close_position F t q p b r l)) \<Longrightarrow>
     c \<in> set (tlg_closed_trades l) \<or> closed_trade_consistent F c"
  by (auto simp: close_position_def Let_def closed_trade_consistent_def split: if_splits)

lemma close_position_entry:
  "tlg_entry_ts_utc (close_position F t q p b r l) = None" "tlg_entry_side (close_position F t q p b r l) = None"
  "tlg_entry_symbol (close_position F t q p b r l) = None" "tlg_entry_price (close_position F t q p b r l) = f_zero F"
  "tlg_open_commission_total (close_position F t q p b r l) = f_zero F"
  by (simp_all add: close_position_def Let_def)

lemma apply_fill_closed:
  "c \<in> set (tlg_closed_trades (apply_fill F t l)) \<Longrightarrow>
     c \<in> set (tlg_closed_trades l) \<or> closed_trade_consistent F c"
  by (auto simp: apply_fill_def Let_def fill_position_entry dest!: close_position_closed split: if_splits)

lemma apply_fill_entry: "entry_matches_position F l \<Longrightarrow> entry_matches_position F (apply_fill F t l)"
  by (simp add: entry_matches_position_def apply_fill_def Let_def frame_rules fill_position_entry
      close_position_entry average_price_def split: if_splits)

lemma books_ok_run: "books_ok F l \<Longrightarrow> books_ok F (fold (apply_fill F) ts l)"
proof (induction ts arbitrary: l)
  case (Cons t ts)
  then have "books_ok F (apply_fill F t l)"
    using apply_fill_entry apply_fill_closed unfolding books_ok_def by blast
  with Cons.IH show ?case by simp
qed simp


section \<open>A sample over exact numbers\<close>

text \<open>The operations on exactly represented numbers, with the width \<open>e\<close> of a flat position.\<close>

definition exact_ops :: "rat \<Rightarrow> rat f64_ops" where
  "exact_ops e = \<lparr> f_add = (+), f_sub = (-), f_mul = (*), f_div = (/), f_abs = abs, f_min = min,
     f_signum = sgn, f_less = (<), f_less_eq = (\<le>), f_eq = (=), f_of_nat = of_nat, f_epsilon = e \<rparr>"

lemma exact_ops_simps [simp]:
  "f_add (exact_ops e) = (+)" "f_sub (exact_ops e) = (-)" "f_mul (exact_ops e) = (*)"
  "f_div (exact_ops e) = (/)" "f_abs (exact_ops e) = abs" "f_min (exact_ops e) = min"
  "f_signum (exact_ops e) = sgn" "f_less (exact_ops e) = (<)" "f_less_eq (exact_ops e) = (\<le>)"
  "f_eq (exact_ops e) = (=)" "f_zero (exact_ops e) = 0" "f_one (exact_ops e) = 1"
  "f_epsilon (exact_ops e) = e" "f_of_nat (exact_ops e) = of_nat"
  by (simp_all add: exact_ops_def f_zero_def f_one_def)

definition sample_fill :: "string \<Rightarrow> rat \<Rightarrow> rat \<Rightarrow> rat trade_record" where
  "sample_fill side qty price = \<lparr> trr_ts_utc = 0, trr_trade_id = None, trr_order_id = BrokerOrderId ''1'',
     trr_symbol = ''S'', trr_side = side, trr_qty = qty, trr_price = price, trr_commission = 0,
     trr_owned = False \<rparr>"

definition sample_ledger_order :: "rat order_record" where
  "sample_ledger_order = \<lparr> odr_order_id = BrokerOrderId ''1'', odr_symbol = ''S'', odr_side = ''buy'', odr_qty = 2,
     odr_filled = 0, odr_price = 0, odr_status = ''new'', odr_ts_utc = 0, odr_owned = True \<rparr>"

text \<open>A buy that waits for its order, is adopted, and partly sold again.\<close>

definition adopted_history :: "rat ledger_event list" where
  "adopted_history = [LedgerFill (sample_fill ''buy'' 2 100), LedgerOrder sample_ledger_order,
     LedgerFill (sample_fill ''sell'' 1 110)]"

lemmas sample_ledger_evaluation = run_ledger_def sample_fill_def sample_ledger_order_def
  trade_ledger_default_def record_order_def record_fill_def mark_duplicate_if_seen_def apply_owned_fill_def
  adopt_pending_def activate_blocker_def resolve_active_blocker_def
  apply_fill_def fill_position_def fill_buy_def fill_sell_def close_position_def is_flat_qty_def
  average_price_def ledger_summary_of_def summary_step_def Let_def


text \<open>The summary can be less than the realised result, even exactly computed: a partial close is
  realised but never becomes a closed trade, so its result is missing from the totals.\<close>

definition partial_close_history :: "rat ledger_event list" where
  "partial_close_history = [LedgerOrder sample_ledger_order, LedgerFill (sample_fill ''buy'' 2 100),
     LedgerFill (sample_fill ''sell'' 1 110), LedgerFill (sample_fill ''sell'' 1 120)]"

lemma closed_trades_miss_partial_closes:
  "tlg_realized_pnl (run_ledger (exact_ops 0) partial_close_history) = 30 \<and>
   lsm_pnl_gross_total (ledger_summary_of (exact_ops 0) (run_ledger (exact_ops 0) partial_close_history) s y) = 20"
  by (simp add: partial_close_history_def sample_ledger_evaluation)

end
