(* ===== verification/FinamOrders.thy ===== *)
theory FinamOrders
  imports Preflight "HOL-Library.Countable"
begin

text \<open>
  The order requests and responses of the Finam adapter
  (\<open>broker-finam/src/order_request.rs\<close>): building the REST request of an approved order,
  its redacted diagnostics, and classifying the endpoint's answer. Parameters:
  \<open>decimal_str\<close> is \<open>Decimal::normalize().to_string()\<close> and \<open>parse_json\<close> is
  \<open>serde_json::from_str::<Value>\<close>; a value already parsed is a \<open>json_value\<close>, and the derived
  \<open>Deserialize\<close> of the accepted-order DTO is written out on it.
\<close>

section \<open>Requests\<close>

datatype decimal_value = DecimalValue string

fun decimal_value_str :: "decimal_value \<Rightarrow> string" where
  "decimal_value_str (DecimalValue v) = v"

record finam_place_order_request =
  fpr_symbol :: string
  fpr_quantity :: decimal_value
  fpr_side :: string
  fpr_order_type :: string
  fpr_time_in_force :: "string option"
  fpr_limit_price :: "decimal_value option"
  fpr_client_order_id :: "string option"
  fpr_comment :: "string option"

record finam_place_order_request_spec =
  fps_account_id :: string
  fps_body :: finam_place_order_request

record finam_cancel_order_request_spec =
  fcs_account_id :: string
  fcs_order_id :: string

definition place_rest_path_segments :: "finam_place_order_request_spec \<Rightarrow> string list" where
  "place_rest_path_segments spec = [''v1'', ''accounts'', fps_account_id spec, ''orders'']"

definition cancel_rest_path_segments :: "finam_cancel_order_request_spec \<Rightarrow> string list" where
  "cancel_rest_path_segments spec =
     [''v1'', ''accounts'', fcs_account_id spec, ''orders'', fcs_order_id spec]"

record finam_order_path_diagnostic =
  fpd_method :: string
  fpd_path_template :: string
  fpd_account_id_present :: bool
  fpd_account_id_len :: nat
  fpd_order_id_present :: bool
  fpd_order_id_len :: "nat option"

record finam_place_order_body_diagnostic =
  fbd_symbol_present :: bool
  fbd_symbol_len :: nat
  fbd_quantity_present :: bool
  fbd_quantity_len :: nat
  fbd_side_present :: bool
  fbd_order_type_present :: bool
  fbd_time_in_force_present :: bool
  fbd_limit_price_present :: bool
  fbd_limit_price_len :: "nat option"
  fbd_client_order_id_present :: bool
  fbd_client_order_id_len :: "nat option"
  fbd_comment_present :: bool
  fbd_comment_len :: "nat option"

definition place_redacted_path_shape ::
    "finam_place_order_request_spec \<Rightarrow> finam_order_path_diagnostic" where
  "place_redacted_path_shape spec =
     \<lparr> fpd_method = ''POST'', fpd_path_template = ''/v1/accounts/{account_id}/orders'',
       fpd_account_id_present = (fps_account_id spec \<noteq> []),
       fpd_account_id_len = length (fps_account_id spec),
       fpd_order_id_present = False, fpd_order_id_len = None \<rparr>"

definition place_redacted_body_shape ::
    "finam_place_order_request_spec \<Rightarrow> finam_place_order_body_diagnostic" where
  "place_redacted_body_shape spec =
     (let body = fps_body spec in
      \<lparr> fbd_symbol_present = (fpr_symbol body \<noteq> []),
        fbd_symbol_len = length (fpr_symbol body),
        fbd_quantity_present = (decimal_value_str (fpr_quantity body) \<noteq> []),
        fbd_quantity_len = length (decimal_value_str (fpr_quantity body)),
        fbd_side_present = (fpr_side body \<noteq> []),
        fbd_order_type_present = (fpr_order_type body \<noteq> []),
        fbd_time_in_force_present = (fpr_time_in_force body \<noteq> None),
        fbd_limit_price_present = (fpr_limit_price body \<noteq> None),
        fbd_limit_price_len = map_option (length \<circ> decimal_value_str) (fpr_limit_price body),
        fbd_client_order_id_present = (fpr_client_order_id body \<noteq> None),
        fbd_client_order_id_len = map_option length (fpr_client_order_id body),
        fbd_comment_present = (fpr_comment body \<noteq> None),
        fbd_comment_len = map_option length (fpr_comment body) \<rparr>)"

definition cancel_redacted_path_shape ::
    "finam_cancel_order_request_spec \<Rightarrow> finam_order_path_diagnostic" where
  "cancel_redacted_path_shape spec =
     \<lparr> fpd_method = ''DELETE'', fpd_path_template = ''/v1/accounts/{account_id}/orders/{order_id}'',
       fpd_account_id_present = (fcs_account_id spec \<noteq> []),
       fpd_account_id_len = length (fcs_account_id spec),
       fpd_order_id_present = (fcs_order_id spec \<noteq> []),
       fpd_order_id_len = Some (length (fcs_order_id spec)) \<rparr>"

datatype finam_order_request_build_error =
    BuildMissingVenueSymbol | BuildUnsupportedOrderType | BuildLimitPriceMissing
  | BuildMarketOrderHasLimitPrice | BuildRawCommandCommentNotAllowed
  | BuildMissingBrokerOrderId | BuildUnsupportedTimeInForce

fun finam_side :: "order_side \<Rightarrow> string" where
  "finam_side Buy = ''SIDE_BUY''"
| "finam_side Sell = ''SIDE_SELL''"

fun finam_time_in_force :: "time_in_force \<Rightarrow> finam_order_request_build_error + string" where
  "finam_time_in_force Day = Inr ''TIME_IN_FORCE_DAY''"
| "finam_time_in_force GoodTillCancel = Inr ''TIME_IN_FORCE_GOOD_TILL_CANCEL''"
| "finam_time_in_force GoodTillDate = Inl BuildUnsupportedTimeInForce"
| "finam_time_in_force FillOrKill = Inr ''TIME_IN_FORCE_FOK''"
| "finam_time_in_force ImmediateOrCancel = Inr ''TIME_IN_FORCE_IOC''"

text \<open>The order type and the limit price of the body.\<close>

definition finam_type_and_price ::
    "(decimal \<Rightarrow> string) \<Rightarrow> place_order
       \<Rightarrow> finam_order_request_build_error + string \<times> decimal_value option" where
  "finam_type_and_price decimal_str order =
     (case po_order_type order of
        Market \<Rightarrow>
          (if po_limit_price order \<noteq> None then Inl BuildMarketOrderHasLimitPrice
           else Inr (''ORDER_TYPE_MARKET'', None))
      | Limit \<Rightarrow>
          and_then (ok_or (po_limit_price order) BuildLimitPriceMissing) (\<lambda>price.
            Inr (''ORDER_TYPE_LIMIT'', Some (DecimalValue (decimal_str price))))
      | _ \<Rightarrow> Inl BuildUnsupportedOrderType)"

definition build_place_order_request ::
    "(decimal \<Rightarrow> string) \<Rightarrow> preflight_approved_place_order \<Rightarrow> outgoing_order_comment option
       \<Rightarrow> finam_order_request_build_error + finam_place_order_request_spec" where
  "build_place_order_request decimal_str approved outgoing_comment =
     (let order = pap_order approved in
      if po_comment order \<noteq> None then Inl BuildRawCommandCommentNotAllowed
      else and_then (ok_or (ins_venue_symbol (po_instrument order)) BuildMissingVenueSymbol) (\<lambda>symbol.
      and_then (finam_type_and_price decimal_str order) (\<lambda>(order_type, limit_price).
      and_then (finam_time_in_force (po_time_in_force order)) (\<lambda>tif.
        Inr \<lparr> fps_account_id = account_id_str (po_account_id order),
              fps_body =
                \<lparr> fpr_symbol = symbol,
                  fpr_quantity = DecimalValue (decimal_str (po_qty order)),
                  fpr_side = finam_side (po_side order),
                  fpr_order_type = order_type,
                  fpr_time_in_force = Some tif,
                  fpr_limit_price = limit_price,
                  fpr_client_order_id = Some (client_order_id_str (po_client_order_id order)),
                  fpr_comment = map_option ooc_value outgoing_comment \<rparr> \<rparr>))))"

definition build_cancel_order_request ::
    "preflight_approved_cancel_order
       \<Rightarrow> finam_order_request_build_error + finam_cancel_order_request_spec" where
  "build_cancel_order_request approved =
     (let cancel = pac_cancel approved in
      if broker_order_id_str (co_order_id cancel) = [] then Inl BuildMissingBrokerOrderId
      else Inr \<lparr> fcs_account_id = account_id_str (co_account_id cancel),
                 fcs_order_id = broker_order_id_str (co_order_id cancel) \<rparr>)"

section \<open>Responses\<close>

datatype finam_order_execution_outcome =
    ExecAccepted "broker_order_id option"
  | ExecRejected command_ack_reason_code
  | ExecTimeout

datatype json_value =
    JNull | JBool bool | JNumber string | JString string
  | JArray "json_value list" | JObject "(string \<times> json_value) list"

fun json_value_kind :: "json_value \<Rightarrow> string" where
  "json_value_kind (JObject _) = ''object''"
| "json_value_kind (JArray _) = ''array''"
| "json_value_kind (JString _) = ''string''"
| "json_value_kind (JNumber _) = ''number''"
| "json_value_kind (JBool _) = ''bool''"
| "json_value_kind JNull = ''null''"

definition json_body_kind :: "(string \<Rightarrow> json_value option) \<Rightarrow> string \<Rightarrow> string" where
  "json_body_kind parse_json body =
     (if body = [] then ''empty''
      else case parse_json body of None \<Rightarrow> ''malformed_json'' | Some v \<Rightarrow> json_value_kind v)"

text \<open>
  \<open>FinamOrderEndpointAcceptedDto\<close>, and the \<open>Deserialize\<close> that serde derives for it: an
  object with at most one of the four names of its field (a second one is a duplicate
  field), whose other members are ignored, or a sequence of at most that field.
\<close>

datatype accepted_dto = AcceptedDto "string option"

fun dto_broker_order_id :: "accepted_dto \<Rightarrow> string option" where
  "dto_broker_order_id (AcceptedDto b) = b"

definition accepted_dto_names :: "string list" where
  "accepted_dto_names = [''broker_order_id'', ''brokerOrderId'', ''order_id'', ''orderId'']"

fun json_opt_string :: "json_value \<Rightarrow> string option option" where
  "json_opt_string JNull = Some None"
| "json_opt_string (JString s) = Some (Some s)"
| "json_opt_string _ = None"

fun accepted_dto_from_value :: "json_value \<Rightarrow> accepted_dto option" where
  "accepted_dto_from_value (JObject members) =
     (case filter (\<lambda>(k, v). k \<in> set accepted_dto_names) members of
        [] \<Rightarrow> Some (AcceptedDto None)
      | [(k, v)] \<Rightarrow> map_option AcceptedDto (json_opt_string v)
      | _ \<Rightarrow> None)"
| "accepted_dto_from_value (JArray []) = Some (AcceptedDto None)"
| "accepted_dto_from_value (JArray [v]) = map_option AcceptedDto (json_opt_string v)"
| "accepted_dto_from_value _ = None"

datatype finam_endpoint_rejected_code = EndpointBrokerRejected | LocalBrokerValidation

datatype finam_endpoint_maintenance_kind = ServiceInterval | MarketClosed | UnknownMaintenance

datatype finam_order_endpoint_fixture =
    FixtureAccepted accepted_dto
  | FixtureRejected finam_endpoint_rejected_code
  | FixtureRateLimited "u64 option"
  | FixtureMaintenance finam_endpoint_maintenance_kind
  | FixtureTimeout
  | FixtureDecodeError "u16 option" "string option"

datatype finam_order_endpoint_response_kind =
    KindAccepted | KindRejected | KindRateLimited | KindMaintenance | KindUnauthorized
  | KindReconciliationRequired | KindTimeout | KindDecodeError

record finam_order_endpoint_response_diagnostic =
  fed_kind :: finam_order_endpoint_response_kind
  fed_broker_order_id_present :: bool
  fed_broker_order_id_len :: "nat option"
  fed_reason_code :: "finam_endpoint_rejected_code option"
  fed_retry_after_ms_present :: bool
  fed_maintenance_kind :: "finam_endpoint_maintenance_kind option"
  fed_status :: "u16 option"
  fed_body_kind :: "string option"

text \<open>The diagnostic of a kind with nothing else to say.\<close>

definition plain_diagnostic ::
    "finam_order_endpoint_response_kind \<Rightarrow> finam_order_endpoint_response_diagnostic" where
  "plain_diagnostic kind =
     \<lparr> fed_kind = kind, fed_broker_order_id_present = False, fed_broker_order_id_len = None,
       fed_reason_code = None, fed_retry_after_ms_present = False, fed_maintenance_kind = None,
       fed_status = None, fed_body_kind = None \<rparr>"

fun redacted_diagnostic ::
    "finam_order_endpoint_fixture \<Rightarrow> finam_order_endpoint_response_diagnostic" where
  "redacted_diagnostic (FixtureAccepted dto) = (plain_diagnostic KindAccepted)
     \<lparr> fed_broker_order_id_present := (dto_broker_order_id dto \<noteq> None),
       fed_broker_order_id_len := map_option length (dto_broker_order_id dto) \<rparr>"
| "redacted_diagnostic (FixtureRejected reason_code) = (plain_diagnostic KindRejected)
     \<lparr> fed_reason_code := Some reason_code \<rparr>"
| "redacted_diagnostic (FixtureRateLimited retry_after_ms) = (plain_diagnostic KindRateLimited)
     \<lparr> fed_retry_after_ms_present := (retry_after_ms \<noteq> None) \<rparr>"
| "redacted_diagnostic (FixtureMaintenance kind) = (plain_diagnostic KindMaintenance)
     \<lparr> fed_maintenance_kind := Some kind \<rparr>"
| "redacted_diagnostic FixtureTimeout = plain_diagnostic KindTimeout"
| "redacted_diagnostic (FixtureDecodeError status body_kind) = (plain_diagnostic KindDecodeError)
     \<lparr> fed_status := status, fed_body_kind := body_kind \<rparr>"

datatype finam_order_endpoint_mapped_result =
    MappedExecution finam_order_execution_outcome
  | MappedRateLimited "u64 option"
  | MappedMaintenance finam_endpoint_maintenance_kind
  | MappedUnauthorized u16
  | MappedReconciliationRequired u16
  | MappedDecodeError "u16 option" "string option"

datatype finam_order_endpoint_mapper_error = EmptyBrokerOrderId

fun map_fixture ::
    "finam_order_endpoint_fixture
       \<Rightarrow> finam_order_endpoint_mapper_error + finam_order_endpoint_mapped_result" where
  "map_fixture (FixtureAccepted dto) =
     (case dto_broker_order_id dto of
        None \<Rightarrow> Inr (MappedExecution (ExecAccepted None))
      | Some v \<Rightarrow>
          (case order_id_from_broker_native_exact v of
             Inl _ \<Rightarrow> Inl EmptyBrokerOrderId
           | Inr b \<Rightarrow> Inr (MappedExecution (ExecAccepted (Some b)))))"
| "map_fixture (FixtureRejected _) = Inr (MappedExecution (ExecRejected BrokerRejectedReason))"
| "map_fixture (FixtureRateLimited retry_after_ms) = Inr (MappedRateLimited retry_after_ms)"
| "map_fixture (FixtureMaintenance kind) = Inr (MappedMaintenance kind)"
| "map_fixture FixtureTimeout = Inr (MappedExecution ExecTimeout)"
| "map_fixture (FixtureDecodeError status body_kind) = Inr (MappedDecodeError status body_kind)"

section \<open>Classifying the endpoint's answer\<close>

datatype finam_local_http_response =
    HttpResponse u16 string "u64 option"
  | HttpBodyReadFailed "u16 option"
  | HttpTimeout

record finam_classified_response =
  fcr_result :: finam_order_endpoint_mapped_result
  fcr_diagnostic :: finam_order_endpoint_response_diagnostic

datatype finam_order_endpoint_context = PlaceContext | CancelContext

definition decode_error_response ::
    "u16 option \<Rightarrow> string option \<Rightarrow> finam_classified_response" where
  "decode_error_response status body_kind =
     \<lparr> fcr_result = MappedDecodeError status body_kind,
       fcr_diagnostic = redacted_diagnostic (FixtureDecodeError status body_kind) \<rparr>"

text \<open>The \<open>expect\<close> follows the check for an empty id, so the id is never refused there: it is the
  constructor application below.\<close>

definition classify_success_order_endpoint_response ::
    "(string \<Rightarrow> json_value option) \<Rightarrow> u16 \<Rightarrow> string \<Rightarrow> finam_classified_response" where
  "classify_success_order_endpoint_response parse_json status body =
     (case parse_json body of
        None \<Rightarrow> decode_error_response (Some status) (Some ''malformed_json'')
      | Some v \<Rightarrow>
          (let body_kind = json_value_kind v in
           case accepted_dto_from_value v of
             None \<Rightarrow> decode_error_response (Some status) (Some body_kind)
           | Some dto \<Rightarrow>
               (if dto_broker_order_id dto = Some []
                then decode_error_response (Some status) (Some body_kind)
                else \<lparr> fcr_result = MappedExecution (ExecAccepted
                          (map_option BrokerOrderId (dto_broker_order_id dto))),
                       fcr_diagnostic = redacted_diagnostic (FixtureAccepted dto)
                          \<lparr> fed_status := Some status, fed_body_kind := Some body_kind \<rparr> \<rparr>)))"

text \<open>A response whose diagnostic is the fixture's, with the status and the body's kind.\<close>

definition classified_with ::
    "(string \<Rightarrow> json_value option) \<Rightarrow> finam_order_endpoint_mapped_result
       \<Rightarrow> finam_order_endpoint_response_diagnostic \<Rightarrow> u16 \<Rightarrow> string \<Rightarrow> finam_classified_response" where
  "classified_with parse_json result diagnostic status body =
     \<lparr> fcr_result = result,
       fcr_diagnostic = diagnostic
         \<lparr> fed_status := Some status, fed_body_kind := Some (json_body_kind parse_json body) \<rparr> \<rparr>"

definition null_order_id_json :: string where
  "null_order_id_json = ''{'' @ [CHR 0x22] @ ''broker_order_id'' @ [CHR 0x22] @ '':null}''"

definition classify_order_endpoint_local_http_response_for_context ::
    "(string \<Rightarrow> json_value option) \<Rightarrow> finam_order_endpoint_context \<Rightarrow> finam_local_http_response
       \<Rightarrow> finam_classified_response" where
  "classify_order_endpoint_local_http_response_for_context parse_json context response =
   (case response of
     HttpTimeout \<Rightarrow>
     \<lparr> fcr_result = MappedExecution ExecTimeout,
       fcr_diagnostic = redacted_diagnostic FixtureTimeout \<rparr>
   | HttpBodyReadFailed status \<Rightarrow>
     decode_error_response status (Some ''body_read_failed'')
   | HttpResponse status body retry_after_ms \<Rightarrow>
     (if status = 401 \<or> status = 403
      then classified_with parse_json (MappedUnauthorized status)
             (plain_diagnostic KindUnauthorized) status body
      else if status = 429
      then classified_with parse_json (MappedRateLimited retry_after_ms)
             (redacted_diagnostic (FixtureRateLimited retry_after_ms)) status body
      else if status = 408 \<or> status = 504
      then classified_with parse_json (MappedExecution ExecTimeout)
             (redacted_diagnostic FixtureTimeout) status body
      else if status = 500 \<or> status = 502 \<or> status = 503
      then (let kind = (if status = 503 then ServiceInterval else UnknownMaintenance)
            in classified_with parse_json (MappedMaintenance kind)
                 (redacted_diagnostic (FixtureMaintenance kind)) status body)
      else if context = CancelContext \<and> (trim body = [] \<or> status = 204)
      then classify_success_order_endpoint_response parse_json status null_order_id_json
      else if 200 \<le> status \<and> status < 300
      then classify_success_order_endpoint_response parse_json status body
      else if context = CancelContext \<and> status \<in> {404, 409, 410}
      then classified_with parse_json (MappedReconciliationRequired status)
             (plain_diagnostic KindReconciliationRequired) status body
      else if 400 \<le> status \<and> status < 500
      then classified_with parse_json (MappedExecution (ExecRejected BrokerRejectedReason))
             (redacted_diagnostic (FixtureRejected EndpointBrokerRejected)) status body
      else decode_error_response (Some status) (Some (json_body_kind parse_json body))))"

definition classify_order_endpoint_local_http_response ::
    "(string \<Rightarrow> json_value option) \<Rightarrow> finam_local_http_response \<Rightarrow> finam_classified_response" where
  "classify_order_endpoint_local_http_response parse_json response =
     classify_order_endpoint_local_http_response_for_context parse_json PlaceContext response"

section \<open>Dry clients\<close>

datatype finam_dry_order_request_kind = DryPlace | DryCancel

record finam_dry_order_request_diagnostic =
  fdr_kind :: finam_dry_order_request_kind
  fdr_path :: finam_order_path_diagnostic
  fdr_body :: "finam_place_order_body_diagnostic option"

definition dry_place_diagnostic ::
    "finam_place_order_request_spec \<Rightarrow> finam_dry_order_request_diagnostic" where
  "dry_place_diagnostic spec =
     \<lparr> fdr_kind = DryPlace, fdr_path = place_redacted_path_shape spec,
       fdr_body = Some (place_redacted_body_shape spec) \<rparr>"

definition dry_cancel_diagnostic ::
    "finam_cancel_order_request_spec \<Rightarrow> finam_dry_order_request_diagnostic" where
  "dry_cancel_diagnostic spec =
     \<lparr> fdr_kind = DryCancel, fdr_path = cancel_redacted_path_shape spec, fdr_body = None \<rparr>"

text \<open>\<open>MockFinamDryOrderClient\<close> is the list of the requests it was given.\<close>

type_synonym mock_dry_order_client = "finam_dry_order_request_diagnostic list"

definition record_place_order_request ::
    "mock_dry_order_client \<Rightarrow> finam_place_order_request_spec
       \<Rightarrow> mock_dry_order_client \<times> finam_dry_order_request_diagnostic" where
  "record_place_order_request requests spec =
     (let diagnostic = dry_place_diagnostic spec in (requests @ [diagnostic], diagnostic))"

definition record_cancel_order_request ::
    "mock_dry_order_client \<Rightarrow> finam_cancel_order_request_spec
       \<Rightarrow> mock_dry_order_client \<times> finam_dry_order_request_diagnostic" where
  "record_cancel_order_request requests spec =
     (let diagnostic = dry_cancel_diagnostic spec in (requests @ [diagnostic], diagnostic))"

datatype finam_mock_execution_diagnostic_outcome =
    MockAccepted bool "nat option" | MockRejected command_ack_reason_code | MockTimeout

fun mock_diagnostic_outcome ::
    "finam_order_execution_outcome \<Rightarrow> finam_mock_execution_diagnostic_outcome" where
  "mock_diagnostic_outcome (ExecAccepted b) =
     MockAccepted (b \<noteq> None) (map_option (length \<circ> broker_order_id_str) b)"
| "mock_diagnostic_outcome (ExecRejected reason_code) = MockRejected reason_code"
| "mock_diagnostic_outcome ExecTimeout = MockTimeout"

record finam_mock_execution_record =
  fme_kind :: finam_dry_order_request_kind
  fme_request :: finam_dry_order_request_diagnostic
  fme_outcome :: finam_mock_execution_diagnostic_outcome

datatype finam_order_execution_error = MockScriptExhausted

record mock_execution_client =
  mec_script :: "finam_order_execution_outcome list"
  mec_next_index :: nat
  mec_records :: "finam_mock_execution_record list"

definition mock_execution_client_new ::
    "finam_order_execution_outcome list \<Rightarrow> mock_execution_client" where
  "mock_execution_client_new script =
     \<lparr> mec_script = script, mec_next_index = 0, mec_records = [] \<rparr>"

definition next_outcome ::
    "mock_execution_client
       \<Rightarrow> mock_execution_client \<times> (finam_order_execution_error + finam_order_execution_outcome)" where
  "next_outcome client =
     (if mec_next_index client < length (mec_script client)
      then (client \<lparr> mec_next_index := mec_next_index client + 1 \<rparr>,
            Inr (mec_script client ! mec_next_index client))
      else (client, Inl MockScriptExhausted))"

definition mock_execute ::
    "mock_execution_client \<Rightarrow> finam_dry_order_request_diagnostic
       \<Rightarrow> mock_execution_client \<times> (finam_order_execution_error + finam_order_execution_outcome)" where
  "mock_execute client request =
     (case next_outcome client of
        (client', Inl e) \<Rightarrow> (client', Inl e)
      | (client', Inr outcome) \<Rightarrow>
          (client' \<lparr> mec_records := mec_records client' @
              [\<lparr> fme_kind = fdr_kind request, fme_request = request,
                 fme_outcome = mock_diagnostic_outcome outcome \<rparr>] \<rparr>, Inr outcome))"

definition place_approved ::
    "mock_execution_client \<Rightarrow> finam_place_order_request_spec
       \<Rightarrow> mock_execution_client \<times> (finam_order_execution_error + finam_order_execution_outcome)" where
  "place_approved client spec = mock_execute client (dry_place_diagnostic spec)"

definition cancel_approved ::
    "mock_execution_client \<Rightarrow> finam_cancel_order_request_spec
       \<Rightarrow> mock_execution_client \<times> (finam_order_execution_error + finam_order_execution_outcome)" where
  "cancel_approved client spec = mock_execute client (dry_cancel_diagnostic spec)"

section \<open>Facts\<close>

lemma approved_place_builds:
  assumes "approve_place_order_with_context num_ms ops policy order now context = Inr approved"
  shows "build_place_order_request decimal_str approved comment = Inl e \<longleftrightarrow>
    po_time_in_force order = GoodTillDate \<and> e = BuildUnsupportedTimeInForce"
proof -
  note guards = approved_place_order_guards [OF assms]
  have "\<exists>p. finam_type_and_price decimal_str order = Inr p"
    using approved_order_price [OF guards(14,6)] guards(6)
    by (auto simp: finam_type_and_price_def and_then_Inr_iff ok_or_Inr_iff price_guards_def split: if_splits)
  then show ?thesis
    using guards(1,5,9)
    by (cases "po_time_in_force order")
      (auto simp: build_place_order_request_def Let_def and_then_def ok_or_def)
qed

lemma approved_cancel_builds:
  assumes "approve_cancel_order num_ms policy cancel now existing = Inr (ApprovalSubmit approved)"
  shows "build_cancel_order_request approved =
    Inr \<lparr> fcs_account_id = account_id_str (co_account_id cancel),
          fcs_order_id = broker_order_id_str (co_order_id cancel) \<rparr>"
proof -
  obtain d where d: "validate_cancel_order num_ms policy cancel now existing = Inr d"
    using assms by (auto simp: approve_cancel_order_def and_then_Inr_iff)
  then have "broker_order_id_str (co_order_id cancel) \<noteq> []"
    by (auto simp: validate_cancel_order_def and_then_Inr_iff split: if_splits)
  moreover have "pac_cancel approved = cancel"
    using assms d by (cases d) (auto simp: approve_cancel_order_def)
  ultimately show ?thesis by (simp add: build_cancel_order_request_def)
qed

lemma finam_side_inject: "finam_side a = finam_side b \<longleftrightarrow> a = b"
  by (cases a; cases b) simp_all

lemma finam_time_in_force_inject: "finam_time_in_force a = Inr s \<Longrightarrow> finam_time_in_force b = Inr s \<Longrightarrow> a = b"
  by (cases a; cases b) auto

lemma finam_type_and_price_inject:
  assumes "inj decimal_str" "finam_type_and_price decimal_str a = Inr p" "finam_type_and_price decimal_str b = Inr p"
  shows "po_order_type a = po_order_type b \<and> po_limit_price a = po_limit_price b"
  using assms
  by (cases "po_order_type a"; cases "po_order_type b")
    (auto simp: finam_type_and_price_def and_then_Inr_iff ok_or_Inr_iff dest: injD split: if_splits)

lemma build_place_order_request_Inr:
  assumes "build_place_order_request decimal_str approved comment = Inr spec"
  obtains symbol type price tif
  where "po_comment (pap_order approved) = None"
    and "ins_venue_symbol (po_instrument (pap_order approved)) = Some symbol"
    and "finam_type_and_price decimal_str (pap_order approved) = Inr (type, price)"
    and "finam_time_in_force (po_time_in_force (pap_order approved)) = Inr tif"
    and "spec = \<lparr> fps_account_id = account_id_str (po_account_id (pap_order approved)),
          fps_body =
            \<lparr> fpr_symbol = symbol,
              fpr_quantity = DecimalValue (decimal_str (po_qty (pap_order approved))),
              fpr_side = finam_side (po_side (pap_order approved)),
              fpr_order_type = type,
              fpr_time_in_force = Some tif,
              fpr_limit_price = price,
              fpr_client_order_id = Some (client_order_id_str (po_client_order_id (pap_order approved))),
              fpr_comment = map_option ooc_value comment \<rparr> \<rparr>"
  using assms
  by (auto simp: build_place_order_request_def Let_def and_then_Inr_iff ok_or_Inr_iff
      split: if_splits prod.splits)

lemma request_account_str_inject: "account_id_str a = account_id_str b \<longleftrightarrow> a = b"
  by (cases a; cases b) simp

lemma client_id_str_inject: "client_order_id_str a = client_order_id_str b \<longleftrightarrow> a = b"
  by (cases a; cases b) simp

text \<open>The id that an accepted answer with this body carries.\<close>

definition carries_order_id ::
    "(string \<Rightarrow> json_value option) \<Rightarrow> string \<Rightarrow> broker_order_id option \<Rightarrow> bool" where
  "carries_order_id parse_json body b \<longleftrightarrow>
     (case parse_json body of None \<Rightarrow> False | Some v \<Rightarrow>
        (case accepted_dto_from_value v of None \<Rightarrow> False | Some dto \<Rightarrow>
           dto_broker_order_id dto \<noteq> Some [] \<and> b = map_option BrokerOrderId (dto_broker_order_id dto)))"

lemma classify_success_accepted:
  "fcr_result (classify_success_order_endpoint_response parse_json status body)
      = MappedExecution (ExecAccepted b) \<longleftrightarrow> carries_order_id parse_json body b"
  by (auto simp: classify_success_order_endpoint_response_def carries_order_id_def Let_def
      decode_error_response_def split: option.splits)

lemma classify_success_not_rejected:
  "fcr_result (classify_success_order_endpoint_response parse_json status body)
      \<noteq> MappedExecution (ExecRejected c)"
  by (auto simp: classify_success_order_endpoint_response_def Let_def
      decode_error_response_def split: option.splits)

text \<open>The two verdicts, for an answer with a body.\<close>

lemma classify_accepted_iff:
  "(fcr_result (classify_order_endpoint_local_http_response_for_context parse_json context
       (HttpResponse status body retry)) = MappedExecution (ExecAccepted b)) \<longleftrightarrow>
     status \<notin> {401, 403, 429, 408, 504, 500, 502, 503}
     \<and> (if context = CancelContext \<and> (trim body = [] \<or> status = 204)
        then carries_order_id parse_json null_order_id_json b
        else 200 \<le> status \<and> status < 300 \<and> carries_order_id parse_json body b)"
proof -
  have disjoint: "\<not> (status < 300 \<and> 400 \<le> status)" by (simp add: word_less_nat_alt word_le_nat_alt)
  then show ?thesis
    by (auto simp: classify_order_endpoint_local_http_response_for_context_def Let_def
        classified_with_def decode_error_response_def classify_success_accepted)
qed

lemma classify_rejected_iff:
  "(fcr_result (classify_order_endpoint_local_http_response_for_context parse_json context
       (HttpResponse status body retry)) = MappedExecution (ExecRejected c)) \<longleftrightarrow>
     400 \<le> status \<and> status < 500 \<and> status \<notin> {401, 403, 408, 429}
     \<and> \<not> (context = CancelContext \<and> (trim body = [] \<or> status \<in> {404, 409, 410}))
     \<and> c = BrokerRejectedReason"
proof -
  have disjoint: "\<not> (status < 300 \<and> 400 \<le> status)" by (simp add: word_less_nat_alt word_le_nat_alt)
  then show ?thesis
    by (auto simp: classify_order_endpoint_local_http_response_for_context_def Let_def
        classified_with_def decode_error_response_def classify_success_not_rejected)
qed

lemma classify_without_body:
  "fcr_result (classify_order_endpoint_local_http_response_for_context parse_json context HttpTimeout)
     = MappedExecution ExecTimeout"
  "fcr_result (classify_order_endpoint_local_http_response_for_context parse_json context
     (HttpBodyReadFailed status)) = MappedDecodeError status (Some ''body_read_failed'')"
  by (simp_all add: classify_order_endpoint_local_http_response_for_context_def decode_error_response_def)

section \<open>Properties\<close>

text \<open>C31: The only verdicts taken from an answer, over any HTTP status and body: an order is
  reported accepted with id \<open>b\<close> exactly on a 2xx answer whose JSON carries \<open>b\<close>, or none; a
  cancel is reported accepted also, without an id, on every answer that has a blank body or
  status 204 and is none of the eight statuses tested first, so also on a 400, 404, 409 or
  501 with an empty body. Rejected is reported exactly on the other 4xx, for a cancel with
  a body that is not blank and a status that does not call for reconciliation.\<close>

theorem endpoint_verdicts:
  assumes "parse_json null_order_id_json = Some (JObject [(''broker_order_id'', JNull)])"
  shows "(fcr_result (classify_order_endpoint_local_http_response_for_context parse_json context response)
      = MappedExecution (ExecAccepted b)) =
    (\<exists>status body retry. response = HttpResponse status body retry
      \<and> status \<notin> {401, 403, 429, 408, 504, 500, 502, 503}
      \<and> (if context = CancelContext \<and> (trim body = [] \<or> status = 204) then b = None
         else 200 \<le> status \<and> status < 300 \<and> carries_order_id parse_json body b))
   \<and> (fcr_result (classify_order_endpoint_local_http_response_for_context parse_json context response)
      = MappedExecution (ExecRejected c)) =
    (\<exists>status body retry. response = HttpResponse status body retry
      \<and> 400 \<le> status \<and> status < 500 \<and> status \<notin> {401, 403, 408, 429}
      \<and> \<not> (context = CancelContext \<and> (trim body = [] \<or> status \<in> {404, 409, 410}))
      \<and> c = BrokerRejectedReason)"
proof -
  have null: "carries_order_id parse_json null_order_id_json b \<longleftrightarrow> b = None"
    by (auto simp: carries_order_id_def assms accepted_dto_names_def)
  then show ?thesis
    by (cases response) (auto simp: classify_accepted_iff classify_rejected_iff classify_without_body)
qed

definition sample_parse_json :: "string \<Rightarrow> json_value option" where
  "sample_parse_json s =
     (if s = null_order_id_json then Some (JObject [(''broker_order_id'', JNull)]) else None)"

theorem endpoint_verdicts_witness:
  "fcr_result (classify_order_endpoint_local_http_response_for_context sample_parse_json
       CancelContext (HttpResponse 400 [] None)) = MappedExecution (ExecAccepted None)
   \<and> fcr_result (classify_order_endpoint_local_http_response_for_context sample_parse_json
       PlaceContext (HttpResponse 400 [] None)) = MappedExecution (ExecRejected BrokerRejectedReason)"
proof -
  have parses: "sample_parse_json null_order_id_json = Some (JObject [(''broker_order_id'', JNull)])"
    by (simp add: sample_parse_json_def)
  show ?thesis
    using parses
      endpoint_verdicts [of sample_parse_json CancelContext "HttpResponse 400 [] None" None BrokerRejectedReason]
      endpoint_verdicts [of sample_parse_json PlaceContext "HttpResponse 400 [] None" None BrokerRejectedReason]
    by simp
qed

text \<open>C32: The request that is sent says exactly what was approved: when decimals print
  differently for different values, two approved orders with the same request agree on
  account, venue symbol, side, type, quantity, limit price, time in force and client order
  id, and carry no comment of their own; the outgoing comment is the one that was built.\<close>

theorem place_request_determines_order:
  assumes "inj decimal_str"
    and "build_place_order_request decimal_str approved comment = Inr spec"
    and "build_place_order_request decimal_str approved' comment' = Inr spec"
  shows "(let order = pap_order approved; order' = pap_order approved' in
     po_account_id order = po_account_id order'
     \<and> ins_venue_symbol (po_instrument order) = ins_venue_symbol (po_instrument order')
     \<and> po_side order = po_side order' \<and> po_order_type order = po_order_type order'
     \<and> po_qty order = po_qty order' \<and> po_limit_price order = po_limit_price order'
     \<and> po_time_in_force order = po_time_in_force order'
     \<and> po_client_order_id order = po_client_order_id order'
     \<and> po_comment order = None \<and> po_comment order' = None
     \<and> map_option ooc_value comment = map_option ooc_value comment')"
proof -
  from assms(2,3) show ?thesis
    by (elim build_place_order_request_Inr)
      (auto simp: Let_def request_account_str_inject client_id_str_inject finam_side_inject
        inj_eq [OF assms(1)] dest: finam_time_in_force_inject finam_type_and_price_inject [OF assms(1)])
qed

text \<open>A rational in unary, by its place in an enumeration.\<close>

definition sample_decimal_str :: "decimal \<Rightarrow> string" where
  "sample_decimal_str d = replicate (to_nat d) (CHR ''1'')"

lemma sample_decimal_str_inject: "inj sample_decimal_str"
  by (rule injI) (metis sample_decimal_str_def length_replicate to_nat_split)

theorem place_request_determines_order_witness:
  "\<exists>approved spec. approve_place_order_with_context (trunc_units 1000000) exact_decimal_ops sample_policy
       sample_limit_order 1000 default_preflight_context = Inr approved
     \<and> build_place_order_request sample_decimal_str approved None = Inr spec
     \<and> po_comment (pap_order approved) = None"
proof -
  have "validate_place_order_with_context (trunc_units 1000000) exact_decimal_ops sample_policy
       sample_limit_order 1000 default_preflight_context = Inr ()"
    by (simp add: validate_place_order_with_context_def sample_policy_def sample_limit_order_def
        sample_place_order_def sample_arm_def arm_validate_def validate_command_ttl_def trunc_units_def
        as_i64_def exact_decimal_ops_def is_decimal_multiple_def validate_order_price_def
        check_notional_def default_preflight_context_def)
  then obtain approved where a: "approve_place_order_with_context (trunc_units 1000000) exact_decimal_ops
       sample_policy sample_limit_order 1000 default_preflight_context = Inr approved"
    by (simp add: approve_place_order_with_context_def)
  have "po_time_in_force sample_limit_order \<noteq> GoodTillDate"
    by (simp add: sample_limit_order_def sample_place_order_def)
  with approved_place_builds [OF a] obtain spec where
    b: "build_place_order_request sample_decimal_str approved None = Inr spec"
    by (cases "build_place_order_request sample_decimal_str approved None") auto
  from place_request_determines_order [OF sample_decimal_str_inject b b] a b show ?thesis
    by (auto simp: Let_def)
qed

end
