(* ===== verification/OrderTransport.thy ===== *)
theory OrderTransport
  imports FinamOrders
begin

text \<open>
  The order endpoint transport and the durable lifecycle around it
  (\<open>finam-gateway/src/m3d2_real_order_transport.rs\<close> and
  \<open>m3d2_real_transport_lifecycle.rs\<close>): the firewall on the base URL, the request that is
  sent, what its answer means, and the order-path record and its store before and after.
  The network and the libraries are a \<open>transport_env\<close> over a world \<open>'w\<close>: sending a request
  changes the world and gives a reply. The \<open>EndpointGateApproved\<close> argument is a capability
  with nothing the code reads, and is left out.
\<close>

section \<open>Configuration and the endpoint firewall\<close>

datatype authorization_header_mode = BearerJwt

record authorization_header_policy_diagnostic =
  ahd_mode :: authorization_header_mode
  ahd_header_name :: string
  ahd_scheme :: "string option"
  ahd_raw_token_exported :: bool
  ahd_evidence_source :: string

definition authorization_redacted_diagnostic ::
    "authorization_header_mode \<Rightarrow> authorization_header_policy_diagnostic" where
  "authorization_redacted_diagnostic mode =
     \<lparr> ahd_mode = mode, ahd_header_name = ''Authorization'', ahd_scheme = Some ''Bearer'',
       ahd_raw_token_exported = False,
       ahd_evidence_source = ''https://api.finam.ru/docs/rest/llms.txt'' \<rparr>"

text \<open>The last mode exists only under the build feature \<open>m3j16-actual-one-shot\<close>.\<close>

datatype external_endpoint_mode =
    LocalMockOnly | ExternalFinamDisabled | FutureExternalFinamRequiresLiveGate
  | M3j16ActualOneShotExternalFinam

datatype base_url_kind = Loopback | ExternalFinam | OtherExternal

record transport_config =
  mtc_rest_base_url :: string
  mtc_request_timeout_ms :: u64
  mtc_authorization_header_mode :: authorization_header_mode
  mtc_external_endpoint_mode :: external_endpoint_mode
  mtc_raw_response_capture_path :: "string option"

definition default_transport_config :: transport_config where
  "default_transport_config =
     \<lparr> mtc_rest_base_url = ''https://api.finam.ru'', mtc_request_timeout_ms = 10000,
       mtc_authorization_header_mode = BearerJwt, mtc_external_endpoint_mode = LocalMockOnly,
       mtc_raw_response_capture_path = None \<rparr>"

definition classify_host :: "string option \<Rightarrow> base_url_kind" where
  "classify_host host = (case host of
     None \<Rightarrow> OtherExternal
   | Some h \<Rightarrow>
       (if h \<in> {''127.0.0.1'', ''::1'', ''localhost''} then Loopback
        else if to_ascii_lowercase h = ''api.finam.ru'' then ExternalFinam
        else OtherExternal))"

fun external_endpoint_firewall_allows :: "external_endpoint_mode \<Rightarrow> base_url_kind \<Rightarrow> bool" where
  "external_endpoint_firewall_allows LocalMockOnly kind = (kind = Loopback)"
| "external_endpoint_firewall_allows ExternalFinamDisabled kind = (kind = Loopback)"
| "external_endpoint_firewall_allows FutureExternalFinamRequiresLiveGate kind = False"
| "external_endpoint_firewall_allows M3j16ActualOneShotExternalFinam kind = (kind = ExternalFinam)"

datatype transport_error =
    TransportMissingToken
  | TransportInvalidBaseUrl
  | ExternalOrderEndpointBlocked external_endpoint_mode base_url_kind
  | TransportClientBuild string
  | TransportHttpSend string

text \<open>What the code asks of a \<open>reqwest::Error\<close>.\<close>

record reqwest_error =
  rqe_timeout :: bool
  rqe_connect :: bool
  rqe_body :: bool
  rqe_decode :: bool
  rqe_request :: bool

definition error_kind :: "reqwest_error \<Rightarrow> string" where
  "error_kind e =
     (if rqe_timeout e then ''timeout''
      else if rqe_connect e then ''connect''
      else if rqe_body e then ''body''
      else if rqe_decode e then ''decode''
      else if rqe_request e then ''request''
      else ''other'')"

section \<open>Requests, replies and the environment\<close>

datatype access_token = AccessToken string

fun access_token_str :: "access_token \<Rightarrow> string" where
  "access_token_str (AccessToken t) = t"

datatype http_method = HttpPost | HttpDelete

record 'url http_request =
  req_method :: http_method
  req_url :: 'url
  req_headers :: "(string \<times> string) list"
  req_json :: "finam_place_order_request option"
  req_timeout_ms :: u64

text \<open>
  An answer has its status, its \<open>retry-after\<close> header when that is readable text, and its
  body, unless reading the body failed.
\<close>

datatype http_reply =
    SendFailed reqwest_error
  | Answered u16 "string option" "string option"

datatype raw_capture =
    CaptureSendError finam_order_endpoint_context string
  | CaptureResponse finam_order_endpoint_context u16 "u64 option" string
  | CaptureBodyReadFailed finam_order_endpoint_context "u16 option"
  | CaptureTimeout finam_order_endpoint_context

record ('w, 'url) transport_env =
  te_url_parse :: "string \<Rightarrow> 'url option"
  te_url_host :: "'url \<Rightarrow> string option"
  te_url_with_segments :: "'url \<Rightarrow> string list \<Rightarrow> 'url option"
  te_client_build :: "u64 \<Rightarrow> reqwest_error option"
  te_send :: "'w \<Rightarrow> 'url http_request \<Rightarrow> 'w \<times> http_reply"
  te_write_capture :: "'w \<Rightarrow> string \<Rightarrow> string \<Rightarrow> raw_capture \<Rightarrow> 'w"
  te_parse_json :: "string \<Rightarrow> json_value option"
  te_decimal_str :: "decimal \<Rightarrow> string"

definition classify_order_endpoint_base_url ::
    "('w, 'url) transport_env \<Rightarrow> 'url \<Rightarrow> base_url_kind" where
  "classify_order_endpoint_base_url E url = classify_host (te_url_host E url)"

section \<open>The transport\<close>

text \<open>The HTTP client is what it was built with: its timeout.\<close>

record 'url order_transport =
  mot_timeout_ms :: u64
  mot_base_url :: 'url
  mot_authorization_header_mode :: authorization_header_mode
  mot_raw_response_capture_path :: "string option"

definition trim_end_slashes :: "string \<Rightarrow> string" where
  "trim_end_slashes s = rev (dropWhile (\<lambda>c. c = CHR ''/'') (rev s))"

definition transport_try_new ::
    "('w, 'url) transport_env \<Rightarrow> transport_config \<Rightarrow> transport_error + 'url order_transport" where
  "transport_try_new E config =
     and_then (ok_or (te_url_parse E (trim_end_slashes (mtc_rest_base_url config) @ ''/''))
                TransportInvalidBaseUrl) (\<lambda>base_url.
     (let base_url_kind = classify_order_endpoint_base_url E base_url;
          timeout = max (mtc_request_timeout_ms config) 1 in
      if \<not> external_endpoint_firewall_allows (mtc_external_endpoint_mode config) base_url_kind
      then Inl (ExternalOrderEndpointBlocked (mtc_external_endpoint_mode config) base_url_kind)
      else case te_client_build E timeout of
        Some e \<Rightarrow> Inl (TransportClientBuild (error_kind e))
      | None \<Rightarrow> Inr \<lparr> mot_timeout_ms = timeout, mot_base_url = base_url,
          mot_authorization_header_mode = mtc_authorization_header_mode config,
          mot_raw_response_capture_path = mtc_raw_response_capture_path config \<rparr>))"

definition url_from_segments ::
    "('w, 'url) transport_env \<Rightarrow> 'url order_transport \<Rightarrow> string list \<Rightarrow> transport_error + 'url" where
  "url_from_segments E T segments =
     ok_or (te_url_with_segments E (mot_base_url T) segments) TransportInvalidBaseUrl"

definition authorize ::
    "'url order_transport \<Rightarrow> 'url http_request \<Rightarrow> access_token \<Rightarrow> 'url http_request" where
  "authorize T request token =
     (case mot_authorization_header_mode T of BearerJwt \<Rightarrow>
        request \<lparr> req_headers := req_headers request @
                   [(''authorization'', ''Bearer '' @ access_token_str token)] \<rparr>)"

definition place_request ::
    "('w, 'url) transport_env \<Rightarrow> 'url order_transport \<Rightarrow> access_token
       \<Rightarrow> finam_place_order_request_spec \<Rightarrow> transport_error + 'url http_request" where
  "place_request E T token spec =
     (if access_token_str token = [] then Inl TransportMissingToken
      else and_then (url_from_segments E T (place_rest_path_segments spec)) (\<lambda>url.
        Inr (authorize T \<lparr> req_method = HttpPost, req_url = url,
               req_headers = [(''content-type'', ''application/json'')],
               req_json = Some (fps_body spec), req_timeout_ms = mot_timeout_ms T \<rparr> token)))"

definition cancel_request ::
    "('w, 'url) transport_env \<Rightarrow> 'url order_transport \<Rightarrow> access_token
       \<Rightarrow> finam_cancel_order_request_spec \<Rightarrow> transport_error + 'url http_request" where
  "cancel_request E T token spec =
     (if access_token_str token = [] then Inl TransportMissingToken
      else and_then (url_from_segments E T (cancel_rest_path_segments spec)) (\<lambda>url.
        Inr (authorize T \<lparr> req_method = HttpDelete, req_url = url,
               req_headers = [(''content-type'', ''application/json'')],
               req_json = None, req_timeout_ms = mot_timeout_ms T \<rparr> token)))"

datatype post_send_order_outcome =
    SemNotSent | SemSubmitted | SemSubmittedPendingBrokerOrderIdReconciliation
  | SemCancelAcceptedPendingReconciliation | SemReconciliationRequired
  | SemTimeoutUnknownPending | SemRateLimitedDisarm | SemUnauthorizedDisarm
  | SemMaintenanceDisarm | SemBrokerRejectedTerminal

fun mapped_result_semantics ::
    "finam_order_endpoint_context \<Rightarrow> finam_order_endpoint_mapped_result \<Rightarrow> post_send_order_outcome" where
  "mapped_result_semantics context (MappedExecution (ExecAccepted b)) =
     (case context of
        PlaceContext \<Rightarrow>
          (if b \<noteq> None then SemSubmitted else SemSubmittedPendingBrokerOrderIdReconciliation)
      | CancelContext \<Rightarrow> SemCancelAcceptedPendingReconciliation)"
| "mapped_result_semantics context (MappedExecution (ExecRejected _)) = SemBrokerRejectedTerminal"
| "mapped_result_semantics context (MappedExecution ExecTimeout) = SemTimeoutUnknownPending"
| "mapped_result_semantics context (MappedRateLimited _) = SemRateLimitedDisarm"
| "mapped_result_semantics context (MappedMaintenance _) = SemMaintenanceDisarm"
| "mapped_result_semantics context (MappedUnauthorized _) = SemUnauthorizedDisarm"
| "mapped_result_semantics context (MappedReconciliationRequired _) = SemReconciliationRequired"
| "mapped_result_semantics context (MappedDecodeError _ _) = SemReconciliationRequired"

definition post_send_semantics ::
    "finam_order_endpoint_context \<Rightarrow> finam_classified_response \<Rightarrow> post_send_order_outcome" where
  "post_send_semantics context classified = mapped_result_semantics context (fcr_result classified)"

record transport_execution =
  tex_request_sent :: bool
  tex_classified_response :: "finam_classified_response option"
  tex_post_send_semantics :: post_send_order_outcome
  tex_error :: "transport_error option"

definition execution_not_sent :: "transport_error \<Rightarrow> transport_execution" where
  "execution_not_sent e =
     \<lparr> tex_request_sent = False, tex_classified_response = None,
       tex_post_send_semantics = SemNotSent, tex_error = Some e \<rparr>"

definition execution_sent ::
    "finam_classified_response \<Rightarrow> post_send_order_outcome \<Rightarrow> transport_execution" where
  "execution_sent classified semantics =
     \<lparr> tex_request_sent = True, tex_classified_response = Some classified,
       tex_post_send_semantics = semantics, tex_error = None \<rparr>"

definition execution_sent_error ::
    "transport_error \<Rightarrow> post_send_order_outcome \<Rightarrow> transport_execution" where
  "execution_sent_error e semantics =
     \<lparr> tex_request_sent = True, tex_classified_response = None,
       tex_post_send_semantics = semantics, tex_error = Some e \<rparr>"

record transport_outcome =
  tou_request_sent :: bool
  tou_classified_response_present :: bool
  tou_response_kind :: "finam_order_endpoint_response_kind option"
  tou_post_send_semantics :: post_send_order_outcome
  tou_error :: "transport_error option"
  tou_raw_token_exported :: bool
  tou_raw_path_exported :: bool
  tou_raw_body_exported :: bool

definition redacted_outcome :: "transport_execution \<Rightarrow> transport_outcome" where
  "redacted_outcome x =
     \<lparr> tou_request_sent = tex_request_sent x,
       tou_classified_response_present = (tex_classified_response x \<noteq> None),
       tou_response_kind =
         map_option (\<lambda>classified. fed_kind (fcr_diagnostic classified)) (tex_classified_response x),
       tou_post_send_semantics = tex_post_send_semantics x,
       tou_error = tex_error x,
       tou_raw_token_exported = False, tou_raw_path_exported = False,
       tou_raw_body_exported = False \<rparr>"

subsection \<open>Reading the answer\<close>

text \<open>\<open>str::parse::<u64>\<close>: an optional plus sign, then digits that fit.\<close>

definition parse_u64 :: "string \<Rightarrow> u64 option" where
  "parse_u64 s =
     (let digits = (case s of c # s' \<Rightarrow> if c = CHR ''+'' then s' else s | [] \<Rightarrow> [])
      in if digits \<noteq> [] \<and> list_all is_ascii_digit digits \<and> digits_value 0 digits < 2 ^ 64
         then Some (of_nat (digits_value 0 digits)) else None)"

definition u64_saturating_mul :: "u64 \<Rightarrow> u64 \<Rightarrow> u64" where
  "u64_saturating_mul a b =
     (if unat a * unat b < 2 ^ 64 then a * b else - 1)"

definition retry_after_ms_of :: "string option \<Rightarrow> u64 option" where
  "retry_after_ms_of header =
     map_option (\<lambda>seconds. u64_saturating_mul seconds 1000) (Option.bind header parse_u64)"

subsection \<open>The raw capture\<close>

text \<open>\<open>Path::file_name\<close>: the last component, unless it is \<open>..\<close>.\<close>

definition path_file_name :: "string \<Rightarrow> string option" where
  "path_file_name path =
     (let sep = CHR ''/'';
          parts = filter (\<lambda>p. p \<noteq> [] \<and> p \<noteq> ''.'')
            (foldr (\<lambda>c acc. if c = sep then [] # acc
                            else (case acc of [] \<Rightarrow> [[c]] | p # ps \<Rightarrow> (c # p) # ps)) path [[]])
      in case rev parts of [] \<Rightarrow> None | p # _ \<Rightarrow> if p = ''..'' then None else Some p)"

definition strip_suffix :: "string \<Rightarrow> string \<Rightarrow> string option" where
  "strip_suffix s suffix =
     (if length suffix \<le> length s \<and> drop (length s - length suffix) s = suffix
      then Some (take (length s - length suffix) s) else None)"

definition context_raw_capture_file_name :: "string \<Rightarrow> finam_order_endpoint_context \<Rightarrow> string" where
  "context_raw_capture_file_name path context =
     (let suffix = (case context of PlaceContext \<Rightarrow> ''place'' | CancelContext \<Rightarrow> ''cancel'');
          name = (case path_file_name path of Some n \<Rightarrow> n | None \<Rightarrow> ''raw-order-response.json'')
      in case strip_suffix name ''.json'' of
           Some stem \<Rightarrow> stem @ ''.'' @ suffix @ ''.json''
         | None \<Rightarrow> name @ ''.'' @ suffix @ ''.json'')"

text \<open>The capture is written beside the configured path; a failed write is ignored.\<close>

definition capture_raw ::
    "('w, 'url) transport_env \<Rightarrow> 'url order_transport \<Rightarrow> 'w \<Rightarrow> finam_order_endpoint_context
       \<Rightarrow> raw_capture \<Rightarrow> 'w" where
  "capture_raw E T w context payload =
     (case mot_raw_response_capture_path T of
        None \<Rightarrow> w
      | Some path \<Rightarrow> te_write_capture E w path (context_raw_capture_file_name path context) payload)"

fun response_capture ::
    "finam_order_endpoint_context \<Rightarrow> finam_local_http_response \<Rightarrow> raw_capture" where
  "response_capture context (HttpResponse status body retry_after_ms) =
     CaptureResponse context status retry_after_ms body"
| "response_capture context (HttpBodyReadFailed status) = CaptureBodyReadFailed context status"
| "response_capture context HttpTimeout = CaptureTimeout context"

subsection \<open>Sending\<close>

definition execute_after_gate ::
    "('w, 'url) transport_env \<Rightarrow> 'url order_transport \<Rightarrow> 'w \<Rightarrow> finam_order_endpoint_context
       \<Rightarrow> 'url http_request \<Rightarrow> 'w \<times> transport_execution" where
  "execute_after_gate E T w context request =
     (case te_send E w request of
        (w', SendFailed e) \<Rightarrow>
          (if rqe_timeout e
           then (w', execution_sent
                  (classify_order_endpoint_local_http_response_for_context (te_parse_json E) context
                     HttpTimeout) SemTimeoutUnknownPending)
           else (capture_raw E T w' context (CaptureSendError context (error_kind e)),
                 execution_sent_error (TransportHttpSend (error_kind e)) SemReconciliationRequired))
      | (w', Answered status retry_after body) \<Rightarrow>
          (let response = (case body of
                 Some b \<Rightarrow> HttpResponse status b (retry_after_ms_of retry_after)
               | None \<Rightarrow> HttpBodyReadFailed (Some status));
               classified = classify_order_endpoint_local_http_response_for_context
                 (te_parse_json E) context response
           in (capture_raw E T w' context (response_capture context response),
               execution_sent classified (post_send_semantics context classified))))"

definition place_order_execution ::
    "('w, 'url) transport_env \<Rightarrow> 'url order_transport \<Rightarrow> 'w \<Rightarrow> access_token
       \<Rightarrow> finam_place_order_request_spec \<Rightarrow> 'w \<times> transport_execution" where
  "place_order_execution E T w token spec =
     (case place_request E T token spec of
        Inl e \<Rightarrow> (w, execution_not_sent e)
      | Inr request \<Rightarrow> execute_after_gate E T w PlaceContext request)"

definition cancel_order_execution ::
    "('w, 'url) transport_env \<Rightarrow> 'url order_transport \<Rightarrow> 'w \<Rightarrow> access_token
       \<Rightarrow> finam_cancel_order_request_spec \<Rightarrow> 'w \<times> transport_execution" where
  "cancel_order_execution E T w token spec =
     (case cancel_request E T token spec of
        Inl e \<Rightarrow> (w, execution_not_sent e)
      | Inr request \<Rightarrow> execute_after_gate E T w CancelContext request)"

definition transport_place_order ::
    "('w, 'url) transport_env \<Rightarrow> 'url order_transport \<Rightarrow> 'w \<Rightarrow> access_token
       \<Rightarrow> finam_place_order_request_spec \<Rightarrow> 'w \<times> transport_outcome" where
  "transport_place_order E T w token spec =
     map_prod (\<lambda>x. x) redacted_outcome (place_order_execution E T w token spec)"

definition transport_cancel_order ::
    "('w, 'url) transport_env \<Rightarrow> 'url order_transport \<Rightarrow> 'w \<Rightarrow> access_token
       \<Rightarrow> finam_cancel_order_request_spec \<Rightarrow> 'w \<times> transport_outcome" where
  "transport_cancel_order E T w token spec =
     map_prod (\<lambda>x. x) redacted_outcome (cancel_order_execution E T w token spec)"

section \<open>The durable lifecycle\<close>

datatype lifecycle_operation = LifecyclePlace | LifecycleCancel

datatype lifecycle_outcome_kind =
    LcSubmitted | LcSubmittedPendingBrokerOrderIdReconciliation | LcBrokerRejected
  | LcTimeoutUnknownPending | LcCancelSubmittedPendingReconciliation
  | LcCancelBrokerOrderIdMismatchManualIntervention | LcCancelRejectedManualIntervention
  | LcCancelTimeoutUnknownPending | LcReconciliationRequired | LcRateLimitedDisarm
  | LcMaintenanceDisarm | LcUnauthorizedDisarm | LcNotSent

record ack_candidate_diagnostic =
  acd_status :: command_ack_status
  acd_reason_code :: "command_ack_reason_code option"
  acd_client_order_id_present :: bool
  acd_client_order_id_len :: "nat option"
  acd_broker_order_id_present :: bool
  acd_broker_order_id_len :: "nat option"
  acd_raw_client_order_id_exported :: bool
  acd_raw_broker_order_id_exported :: bool
  acd_raw_account_id_exported :: bool

record lifecycle_report =
  lrp_operation :: lifecycle_operation
  lrp_state :: order_path_state
  lrp_outcome :: lifecycle_outcome_kind
  lrp_request_sent :: bool
  lrp_submit_attempt_count :: u32
  lrp_cancel_attempt_count :: u32
  lrp_ack_candidate :: ack_candidate_diagnostic
  lrp_reconciliation_scheduled :: bool
  lrp_durable_intent_present_before_send :: bool
  lrp_durable_begin_or_cancel_persisted_before_send :: bool
  lrp_durable_transition_audit_required :: bool
  lrp_raw_token_exported :: bool
  lrp_raw_path_exported :: bool
  lrp_raw_body_exported :: bool

datatype lifecycle_error =
    MissingOrderPathRecord strategy_request_id
  | MissingCancelMapping strategy_request_id
  | LifecycleStore order_path_store_error
  | LifecycleTransition order_path_transition_error
  | LifecycleBuild finam_order_request_build_error
  | LifecycleTransport transport_error
  | LifecycleUnreachable

definition lifecycle_transition ::
    "order_path_record \<Rightarrow> order_path_event \<Rightarrow> timestamp \<Rightarrow> lifecycle_error + order_path_record" where
  "lifecycle_transition r event now =
     (case transition r event now of Inl e \<Rightarrow> Inl (LifecycleTransition e) | Inr r' \<Rightarrow> Inr r')"

definition report_from_record ::
    "lifecycle_operation \<Rightarrow> order_path_record \<Rightarrow> lifecycle_outcome_kind \<Rightarrow> bool
       \<Rightarrow> command_ack_status \<Rightarrow> command_ack_reason_code option \<Rightarrow> lifecycle_report" where
  "report_from_record operation r outcome request_sent status reason_code =
     \<lparr> lrp_operation = operation, lrp_state = opr_state r, lrp_outcome = outcome,
       lrp_request_sent = request_sent,
       lrp_submit_attempt_count = opr_submit_attempt_count r,
       lrp_cancel_attempt_count = opr_cancel_attempt_count r,
       lrp_ack_candidate =
         \<lparr> acd_status = status, acd_reason_code = reason_code,
           acd_client_order_id_present = True,
           acd_client_order_id_len = Some (length (client_order_id_str (opr_client_order_id r))),
           acd_broker_order_id_present = (opr_broker_order_id r \<noteq> None),
           acd_broker_order_id_len =
             map_option (length \<circ> broker_order_id_str) (opr_broker_order_id r),
           acd_raw_client_order_id_exported = False, acd_raw_broker_order_id_exported = False,
           acd_raw_account_id_exported = False \<rparr>,
       lrp_reconciliation_scheduled =
         (outcome \<in> {LcSubmittedPendingBrokerOrderIdReconciliation,
            LcCancelSubmittedPendingReconciliation,
            LcCancelBrokerOrderIdMismatchManualIntervention,
            LcCancelTimeoutUnknownPending, LcTimeoutUnknownPending, LcReconciliationRequired}),
       lrp_durable_intent_present_before_send = True,
       lrp_durable_begin_or_cancel_persisted_before_send = True,
       lrp_durable_transition_audit_required = True,
       lrp_raw_token_exported = False, lrp_raw_path_exported = False,
       lrp_raw_body_exported = False \<rparr>"

subsection \<open>Writing ahead\<close>

text \<open>
  The operations are generic over the store, as in the code: \<open>load\<close> and \<open>upd\<close> are its
  \<open>load_by_request_id\<close> and \<open>update_record\<close>.
\<close>

definition persist_transition ::
    "('s \<Rightarrow> strategy_request_id \<Rightarrow> order_path_record option)
     \<Rightarrow> ('s \<Rightarrow> order_path_record \<Rightarrow> 's \<times> (order_path_store_error + unit))
     \<Rightarrow> 's \<Rightarrow> strategy_request_id \<Rightarrow> order_path_event \<Rightarrow> timestamp
     \<Rightarrow> 's \<times> (lifecycle_error + order_path_record)" where
  "persist_transition load upd s request_id event now =
     (case load s request_id of
        None \<Rightarrow> (s, Inl (MissingOrderPathRecord request_id))
      | Some r \<Rightarrow>
         (case lifecycle_transition r event now of
            Inl e \<Rightarrow> (s, Inl e)
          | Inr r' \<Rightarrow>
             (case upd s r' of
                (s', Inl e) \<Rightarrow> (s', Inl (LifecycleStore e))
              | (s', Inr _) \<Rightarrow> (s', Inr r'))))"

definition persist_place_begin_submit ::
    "('s \<Rightarrow> strategy_request_id \<Rightarrow> order_path_record option)
     \<Rightarrow> ('s \<Rightarrow> order_path_record \<Rightarrow> 's \<times> (order_path_store_error + unit))
     \<Rightarrow> 's \<Rightarrow> preflight_approved_place_order \<Rightarrow> timestamp
     \<Rightarrow> 's \<times> (lifecycle_error + order_path_record)" where
  "persist_place_begin_submit load upd s approved begin_ts =
     persist_transition load upd s (po_request_id (pap_order approved)) BeginSubmit begin_ts"

definition persist_cancel_request ::
    "('s \<Rightarrow> strategy_request_id \<Rightarrow> order_path_record option)
     \<Rightarrow> ('s \<Rightarrow> order_path_record \<Rightarrow> 's \<times> (order_path_store_error + unit))
     \<Rightarrow> 's \<Rightarrow> preflight_approved_cancel_order \<Rightarrow> timestamp
     \<Rightarrow> 's \<times> (lifecycle_error + order_path_record)" where
  "persist_cancel_request load upd s approved begin_ts =
     (case pac_mapped_request_id approved of
        None \<Rightarrow> (s, Inl (MissingCancelMapping (co_request_id (pac_cancel approved))))
      | Some request_id \<Rightarrow> persist_transition load upd s request_id RequestCancel begin_ts)"

subsection \<open>Applying the outcome\<close>

type_synonym lifecycle_verdict =
  "order_path_record \<times> command_ack_status \<times> command_ack_reason_code option \<times> lifecycle_outcome_kind"

text \<open>\<open>None\<close> is the \<open>unreachable!\<close> of an execution outcome.\<close>

fun non_execution_policy ::
    "finam_order_endpoint_mapped_result
       \<Rightarrow> (command_ack_status \<times> command_ack_reason_code \<times> order_path_error_kind
            \<times> lifecycle_outcome_kind) option" where
  "non_execution_policy (MappedRateLimited _) =
     Some (AckError, RateLimitedReason, RateLimitedError, LcRateLimitedDisarm)"
| "non_execution_policy (MappedMaintenance _) =
     Some (AckError, BrokerMaintenanceReason, BrokerMaintenanceError, LcMaintenanceDisarm)"
| "non_execution_policy (MappedUnauthorized _) =
     Some (AckError, UnauthorizedReason, UnauthorizedError, LcUnauthorizedDisarm)"
| "non_execution_policy (MappedReconciliationRequired _) =
     Some (AckUnknownPending, ReconciliationRequiredReason, ReconciliationRequired,
           LcReconciliationRequired)"
| "non_execution_policy (MappedDecodeError _ _) =
     Some (AckUnknownPending, ReconciliationRequiredReason, ReconciliationRequired,
           LcReconciliationRequired)"
| "non_execution_policy (MappedExecution _) = None"

definition manual_intervention ::
    "order_path_record \<Rightarrow> command_ack_status \<Rightarrow> order_path_error_kind \<Rightarrow> command_ack_reason_code
       \<Rightarrow> lifecycle_outcome_kind \<Rightarrow> timestamp \<Rightarrow> lifecycle_error + lifecycle_verdict" where
  "manual_intervention r status kind reason outcome now =
     and_then (lifecycle_transition r RequireManualIntervention now) (\<lambda>r'.
       Inr (r' \<lparr> opr_last_ack_status := Some status, opr_last_error_kind := Some kind \<rparr>,
            status, Some reason, outcome))"

definition apply_non_execution ::
    "order_path_record \<Rightarrow> finam_order_endpoint_mapped_result \<Rightarrow> timestamp
       \<Rightarrow> lifecycle_error + lifecycle_verdict" where
  "apply_non_execution r result now =
     (case non_execution_policy result of
        None \<Rightarrow> Inl LifecycleUnreachable
      | Some (status, reason, kind, outcome) \<Rightarrow>
          manual_intervention r status kind reason outcome now)"

definition apply_no_response ::
    "order_path_record \<Rightarrow> bool \<Rightarrow> timestamp \<Rightarrow> lifecycle_error + lifecycle_verdict" where
  "apply_no_response r request_sent now =
     (if request_sent
      then manual_intervention r AckUnknownPending ReconciliationRequired
             ReconciliationRequiredReason LcReconciliationRequired now
      else manual_intervention r AckRejected LocalValidation LocalValidationRejected LcNotSent now)"

text \<open>An execution outcome: the transition, and what is reported of it.\<close>

definition execution_verdict ::
    "order_path_record \<Rightarrow> order_path_event \<Rightarrow> command_ack_status \<Rightarrow> command_ack_reason_code
       \<Rightarrow> lifecycle_outcome_kind \<Rightarrow> timestamp \<Rightarrow> lifecycle_error + lifecycle_verdict" where
  "execution_verdict r event status reason outcome now =
     and_then (lifecycle_transition r event now) (\<lambda>r'. Inr (r', status, Some reason, outcome))"

definition place_verdict ::
    "order_path_record \<Rightarrow> transport_execution \<Rightarrow> timestamp \<Rightarrow> lifecycle_error + lifecycle_verdict" where
  "place_verdict r x now =
     (case tex_classified_response x of
        None \<Rightarrow> apply_no_response r (tex_request_sent x) now
      | Some classified \<Rightarrow>
         (case fcr_result classified of
            MappedExecution (ExecAccepted (Some b)) \<Rightarrow>
              execution_verdict (r \<lparr> opr_broker_order_id := Some b \<rparr>) SubmitAccepted
                AckSubmitted SyntheticSubmitted LcSubmitted now
          | MappedExecution (ExecAccepted None) \<Rightarrow>
              execution_verdict r SubmitAcceptedWithoutBrokerOrderId
                AckUnknownPending ReconciliationRequiredReason
                LcSubmittedPendingBrokerOrderIdReconciliation now
          | MappedExecution (ExecRejected reason_code) \<Rightarrow>
              execution_verdict r BrokerReject AckRejected reason_code LcBrokerRejected now
          | MappedExecution ExecTimeout \<Rightarrow>
              execution_verdict r SubmitTimedOut AckTimeout TransportTimeoutReason
                LcTimeoutUnknownPending now
          | other \<Rightarrow> apply_non_execution r other now))"

definition cancel_verdict ::
    "preflight_approved_cancel_order \<Rightarrow> order_path_record \<Rightarrow> transport_execution \<Rightarrow> timestamp
       \<Rightarrow> lifecycle_error + lifecycle_verdict" where
  "cancel_verdict approved r x now =
     (case tex_classified_response x of
        None \<Rightarrow> apply_no_response r (tex_request_sent x) now
      | Some classified \<Rightarrow>
         (case fcr_result classified of
            MappedExecution (ExecAccepted b) \<Rightarrow>
              (if b \<noteq> None \<and> b \<noteq> Some (co_order_id (pac_cancel approved))
               then execution_verdict r RequireManualIntervention AckUnknownPending
                      ManualInterventionRequiredReason
                      LcCancelBrokerOrderIdMismatchManualIntervention now
               else execution_verdict r CancelAccepted AckSubmitted SyntheticSubmitted
                      LcCancelSubmittedPendingReconciliation now)
          | MappedExecution (ExecRejected reason_code) \<Rightarrow>
              execution_verdict r CancelRejected AckRejected reason_code
                LcCancelRejectedManualIntervention now
          | MappedExecution ExecTimeout \<Rightarrow>
              execution_verdict r CancelTimedOut AckTimeout TransportTimeoutReason
                LcCancelTimeoutUnknownPending now
          | other \<Rightarrow> apply_non_execution r other now))"

text \<open>The record of the verdict is stored, and only then reported.\<close>

definition store_verdict ::
    "('s \<Rightarrow> order_path_record \<Rightarrow> 's \<times> (order_path_store_error + unit)) \<Rightarrow> 's
     \<Rightarrow> lifecycle_operation \<Rightarrow> bool \<Rightarrow> lifecycle_error + lifecycle_verdict
     \<Rightarrow> 's \<times> (lifecycle_error + lifecycle_report)" where
  "store_verdict upd s operation request_sent verdict =
     (case verdict of
        Inl e \<Rightarrow> (s, Inl e)
      | Inr (r, status, reason, outcome) \<Rightarrow>
         (case upd s r of
            (s', Inl e) \<Rightarrow> (s', Inl (LifecycleStore e))
          | (s', Inr _) \<Rightarrow> (s', Inr (report_from_record operation r outcome request_sent status reason))))"

definition apply_place_transport_execution ::
    "('s \<Rightarrow> order_path_record \<Rightarrow> 's \<times> (order_path_store_error + unit)) \<Rightarrow> 's
     \<Rightarrow> order_path_record \<Rightarrow> transport_execution \<Rightarrow> timestamp
     \<Rightarrow> 's \<times> (lifecycle_error + lifecycle_report)" where
  "apply_place_transport_execution upd s r x now =
     store_verdict upd s LifecyclePlace (tex_request_sent x) (place_verdict r x now)"

definition apply_cancel_transport_execution ::
    "('s \<Rightarrow> order_path_record \<Rightarrow> 's \<times> (order_path_store_error + unit)) \<Rightarrow> 's
     \<Rightarrow> order_path_record \<Rightarrow> preflight_approved_cancel_order \<Rightarrow> transport_execution \<Rightarrow> timestamp
     \<Rightarrow> 's \<times> (lifecycle_error + lifecycle_report)" where
  "apply_cancel_transport_execution upd s r approved x now =
     store_verdict upd s LifecycleCancel (tex_request_sent x) (cancel_verdict approved r x now)"

subsection \<open>One command from approval to report\<close>

definition place_via_real_transport ::
    "('s \<Rightarrow> strategy_request_id \<Rightarrow> order_path_record option)
     \<Rightarrow> ('s \<Rightarrow> order_path_record \<Rightarrow> 's \<times> (order_path_store_error + unit))
     \<Rightarrow> ('w, 'url) transport_env \<Rightarrow> 'url order_transport \<Rightarrow> access_token
     \<Rightarrow> preflight_approved_place_order \<Rightarrow> outgoing_order_comment option \<Rightarrow> timestamp \<Rightarrow> timestamp
     \<Rightarrow> 's \<times> 'w \<Rightarrow> ('s \<times> 'w) \<times> (lifecycle_error + lifecycle_report)" where
  "place_via_real_transport load upd E T token approved comment begin_ts outcome_ts sw =
     (case build_place_order_request (te_decimal_str E) approved comment of
        Inl e \<Rightarrow> (sw, Inl (LifecycleBuild e))
      | Inr spec \<Rightarrow>
         (case persist_place_begin_submit load upd (fst sw) approved begin_ts of
            (s, Inl e) \<Rightarrow> ((s, snd sw), Inl e)
          | (s, Inr r) \<Rightarrow>
             (case place_order_execution E T (snd sw) token spec of
                (w, x) \<Rightarrow>
                  (case apply_place_transport_execution upd s r x outcome_ts of
                     (s', res) \<Rightarrow> ((s', w), res)))))"

definition cancel_via_real_transport ::
    "('s \<Rightarrow> strategy_request_id \<Rightarrow> order_path_record option)
     \<Rightarrow> ('s \<Rightarrow> order_path_record \<Rightarrow> 's \<times> (order_path_store_error + unit))
     \<Rightarrow> ('w, 'url) transport_env \<Rightarrow> 'url order_transport \<Rightarrow> access_token
     \<Rightarrow> preflight_approved_cancel_order \<Rightarrow> timestamp \<Rightarrow> timestamp
     \<Rightarrow> 's \<times> 'w \<Rightarrow> ('s \<times> 'w) \<times> (lifecycle_error + lifecycle_report)" where
  "cancel_via_real_transport load upd E T token approved begin_ts outcome_ts sw =
     (case build_cancel_order_request approved of
        Inl e \<Rightarrow> (sw, Inl (LifecycleBuild e))
      | Inr spec \<Rightarrow>
         (case persist_cancel_request load upd (fst sw) approved begin_ts of
            (s, Inl e) \<Rightarrow> ((s, snd sw), Inl e)
          | (s, Inr r) \<Rightarrow>
             (case cancel_order_execution E T (snd sw) token spec of
                (w, x) \<Rightarrow>
                  (case apply_cancel_transport_execution upd s r approved x outcome_ts of
                     (s', res) \<Rightarrow> ((s', w), res)))))"

section \<open>Facts about one command\<close>

lemma lifecycle_transition_Inr: "lifecycle_transition r e now = Inr r' \<longleftrightarrow> transition r e now = Inr r'"
  by (auto simp: lifecycle_transition_def split: sum.splits)

lemma persist_transition_cases:
  assumes "persist_transition load upd s i e now = (s', res)"
  obtains (refused) err where "res = Inl err" "s' = s"
      "\<forall>r r'. load s i = Some r \<longrightarrow> transition r e now \<noteq> Inr r'"
    | (failed) r r' err where "res = Inl (LifecycleStore err)" "load s i = Some r"
        "transition r e now = Inr r'" "upd s r' = (s', Inl err)"
    | (persisted) r r' where "res = Inr r'" "load s i = Some r"
        "transition r e now = Inr r'" "upd s r' = (s', Inr ())"
proof (cases "load s i")
  case None
  with assms show ?thesis by (intro refused) (auto simp: persist_transition_def)
next
  case (Some r)
  show ?thesis
  proof (cases "transition r e now")
    case (Inl err)
    with Some assms show ?thesis
      by (intro refused) (auto simp: persist_transition_def lifecycle_transition_def)
  next
    case (Inr r')
    with Some assms show ?thesis
      by (cases "upd s r'"; cases "snd (upd s r')")
        (auto simp: persist_transition_def lifecycle_transition_def intro: failed persisted)
  qed
qed

text \<open>What the answer to a submission in flight says of the order.\<close>

fun answered_state :: "finam_order_endpoint_mapped_result option \<Rightarrow> order_path_state" where
  "answered_state (Some (MappedExecution (ExecAccepted (Some _)))) = Submitted"
| "answered_state (Some (MappedExecution (ExecAccepted None))) = SubmittedPendingBrokerOrderId"
| "answered_state (Some (MappedExecution (ExecRejected _))) = BrokerRejected"
| "answered_state (Some (MappedExecution ExecTimeout)) = TimeoutUnknownPending"
| "answered_state _ = ManualInterventionRequired"

fun answered_broker_order_id ::
    "finam_order_endpoint_mapped_result option \<Rightarrow> broker_order_id option" where
  "answered_broker_order_id (Some (MappedExecution (ExecAccepted b))) = b"
| "answered_broker_order_id _ = None"

definition execution_answer :: "transport_execution \<Rightarrow> finam_order_endpoint_mapped_result option" where
  "execution_answer x = map_option fcr_result (tex_classified_response x)"

lemma apply_event_uncounted:
  assumes "e \<noteq> BeginSubmit" "e \<noteq> RequestCancel"
  obtains q where "apply_event e r = Some q"
  using assms by (cases e) auto

lemma transition_uncounted:
  assumes "next_order_path_state (opr_state r) e = Some t" "e \<noteq> BeginSubmit" "e \<noteq> RequestCancel"
  obtains r' where "transition r e now = Inr r'" "opr_state r' = t"
  using assms apply_event_uncounted [of e r] by (metis transition_Inr_iff transition_state option.inject)

lemma manual_intervention_Inr:
  assumes "next_order_path_state (opr_state r) RequireManualIntervention = Some ManualInterventionRequired"
  obtains r' where "manual_intervention r status kind reason outcome now = Inr (r', status, Some reason, outcome)"
    "opr_state r' = ManualInterventionRequired" "opr_request_id r' = opr_request_id r"
    "opr_broker_order_id r' = opr_broker_order_id r" "opr_submit_attempt_count r' = opr_submit_attempt_count r"
proof -
  obtain q where q: "transition r RequireManualIntervention now = Inr q" "opr_state q = ManualInterventionRequired"
    using transition_uncounted [OF assms, of now] by auto
  then have "opr_submit_attempt_count q = opr_submit_attempt_count r"
    by (auto simp: transition_Inr_iff)
  with q transition_frame [OF q(1)] show ?thesis
    by (intro that [of "q \<lparr> opr_last_ack_status := Some status, opr_last_error_kind := Some kind \<rparr>"])
      (simp_all add: manual_intervention_def lifecycle_transition_def)
qed

lemma execution_verdict_Inr:
  assumes "next_order_path_state (opr_state r) e = Some t" "e \<noteq> BeginSubmit" "e \<noteq> RequestCancel"
  obtains r' where "execution_verdict r e status reason outcome now = Inr (r', status, Some reason, outcome)"
    "opr_state r' = t" "opr_request_id r' = opr_request_id r" "opr_broker_order_id r' = opr_broker_order_id r"
proof -
  obtain q where q: "transition r e now = Inr q" "opr_state q = t"
    using transition_uncounted [OF assms, of now] by auto
  with transition_frame [OF q(1)] show ?thesis
    by (intro that [of q]) (simp_all add: execution_verdict_def lifecycle_transition_def)
qed

text \<open>A submission in flight always gets a verdict: the one its answer calls for.\<close>

lemma place_verdict_in_flight:
  assumes "opr_state r = SubmitInFlight" "opr_broker_order_id r = None"
  obtains r' status reason outcome where "place_verdict r x now = Inr (r', status, reason, outcome)"
    "opr_state r' = answered_state (execution_answer x)" "opr_request_id r' = opr_request_id r"
    "opr_broker_order_id r' = answered_broker_order_id (execution_answer x)"
proof -
  have manual: "\<exists>r'. manual_intervention r st k rs oc now = Inr (r', st, Some rs, oc)
      \<and> opr_state r' = ManualInterventionRequired \<and> opr_request_id r' = opr_request_id r
      \<and> opr_broker_order_id r' = None" for st k rs oc
    by (rule manual_intervention_Inr [of r st k rs oc now])
      (auto simp: assms next_order_path_state_def)
  have verdict: "\<exists>r'. execution_verdict q e st rs oc now = Inr (r', st, Some rs, oc)
      \<and> opr_state r' = t \<and> opr_request_id r' = opr_request_id q
      \<and> opr_broker_order_id r' = opr_broker_order_id q"
    if "opr_state q = SubmitInFlight" "next_order_path_state SubmitInFlight e = Some t"
      "e \<noteq> BeginSubmit" "e \<noteq> RequestCancel" for q e st rs oc t
    by (rule execution_verdict_Inr [of q e t st rs oc now]) (use that in auto)
  have "\<exists>r' st rs oc. place_verdict r x now = Inr (r', st, rs, oc)
      \<and> opr_state r' = answered_state (execution_answer x) \<and> opr_request_id r' = opr_request_id r
      \<and> opr_broker_order_id r' = answered_broker_order_id (execution_answer x)"
  proof (cases "tex_classified_response x")
    case None
    then show ?thesis
      using manual by (simp add: place_verdict_def apply_no_response_def execution_answer_def) metis
  next
    case (Some c)
    show ?thesis
    proof (cases "fcr_result c")
      case (MappedExecution outcome)
      show ?thesis
      proof (cases outcome)
        case (ExecAccepted b)
        then show ?thesis
          using Some MappedExecution verdict [of "r \<lparr> opr_broker_order_id := b \<rparr>" SubmitAccepted Submitted]
            verdict [of r SubmitAcceptedWithoutBrokerOrderId SubmittedPendingBrokerOrderId] assms
          by (cases b) (simp_all add: place_verdict_def execution_answer_def next_order_path_state_def, metis+)
      next
        case (ExecRejected reason)
        then show ?thesis
          using Some MappedExecution verdict [of r BrokerReject BrokerRejected] assms
          by (simp add: place_verdict_def execution_answer_def next_order_path_state_def) metis
      next
        case ExecTimeout
        then show ?thesis
          using Some MappedExecution verdict [of r SubmitTimedOut TimeoutUnknownPending] assms
          by (simp add: place_verdict_def execution_answer_def next_order_path_state_def) metis
      qed
    qed (use Some manual in \<open>simp_all add: place_verdict_def apply_non_execution_def execution_answer_def, metis+\<close>)
  qed
  then show ?thesis using that by blast
qed

lemma manual_intervention_step:
  assumes "manual_intervention r status kind reason outcome now = Inr (r', v)"
  obtains q where "transition r RequireManualIntervention now = Inr q"
    "opr_request_id r' = opr_request_id q" "opr_state r' = opr_state q"
  using assms by (auto simp: manual_intervention_def and_then_Inr_iff lifecycle_transition_Inr)

text \<open>Any verdict is one transition of the record: it lowers the rank of its state.\<close>

lemma verdict_lowers_rank:
  assumes "place_verdict r x now = Inr (r', v) \<or> cancel_verdict approved r x now = Inr (r', v)"
  shows "opr_request_id r' = opr_request_id r \<and> state_rank (opr_state r') < state_rank (opr_state r)"
proof -
  have step: "opr_request_id r' = opr_request_id r \<and> state_rank (opr_state r') < state_rank (opr_state r)"
    if "\<exists>q e p. transition q e now = Inr p \<and> opr_request_id q = opr_request_id r \<and> opr_state q = opr_state r
      \<and> opr_request_id r' = opr_request_id p \<and> opr_state r' = opr_state p"
    using that transition_frame(1) transition_state next_state_rank by metis
  have "\<exists>q e p. transition q e now = Inr p \<and> opr_request_id q = opr_request_id r \<and> opr_state q = opr_state r
      \<and> opr_request_id r' = opr_request_id p \<and> opr_state r' = opr_state p"
    using assms
    by (auto simp: place_verdict_def cancel_verdict_def apply_no_response_def apply_non_execution_def
        execution_verdict_def manual_intervention_def and_then_Inr_iff lifecycle_transition_Inr
        split: option.splits finam_order_endpoint_mapped_result.splits finam_order_execution_outcome.splits
          if_splits) (fastforce+)
  then show ?thesis by (rule step)
qed

end
