(* ===== verification/OrderTransportFacts.thy ===== *)
theory OrderTransportFacts
  imports OrderTransport SqliteStore
begin

text \<open>
  What the order endpoint lifecycle of \<open>OrderTransport\<close> guarantees: one submission and one
  cancel per order whatever happens in between, and an order-path record that says what the
  broker's answer said. Proved once over a store that leaves its records alone when it
  refuses a call, and used on the SQLite store with a fault schedule.
\<close>

section \<open>Stores the lifecycle can run on\<close>

locale lifecycle_store = atomic_order_path_store +
  assumes insert_refused: "inv s \<Longrightarrow> insert_intent s r = (s', Inl e) \<Longrightarrow>
      load_by_request_id s' = load_by_request_id s"

text \<open>
  What may happen to a store: new intents, the two lifecycle commands, and any other
  transition of a stored record (restart recovery, reconciliation, an operator's decision).
\<close>

inductive lifecycle_run ::
    "('s \<Rightarrow> strategy_request_id \<Rightarrow> order_path_record option)
     \<Rightarrow> ('s \<Rightarrow> order_path_record \<Rightarrow> 's \<times> (order_path_store_error + unit))
     \<Rightarrow> ('s \<Rightarrow> order_path_record \<Rightarrow> 's \<times> (order_path_store_error + unit))
     \<Rightarrow> ('w, 'url) transport_env \<Rightarrow> 's \<times> 'w \<Rightarrow> 's \<times> 'w \<Rightarrow> bool"
  for load ins upd E where
  run_none: "lifecycle_run load ins upd E sw sw"
| run_intent: "lifecycle_run load ins upd E sw (s, w) \<Longrightarrow>
     ins s (from_place_order order now comment) = (s', res) \<Longrightarrow>
     lifecycle_run load ins upd E sw (s', w)"
| run_place: "lifecycle_run load ins upd E sw sw' \<Longrightarrow>
     place_via_real_transport load upd E T token approved comment t1 t2 sw' = (sw'', report) \<Longrightarrow>
     lifecycle_run load ins upd E sw sw''"
| run_cancel: "lifecycle_run load ins upd E sw sw' \<Longrightarrow>
     cancel_via_real_transport load upd E T token approved_cancel t1 t2 sw' = (sw'', report) \<Longrightarrow>
     lifecycle_run load ins upd E sw sw''"
| run_event: "lifecycle_run load ins upd E sw (s, w) \<Longrightarrow> load s i = Some r \<Longrightarrow>
     transition r event now = Inr r' \<Longrightarrow> upd s r' = (s', res) \<Longrightarrow>
     lifecycle_run load ins upd E sw (s', w)"

text \<open>Records are never lost and their states never move back.\<close>

definition records_advance ::
    "('s \<Rightarrow> strategy_request_id \<Rightarrow> order_path_record option) \<Rightarrow> 's \<Rightarrow> 's \<Rightarrow> bool" where
  "records_advance load s t \<longleftrightarrow>
     (\<forall>i q. load s i = Some q \<longrightarrow>
        (\<exists>q'. load t i = Some q' \<and> state_rank (opr_state q') \<le> state_rank (opr_state q)))"

lemma records_advance_refl: "load t = load s \<Longrightarrow> records_advance load s t"
  by (simp add: records_advance_def)

lemma records_advance_trans:
  "records_advance load s t \<Longrightarrow> records_advance load t u \<Longrightarrow> records_advance load s u"
  unfolding records_advance_def by (meson order.trans)

lemma records_advance_update:
  assumes "load s i = Some r" "load t = (load s)(i \<mapsto> r')" "state_rank (opr_state r') \<le> state_rank (opr_state r)"
  shows "records_advance load s t"
  using assms by (auto simp: records_advance_def)

context lifecycle_store
begin

lemma update_step:
  assumes "inv s" "load_by_request_id s i = Some r" "opr_request_id r' = opr_request_id r"
    "state_rank (opr_state r') \<le> state_rank (opr_state r)" "update_record s r' = (s', res)"
  shows "inv s' \<and> records_advance load_by_request_id s s'"
proof
  show "inv s'" using update_grows [OF assms(1,5)] by simp
  have key: "opr_request_id r' = i" using load_key [OF assms(1,2)] assms(3) by simp
  show "records_advance load_by_request_id s s'"
  proof (cases res)
    case (Inl e)
    with update_refused [OF assms(1)] assms(5) show ?thesis by (auto intro: records_advance_refl)
  next
    case (Inr u)
    with update_ok [OF assms(1), of r' s'] assms(5) key
    have "load_by_request_id s' = (load_by_request_id s)(i \<mapsto> r')" by simp
    then show ?thesis
      by (rule records_advance_update [where load = load_by_request_id, OF assms(2) _ assms(4)])
  qed
qed

lemma persist_step:
  assumes "inv s" "persist_transition load_by_request_id update_record s i e now = (s', res)"
  shows "inv s' \<and> records_advance load_by_request_id s s'"
  using assms(2)
proof (cases rule: persist_transition_cases)
  case refused
  with assms(1) show ?thesis by (simp add: records_advance_refl)
next
  case (failed r r' err)
  with transition_frame(1) [OF failed(3)] next_state_rank [OF transition_state [OF failed(3)]]
  show ?thesis by (intro update_step [OF assms(1) failed(2) _ _ failed(4)]) auto
next
  case (persisted r r')
  with transition_frame(1) [OF persisted(3)] next_state_rank [OF transition_state [OF persisted(3)]]
  show ?thesis by (intro update_step [OF assms(1) persisted(2) _ _ persisted(4)]) auto
qed

text \<open>A persisted record is the one the store now holds.\<close>

lemma persisted_record:
  assumes "inv s" "persist_transition load_by_request_id update_record s i e now = (s', Inr r')"
  obtains r where "load_by_request_id s i = Some r" "transition r e now = Inr r'" "inv s'"
    "load_by_request_id s' = (load_by_request_id s)(i \<mapsto> r')" "opr_request_id r' = i"
proof -
  from assms(2) obtain r where r: "load_by_request_id s i = Some r" "transition r e now = Inr r'"
    "update_record s r' = (s', Inr ())"
    by (cases rule: persist_transition_cases) auto
  have key: "opr_request_id r' = i" using load_key [OF assms(1) r(1)] transition_frame(1) [OF r(2)] by simp
  with r update_ok [OF assms(1) r(3)] update_grows [OF assms(1) r(3)] show ?thesis
    by (intro that [of r]) auto
qed

lemma verdict_step:
  assumes "inv s" "load_by_request_id s (opr_request_id r) = Some r"
    and "verdict = place_verdict r x now \<or> verdict = cancel_verdict approved r x now"
    and "store_verdict update_record s operation sent verdict = (s', res)"
  shows "inv s' \<and> records_advance load_by_request_id s s'"
proof (cases verdict)
  case (Inl e)
  with assms(1,4) show ?thesis by (simp add: store_verdict_def records_advance_refl)
next
  case (Inr v)
  then obtain r' v' where v: "verdict = Inr (r', v')" by (cases v) auto
  with assms(3) have "place_verdict r x now = Inr (r', v') \<or> cancel_verdict approved r x now = Inr (r', v')"
    by auto
  note low = verdict_lowers_rank [OF this]
  obtain res' where "update_record s r' = (s', res')"
    using assms(4) v by (cases v') (auto simp: store_verdict_def split: prod.splits sum.splits)
  with low show ?thesis by (intro update_step [OF assms(1,2)]) auto
qed

lemma place_step:
  assumes "inv s" "place_via_real_transport load_by_request_id update_record E T token approved comment t1 t2 (s, w)
      = ((s', w'), res)"
  shows "inv s' \<and> records_advance load_by_request_id s s'"
proof (cases "build_place_order_request (te_decimal_str E) approved comment")
  case (Inl e)
  with assms show ?thesis by (simp add: place_via_real_transport_def records_advance_refl)
next
  case (Inr spec)
  obtain s1 res1 where p: "persist_transition load_by_request_id update_record s
      (po_request_id (pap_order approved)) BeginSubmit t1 = (s1, res1)" by (cases rule: prod.exhaust)
  note step1 = persist_step [OF assms(1) p]
  show ?thesis
  proof (cases res1)
    case (Inl e)
    with assms(2) Inr p step1 show ?thesis
      by (simp add: place_via_real_transport_def persist_place_begin_submit_def)
  next
    case r: (Inr r)
    from persisted_record [OF assms(1) p [unfolded r]]
    have at: "load_by_request_id s1 (opr_request_id r) = Some r" by (metis fun_upd_same)
    from assms(2) Inr p r obtain x where
      "store_verdict update_record s1 LifecyclePlace (tex_request_sent x) (place_verdict r x t2) = (s', res)"
      by (auto simp: place_via_real_transport_def persist_place_begin_submit_def
          apply_place_transport_execution_def split: prod.splits)
    from verdict_step [OF _ at disjI1 [OF refl] this] step1 show ?thesis
      using records_advance_trans [of load_by_request_id s s1 s'] by simp
  qed
qed

lemma cancel_step:
  assumes "inv s" "cancel_via_real_transport load_by_request_id update_record E T token approved t1 t2 (s, w)
      = ((s', w'), res)"
  shows "inv s' \<and> records_advance load_by_request_id s s'"
proof (cases "build_cancel_order_request approved")
  case (Inl e)
  with assms show ?thesis by (simp add: cancel_via_real_transport_def records_advance_refl)
next
  case (Inr spec)
  show ?thesis
  proof (cases "pac_mapped_request_id approved")
    case None
    with assms Inr show ?thesis
      by (simp add: cancel_via_real_transport_def persist_cancel_request_def records_advance_refl)
  next
    case (Some i)
    obtain s1 res1 where p: "persist_transition load_by_request_id update_record s i RequestCancel t1
      = (s1, res1)" by (cases rule: prod.exhaust)
    note step1 = persist_step [OF assms(1) p]
    show ?thesis
    proof (cases res1)
      case (Inl e)
      with assms(2) Inr p Some step1 show ?thesis
        by (simp add: cancel_via_real_transport_def persist_cancel_request_def)
    next
      case r: (Inr r)
      from persisted_record [OF assms(1) p [unfolded r]]
      have at: "load_by_request_id s1 (opr_request_id r) = Some r" by (metis fun_upd_same)
      from assms(2) Inr p r Some obtain x where
        "store_verdict update_record s1 LifecycleCancel (tex_request_sent x) (cancel_verdict approved r x t2) = (s', res)"
        by (auto simp: cancel_via_real_transport_def persist_cancel_request_def
            apply_cancel_transport_execution_def split: prod.splits)
      from verdict_step [OF _ at disjI2 [OF refl] this] step1 show ?thesis
        using records_advance_trans [of load_by_request_id s s1 s'] by simp
    qed
  qed
qed

lemma run_advances:
  assumes "lifecycle_run load_by_request_id insert_intent update_record E sw sw'" "inv (fst sw)"
  shows "inv (fst sw') \<and> records_advance load_by_request_id (fst sw) (fst sw')"
  using assms
proof (induction rule: lifecycle_run.induct)
  case (run_none sw)
  then show ?case by (simp add: records_advance_refl)
next
  case (run_intent sw s w order now comment s' res)
  then have IH: "inv s" "records_advance load_by_request_id (fst sw) s" by simp_all
  have "inv s'" using insert_grows [OF IH(1) run_intent(2)] by simp
  moreover have "records_advance load_by_request_id s s'"
  proof (cases res)
    case (Inl e)
    with insert_refused [OF IH(1)] run_intent(2) show ?thesis by (auto intro: records_advance_refl)
  next
    case (Inr u)
    with insert_ok [OF IH(1)] run_intent(2) show ?thesis by (fastforce simp: records_advance_def)
  qed
  ultimately show ?case using IH(2) records_advance_trans by fastforce
next
  case (run_place sw sw' T token approved comment t1 t2 sw'' report)
  then show ?case
    using place_step [of "fst sw'" E T token approved comment t1 t2 "snd sw'" "fst sw''" "snd sw''" report]
    by (auto intro: records_advance_trans)
next
  case (run_cancel sw sw' T token approved_cancel t1 t2 sw'' report)
  then show ?case
    using cancel_step [of "fst sw'" E T token approved_cancel t1 t2 "snd sw'" "fst sw''" "snd sw''" report]
    by (auto intro: records_advance_trans)
next
  case (run_event sw s w i r event now r' s' res)
  then have IH: "inv s" "records_advance load_by_request_id (fst sw) s" by simp_all
  have "inv s' \<and> records_advance load_by_request_id s s'"
    using transition_frame(1) [OF run_event(3)] next_state_rank [OF transition_state [OF run_event(3)]]
    by (intro update_step [OF IH(1) run_event(2) _ _ run_event(4)]) auto
  with IH(2) show ?case using records_advance_trans by fastforce
qed

end

section \<open>At most one submission and one cancel\<close>

lemma begin_submit_from: "next_order_path_state s BeginSubmit = Some t \<Longrightarrow> s = IntentRecorded \<and> t = SubmitInFlight"
  by (cases s) (auto simp: next_order_path_state_def)

lemma request_cancel_from:
  "next_order_path_state s RequestCancel = Some t \<Longrightarrow> state_rank s = 6 \<and> t = CancelRequested"
  by (cases s) (auto simp: next_order_path_state_def)

text \<open>A begun submission or cancel cannot be begun from any state at or below the one it led to.\<close>

lemma begun_only_once:
  assumes "event = BeginSubmit \<or> event = RequestCancel"
    and "transition r event now = Inr r'" "state_rank (opr_state q) \<le> state_rank (opr_state r')"
  shows "transition q event later \<noteq> Inr q'"
proof
  assume "transition q event later = Inr q'"
  with assms transition_state [OF this] transition_state [OF assms(2)] show False
    by (auto dest!: begin_submit_from request_cancel_from)
qed

context lifecycle_store
begin

lemma persisted_only_once:
  assumes "inv s" "event = BeginSubmit \<or> event = RequestCancel"
    and "persist_transition load_by_request_id update_record s i event now = (s1, Inr r1)"
    and "records_advance load_by_request_id s1 s2"
  shows "\<exists>e. persist_transition load_by_request_id update_record s2 i event later = (s2, Inl e)"
proof -
  obtain r where r: "transition r event now = Inr r1" "load_by_request_id s1 i = Some r1"
    using persisted_record [OF assms(1,3)] by (metis fun_upd_same)
  with assms(4) obtain q where q: "load_by_request_id s2 i = Some q"
    and "state_rank (opr_state q) \<le> state_rank (opr_state r1)"
    unfolding records_advance_def by blast
  then have never: "transition q event later \<noteq> Inr q'" for q'
    using begun_only_once [OF assms(2) r(1)] by blast
  then obtain e where "transition q event later = Inl e" by (cases "transition q event later") auto
  with q show ?thesis by (simp add: persist_transition_def lifecycle_transition_def)
qed

text \<open>A place that reached the network had its submission persisted first.\<close>

lemma place_persisted:
  assumes "inv s" "place_via_real_transport load_by_request_id update_record E T token approved comment t1 t2 (s, w)
      = ((s', w'), res)" "w' \<noteq> w"
  obtains s1 r1 where "persist_transition load_by_request_id update_record s
      (po_request_id (pap_order approved)) BeginSubmit t1 = (s1, Inr r1)"
    "records_advance load_by_request_id s1 s'"
proof -
  obtain spec where spec: "build_place_order_request (te_decimal_str E) approved comment = Inr spec"
    using assms(2,3) by (cases "build_place_order_request (te_decimal_str E) approved comment")
      (auto simp: place_via_real_transport_def)
  obtain s1 res1 where p: "persist_transition load_by_request_id update_record s
      (po_request_id (pap_order approved)) BeginSubmit t1 = (s1, res1)" by (cases rule: prod.exhaust)
  with assms(2,3) spec obtain r1 where r1: "res1 = Inr r1"
    by (cases res1) (auto simp: place_via_real_transport_def persist_place_begin_submit_def)
  from persisted_record [OF assms(1) p [unfolded r1]]
  have at: "inv s1" "load_by_request_id s1 (opr_request_id r1) = Some r1" by (metis fun_upd_same)+
  from assms(2) spec p r1 obtain x where
    "store_verdict update_record s1 LifecyclePlace (tex_request_sent x) (place_verdict r1 x t2) = (s', res)"
    by (auto simp: place_via_real_transport_def persist_place_begin_submit_def
        apply_place_transport_execution_def split: prod.splits)
  from verdict_step [OF at disjI1 [OF refl] this] p r1 that show ?thesis by blast
qed

lemma cancel_persisted:
  assumes "inv s" "cancel_via_real_transport load_by_request_id update_record E T token approved t1 t2 (s, w)
      = ((s', w'), res)" "w' \<noteq> w"
  obtains i s1 r1 where "pac_mapped_request_id approved = Some i"
    "persist_transition load_by_request_id update_record s i RequestCancel t1 = (s1, Inr r1)"
    "records_advance load_by_request_id s1 s'"
proof -
  obtain spec where spec: "build_cancel_order_request approved = Inr spec"
    using assms(2,3) by (cases "build_cancel_order_request approved") (auto simp: cancel_via_real_transport_def)
  with assms(2,3) obtain i where i: "pac_mapped_request_id approved = Some i"
    by (cases "pac_mapped_request_id approved")
      (auto simp: cancel_via_real_transport_def persist_cancel_request_def)
  obtain s1 res1 where p: "persist_transition load_by_request_id update_record s i RequestCancel t1 = (s1, res1)"
    by (cases rule: prod.exhaust)
  with assms(2,3) spec i obtain r1 where r1: "res1 = Inr r1"
    by (cases res1) (auto simp: cancel_via_real_transport_def persist_cancel_request_def)
  from persisted_record [OF assms(1) p [unfolded r1]]
  have at: "inv s1" "load_by_request_id s1 (opr_request_id r1) = Some r1" by (metis fun_upd_same)+
  from assms(2) spec i p r1 obtain x where
    "store_verdict update_record s1 LifecycleCancel (tex_request_sent x) (cancel_verdict approved r1 x t2) = (s', res)"
    by (auto simp: cancel_via_real_transport_def persist_cancel_request_def
        apply_cancel_transport_execution_def split: prod.splits)
  from verdict_step [OF at disjI2 [OF refl] this] i p r1 that show ?thesis by blast
qed

lemma place_only_once:
  assumes "inv s"
    and "place_via_real_transport load_by_request_id update_record E T token approved comment t1 t2 (s, w)
      = ((s1, w1), res)" "w1 \<noteq> w"
    and "lifecycle_run load_by_request_id insert_intent update_record E (s1, w1) (s2, w2)"
    and "po_request_id (pap_order approved') = po_request_id (pap_order approved)"
  shows "\<exists>e. place_via_real_transport load_by_request_id update_record E T' token' approved' comment' t1' t2'
      (s2, w2) = ((s2, w2), Inl e)"
proof -
  obtain s0 r0 where p: "persist_transition load_by_request_id update_record s
      (po_request_id (pap_order approved)) BeginSubmit t1 = (s0, Inr r0)"
    and "records_advance load_by_request_id s0 s1"
    by (rule place_persisted [OF assms(1,2,3)])
  moreover have "records_advance load_by_request_id s1 s2"
    using run_advances [OF assms(4)] place_step [OF assms(1,2)] by simp
  ultimately have "records_advance load_by_request_id s0 s2" by (blast intro: records_advance_trans)
  from persisted_only_once [OF assms(1) _ p this, of t1'] assms(5) show ?thesis
    by (cases "build_place_order_request (te_decimal_str E) approved' comment'")
      (auto simp: place_via_real_transport_def persist_place_begin_submit_def)
qed

lemma cancel_only_once:
  assumes "inv s"
    and "cancel_via_real_transport load_by_request_id update_record E T token approved t1 t2 (s, w)
      = ((s1, w1), res)" "w1 \<noteq> w"
    and "lifecycle_run load_by_request_id insert_intent update_record E (s1, w1) (s2, w2)"
    and "pac_mapped_request_id approved' = pac_mapped_request_id approved"
  shows "\<exists>e. cancel_via_real_transport load_by_request_id update_record E T' token' approved' t1' t2'
      (s2, w2) = ((s2, w2), Inl e)"
proof -
  obtain i s0 r0 where i: "pac_mapped_request_id approved = Some i"
    and p: "persist_transition load_by_request_id update_record s i RequestCancel t1 = (s0, Inr r0)"
    and "records_advance load_by_request_id s0 s1"
    by (rule cancel_persisted [OF assms(1,2,3)])
  moreover have "records_advance load_by_request_id s1 s2"
    using run_advances [OF assms(4)] cancel_step [OF assms(1,2)] by simp
  ultimately have "records_advance load_by_request_id s0 s2" by (blast intro: records_advance_trans)
  from persisted_only_once [OF assms(1) _ p this, of t1'] assms(5) i show ?thesis
    by (cases "build_cancel_order_request approved'")
      (auto simp: cancel_via_real_transport_def persist_cancel_request_def)
qed

text \<open>A place that reports tells what its answer said, in the report and in the store.\<close>

lemma place_reports_answer:
  assumes "inv s"
    and "place_via_real_transport load_by_request_id update_record E T token approved comment t1 t2 (s, w)
      = ((s', w'), Inr report)"
    and "load_by_request_id s (po_request_id (pap_order approved)) = Some r" "opr_broker_order_id r = None"
  obtains spec q answer where
    "build_place_order_request (te_decimal_str E) approved comment = Inr spec"
    "answer = execution_answer (snd (place_order_execution E T w token spec))"
    "load_by_request_id s' = (load_by_request_id s)(po_request_id (pap_order approved) \<mapsto> q)"
    "opr_state q = answered_state answer" "opr_broker_order_id q = answered_broker_order_id answer"
    "lrp_state report = answered_state answer"
proof -
  let ?i = "po_request_id (pap_order approved)"
  obtain spec where spec: "build_place_order_request (te_decimal_str E) approved comment = Inr spec"
    using assms(2) by (cases "build_place_order_request (te_decimal_str E) approved comment")
      (auto simp: place_via_real_transport_def)
  obtain s1 res1 where p: "persist_transition load_by_request_id update_record s ?i BeginSubmit t1 = (s1, res1)"
    by (cases rule: prod.exhaust)
  with assms(2) spec obtain r1 where r1: "res1 = Inr r1"
    by (cases res1) (auto simp: place_via_real_transport_def persist_place_begin_submit_def)
  from persisted_record [OF assms(1) p [unfolded r1]] assms(3)
  have t: "transition r BeginSubmit t1 = Inr r1" "inv s1" "opr_request_id r1 = ?i"
    and s1: "load_by_request_id s1 = (load_by_request_id s)(?i \<mapsto> r1)" by (metis option.inject)+
  have flight: "opr_state r1 = SubmitInFlight" "opr_broker_order_id r1 = None"
    using begin_submit_from [OF transition_state [OF t(1)]] transition_frame(3) [OF t(1)] assms(4) by simp_all
  define x where "x = snd (place_order_execution E T w token spec)"
  obtain q status reason outcome where q: "place_verdict r1 x t2 = Inr (q, status, reason, outcome)"
    "opr_state q = answered_state (execution_answer x)" "opr_request_id q = opr_request_id r1"
    "opr_broker_order_id q = answered_broker_order_id (execution_answer x)"
    by (rule place_verdict_in_flight [OF flight, of x t2])
  from assms(2) spec p r1 have "store_verdict update_record s1 LifecyclePlace (tex_request_sent x)
      (place_verdict r1 x t2) = (s', Inr report)"
    by (auto simp: place_via_real_transport_def persist_place_begin_submit_def x_def
        apply_place_transport_execution_def split: prod.splits)
  with q(1) have u: "update_record s1 q = (s', Inr ())"
    and "report = report_from_record LifecyclePlace q outcome (tex_request_sent x) status reason"
    by (auto simp: store_verdict_def split: prod.splits sum.splits)
  moreover have "load_by_request_id s' = (load_by_request_id s)(?i \<mapsto> q)"
    using update_ok [OF t(2) u] s1 q(3) t(3) by (simp add: fun_upd_upd)
  ultimately show ?thesis
    using that [OF spec, of "execution_answer x" q] q(2,4) by (simp add: x_def report_from_record_def)
qed

end

section \<open>The SQLite store under a schedule of faults\<close>

text \<open>Each call of the store takes the next fault of the schedule; the in-memory store has none.\<close>

type_synonym scheduled_store = "sqlite_store \<times> (nat \<Rightarrow> sqlite_fault)"

definition scheduled_load :: "scheduled_store \<Rightarrow> strategy_request_id \<Rightarrow> order_path_record option" where
  "scheduled_load s = sqlite_load_by_request_id (fst s)"

definition scheduled_insert ::
    "sqlite_codec \<Rightarrow> scheduled_store \<Rightarrow> order_path_record
       \<Rightarrow> scheduled_store \<times> (order_path_store_error + unit)" where
  "scheduled_insert K s r =
     (case sqlite_insert_intent K (snd s 0) (fst s) r of (st, res) \<Rightarrow> ((st, snd s \<circ> Suc), res))"

definition scheduled_update ::
    "sqlite_codec \<Rightarrow> scheduled_store \<Rightarrow> order_path_record
       \<Rightarrow> scheduled_store \<times> (order_path_store_error + unit)" where
  "scheduled_update K s r =
     (case sqlite_update_record K (snd s 0) (fst s) r of (st, res) \<Rightarrow> ((st, snd s \<circ> Suc), res))"

lemma scheduled_insert_step:
  "scheduled_insert K s r = (s', res) \<Longrightarrow> sqlite_insert_intent K (snd s 0) (fst s) r = (fst s', res)"
  by (auto simp: scheduled_insert_def split: prod.splits)

lemma scheduled_update_step:
  "scheduled_update K s r = (s', res) \<Longrightarrow> sqlite_update_record K (snd s 0) (fst s) r = (fst s', res)"
  by (auto simp: scheduled_update_def split: prod.splits)

lemma sqlite_insert_refused:
  "sqlite_insert_intent K fault st r = (st', Inl e) \<Longrightarrow> fst st' = fst st"
  by (drule sqlite_insert_inner) simp

interpretation scheduled: lifecycle_store "\<lambda>s. sqlite_inv (fst s)" scheduled_load
  "\<lambda>s. sqlite_load_by_client_order_id (fst s)" "\<lambda>s. sqlite_load_by_broker_order_id (fst s)"
  "scheduled_insert K" "scheduled_update K" for K
proof (unfold_locales, goal_cases)
  case (1 s i r)
  then show ?case by (simp add: scheduled_load_def sqlite.load_key)
next
  case (2 s c r)
  then show ?case by (simp add: scheduled_load_def sqlite.load_client)
next
  case (3 s b r)
  then show ?case by (simp add: scheduled_load_def sqlite.load_broker)
next
  case (4 s r s' u)
  then show ?case using sqlite.insert_ok [OF _ scheduled_insert_step [OF 4(2)]] by (simp add: scheduled_load_def)
next
  case (5 s r s' u)
  then show ?case using sqlite.update_ok [OF _ scheduled_update_step [OF 5(2)]] by (simp add: scheduled_load_def)
next
  case (6 s r s' res)
  then show ?case using sqlite.insert_grows [OF _ scheduled_insert_step [OF 6(2)]] by (simp add: scheduled_load_def)
next
  case (7 s r s' res)
  then show ?case using sqlite.update_grows [OF _ scheduled_update_step [OF 7(2)]] by (simp add: scheduled_load_def)
next
  case (8 s r s' e)
  then show ?case using sqlite.update_refused [OF _ scheduled_update_step [OF 8(2)]] by (simp add: scheduled_load_def)
next
  case (9 s r s' e)
  then show ?case
    using sqlite_insert_refused [OF scheduled_insert_step [OF 9(2)]] by (simp add: scheduled_load_def sqlite_loads fun_eq_iff)
qed

interpretation mem_lifecycle: lifecycle_store store_inv get_by_request_id get_by_client_order_id
  get_by_broker_order_id mem_store_insert_intent mem_store_update_record
  by unfold_locales (auto simp: mem_store_insert_intent_def stored_def split: sum.splits)

section \<open>Properties\<close>

text \<open>C33: An order is submitted at most once. Once placing it has touched the network, whatever
  the answer was and whatever the store then failed to do, and after any run of new intents,
  places, cancels, recoveries and other transitions with any faults of the SQLite store,
  placing a command with the same request id again is refused and leaves store and network
  exactly as they were: the submission was persisted before it was sent.\<close>

theorem order_submitted_at_most_once:
  assumes "sqlite_inv (fst s)"
    and "place_via_real_transport scheduled_load (scheduled_update K) E T token approved comment t1 t2 (s, w)
      = ((s1, w1), res)" and "w1 \<noteq> w"
    and "lifecycle_run scheduled_load (scheduled_insert K) (scheduled_update K) E (s1, w1) (s2, w2)"
    and "po_request_id (pap_order approved') = po_request_id (pap_order approved)"
  shows "\<exists>e. place_via_real_transport scheduled_load (scheduled_update K) E T' token' approved' comment' t1' t2'
      (s2, w2) = ((s2, w2), Inl e)"
  using assms by (rule scheduled.place_only_once)

text \<open>An order is cancelled at most once: after a cancel of it has touched the network, every
  later cancel mapped to the same order is refused without a store or network effect,
  whatever ran in between and whatever the first one was answered.\<close>

theorem order_cancelled_at_most_once:
  assumes "sqlite_inv (fst s)"
    and "cancel_via_real_transport scheduled_load (scheduled_update K) E T token approved t1 t2 (s, w)
      = ((s1, w1), res)" and "w1 \<noteq> w"
    and "lifecycle_run scheduled_load (scheduled_insert K) (scheduled_update K) E (s1, w1) (s2, w2)"
    and "pac_mapped_request_id approved' = pac_mapped_request_id approved"
  shows "\<exists>e. cancel_via_real_transport scheduled_load (scheduled_update K) E T' token' approved' t1' t2'
      (s2, w2) = ((s2, w2), Inl e)"
  using assms by (rule scheduled.cancel_only_once)

text \<open>The endpoint's answer, as far as one was read.\<close>

definition http_answer ::
    "('w, 'url) transport_env \<Rightarrow> 'url order_transport \<Rightarrow> 'w \<Rightarrow> access_token
       \<Rightarrow> finam_place_order_request_spec \<Rightarrow> (u16 \<times> string) option" where
  "http_answer E T w token spec =
     (case place_request E T token spec of
        Inl e \<Rightarrow> None
      | Inr request \<Rightarrow>
          (case snd (te_send E w request) of
             Answered status retry (Some body) \<Rightarrow> Some (status, body)
           | _ \<Rightarrow> None))"

lemma answer_accepted_iff:
  "execution_answer (snd (place_order_execution E T w token spec))
     = Some (MappedExecution (ExecAccepted b)) \<longleftrightarrow>
   (\<exists>status body. http_answer E T w token spec = Some (status, body)
      \<and> 200 \<le> status \<and> status < 300 \<and> carries_order_id (te_parse_json E) body b)"
proof -
  have range: "status \<notin> {401, 403, 429, 408, 504, 500, 502, 503}" if "status < 300" for status :: u16
    using that by auto
  show ?thesis
    by (auto simp: place_order_execution_def execute_after_gate_def execution_answer_def http_answer_def
        execution_not_sent_def execution_sent_def execution_sent_error_def Let_def
        classify_accepted_iff classify_without_body dest: range
        split: sum.splits prod.splits http_reply.splits option.splits)
qed

lemma answer_rejected_iff:
  "(\<exists>c. execution_answer (snd (place_order_execution E T w token spec))
     = Some (MappedExecution (ExecRejected c))) \<longleftrightarrow>
   (\<exists>status body. http_answer E T w token spec = Some (status, body)
      \<and> 400 \<le> status \<and> status < 500 \<and> status \<notin> {401, 403, 408, 429})"
  by (auto simp: place_order_execution_def execute_after_gate_def execution_answer_def http_answer_def
      execution_not_sent_def execution_sent_def execution_sent_error_def Let_def
      classify_rejected_iff classify_without_body
      split: sum.splits prod.splits http_reply.splits option.splits)

lemma answered_state_cases:
  "answered_state a = Submitted \<longleftrightarrow> (\<exists>b. a = Some (MappedExecution (ExecAccepted (Some b))))"
  "answered_state a = SubmittedPendingBrokerOrderId \<longleftrightarrow> a = Some (MappedExecution (ExecAccepted None))"
  "answered_state a = BrokerRejected \<longleftrightarrow> (\<exists>c. a = Some (MappedExecution (ExecRejected c)))"
  "answered_state a \<in> {Submitted, SubmittedPendingBrokerOrderId, BrokerRejected, TimeoutUnknownPending,
     ManualInterventionRequired}"
  by (cases a rule: answered_state.cases; simp)+

text \<open>C34: What the order path records is what the broker said, from the HTTP answer to the stored
  row: a place that reports leaves exactly its own record changed, in the reported state;
  that state is \<open>Submitted\<close> exactly when a 2xx answer carried a broker order id, which the
  record then has, pending when a 2xx answer carried none, \<open>BrokerRejected\<close>, the only
  terminal one, exactly on a 4xx other than 401, 403, 408 and 429, and otherwise one that
  waits for recovery or an operator: silence is never taken for an answer.\<close>

theorem place_records_the_answer:
  assumes "sqlite_inv (fst s)"
    and "place_via_real_transport scheduled_load (scheduled_update K) E T token approved comment t1 t2 (s, w)
      = ((s', w'), Inr report)"
    and "scheduled_load s (po_request_id (pap_order approved)) = Some r" and "opr_broker_order_id r = None"
  shows "\<exists>spec q. build_place_order_request (te_decimal_str E) approved comment = Inr spec
    \<and> scheduled_load s' = (scheduled_load s)(po_request_id (pap_order approved) \<mapsto> q)
    \<and> opr_state q = lrp_state report
    \<and> lrp_state report \<in> {Submitted, SubmittedPendingBrokerOrderId, BrokerRejected,
        TimeoutUnknownPending, ManualInterventionRequired}
    \<and> (lrp_state report = Submitted) = (\<exists>status body b. http_answer E T w token spec = Some (status, body)
        \<and> 200 \<le> status \<and> status < 300 \<and> carries_order_id (te_parse_json E) body (Some b)
        \<and> opr_broker_order_id q = Some b)
    \<and> (lrp_state report = SubmittedPendingBrokerOrderId) = (\<exists>status body.
        http_answer E T w token spec = Some (status, body)
        \<and> 200 \<le> status \<and> status < 300 \<and> carries_order_id (te_parse_json E) body None)
    \<and> (lrp_state report = BrokerRejected) = (\<exists>status body.
        http_answer E T w token spec = Some (status, body)
        \<and> 400 \<le> status \<and> status < 500 \<and> status \<notin> {401, 403, 408, 429})"
proof -
  obtain spec q answer where spec: "build_place_order_request (te_decimal_str E) approved comment = Inr spec"
    and answer: "answer = execution_answer (snd (place_order_execution E T w token spec))"
    and q: "scheduled_load s' = (scheduled_load s)(po_request_id (pap_order approved) \<mapsto> q)"
      "opr_state q = answered_state answer" "opr_broker_order_id q = answered_broker_order_id answer"
      "lrp_state report = answered_state answer"
    by (rule scheduled.place_reports_answer [OF assms])
  let ?sent = "\<lambda>status body b. http_answer E T w token spec = Some (status, body)
      \<and> 200 \<le> status \<and> status < 300 \<and> carries_order_id (te_parse_json E) body (Some b)"
  have submitted: "(answered_state answer = Submitted) = (\<exists>status body b.
      http_answer E T w token spec = Some (status, body) \<and> 200 \<le> status \<and> status < 300
      \<and> carries_order_id (te_parse_json E) body (Some b) \<and> answered_broker_order_id answer = Some b)"
  proof
    assume "answered_state answer = Submitted"
    then obtain b where b: "answer = Some (MappedExecution (ExecAccepted (Some b)))"
      by (auto simp: answered_state_cases)
    then have "\<exists>status body. ?sent status body b"
      unfolding answer answer_accepted_iff by blast
    then show "\<exists>status body b. http_answer E T w token spec = Some (status, body)
        \<and> 200 \<le> status \<and> status < 300 \<and> carries_order_id (te_parse_json E) body (Some b)
        \<and> answered_broker_order_id answer = Some b"
      using b by auto
  next
    assume "\<exists>status body b. http_answer E T w token spec = Some (status, body)
      \<and> 200 \<le> status \<and> status < 300 \<and> carries_order_id (te_parse_json E) body (Some b)
      \<and> answered_broker_order_id answer = Some b"
    then obtain b where "\<exists>status body. ?sent status body b" by blast
    then have "answer = Some (MappedExecution (ExecAccepted (Some b)))"
      unfolding answer answer_accepted_iff by blast
    then show "answered_state answer = Submitted" by simp
  qed
  have pending: "(answered_state answer = SubmittedPendingBrokerOrderId) = (\<exists>status body.
      http_answer E T w token spec = Some (status, body)
      \<and> 200 \<le> status \<and> status < 300 \<and> carries_order_id (te_parse_json E) body None)"
    unfolding answered_state_cases(2) answer answer_accepted_iff ..
  have rejected: "(answered_state answer = BrokerRejected) = (\<exists>status body.
      http_answer E T w token spec = Some (status, body)
      \<and> 400 \<le> status \<and> status < 500 \<and> status \<notin> {401, 403, 408, 429})"
    unfolding answered_state_cases(3) answer answer_rejected_iff ..
  show ?thesis
    by (intro exI [of _ spec] exI [of _ q] conjI)
      (use spec q submitted pending rejected answered_state_cases(4) [of answer] in \<open>simp_all only:\<close>)
qed

section \<open>A concrete environment\<close>

text \<open>The world counts the requests sent; every answer is 202 with a broker order id.\<close>

definition sample_env :: "(nat, unit) transport_env" where
  "sample_env =
     \<lparr> te_url_parse = (\<lambda>_. Some ()), te_url_host = (\<lambda>_. Some ''localhost''),
       te_url_with_segments = (\<lambda>_ _. Some ()), te_client_build = (\<lambda>_. None),
       te_send = (\<lambda>n _. (Suc n, Answered 202 None (Some ''x''))),
       te_write_capture = (\<lambda>n _ _ _. n),
       te_parse_json = (\<lambda>_. Some (JObject [(''orderId'', JString ''B1'')])),
       te_decimal_str = sample_decimal_str \<rparr>"

definition sample_transport :: "unit order_transport" where
  "sample_transport =
     \<lparr> mot_timeout_ms = 10000, mot_base_url = (), mot_authorization_header_mode = BearerJwt,
       mot_raw_response_capture_path = None \<rparr>"

definition sample_total_codec :: sqlite_codec where
  "sample_total_codec = sample_row_codec \<lparr> sc_encode := (\<lambda>_. Inr ''s'') \<rparr>"

text \<open>A store with one record, and its database.\<close>

definition sample_store :: "order_path_record \<Rightarrow> sqlite_db \<Rightarrow> scheduled_store" where
  "sample_store r db =
     ((\<lparr> ims_by_request_id = [opr_request_id r \<mapsto> r],
         ims_request_by_client_id = [opr_client_order_id r \<mapsto> opr_request_id r],
         ims_request_by_broker_id =
           (case opr_broker_order_id r of None \<Rightarrow> Map.empty | Some b \<Rightarrow> [b \<mapsto> opr_request_id r]) \<rparr>,
       db), \<lambda>_. NoSqliteFault)"

definition sample_db :: "order_path_record \<Rightarrow> sqlite_db" where
  "sample_db r = new_db \<lparr> db_records := [record_row sample_total_codec r ''s''] \<rparr>"

lemma sample_store_inv: "sqlite_inv (fst (sample_store r db))"
  by (auto simp: sample_store_def sqlite_inv_def store_inv_def split: option.splits if_splits)

lemma sample_load: "scheduled_load (sample_store r db) i = (if i = opr_request_id r then Some r else None)"
  by (simp add: sample_store_def scheduled_load_def sqlite_load_by_request_id_def get_by_request_id_def)

lemma sample_update:
  assumes "opr_request_id r' = opr_request_id r" "opr_client_order_id r' = opr_client_order_id r"
    and "opr_broker_order_id r = None \<or> opr_broker_order_id r' = opr_broker_order_id r"
    and "\<not> is_terminal_order_path_state (opr_state r)" "opr_last_update_ts r \<le> opr_last_update_ts r'"
    and "db_records db = [row]" "row_request_id row = sc_uuid_str sample_total_codec (opr_request_id r)"
  obtains db' row' where
    "scheduled_update sample_total_codec (sample_store r db) r' = (sample_store r' db', Inr ())"
    "db_records db' = [row']" "row_request_id row' = sc_uuid_str sample_total_codec (opr_request_id r')"
proof -
  let ?row = "record_row sample_total_codec r' ''s''"
  have sql: "update_record_sql sample_total_codec NoSqliteFault db r r'
      = (insert_transition_audit_sql sample_total_codec (opr_request_id r') (Some (opr_state r)) (opr_state r')
           (infer_transition_audit_event r r') (record_reason_code r') (opr_last_update_ts r')
           (db \<lparr> db_records := [?row] \<rparr>), Inr ())" (is "_ = (?db, _)")
    using assms(1,6,7)
    by (simp add: update_record_sql_def sample_total_codec_def in_transaction_def update_row_sql_def
        record_row_def Let_def)
  have "scheduled_update sample_total_codec (sample_store r db) r' = (sample_store r' ?db, Inr ())"
    using assms(1-5) sql
    by (auto simp: scheduled_update_def sample_store_def sqlite_update_record_def get_by_request_id_def
        mem_update_record_def taken_broker_order_id_def new_broker_order_id_def comp_def
        split: option.splits)
  then show ?thesis
    by (rule that [where row' = ?row]) (simp_all add: insert_transition_audit_sql_def record_row_def)
qed


section \<open>Witnesses\<close>

definition sample_intent :: order_path_record where
  "sample_intent = from_place_order sample_limit_order 0 None"

definition sample_in_flight :: order_path_record where
  "sample_in_flight = sample_intent \<lparr> opr_submit_attempt_count := 1, opr_last_ack_status := Some AckAccepted,
     opr_state := SubmitInFlight, opr_last_update_ts := 1 \<rparr>"

definition sample_submitted :: order_path_record where
  "sample_submitted = sample_in_flight \<lparr> opr_broker_order_id := Some (BrokerOrderId ''B1''),
     opr_last_ack_status := Some AckSubmitted, opr_state := Submitted, opr_last_update_ts := 2 \<rparr>"

lemmas sample_records = sample_intent_def sample_in_flight_def sample_submitted_def from_place_order_def

definition sample_approved :: preflight_approved_place_order where
  "sample_approved = \<lparr> pap_order = sample_limit_order, pap_approved_ts = 1 \<rparr>"

lemma sample_execution:
  "place_order_execution sample_env sample_transport w (AccessToken ''t'') spec
     = (Suc w, snd (place_order_execution sample_env sample_transport w (AccessToken ''t'') spec))"
  "execution_answer (snd (place_order_execution sample_env sample_transport w (AccessToken ''t'') spec))
     = Some (MappedExecution (ExecAccepted (Some (BrokerOrderId ''B1''))))"
  by (simp_all add: place_order_execution_def place_request_def url_from_segments_def authorize_def
      sample_env_def sample_transport_def execute_after_gate_def Let_def capture_raw_def
      execution_answer_def execution_sent_def carries_order_id_def accepted_dto_names_def
      classify_accepted_iff)

lemma sample_place_spec:
  obtains spec where "build_place_order_request (te_decimal_str sample_env) sample_approved None = Inr spec"
  by (simp add: build_place_order_request_def sample_approved_def sample_limit_order_def
      sample_place_order_def finam_type_and_price_def Let_def)

lemma sample_begin: "transition sample_intent BeginSubmit 1 = Inr sample_in_flight"
  by (simp add: transition_def next_order_path_state_def sample_records u32_add_def)

lemma sample_verdict:
  assumes "execution_answer x = Some (MappedExecution (ExecAccepted (Some (BrokerOrderId ''B1''))))"
  shows "place_verdict sample_in_flight x 2 = Inr (sample_submitted, AckSubmitted, Some SyntheticSubmitted, LcSubmitted)"
  using assms
  by (auto simp: place_verdict_def execution_answer_def execution_verdict_def lifecycle_transition_def
      transition_def next_order_path_state_def sample_records)

lemma sample_place:
  obtains db report where
    "place_via_real_transport scheduled_load (scheduled_update sample_total_codec) sample_env sample_transport
       (AccessToken ''t'') sample_approved None 1 2 (sample_store sample_intent (sample_db sample_intent), w)
     = ((sample_store sample_submitted db, Suc w), Inr report)"
proof -
  let ?id = "po_request_id sample_limit_order"
  have ids: "opr_request_id sample_intent = ?id" "opr_request_id sample_in_flight = ?id"
    "po_request_id (pap_order sample_approved) = ?id"
    by (simp_all add: sample_records sample_approved_def)
  obtain spec where spec: "build_place_order_request (te_decimal_str sample_env) sample_approved None = Inr spec"
    by (rule sample_place_spec)
  obtain db1 row1 where u1: "scheduled_update sample_total_codec (sample_store sample_intent (sample_db sample_intent))
      sample_in_flight = (sample_store sample_in_flight db1, Inr ())" "db_records db1 = [row1]"
      "row_request_id row1 = sc_uuid_str sample_total_codec (opr_request_id sample_in_flight)"
    by (rule sample_update [of sample_in_flight sample_intent "sample_db sample_intent"
          "record_row sample_total_codec sample_intent ''s''"])
      (simp_all add: sample_records is_terminal_order_path_state_def sample_db_def record_row_def)
  obtain db2 row2 where u2: "scheduled_update sample_total_codec (sample_store sample_in_flight db1) sample_submitted
      = (sample_store sample_submitted db2, Inr ())" "db_records db2 = [row2]"
    by (rule sample_update [of sample_submitted sample_in_flight db1 row1])
      (use u1 in \<open>simp_all add: sample_records is_terminal_order_path_state_def\<close>)
  define x where "x = snd (place_order_execution sample_env sample_transport w (AccessToken ''t'') spec)"
  have persist: "persist_place_begin_submit scheduled_load (scheduled_update sample_total_codec)
      (sample_store sample_intent (sample_db sample_intent)) sample_approved 1
      = (sample_store sample_in_flight db1, Inr sample_in_flight)"
    by (simp add: persist_place_begin_submit_def persist_transition_def sample_load ids
        lifecycle_transition_def sample_begin u1)
  have send: "place_order_execution sample_env sample_transport w (AccessToken ''t'') spec = (Suc w, x)"
    using sample_execution(1) by (simp add: x_def)
  have verdict: "place_verdict sample_in_flight x 2
      = Inr (sample_submitted, AckSubmitted, Some SyntheticSubmitted, LcSubmitted)"
    by (rule sample_verdict) (simp add: x_def sample_execution(2))
  have "place_via_real_transport scheduled_load (scheduled_update sample_total_codec) sample_env sample_transport
      (AccessToken ''t'') sample_approved None 1 2 (sample_store sample_intent (sample_db sample_intent), w)
      = ((sample_store sample_submitted db2, Suc w), Inr (report_from_record LifecyclePlace sample_submitted
           LcSubmitted (tex_request_sent x) AckSubmitted (Some SyntheticSubmitted)))"
    by (simp add: place_via_real_transport_def spec persist send apply_place_transport_execution_def
        store_verdict_def verdict u2)
  then show ?thesis by (rule that)
qed

theorem order_submitted_at_most_once_witness:
  "\<exists>s1 report e. place_via_real_transport scheduled_load (scheduled_update sample_total_codec) sample_env
       sample_transport (AccessToken ''t'') sample_approved None 1 2
       (sample_store sample_intent (sample_db sample_intent), 0) = ((s1, 1), Inr report)
     \<and> place_via_real_transport scheduled_load (scheduled_update sample_total_codec) sample_env
       sample_transport (AccessToken ''t'') sample_approved None 3 4 (s1, 1) = ((s1, 1), Inl e)"
proof -
  obtain db report where p: "place_via_real_transport scheduled_load (scheduled_update sample_total_codec)
      sample_env sample_transport (AccessToken ''t'') sample_approved None 1 2
      (sample_store sample_intent (sample_db sample_intent), 0)
     = ((sample_store sample_submitted db, Suc 0), Inr report)"
    by (rule sample_place)
  from order_submitted_at_most_once [OF sample_store_inv p _ run_none refl] p show ?thesis by auto
qed

theorem place_records_the_answer_witness:
  "\<exists>s1 report q. place_via_real_transport scheduled_load (scheduled_update sample_total_codec) sample_env
       sample_transport (AccessToken ''t'') sample_approved None 1 2
       (sample_store sample_intent (sample_db sample_intent), 0) = ((s1, 1), Inr report)
     \<and> scheduled_load s1 (po_request_id sample_limit_order) = Some q \<and> opr_state q = lrp_state report"
proof -
  obtain db report where p: "place_via_real_transport scheduled_load (scheduled_update sample_total_codec)
      sample_env sample_transport (AccessToken ''t'') sample_approved None 1 2
      (sample_store sample_intent (sample_db sample_intent), 0)
     = ((sample_store sample_submitted db, Suc 0), Inr report)"
    by (rule sample_place)
  have id: "po_request_id (pap_order sample_approved) = po_request_id sample_limit_order"
    by (simp add: sample_approved_def)
  have l: "scheduled_load (sample_store sample_intent (sample_db sample_intent))
      (po_request_id (pap_order sample_approved)) = Some sample_intent"
    by (simp add: sample_load sample_records sample_approved_def)
  have "opr_broker_order_id sample_intent = None" by (simp add: sample_records)
  from place_records_the_answer [OF sample_store_inv p l this] p id show ?thesis by auto
qed

definition sample_cancel_requested :: order_path_record where
  "sample_cancel_requested = sample_submitted \<lparr> opr_cancel_attempt_count := 1,
     opr_last_ack_status := Some AckAccepted, opr_state := CancelRequested, opr_last_update_ts := 3 \<rparr>"

definition sample_cancel_submitted :: order_path_record where
  "sample_cancel_submitted = sample_cancel_requested \<lparr> opr_last_ack_status := Some AckSubmitted,
     opr_state := CancelSubmitted, opr_last_update_ts := 4 \<rparr>"

definition sample_approved_cancel :: preflight_approved_cancel_order where
  "sample_approved_cancel =
     \<lparr> pac_cancel = \<lparr> co_request_id = StrategyRequestId (replicate 16 8), co_created_ts = 3, co_ttl_ms = None,
         co_account_id = po_account_id sample_limit_order, co_order_id = BrokerOrderId ''B1'',
         co_client_order_id = None \<rparr>,
       pac_approved_ts = 3, pac_mapped_request_id = Some (po_request_id sample_limit_order) \<rparr>"

lemmas sample_cancel_records = sample_cancel_requested_def sample_cancel_submitted_def sample_records

lemma sample_cancel_execution:
  "cancel_order_execution sample_env sample_transport w (AccessToken ''t'') spec
     = (Suc w, snd (cancel_order_execution sample_env sample_transport w (AccessToken ''t'') spec))"
  "execution_answer (snd (cancel_order_execution sample_env sample_transport w (AccessToken ''t'') spec))
     = Some (MappedExecution (ExecAccepted (Some (BrokerOrderId ''B1''))))"
  by (simp_all add: cancel_order_execution_def cancel_request_def url_from_segments_def authorize_def
      sample_env_def sample_transport_def execute_after_gate_def Let_def capture_raw_def
      execution_answer_def execution_sent_def carries_order_id_def accepted_dto_names_def
      classify_accepted_iff)

lemma sample_cancel_verdict:
  assumes "execution_answer x = Some (MappedExecution (ExecAccepted (Some (BrokerOrderId ''B1''))))"
  shows "cancel_verdict sample_approved_cancel sample_cancel_requested x 4
    = Inr (sample_cancel_submitted, AckSubmitted, Some SyntheticSubmitted, LcCancelSubmittedPendingReconciliation)"
  using assms
  by (auto simp: cancel_verdict_def execution_answer_def execution_verdict_def lifecycle_transition_def
      transition_def next_order_path_state_def sample_cancel_records sample_approved_cancel_def)

lemma sample_request_cancel: "transition sample_submitted RequestCancel 3 = Inr sample_cancel_requested"
  by (simp add: transition_def next_order_path_state_def sample_cancel_records u32_add_def)

lemma sample_cancel_place:
  obtains db report where
    "cancel_via_real_transport scheduled_load (scheduled_update sample_total_codec) sample_env sample_transport
       (AccessToken ''t'') sample_approved_cancel 3 4 (sample_store sample_submitted (sample_db sample_submitted), w)
     = ((sample_store sample_cancel_submitted db, Suc w), Inr report)"
proof -
  let ?id = "po_request_id sample_limit_order"
  have ids: "opr_request_id sample_submitted = ?id" "pac_mapped_request_id sample_approved_cancel = Some ?id"
    by (simp_all add: sample_records sample_approved_cancel_def)
  obtain spec where spec: "build_cancel_order_request sample_approved_cancel = Inr spec"
    by (simp add: build_cancel_order_request_def sample_approved_cancel_def Let_def)
  obtain db1 row1 where u1: "scheduled_update sample_total_codec (sample_store sample_submitted (sample_db sample_submitted))
      sample_cancel_requested = (sample_store sample_cancel_requested db1, Inr ())" "db_records db1 = [row1]"
      "row_request_id row1 = sc_uuid_str sample_total_codec (opr_request_id sample_cancel_requested)"
    by (rule sample_update [of sample_cancel_requested sample_submitted "sample_db sample_submitted"
          "record_row sample_total_codec sample_submitted ''s''"])
      (simp_all add: sample_cancel_records is_terminal_order_path_state_def sample_db_def record_row_def)
  obtain db2 row2 where u2: "scheduled_update sample_total_codec (sample_store sample_cancel_requested db1)
      sample_cancel_submitted = (sample_store sample_cancel_submitted db2, Inr ())" "db_records db2 = [row2]"
    by (rule sample_update [of sample_cancel_submitted sample_cancel_requested db1 row1])
      (use u1 in \<open>simp_all add: sample_cancel_records is_terminal_order_path_state_def\<close>)
  define x where "x = snd (cancel_order_execution sample_env sample_transport w (AccessToken ''t'') spec)"
  have persist: "persist_cancel_request scheduled_load (scheduled_update sample_total_codec)
      (sample_store sample_submitted (sample_db sample_submitted)) sample_approved_cancel 3
      = (sample_store sample_cancel_requested db1, Inr sample_cancel_requested)"
    by (simp add: persist_cancel_request_def persist_transition_def sample_load ids
        lifecycle_transition_def sample_request_cancel u1)
  have send: "cancel_order_execution sample_env sample_transport w (AccessToken ''t'') spec = (Suc w, x)"
    using sample_cancel_execution(1) by (simp add: x_def)
  have verdict: "cancel_verdict sample_approved_cancel sample_cancel_requested x 4
      = Inr (sample_cancel_submitted, AckSubmitted, Some SyntheticSubmitted, LcCancelSubmittedPendingReconciliation)"
    by (rule sample_cancel_verdict) (simp add: x_def sample_cancel_execution(2))
  have "cancel_via_real_transport scheduled_load (scheduled_update sample_total_codec) sample_env sample_transport
      (AccessToken ''t'') sample_approved_cancel 3 4 (sample_store sample_submitted (sample_db sample_submitted), w)
      = ((sample_store sample_cancel_submitted db2, Suc w), Inr (report_from_record LifecycleCancel
           sample_cancel_submitted LcCancelSubmittedPendingReconciliation (tex_request_sent x) AckSubmitted
           (Some SyntheticSubmitted)))"
    by (simp add: cancel_via_real_transport_def spec persist send apply_cancel_transport_execution_def
        store_verdict_def verdict u2)
  then show ?thesis by (rule that)
qed

theorem order_cancelled_at_most_once_witness:
  "\<exists>s1 report e. cancel_via_real_transport scheduled_load (scheduled_update sample_total_codec) sample_env
       sample_transport (AccessToken ''t'') sample_approved_cancel 3 4
       (sample_store sample_submitted (sample_db sample_submitted), 1) = ((s1, 2), Inr report)
     \<and> cancel_via_real_transport scheduled_load (scheduled_update sample_total_codec) sample_env
       sample_transport (AccessToken ''t'') sample_approved_cancel 5 6 (s1, 2) = ((s1, 2), Inl e)"
proof -
  obtain db report where p: "cancel_via_real_transport scheduled_load (scheduled_update sample_total_codec)
      sample_env sample_transport (AccessToken ''t'') sample_approved_cancel 3 4
      (sample_store sample_submitted (sample_db sample_submitted), 1)
     = ((sample_store sample_cancel_submitted db, Suc 1), Inr report)"
    by (rule sample_cancel_place)
  from order_cancelled_at_most_once [OF sample_store_inv p _ run_none refl] p show ?thesis
    by (auto simp: eval_nat_numeral)
qed

end
