(* ===== verification/PaperLedger.thy ===== *)
theory PaperLedger
  imports MarketBars RustStrings
begin

text \<open>
  The paper ledger of \<open>paper.rs\<close>: intents of a strategy filled at the open of the next final
  bar, the orders, trades, positions and acknowledgements that result, the invariant check
  after every change, and the daily features of the bars seen. The flat structs of the code
  that repeat the same group of fields (ledger, oracle seed, projection) share a record for
  the group here, polymorphic in the types that differ. The operators of \<open>Decimal\<close> are a
  \<open>paper_ops\<close> whose \<open>None\<close> is their panic.
\<close>

section \<open>Identifiers and enumerations\<close>

datatype runtime_decision_id = RuntimeDecisionId string
datatype paper_order_id = PaperOrderId string
datatype paper_trade_id = PaperTradeId string

fun runtime_decision_id_str :: "runtime_decision_id \<Rightarrow> string" where
  "runtime_decision_id_str (RuntimeDecisionId s) = s"

datatype paper_execution_mode = PaperLiveOnly | PaperHistorySim

datatype runtime_bar_origin = OriginHistory | OriginHistoryGap | OriginLive | OriginReplay

fun can_advance :: "paper_execution_mode \<Rightarrow> runtime_bar_origin \<Rightarrow> bool" where
  "can_advance PaperLiveOnly origin = (origin = OriginLive)"
| "can_advance PaperHistorySim origin = True"

datatype paper_fill_policy =
    NextFinalBarOpen | LimitBarTouch | CancelIfWorking | PaperManualReviewRequired string

datatype paper_intent_kind = PaperEnter | PaperExit | PaperCancel

datatype paper_order_status =
    PaperPending | PaperWorking | PaperFilled | PaperPartiallyFilled | PaperCanceled
  | PaperRejected | PaperExpired | PaperManualReview

definition paper_status_is_active :: "paper_order_status \<Rightarrow> bool" where
  "paper_status_is_active s \<longleftrightarrow> s \<in> {PaperPending, PaperWorking, PaperPartiallyFilled}"

definition paper_status_is_terminal :: "paper_order_status \<Rightarrow> bool" where
  "paper_status_is_terminal s \<longleftrightarrow>
     s \<in> {PaperFilled, PaperCanceled, PaperRejected, PaperExpired, PaperManualReview}"

datatype paper_ack_kind =
    PaperAckAccepted | PaperAckFilled | PaperAckCanceled | PaperAckRejected
  | PaperAckDuplicateIgnored | PaperAckSuppressed | PaperAckManualReviewRequired

record paper_safety_boundary =
  psb_live_orders_enabled :: bool
  psb_runtime_live_ready_enabled :: bool
  psb_command_consumer_to_real_finam_enabled :: bool
  psb_external_order_endpoint_enabled :: bool
  psb_stop_sltp_bracket_enabled :: bool

definition safety_boundary_closed :: paper_safety_boundary where
  "safety_boundary_closed =
     \<lparr> psb_live_orders_enabled = False, psb_runtime_live_ready_enabled = False,
       psb_command_consumer_to_real_finam_enabled = False,
       psb_external_order_endpoint_enabled = False, psb_stop_sltp_bracket_enabled = False \<rparr>"

definition safety_boundary_is_closed :: "paper_safety_boundary \<Rightarrow> bool" where
  "safety_boundary_is_closed b \<longleftrightarrow>
     \<not> psb_live_orders_enabled b \<and> \<not> psb_runtime_live_ready_enabled b
     \<and> \<not> psb_command_consumer_to_real_finam_enabled b
     \<and> \<not> psb_external_order_endpoint_enabled b \<and> \<not> psb_stop_sltp_bracket_enabled b"

definition paper_schema_version :: u16 where
  "paper_schema_version = 2"

section \<open>Records\<close>

record runtime_bar_input =
  rbi_schema_version :: u16
  rbi_instrument :: instrument_id
  rbi_origin :: runtime_bar_origin
  rbi_timeframe_sec :: u32
  rbi_open_ts :: timestamp
  rbi_close_ts :: timestamp
  rbi_open :: price
  rbi_high :: price
  rbi_low :: price
  rbi_close :: price
  rbi_volume :: quantity
  rbi_is_final :: bool
  rbi_source_stream :: string
  rbi_provenance :: string

definition is_live_final_timeframe :: "runtime_bar_input \<Rightarrow> u32 \<Rightarrow> bool" where
  "is_live_final_timeframe b expected_timeframe_sec \<longleftrightarrow>
     rbi_origin b = OriginLive \<and> rbi_is_final b \<and> rbi_timeframe_sec b = expected_timeframe_sec"

record runtime_decision_record =
  rdr_schema_version :: u16
  rdr_decision_id :: runtime_decision_id
  rdr_strategy_id :: string
  rdr_decision_bar_key :: string
  rdr_instrument :: instrument_id
  rdr_side :: order_side
  rdr_order_type :: order_type
  rdr_qty :: quantity
  rdr_limit_price :: "price option"
  rdr_time_in_force :: "time_in_force option"
  rdr_fill_policy :: paper_fill_policy
  rdr_created_ts :: timestamp
  rdr_source_bar_close_ts :: timestamp

datatype runtime_suppression_reason =
    NonLiveOrigin | NonFinalBar | TimeframeMismatch u32 u32 | DuplicateDecision
  | RuntimeNotReady | ManualPolicy string

record runtime_suppression_record =
  rsr_schema_version :: u16
  rsr_decision_id :: "runtime_decision_id option"
  rsr_strategy_id :: string
  rsr_instrument :: instrument_id
  rsr_decision_bar_key :: string
  rsr_reason :: runtime_suppression_reason
  rsr_created_ts :: timestamp

record paper_intent =
  pin_schema_version :: u16
  pin_intent_id :: runtime_decision_id
  pin_kind :: paper_intent_kind
  pin_strategy_id :: string
  pin_strategy_owner :: "string option"
  pin_strategy_cycle_id :: "string option"
  pin_decision_bar_key :: string
  pin_instrument :: instrument_id
  pin_side :: "order_side option"
  pin_order_type :: "order_type option"
  pin_qty :: quantity
  pin_limit_price :: "price option"
  pin_fill_policy :: paper_fill_policy
  pin_created_ts :: timestamp

definition intent_from_decision :: "paper_intent_kind \<Rightarrow> runtime_decision_record \<Rightarrow> paper_intent" where
  "intent_from_decision kind d =
     \<lparr> pin_schema_version = paper_schema_version, pin_intent_id = rdr_decision_id d, pin_kind = kind,
       pin_strategy_id = rdr_strategy_id d, pin_strategy_owner = None,
       pin_strategy_cycle_id = None, pin_decision_bar_key = rdr_decision_bar_key d,
       pin_instrument = rdr_instrument d, pin_side = Some (rdr_side d),
       pin_order_type = Some (rdr_order_type d), pin_qty = rdr_qty d,
       pin_limit_price = rdr_limit_price d, pin_fill_policy = rdr_fill_policy d,
       pin_created_ts = rdr_created_ts d \<rparr>"

definition with_strategy_tags :: "paper_intent \<Rightarrow> string \<Rightarrow> string \<Rightarrow> paper_intent" where
  "with_strategy_tags intent owner cycle_id =
     intent \<lparr> pin_strategy_owner := Some owner, pin_strategy_cycle_id := Some cycle_id \<rparr>"

record paper_order =
  por_schema_version :: u16
  por_paper_order_id :: paper_order_id
  por_intent_id :: runtime_decision_id
  por_account_id :: "broker_account_id option"
  por_strategy_id :: string
  por_instrument :: instrument_id
  por_side :: order_side
  por_order_type :: order_type
  por_status :: paper_order_status
  por_qty :: quantity
  por_filled_qty :: quantity
  por_remaining_qty :: quantity
  por_limit_price :: "price option"
  por_fill_policy :: paper_fill_policy
  por_created_ts :: timestamp
  por_updated_ts :: timestamp

definition paper_order_is_active :: "paper_order \<Rightarrow> bool" where
  "paper_order_is_active order = paper_status_is_active (por_status order)"

definition paper_order_is_terminal :: "paper_order \<Rightarrow> bool" where
  "paper_order_is_terminal order = paper_status_is_terminal (por_status order)"

record paper_trade =
  ptr_schema_version :: u16
  ptr_paper_trade_id :: paper_trade_id
  ptr_paper_order_id :: paper_order_id
  ptr_intent_id :: runtime_decision_id
  ptr_strategy_id :: string
  ptr_instrument :: instrument_id
  ptr_side :: order_side
  ptr_qty :: quantity
  ptr_price :: price
  ptr_commission :: "price option"
  ptr_fill_policy :: paper_fill_policy
  ptr_source_bar_key :: string
  ptr_source_ts :: timestamp
  ptr_received_ts :: timestamp

record paper_position =
  pps_schema_version :: u16
  pps_strategy_id :: string
  pps_instrument :: instrument_id
  pps_qty :: quantity
  pps_avg_price :: "price option"
  pps_updated_ts :: timestamp
  pps_source :: string

record paper_ack =
  pak_schema_version :: u16
  pak_intent_id :: runtime_decision_id
  pak_paper_order_id :: "paper_order_id option"
  pak_kind :: paper_ack_kind
  pak_reason :: "string option"
  pak_created_ts :: timestamp

record risk_gate_paper_ledger_record =
  rgl_schema_version :: u16
  rgl_strategy_id :: string
  rgl_profile_id :: string
  rgl_session_date :: string
  rgl_shadow_pnl_points :: price
  rgl_shadow_trade_count :: u32
  rgl_source :: string

record risk_gate_paper_state =
  rgp_schema_version :: u16
  rgp_strategy_id :: string
  rgp_profile_id :: string
  rgp_last_finalized_session_date :: "string option"
  rgp_rolling_sum_lb120 :: "price option"
  rgp_mr_enabled_current_session :: "bool option"
  rgp_mr_enabled_next_session :: "bool option"
  rgp_ledger_rows_count :: nat

section \<open>Groups of fields\<close>

text \<open>
  The \<open>hybrid_*\<close> fields, the shadow of the risk gate and the features of the day. \<open>'n\<close> is the
  type of the counters, \<open>'b\<close> of the flags and \<open>'p\<close> of the prices: options in the oracle
  seed, floating point in the projection.
\<close>

record 'n paper_hybrid_cycle =
  phc_active_cycle_id :: "string option"
  phc_next_cycle_seq :: 'n
  phc_current_owner :: "string option"
  phc_current_side :: "string option"
  phc_pending_entry_owner :: "string option"
  phc_pending_entry_side :: "string option"
  phc_pending_entry_cycle_id :: "string option"
  phc_pending_entry_request_id :: "string option"
  phc_pending_exit_request_id :: "string option"
  phc_tp_order_id :: "string option"
  phc_sl_stop_order_id :: "string option"

record ('p, 'b) paper_hybrid_mode =
  phm_mr_take_price :: "'p option"
  phm_mr_stop_price :: "'p option"
  phm_safe_mode_close_only :: 'b
  phm_safe_mode_reason :: "string option"
  phm_deferred_entry_state :: "string option"
  phm_deferred_exit_state :: "string option"
  phm_position_adoption_state :: "string option"
  phm_dirty_start_marker :: "string option"
  phm_manual_intervention_required :: 'b
  phm_manual_intervention_reason :: "string option"
  phm_overnight_exit_armed_date :: "string option"

record ('p, 'n) paper_risk_shadow =
  prs_session_date :: "string option"
  prs_pnl_points :: 'p
  prs_trade_count :: 'n

record ('p, 'b) paper_day_features =
  pdf_current_day_utc :: "string option"
  pdf_current_day_high :: "'p option"
  pdf_current_day_low :: "'p option"
  pdf_current_day_close :: "'p option"
  pdf_prev_day_close :: "'p option"
  pdf_prev_day_range :: "'p option"
  pdf_prev_day_return :: "'p option"
  pdf_day_before_close :: "'p option"
  pdf_was_long_today :: 'b
  pdf_was_short_today :: 'b

section \<open>The ledger\<close>

record paper_ledger_snapshot =
  pls_schema_version :: u16
  pls_strategy_id :: string
  pls_instrument :: instrument_id
  pls_execution_mode :: paper_execution_mode
  pls_safety_boundary :: paper_safety_boundary
  pls_intents :: "paper_intent list"
  pls_orders :: "paper_order list"
  pls_trades :: "paper_trade list"
  pls_positions :: "paper_position list"
  pls_acks :: "paper_ack list"
  pls_suppressions :: "runtime_suppression_record list"
  pls_risk_gate_ledger :: "risk_gate_paper_ledger_record list"
  pls_risk_gate_state :: "risk_gate_paper_state option"
  pls_hybrid_cycle :: "u32 option paper_hybrid_cycle"
  pls_hybrid_mode :: "(price, bool) paper_hybrid_mode"
  pls_risk_shadow :: "(price, u32) paper_risk_shadow"
  pls_last_bar_close :: "price option"
  pls_day :: "(price, bool) paper_day_features"
  pls_received_ts :: timestamp

record paper_ledger_executor_config =
  pec_strategy_id :: string
  pec_instrument :: instrument_id
  pec_execution_mode :: paper_execution_mode
  pec_expected_timeframe_sec :: u32
  pec_safety_boundary :: paper_safety_boundary

definition executor_config_new ::
    "string \<Rightarrow> instrument_id \<Rightarrow> paper_execution_mode \<Rightarrow> u32 \<Rightarrow> paper_ledger_executor_config" where
  "executor_config_new strategy_id instrument mode expected_timeframe_sec =
     \<lparr> pec_strategy_id = strategy_id, pec_instrument = instrument, pec_execution_mode = mode,
       pec_expected_timeframe_sec = expected_timeframe_sec,
       pec_safety_boundary = safety_boundary_closed \<rparr>"

definition paper_ledger_empty ::
    "paper_ledger_executor_config \<Rightarrow> timestamp \<Rightarrow> paper_ledger_snapshot" where
  "paper_ledger_empty config received_ts =
     \<lparr> pls_schema_version = paper_schema_version,
       pls_strategy_id = pec_strategy_id config, pls_instrument = pec_instrument config,
       pls_execution_mode = pec_execution_mode config,
       pls_safety_boundary = pec_safety_boundary config,
       pls_intents = [], pls_orders = [], pls_trades = [], pls_positions = [], pls_acks = [],
       pls_suppressions = [], pls_risk_gate_ledger = [], pls_risk_gate_state = None,
       pls_hybrid_cycle =
         \<lparr> phc_active_cycle_id = None, phc_next_cycle_seq = None, phc_current_owner = None,
           phc_current_side = None, phc_pending_entry_owner = None,
           phc_pending_entry_side = None, phc_pending_entry_cycle_id = None,
           phc_pending_entry_request_id = None, phc_pending_exit_request_id = None,
           phc_tp_order_id = None, phc_sl_stop_order_id = None \<rparr>,
       pls_hybrid_mode =
         \<lparr> phm_mr_take_price = None, phm_mr_stop_price = None, phm_safe_mode_close_only = False,
           phm_safe_mode_reason = None, phm_deferred_entry_state = None,
           phm_deferred_exit_state = None, phm_position_adoption_state = None,
           phm_dirty_start_marker = None, phm_manual_intervention_required = False,
           phm_manual_intervention_reason = None, phm_overnight_exit_armed_date = None \<rparr>,
       pls_risk_shadow = \<lparr> prs_session_date = None, prs_pnl_points = 0, prs_trade_count = 0 \<rparr>,
       pls_last_bar_close = None,
       pls_day =
         \<lparr> pdf_current_day_utc = None, pdf_current_day_high = None, pdf_current_day_low = None,
           pdf_current_day_close = None, pdf_prev_day_close = None, pdf_prev_day_range = None,
           pdf_prev_day_return = None, pdf_day_before_close = None,
           pdf_was_long_today = False, pdf_was_short_today = False \<rparr>,
       pls_received_ts = received_ts \<rparr>"

section \<open>The invariant check\<close>

datatype paper_ledger_invariant_error =
    InvLiveBoundaryOpen | DuplicateIntentId | DuplicateOrderId | DuplicateTradeId
  | InvStrategyMismatch | InvInstrumentMismatch | OrderReferencesMissingIntent
  | TradeReferencesMissingOrder | TradeReferencesMissingIntent | AckReferencesMissingIntent
  | AckReferencesMissingOrder | FilledQuantityExceedsOrderQuantity
  | RemainingQuantityMismatch

text \<open>The checks over a vector: the first element that fails one ends the check.\<close>

fun first_error :: "('a \<Rightarrow> 'e + unit) \<Rightarrow> 'a list \<Rightarrow> 'e + unit" where
  "first_error f [] = Inr ()"
| "first_error f (x # xs) = and_then (f x) (\<lambda>_. first_error f xs)"

definition require :: "bool \<Rightarrow> 'e \<Rightarrow> 'e + unit" where
  "require ok e = (if ok then Inr () else Inl e)"

text \<open>\<open>order.qty - order.filled_qty\<close> is of a value no smaller and not negative: no overflow.\<close>

definition check_order ::
    "paper_ledger_snapshot \<Rightarrow> paper_order \<Rightarrow> paper_ledger_invariant_error + unit" where
  "check_order l x =
     (if por_instrument x \<noteq> pls_instrument l then Inl InvInstrumentMismatch
      else if por_strategy_id x \<noteq> pls_strategy_id l then Inl InvStrategyMismatch
      else if por_intent_id x \<notin> set (map pin_intent_id (pls_intents l))
      then Inl OrderReferencesMissingIntent
      else if por_qty x < por_filled_qty x then Inl FilledQuantityExceedsOrderQuantity
      else if por_qty x - por_filled_qty x \<noteq> por_remaining_qty x
      then Inl RemainingQuantityMismatch
      else Inr ())"

definition check_trade ::
    "paper_ledger_snapshot \<Rightarrow> paper_trade \<Rightarrow> paper_ledger_invariant_error + unit" where
  "check_trade l x =
     (if ptr_instrument x \<noteq> pls_instrument l then Inl InvInstrumentMismatch
      else if ptr_strategy_id x \<noteq> pls_strategy_id l then Inl InvStrategyMismatch
      else if ptr_paper_order_id x \<notin> set (map por_paper_order_id (pls_orders l))
      then Inl TradeReferencesMissingOrder
      else if ptr_intent_id x \<notin> set (map pin_intent_id (pls_intents l))
      then Inl TradeReferencesMissingIntent
      else Inr ())"

definition check_paper_position ::
    "paper_ledger_snapshot \<Rightarrow> paper_position \<Rightarrow> paper_ledger_invariant_error + unit" where
  "check_paper_position l x =
     (if pps_instrument x \<noteq> pls_instrument l then Inl InvInstrumentMismatch
      else if pps_strategy_id x \<noteq> pls_strategy_id l then Inl InvStrategyMismatch
      else Inr ())"

definition check_ack ::
    "paper_ledger_snapshot \<Rightarrow> paper_ack \<Rightarrow> paper_ledger_invariant_error + unit" where
  "check_ack l x =
     (if pak_intent_id x \<notin> set (map pin_intent_id (pls_intents l))
      then Inl AckReferencesMissingIntent
      else case pak_paper_order_id x of
        Some i \<Rightarrow> require (i \<in> set (map por_paper_order_id (pls_orders l))) AckReferencesMissingOrder
      | None \<Rightarrow> Inr ())"

definition validate_ledger ::
    "paper_ledger_snapshot \<Rightarrow> paper_ledger_invariant_error + unit" where
  "validate_ledger l =
     (if \<not> safety_boundary_is_closed (pls_safety_boundary l) then Inl InvLiveBoundaryOpen
      else
        and_then (require (distinct (map pin_intent_id (pls_intents l))) DuplicateIntentId) (\<lambda>_.
        and_then (require (distinct (map por_paper_order_id (pls_orders l))) DuplicateOrderId) (\<lambda>_.
        and_then (require (distinct (map ptr_paper_trade_id (pls_trades l))) DuplicateTradeId) (\<lambda>_.
        and_then (first_error (check_order l) (pls_orders l)) (\<lambda>_.
        and_then (first_error (check_trade l) (pls_trades l)) (\<lambda>_.
        and_then (first_error (check_paper_position l) (pls_positions l)) (\<lambda>_.
        first_error (check_ack l) (pls_acks l))))))))"

definition paper_target_position_qty :: "paper_ledger_snapshot \<Rightarrow> quantity" where
  "paper_target_position_qty l =
     (case rev (filter (\<lambda>p. pps_instrument p = pls_instrument l) (pls_positions l)) of
        [] \<Rightarrow> 0 | p # _ \<Rightarrow> pps_qty p)"

definition paper_target_is_flat :: "paper_ledger_snapshot \<Rightarrow> bool" where
  "paper_target_is_flat l \<longleftrightarrow> paper_target_position_qty l = 0"

definition active_orders :: "paper_ledger_snapshot \<Rightarrow> paper_order list" where
  "active_orders l = filter paper_order_is_active (pls_orders l)"

section \<open>The oracle seed\<close>

record paper_oracle_seed =
  pos_source :: string
  pos_last_position_qty :: "quantity option"
  pos_hybrid_cycle :: "u32 option paper_hybrid_cycle"
  pos_hybrid_mode :: "(price, bool option) paper_hybrid_mode"
  pos_day :: "(price, bool option) paper_day_features"
  pos_risk_shadow :: "(price option, u32 option) paper_risk_shadow"
  pos_risk_gate_profile_id :: "string option"
  pos_risk_gate_mr_enabled_current_session :: "bool option"
  pos_risk_gate_mr_enabled_next_session :: "bool option"
  pos_risk_gate_rolling_sum_lb120 :: "price option"
  pos_risk_gate_last_finalized_session_date :: "string option"
  pos_risk_gate_ledger_rows_count :: "nat option"

definition or_keep :: "'a option \<Rightarrow> 'a \<Rightarrow> 'a" where
  "or_keep new old = (case new of Some v \<Rightarrow> v | None \<Rightarrow> old)"

definition seeded_mode ::
    "(price, bool option) paper_hybrid_mode \<Rightarrow> (price, bool) paper_hybrid_mode
       \<Rightarrow> (price, bool) paper_hybrid_mode" where
  "seeded_mode seed old =
     \<lparr> phm_mr_take_price = phm_mr_take_price seed,
       phm_mr_stop_price = phm_mr_stop_price seed,
       phm_safe_mode_close_only = or_keep (phm_safe_mode_close_only seed) (phm_safe_mode_close_only old),
       phm_safe_mode_reason = phm_safe_mode_reason seed,
       phm_deferred_entry_state = phm_deferred_entry_state seed,
       phm_deferred_exit_state = phm_deferred_exit_state seed,
       phm_position_adoption_state = phm_position_adoption_state seed,
       phm_dirty_start_marker = phm_dirty_start_marker seed,
       phm_manual_intervention_required =
         or_keep (phm_manual_intervention_required seed) (phm_manual_intervention_required old),
       phm_manual_intervention_reason = phm_manual_intervention_reason seed,
       phm_overnight_exit_armed_date = phm_overnight_exit_armed_date seed \<rparr>"

definition seeded_day ::
    "(price, bool option) paper_day_features \<Rightarrow> (price, bool) paper_day_features
       \<Rightarrow> (price, bool) paper_day_features" where
  "seeded_day seed old =
     \<lparr> pdf_current_day_utc = pdf_current_day_utc seed,
       pdf_current_day_high = pdf_current_day_high seed,
       pdf_current_day_low = pdf_current_day_low seed,
       pdf_current_day_close = pdf_current_day_close seed,
       pdf_prev_day_close = pdf_prev_day_close seed,
       pdf_prev_day_range = pdf_prev_day_range seed,
       pdf_prev_day_return = pdf_prev_day_return seed,
       pdf_day_before_close = pdf_day_before_close seed,
       pdf_was_long_today = or_keep (pdf_was_long_today seed) (pdf_was_long_today old),
       pdf_was_short_today = or_keep (pdf_was_short_today seed) (pdf_was_short_today old) \<rparr>"

definition seeded_positions ::
    "paper_ledger_snapshot \<Rightarrow> paper_oracle_seed \<Rightarrow> timestamp \<Rightarrow> paper_position list" where
  "seeded_positions l seed received_ts =
     (case pos_last_position_qty seed of
        None \<Rightarrow> pls_positions l
      | Some qty \<Rightarrow> pls_positions l @
          [\<lparr> pps_schema_version = paper_schema_version, pps_strategy_id = pls_strategy_id l,
             pps_instrument = pls_instrument l, pps_qty = qty, pps_avg_price = None,
             pps_updated_ts = received_ts, pps_source = ''paper_oracle_seed:'' @ pos_source seed \<rparr>])"

definition apply_oracle_seed ::
    "paper_ledger_snapshot \<Rightarrow> paper_oracle_seed \<Rightarrow> timestamp
       \<Rightarrow> paper_ledger_snapshot \<times> (paper_ledger_invariant_error + unit)" where
  "apply_oracle_seed l seed received_ts =
     (let l' = l \<lparr> pls_positions := seeded_positions l seed received_ts,
                   pls_hybrid_cycle := pos_hybrid_cycle seed,
                   pls_hybrid_mode := seeded_mode (pos_hybrid_mode seed) (pls_hybrid_mode l),
                   pls_day := seeded_day (pos_day seed) (pls_day l),
                   pls_risk_shadow :=
                     \<lparr> prs_session_date = prs_session_date (pos_risk_shadow seed),
                       prs_pnl_points = or_keep (prs_pnl_points (pos_risk_shadow seed))
                         (prs_pnl_points (pls_risk_shadow l)),
                       prs_trade_count = or_keep (prs_trade_count (pos_risk_shadow seed))
                         (prs_trade_count (pls_risk_shadow l)) \<rparr>,
                   pls_risk_gate_state := Some
                     \<lparr> rgp_schema_version = paper_schema_version,
                       rgp_strategy_id = pls_strategy_id l,
                       rgp_profile_id = or_keep (pos_risk_gate_profile_id seed)
                         ''paper_oracle_seed_unknown_profile'',
                       rgp_last_finalized_session_date = pos_risk_gate_last_finalized_session_date seed,
                       rgp_rolling_sum_lb120 = pos_risk_gate_rolling_sum_lb120 seed,
                       rgp_mr_enabled_current_session = pos_risk_gate_mr_enabled_current_session seed,
                       rgp_mr_enabled_next_session = pos_risk_gate_mr_enabled_next_session seed,
                       rgp_ledger_rows_count = or_keep (pos_risk_gate_ledger_rows_count seed) 0 \<rparr>,
                   pls_received_ts := received_ts \<rparr>
      in (l', validate_ledger l'))"

section \<open>Filling an intent\<close>

record paper_ops =
  ppo_add :: "decimal \<Rightarrow> decimal \<Rightarrow> decimal option"
  ppo_sub :: "decimal \<Rightarrow> decimal \<Rightarrow> decimal option"
  ppo_mul :: "decimal \<Rightarrow> decimal \<Rightarrow> decimal option"
  ppo_div :: "decimal \<Rightarrow> decimal \<Rightarrow> decimal option"

datatype paper_ledger_executor_error =
    ExecLiveBoundaryOpen | ExecStrategyMismatch | ExecInstrumentMismatch
  | ExecExecutionModeMismatch | ExecInvalidExpectedTimeframe | ExecMissingSide
  | ExecMissingOrderType | ExecUnsupportedIntentKind paper_intent_kind
  | ExecUnsupportedOrderType order_type | ExecUnsupportedFillPolicy paper_fill_policy
  | ExecNonPositiveQuantity | ExecFillBarNotEligible runtime_suppression_reason
  | ExecFillBarPrecedesDecision | ExecInvariant paper_ledger_invariant_error

datatype paper_execution_outcome =
    PaperFilledOutcome paper_order paper_trade paper_position paper_ack
  | PaperDuplicateIgnored paper_ack

definition stable_id_char :: "char \<Rightarrow> char" where
  "stable_id_char c =
     (if is_ascii_alphanumeric c
      then (if 97 \<le> (of_char c :: nat) then char_of ((of_char c :: nat) - 32) else c)
      else CHR ''_'')"

text \<open>One character for each character of the text: the continuation bytes of UTF-8 are dropped.\<close>

definition stable_id_suffix :: "string \<Rightarrow> string" where
  "stable_id_suffix raw = map stable_id_char (filter (\<lambda>c. \<not> is_continuation_byte c) raw)"

definition paper_order_id_for :: "runtime_decision_id \<Rightarrow> paper_order_id" where
  "paper_order_id_for i = PaperOrderId (''PAPER_ORDER_'' @ stable_id_suffix (runtime_decision_id_str i))"

definition paper_trade_id_for :: "runtime_decision_id \<Rightarrow> paper_trade_id" where
  "paper_trade_id_for i = PaperTradeId (''PAPER_TRADE_'' @ stable_id_suffix (runtime_decision_id_str i))"

fun paper_signed_qty :: "order_side \<Rightarrow> quantity \<Rightarrow> quantity" where
  "paper_signed_qty Buy q = q"
| "paper_signed_qty Sell q = - q"

definition same_direction_or_flat :: "quantity \<Rightarrow> quantity \<Rightarrow> bool" where
  "same_direction_or_flat left right \<longleftrightarrow> left = 0 \<or> right = 0 \<or> (0 < left) = (0 < right)"

definition next_avg_price ::
    "paper_ops \<Rightarrow> quantity \<Rightarrow> price \<Rightarrow> quantity \<Rightarrow> price \<Rightarrow> price option" where
  "next_avg_price ops current_qty current_avg delta_qty fill_price =
     Option.bind (ppo_add ops current_qty delta_qty) (\<lambda>next_qty.
       if next_qty = 0 then Some 0
       else if same_direction_or_flat current_qty delta_qty
       then Option.bind (ppo_mul ops \<bar>current_qty\<bar> current_avg) (\<lambda>held.
            Option.bind (ppo_mul ops \<bar>delta_qty\<bar> fill_price) (\<lambda>filled.
            Option.bind (ppo_add ops held filled) (\<lambda>total.
            ppo_div ops total \<bar>next_qty\<bar>)))
       else if \<bar>delta_qty\<bar> < \<bar>current_qty\<bar> then Some current_avg
       else Some fill_price)"

definition current_avg_price :: "paper_ledger_snapshot \<Rightarrow> price \<Rightarrow> price" where
  "current_avg_price l fill_price =
     (case pls_positions l of
        [] \<Rightarrow> fill_price
      | _ \<Rightarrow> or_keep (pps_avg_price (last (pls_positions l))) fill_price)"

definition next_position_after_fill ::
    "paper_ops \<Rightarrow> paper_ledger_snapshot \<Rightarrow> paper_intent \<Rightarrow> order_side \<Rightarrow> price \<Rightarrow> timestamp
       \<Rightarrow> paper_position option" where
  "next_position_after_fill ops l intent side fill_price updated_ts =
     (let current_qty = paper_target_position_qty l;
          delta = paper_signed_qty side (pin_qty intent) in
      Option.bind (ppo_add ops current_qty delta) (\<lambda>next_qty.
      map_option (\<lambda>next_avg.
        \<lparr> pps_schema_version = paper_schema_version, pps_strategy_id = pls_strategy_id l,
          pps_instrument = pls_instrument l, pps_qty = next_qty, pps_avg_price = Some next_avg,
          pps_updated_ts = updated_ts, pps_source = ''paper_synthetic_position_feedback'' \<rparr>)
        (next_avg_price ops current_qty (current_avg_price l fill_price) delta fill_price)))"

definition validate_executor_config ::
    "paper_ledger_snapshot \<Rightarrow> paper_ledger_executor_config \<Rightarrow> paper_ledger_executor_error + unit" where
  "validate_executor_config l config =
     (if \<not> safety_boundary_is_closed (pec_safety_boundary config)
         \<or> \<not> safety_boundary_is_closed (pls_safety_boundary l) then Inl ExecLiveBoundaryOpen
      else if pec_strategy_id config \<noteq> pls_strategy_id l then Inl ExecStrategyMismatch
      else if pec_instrument config \<noteq> pls_instrument l then Inl ExecInstrumentMismatch
      else if pec_execution_mode config \<noteq> pls_execution_mode l then Inl ExecExecutionModeMismatch
      else if pec_expected_timeframe_sec config = 0 then Inl ExecInvalidExpectedTimeframe
      else Inr ())"

definition validate_intent_for_next_bar_open ::
    "paper_ledger_snapshot \<Rightarrow> paper_intent \<Rightarrow> paper_ledger_executor_error + unit" where
  "validate_intent_for_next_bar_open l intent =
     (if pin_strategy_id intent \<noteq> pls_strategy_id l then Inl ExecStrategyMismatch
      else if pin_instrument intent \<noteq> pls_instrument l then Inl ExecInstrumentMismatch
      else if pin_kind intent \<noteq> PaperEnter \<and> pin_kind intent \<noteq> PaperExit
      then Inl (ExecUnsupportedIntentKind (pin_kind intent))
      else if pin_qty intent \<le> 0 then Inl ExecNonPositiveQuantity
      else if pin_fill_policy intent \<noteq> NextFinalBarOpen
      then Inl (ExecUnsupportedFillPolicy (pin_fill_policy intent))
      else Inr ())"

definition validate_fill_bar ::
    "paper_ledger_snapshot \<Rightarrow> paper_ledger_executor_config \<Rightarrow> paper_intent \<Rightarrow> runtime_bar_input
       \<Rightarrow> paper_ledger_executor_error + unit" where
  "validate_fill_bar l config intent b =
     (if rbi_instrument b \<noteq> pls_instrument l then Inl ExecInstrumentMismatch
      else if \<not> can_advance (pec_execution_mode config) (rbi_origin b)
      then Inl (ExecFillBarNotEligible NonLiveOrigin)
      else if \<not> rbi_is_final b then Inl (ExecFillBarNotEligible NonFinalBar)
      else if rbi_timeframe_sec b \<noteq> pec_expected_timeframe_sec config
      then Inl (ExecFillBarNotEligible
             (TimeframeMismatch (pec_expected_timeframe_sec config) (rbi_timeframe_sec b)))
      else if rbi_open_ts b < pin_created_ts intent then Inl ExecFillBarPrecedesDecision
      else Inr ())"

text \<open>The steps of the fill before the pushes: the refusals and the duplicate, and what is pushed.\<close>

record paper_fill =
  pfl_order :: paper_order
  pfl_trade :: paper_trade
  pfl_position :: paper_position
  pfl_ack :: paper_ack

definition duplicate_ack :: "paper_intent \<Rightarrow> runtime_bar_input \<Rightarrow> paper_ack" where
  "duplicate_ack intent b =
     \<lparr> pak_schema_version = paper_schema_version, pak_intent_id = pin_intent_id intent,
       pak_paper_order_id = None, pak_kind = PaperAckDuplicateIgnored,
       pak_reason = Some ''duplicate_runtime_decision_id'', pak_created_ts = rbi_close_ts b \<rparr>"

definition filled_order ::
    "paper_intent \<Rightarrow> order_side \<Rightarrow> order_type \<Rightarrow> runtime_bar_input \<Rightarrow> paper_order" where
  "filled_order intent side order_type b =
     \<lparr> por_schema_version = paper_schema_version,
       por_paper_order_id = paper_order_id_for (pin_intent_id intent),
       por_intent_id = pin_intent_id intent, por_account_id = None,
       por_strategy_id = pin_strategy_id intent, por_instrument = pin_instrument intent,
       por_side = side, por_order_type = order_type, por_status = PaperFilled,
       por_qty = pin_qty intent, por_filled_qty = pin_qty intent, por_remaining_qty = 0,
       por_limit_price = None, por_fill_policy = NextFinalBarOpen,
       por_created_ts = pin_created_ts intent, por_updated_ts = rbi_open_ts b \<rparr>"

definition filled_trade :: "paper_intent \<Rightarrow> order_side \<Rightarrow> runtime_bar_input \<Rightarrow> paper_trade" where
  "filled_trade intent side b =
     \<lparr> ptr_schema_version = paper_schema_version,
       ptr_paper_trade_id = paper_trade_id_for (pin_intent_id intent),
       ptr_paper_order_id = paper_order_id_for (pin_intent_id intent),
       ptr_intent_id = pin_intent_id intent, ptr_strategy_id = pin_strategy_id intent,
       ptr_instrument = pin_instrument intent, ptr_side = side, ptr_qty = pin_qty intent,
       ptr_price = rbi_open b, ptr_commission = Some 0, ptr_fill_policy = NextFinalBarOpen,
       ptr_source_bar_key = pin_decision_bar_key intent, ptr_source_ts = rbi_open_ts b,
       ptr_received_ts = rbi_close_ts b \<rparr>"

definition filled_ack :: "paper_intent \<Rightarrow> runtime_bar_input \<Rightarrow> paper_ack" where
  "filled_ack intent b =
     \<lparr> pak_schema_version = paper_schema_version, pak_intent_id = pin_intent_id intent,
       pak_paper_order_id = Some (paper_order_id_for (pin_intent_id intent)),
       pak_kind = PaperAckFilled, pak_reason = Some ''next_final_bar_open_proxy'',
       pak_created_ts = rbi_open_ts b \<rparr>"

definition fill_of ::
    "paper_intent \<Rightarrow> order_side \<Rightarrow> runtime_bar_input \<Rightarrow> paper_position \<Rightarrow> paper_fill" where
  "fill_of intent side b position =
     \<lparr> pfl_order = filled_order intent side Market b,
       pfl_trade = filled_trade intent side b, pfl_position = position,
       pfl_ack = filled_ack intent b \<rparr>"

definition push_fill ::
    "paper_ledger_snapshot \<Rightarrow> paper_intent \<Rightarrow> paper_fill \<Rightarrow> timestamp \<Rightarrow> paper_ledger_snapshot" where
  "push_fill l intent f received_ts =
     l \<lparr> pls_intents := pls_intents l @ [intent], pls_orders := pls_orders l @ [pfl_order f],
         pls_trades := pls_trades l @ [pfl_trade f],
         pls_positions := pls_positions l @ [pfl_position f],
         pls_acks := pls_acks l @ [pfl_ack f], pls_received_ts := received_ts \<rparr>"

definition validate_for_fill ::
    "paper_ledger_snapshot \<Rightarrow> paper_ledger_executor_config \<Rightarrow> paper_intent \<Rightarrow> runtime_bar_input
       \<Rightarrow> paper_ledger_executor_error + unit" where
  "validate_for_fill l config intent b =
     and_then (validate_executor_config l config) (\<lambda>_.
     and_then (validate_intent_for_next_bar_open l intent) (\<lambda>_.
     validate_fill_bar l config intent b))"

definition market_side :: "paper_intent \<Rightarrow> paper_ledger_executor_error + order_side" where
  "market_side intent =
     (case pin_side intent of
        None \<Rightarrow> Inl ExecMissingSide
      | Some side \<Rightarrow>
     (case pin_order_type intent of
        None \<Rightarrow> Inl ExecMissingOrderType
      | Some t \<Rightarrow> if t = Market then Inr side else Inl (ExecUnsupportedOrderType t)))"

text \<open>
  One call of \<open>apply_next_bar_open_market_intent\<close>: the ledger after it and its result, \<open>None\<close>
  when the arithmetic of the position panics. The five pushes come before the check of the
  invariant, so an error of the check leaves them in the ledger.
\<close>

definition apply_next_bar_open_market_intent ::
    "paper_ops \<Rightarrow> paper_ledger_snapshot \<Rightarrow> paper_ledger_executor_config \<Rightarrow> paper_intent
       \<Rightarrow> runtime_bar_input
       \<Rightarrow> (paper_ledger_snapshot \<times> (paper_ledger_executor_error + paper_execution_outcome)) option" where
  "apply_next_bar_open_market_intent ops l config intent b =
     (case validate_for_fill l config intent b of
        Inl e \<Rightarrow> Some (l, Inl e)
      | Inr _ \<Rightarrow>
      if pin_intent_id intent \<in> set (map pin_intent_id (pls_intents l))
      then Some (l, Inr (PaperDuplicateIgnored (duplicate_ack intent b)))
      else (case market_side intent of
        Inl e \<Rightarrow> Some (l, Inl e)
      | Inr side \<Rightarrow>
     (case next_position_after_fill ops l intent side (rbi_open b) (rbi_open_ts b) of
        None \<Rightarrow> None
      | Some position \<Rightarrow>
         (let f = fill_of intent side b position;
              l' = push_fill l intent f (rbi_close_ts b) in
          Some (l', case validate_ledger l' of
                      Inl e \<Rightarrow> Inl (ExecInvariant e)
                    | Inr _ \<Rightarrow> Inr (PaperFilledOutcome (pfl_order f) (pfl_trade f)
                                     (pfl_position f) (pfl_ack f)))))))"

end
