(* ===== verification/PaperFills.thy ===== *)
theory PaperFills
  imports PaperLedger
begin

text \<open>
  Facts about the fills of \<open>PaperLedger\<close>: what the invariant check accepts, what one call of the
  executor does to the ledger, and runs of calls from the empty ledger.
\<close>

section \<open>The invariant check\<close>

lemma and_then_unit [simp]:
  "and_then (x :: 'e + unit) f = Inr y \<longleftrightarrow> x = Inr () \<and> f () = Inr y"
  by (auto simp: and_then_Inr_iff)

lemma first_error_ok [simp]: "first_error f xs = Inr () \<longleftrightarrow> (\<forall>x \<in> set xs. f x = Inr ())"
  by (induction xs) auto

lemma require_ok [simp]: "require ok e = Inr () \<longleftrightarrow> ok"
  by (simp add: require_def)

lemma check_order_ok:
  "check_order l x = Inr () \<longleftrightarrow>
     por_instrument x = pls_instrument l \<and> por_strategy_id x = pls_strategy_id l
     \<and> por_intent_id x \<in> set (map pin_intent_id (pls_intents l))
     \<and> por_filled_qty x \<le> por_qty x \<and> por_qty x - por_filled_qty x = por_remaining_qty x"
  by (auto simp: check_order_def)

lemma check_trade_ok:
  "check_trade l x = Inr () \<longleftrightarrow>
     ptr_instrument x = pls_instrument l \<and> ptr_strategy_id x = pls_strategy_id l
     \<and> ptr_paper_order_id x \<in> set (map por_paper_order_id (pls_orders l))
     \<and> ptr_intent_id x \<in> set (map pin_intent_id (pls_intents l))"
  by (auto simp: check_trade_def)

lemma check_paper_position_ok:
  "check_paper_position l x = Inr () \<longleftrightarrow>
     pps_instrument x = pls_instrument l \<and> pps_strategy_id x = pls_strategy_id l"
  by (auto simp: check_paper_position_def)

lemma check_ack_ok:
  "check_ack l x = Inr () \<longleftrightarrow>
     pak_intent_id x \<in> set (map pin_intent_id (pls_intents l))
     \<and> (\<forall>i. pak_paper_order_id x = Some i \<longrightarrow> i \<in> set (map por_paper_order_id (pls_orders l)))"
  by (auto simp: check_ack_def split: option.splits)

lemmas check_ok = check_order_ok check_trade_ok check_paper_position_ok check_ack_ok

definition ids_distinct :: "paper_ledger_snapshot \<Rightarrow> bool" where
  "ids_distinct l \<longleftrightarrow>
     distinct (map pin_intent_id (pls_intents l))
     \<and> distinct (map por_paper_order_id (pls_orders l))
     \<and> distinct (map ptr_paper_trade_id (pls_trades l))"

definition rows_ok :: "paper_ledger_snapshot \<Rightarrow> bool" where
  "rows_ok l \<longleftrightarrow>
     (\<forall>x \<in> set (pls_orders l). check_order l x = Inr ())
     \<and> (\<forall>x \<in> set (pls_trades l). check_trade l x = Inr ())
     \<and> (\<forall>x \<in> set (pls_positions l). check_paper_position l x = Inr ())
     \<and> (\<forall>x \<in> set (pls_acks l). check_ack l x = Inr ())"

lemma validate_ledger_ok:
  "validate_ledger l = Inr () \<longleftrightarrow>
     safety_boundary_is_closed (pls_safety_boundary l) \<and> ids_distinct l \<and> rows_ok l"
  by (auto simp: validate_ledger_def ids_distinct_def rows_ok_def require_def
           split: if_splits)

lemma validate_ledger_cases:
  obtains "validate_ledger l = Inr ()" | e where "validate_ledger l = Inl e"
  by (cases "validate_ledger l") auto

section \<open>One call of the executor\<close>

lemma validate_for_fill_ok:
  assumes "validate_for_fill l config intent b = Inr u"
  shows "safety_boundary_is_closed (pls_safety_boundary l)"
    and "pin_strategy_id intent = pls_strategy_id l"
    and "pin_instrument intent = pls_instrument l"
    and "0 < pin_qty intent"
  using assms
  by (auto simp: validate_for_fill_def validate_executor_config_def
        validate_intent_for_next_bar_open_def split: if_splits)

text \<open>The three ways in which a call ends, a panic apart.\<close>

lemma apply_cases:
  assumes "apply_next_bar_open_market_intent ops l config intent b = Some (l', r)"
  obtains (refused) e where "l' = l" "r = Inl e" "\<And>v. e \<noteq> ExecInvariant v"
  | (duplicate) "l' = l" "r = Inr (PaperDuplicateIgnored (duplicate_ack intent b))"
      "pin_intent_id intent \<in> set (map pin_intent_id (pls_intents l))"
  | (pushed) side position f where
      "validate_for_fill l config intent b = Inr ()"
      "pin_intent_id intent \<notin> set (map pin_intent_id (pls_intents l))"
      "market_side intent = Inr side"
      "next_position_after_fill ops l intent side (rbi_open b) (rbi_open_ts b) = Some position"
      "f = fill_of intent side b position"
      "l' = push_fill l intent f (rbi_close_ts b)"
      "r = (case validate_ledger l' of
              Inl e \<Rightarrow> Inl (ExecInvariant e)
            | Inr _ \<Rightarrow> Inr (PaperFilledOutcome (pfl_order f) (pfl_trade f)
                                     (pfl_position f) (pfl_ack f)))"
proof -
  have refusal: "e \<noteq> ExecInvariant v" if "validate_for_fill l config intent b = Inl e" for e v
    using that
    by (auto simp: validate_for_fill_def validate_executor_config_def
          validate_intent_for_next_bar_open_def validate_fill_bar_def split: if_splits)
  have side: "e \<noteq> ExecInvariant v" if "market_side intent = Inl e" for e v
    using that by (auto simp: market_side_def split: option.splits if_splits)
  show thesis
  proof (cases "validate_for_fill l config intent b")
    case (Inl e)
    then show thesis using assms refusal[OF Inl] refused
      by (auto simp: apply_next_bar_open_market_intent_def)
  next
    case (Inr u)
    note ok = Inr
    show thesis
    proof (cases "pin_intent_id intent \<in> set (map pin_intent_id (pls_intents l))")
      case True
      then show thesis using assms ok duplicate
        by (auto simp: apply_next_bar_open_market_intent_def)
    next
      case False
      note fresh = False
      show thesis
      proof (cases "market_side intent")
        case (Inl e)
        then show thesis using assms ok fresh side[OF Inl] refused
          by (auto simp: apply_next_bar_open_market_intent_def)
      next
        case (Inr s)
        then obtain position where p:
          "next_position_after_fill ops l intent s (rbi_open b) (rbi_open_ts b) = Some position"
          using assms ok fresh
          by (cases "next_position_after_fill ops l intent s (rbi_open b) (rbi_open_ts b)")
             (auto simp: apply_next_bar_open_market_intent_def)
        show thesis
          by (rule pushed[of s position "fill_of intent s b position"])
             (use assms ok fresh Inr p in
               \<open>auto simp: apply_next_bar_open_market_intent_def Let_def\<close>)
      qed
    qed
  qed
qed

section \<open>What every call keeps\<close>

text \<open>
  One order, one trade and one acknowledgement for each intent of the ledger, in the same order
  and with the identifiers made from it. This holds of every ledger the executor builds, also
  of those whose check has failed.
\<close>

definition ledger_aligned :: "paper_ledger_snapshot \<Rightarrow> bool" where
  "ledger_aligned l \<longleftrightarrow>
     distinct (map pin_intent_id (pls_intents l))
     \<and> map por_intent_id (pls_orders l) = map pin_intent_id (pls_intents l)
     \<and> map ptr_intent_id (pls_trades l) = map pin_intent_id (pls_intents l)
     \<and> map pak_intent_id (pls_acks l) = map pin_intent_id (pls_intents l)
     \<and> map por_paper_order_id (pls_orders l)
         = map (paper_order_id_for \<circ> pin_intent_id) (pls_intents l)
     \<and> map ptr_paper_trade_id (pls_trades l)
         = map (paper_trade_id_for \<circ> pin_intent_id) (pls_intents l)"

text \<open>Each fill buys or sells what its trade says.\<close>

definition traded_qty :: "paper_trade list \<Rightarrow> quantity" where
  "traded_qty ts = (\<Sum>t\<leftarrow>ts. paper_signed_qty (ptr_side t) (ptr_qty t))"

lemma traded_qty_simps [simp]:
  "traded_qty [] = 0"
  "traded_qty (ts @ us) = traded_qty ts + traded_qty us"
  "traded_qty [t] = paper_signed_qty (ptr_side t) (ptr_qty t)"
  by (simp_all add: traded_qty_def)

lemma push_fill_simps [simp]:
  "pls_intents (push_fill l intent f ts) = pls_intents l @ [intent]"
  "pls_orders (push_fill l intent f ts) = pls_orders l @ [pfl_order f]"
  "pls_trades (push_fill l intent f ts) = pls_trades l @ [pfl_trade f]"
  "pls_positions (push_fill l intent f ts) = pls_positions l @ [pfl_position f]"
  "pls_acks (push_fill l intent f ts) = pls_acks l @ [pfl_ack f]"
  "pls_instrument (push_fill l intent f ts) = pls_instrument l"
  "pls_strategy_id (push_fill l intent f ts) = pls_strategy_id l"
  "pls_safety_boundary (push_fill l intent f ts) = pls_safety_boundary l"
  by (simp_all add: push_fill_def)

lemma fill_of_simps [simp]:
  "pfl_order (fill_of intent side b position) = filled_order intent side Market b"
  "pfl_trade (fill_of intent side b position) = filled_trade intent side b"
  "pfl_position (fill_of intent side b position) = position"
  "pfl_ack (fill_of intent side b position) = filled_ack intent b"
  by (simp_all add: fill_of_def)

lemma filled_order_simps [simp]:
  "por_intent_id (filled_order intent side t b) = pin_intent_id intent"
  "por_paper_order_id (filled_order intent side t b) = paper_order_id_for (pin_intent_id intent)"
  "por_instrument (filled_order intent side t b) = pin_instrument intent"
  "por_strategy_id (filled_order intent side t b) = pin_strategy_id intent"
  "por_filled_qty (filled_order intent side t b) = pin_qty intent"
  "por_qty (filled_order intent side t b) = pin_qty intent"
  "por_remaining_qty (filled_order intent side t b) = 0"
  by (simp_all add: filled_order_def)

lemma filled_trade_simps [simp]:
  "ptr_intent_id (filled_trade intent side b) = pin_intent_id intent"
  "ptr_paper_order_id (filled_trade intent side b) = paper_order_id_for (pin_intent_id intent)"
  "ptr_paper_trade_id (filled_trade intent side b) = paper_trade_id_for (pin_intent_id intent)"
  "ptr_instrument (filled_trade intent side b) = pin_instrument intent"
  "ptr_strategy_id (filled_trade intent side b) = pin_strategy_id intent"
  "ptr_side (filled_trade intent side b) = side"
  "ptr_qty (filled_trade intent side b) = pin_qty intent"
  "ptr_price (filled_trade intent side b) = rbi_open b"
  by (simp_all add: filled_trade_def)

lemma filled_ack_simps [simp]:
  "pak_intent_id (filled_ack intent b) = pin_intent_id intent"
  "pak_paper_order_id (filled_ack intent b) = Some (paper_order_id_for (pin_intent_id intent))"
  by (simp_all add: filled_ack_def)

lemma next_position_fields:
  assumes "next_position_after_fill ops l intent side price ts = Some p"
  shows "pps_instrument p = pls_instrument l" and "pps_strategy_id p = pls_strategy_id l"
    and "ppo_add ops (paper_target_position_qty l) (paper_signed_qty side (pin_qty intent)) = Some (pps_qty p)"
    and "next_avg_price ops (paper_target_position_qty l) (current_avg_price l price)
           (paper_signed_qty side (pin_qty intent)) price = pps_avg_price p"
    and "pps_avg_price p \<noteq> None"
  using assms
  by (auto simp: next_position_after_fill_def Let_def bind_eq_Some_conv map_option_case
           split: option.splits)

lemma paper_position_push [simp]:
  assumes "pps_instrument (pfl_position f) = pls_instrument l"
  shows "paper_target_position_qty (push_fill l intent f ts) = pps_qty (pfl_position f)"
  using assms by (simp add: paper_target_position_qty_def)

lemma aligned_push:
  assumes "ledger_aligned l" "pin_intent_id intent \<notin> set (map pin_intent_id (pls_intents l))"
  shows "ledger_aligned (push_fill l intent (fill_of intent side b p) ts)"
  using assms by (simp add: ledger_aligned_def)

lemma rows_ok_push:
  assumes rows: "rows_ok l"
    and ok: "validate_for_fill l config intent b = Inr ()"
    and p: "next_position_after_fill ops l intent side price ts' = Some p"
  shows "rows_ok (push_fill l intent (fill_of intent side b p) ts)"
  using rows validate_for_fill_ok[OF ok] next_position_fields[OF p]
  by (auto simp: rows_ok_def check_ok)

section \<open>Runs of the executor\<close>

text \<open>Calls one after another with the same configuration; a panic ends the run.\<close>

fun paper_run ::
    "paper_ops \<Rightarrow> paper_ledger_executor_config \<Rightarrow> paper_ledger_snapshot
       \<Rightarrow> (paper_intent \<times> runtime_bar_input) list
       \<Rightarrow> (paper_ledger_snapshot \<times> (paper_ledger_executor_error + paper_execution_outcome) list) option"
where
  "paper_run ops config l [] = Some (l, [])"
| "paper_run ops config l ((intent, b) # calls) =
     Option.bind (apply_next_bar_open_market_intent ops l config intent b) (\<lambda>(l', r).
     map_option (\<lambda>(l'', rs). (l'', r # rs)) (paper_run ops config l' calls))"

lemma paper_run_ConsE:
  assumes "paper_run ops config l (call # calls) = Some (l'', rs)"
  obtains l' r rs' where
    "apply_next_bar_open_market_intent ops l config (fst call) (snd call) = Some (l', r)"
    "paper_run ops config l' calls = Some (l'', rs')" "rs = r # rs'"
  using assms by (cases call) (auto simp: bind_eq_Some_conv)

text \<open>What a single call keeps, a run keeps.\<close>

lemma paper_run_invariant:
  assumes step: "\<And>l intent b l' r. P l \<Longrightarrow>
      apply_next_bar_open_market_intent ops l config intent b = Some (l', r) \<Longrightarrow> P l'"
  shows "P l \<Longrightarrow> paper_run ops config l calls = Some (l', rs) \<Longrightarrow> P l'"
  by (induction calls arbitrary: l rs) (auto elim!: paper_run_ConsE dest: step)

definition fill_inv :: "paper_ledger_executor_config \<Rightarrow> paper_ledger_snapshot \<Rightarrow> bool" where
  "fill_inv config l \<longleftrightarrow>
     ledger_aligned l \<and> rows_ok l \<and> paper_target_position_qty l = traded_qty (pls_trades l)
     \<and> pls_safety_boundary l = pec_safety_boundary config"

lemma fill_inv_empty: "fill_inv config (paper_ledger_empty config ts)"
  by (simp add: fill_inv_def ledger_aligned_def rows_ok_def paper_target_position_qty_def
        paper_ledger_empty_def)

lemma apply_fill_inv:
  assumes "exact_sum (ppo_add ops)" "fill_inv config l"
    and "apply_next_bar_open_market_intent ops l config intent b = Some (l', r)"
  shows "fill_inv config l'"
  using assms(3)
proof (cases rule: apply_cases)
  case (pushed side position f)
  have "paper_target_position_qty l' = paper_target_position_qty l + paper_signed_qty side (pin_qty intent)"
    using assms(1) next_position_fields[OF pushed(4)] pushed(5,6) by (auto simp: exact_sum_def)
  then show ?thesis
    using assms(2) pushed(5,6) aligned_push[OF _ pushed(2)] rows_ok_push[OF _ pushed(1,4)]
    by (simp add: fill_inv_def)
qed (use assms(2) in simp_all)

lemma run_fill_inv:
  assumes "exact_sum (ppo_add ops)"
    and "paper_run ops config (paper_ledger_empty config ts) calls = Some (l, rs)"
  shows "fill_inv config l"
  by (rule paper_run_invariant[where P = "fill_inv config", OF _ fill_inv_empty assms(2)])
     (rule apply_fill_inv[OF assms(1)])

lemma suffix_of_ids:
  "paper_order_id_for i = paper_order_id_for j \<longleftrightarrow>
     stable_id_suffix (runtime_decision_id_str i) = stable_id_suffix (runtime_decision_id_str j)"
  "paper_trade_id_for i = paper_trade_id_for j \<longleftrightarrow>
     stable_id_suffix (runtime_decision_id_str i) = stable_id_suffix (runtime_decision_id_str j)"
  by (simp_all add: paper_order_id_for_def paper_trade_id_for_def)

definition intent_suffix :: "paper_intent \<Rightarrow> string" where
  "intent_suffix i = stable_id_suffix (runtime_decision_id_str (pin_intent_id i))"

lemma distinct_ids_by_suffix:
  "distinct (map (paper_order_id_for \<circ> pin_intent_id) is) = distinct (map intent_suffix is)"
  "distinct (map (paper_trade_id_for \<circ> pin_intent_id) is) = distinct (map intent_suffix is)"
  by (induction "is") (auto simp: suffix_of_ids intent_suffix_def image_iff)

text \<open>The check fails only for identifiers that collide.\<close>

lemma aligned_validate:
  assumes "ledger_aligned l" "rows_ok l"
  shows "validate_ledger l = Inr () \<longleftrightarrow>
    safety_boundary_is_closed (pls_safety_boundary l) \<and> distinct (map intent_suffix (pls_intents l))"
  using assms by (simp add: validate_ledger_ok ids_distinct_def ledger_aligned_def
    distinct_ids_by_suffix del: map_map)

section \<open>The average price\<close>

text \<open>
  \<open>near_ops \<delta> B ops\<close>: as long as the exact result is at most \<open>B\<close>, a sum, a product and a quotient
  by at least 1 are within \<open>\<delta>\<close> of it, and sums of whole numbers are exact. A \<open>Decimal\<close> keeps 28
  digits and rounds what does not fit, so it is such with, say, \<open>B = 10^9\<close> and \<open>\<delta> = 10^-18\<close>.
\<close>

definition near_ops :: "decimal \<Rightarrow> decimal \<Rightarrow> paper_ops \<Rightarrow> bool" where
  "near_ops \<delta> B ops \<longleftrightarrow> 0 \<le> \<delta> \<and>
     (\<forall>x y z. ppo_add ops x y = Some z \<longrightarrow> \<bar>x + y\<bar> \<le> B \<longrightarrow>
        \<bar>z - (x + y)\<bar> \<le> \<delta> \<and> (x \<in> \<int> \<longrightarrow> y \<in> \<int> \<longrightarrow> z = x + y)) \<and>
     (\<forall>x y z. ppo_mul ops x y = Some z \<longrightarrow> \<bar>x * y\<bar> \<le> B \<longrightarrow> \<bar>z - x * y\<bar> \<le> \<delta>) \<and>
     (\<forall>x y z. ppo_div ops x y = Some z \<longrightarrow> 1 \<le> y \<longrightarrow> \<bar>x / y\<bar> \<le> B \<longrightarrow> \<bar>z - x / y\<bar> \<le> \<delta>)"

lemma near_opsD:
  assumes "near_ops \<delta> B ops"
  shows "0 \<le> \<delta>"
    and "ppo_add ops x y = Some z \<Longrightarrow> \<bar>x + y\<bar> \<le> B \<Longrightarrow> \<bar>z - (x + y)\<bar> \<le> \<delta>"
    and "ppo_add ops x y = Some z \<Longrightarrow> \<bar>x + y\<bar> \<le> B \<Longrightarrow> x \<in> \<int> \<Longrightarrow> y \<in> \<int> \<Longrightarrow> z = x + y"
    and "ppo_mul ops x y = Some z \<Longrightarrow> \<bar>x * y\<bar> \<le> B \<Longrightarrow> \<bar>z - x * y\<bar> \<le> \<delta>"
    and "ppo_div ops x y = Some z \<Longrightarrow> 1 \<le> y \<Longrightarrow> \<bar>x / y\<bar> \<le> B \<Longrightarrow> \<bar>z - x / y\<bar> \<le> \<delta>"
  using assms unfolding near_ops_def by blast+

lemma whole_abs_ge_1: "x \<in> \<int> \<Longrightarrow> x \<noteq> 0 \<Longrightarrow> 1 \<le> \<bar>x :: rat\<bar>"
  by (auto elim!: Ints_cases)

lemma quotient_abs_le: "1 \<le> y \<Longrightarrow> \<bar>x / y\<bar> \<le> \<bar>x :: rat\<bar>"
  by (simp add: abs_divide divide_le_eq mult_le_cancel_left1)

lemma triangle_4:
  fixes v m w :: rat
  shows "\<bar>v - m\<bar> \<le> w \<Longrightarrow> w \<le> 3 * \<delta> \<Longrightarrow> \<bar>c - v\<bar> \<le> \<delta> \<Longrightarrow> \<bar>c - m\<bar> \<le> 4 * \<delta>"
  by linarith

lemma widened:
  fixes m :: rat
  shows "\<bar>c - m\<bar> \<le> k \<Longrightarrow> lo - e \<le> m \<and> m \<le> hi + e \<Longrightarrow> lo - (e + k) \<le> c \<and> c \<le> hi + (e + k)"
  by linarith

lemma whole_sum_in_range:
  fixes q d :: rat
  assumes "(\<bar>q\<bar> + \<bar>d\<bar>) * (P + 1) + 1 \<le> B" "0 \<le> P"
  shows "\<bar>q + d\<bar> \<le> B"
proof -
  define n where "n = (\<bar>q\<bar> + \<bar>d\<bar>) * (P + 1)"
  have "(\<bar>q\<bar> + \<bar>d\<bar>) * 1 \<le> n" unfolding n_def by (rule mult_left_mono) (use assms(2) in simp_all)
  then have n: "\<bar>q\<bar> + \<bar>d\<bar> \<le> n" by (simp only: mult_1_right)
  have "n \<le> B" using assms(1) unfolding n_def[symmetric] by linarith
  then show ?thesis by (rule order_trans[OF order_trans[OF abs_triangle_ineq n]])
qed

lemma paper_signed_qty_abs [simp]: "0 < q \<Longrightarrow> \<bar>paper_signed_qty side q\<bar> = q" "0 < q \<Longrightarrow> paper_signed_qty side q \<noteq> 0"
  by (cases side; simp)+

lemma same_direction_abs:
  "same_direction_or_flat x y \<Longrightarrow> \<bar>x + y\<bar> = \<bar>x\<bar> + \<bar>y\<bar>"
  by (auto simp: same_direction_or_flat_def split: if_splits)

text \<open>The weighted mean computed with three roundings and a rounded quotient.\<close>

lemma rounded_mean:
  fixes q d a p :: rat
  assumes near: "near_ops \<delta> B ops" and small: "4 * \<delta> \<le> 1"
    and mul: "ppo_mul ops q a = Some h" "ppo_mul ops d p = Some f"
    and sum: "ppo_add ops h f = Some t" and quot: "ppo_div ops t (q + d) = Some c"
    and pos: "0 \<le> q" "0 \<le> d" "1 \<le> q + d" "0 \<le> P"
    and bound: "(q + d) * (P + 1) + 1 \<le> B" "\<bar>p\<bar> \<le> P" "q = 0 \<or> \<bar>a\<bar> \<le> P + 1"
  shows "\<bar>c - (q * a + d * p) / (q + d)\<bar> \<le> 4 * \<delta>"
proof -
  note d0 = near_opsD(1)[OF near]
  have qa: "\<bar>q * a\<bar> \<le> q * (P + 1)" using bound(3) pos(1) by (auto simp: abs_mult mult_left_mono)
  have dp: "\<bar>d * p\<bar> \<le> d * (P + 1)" using bound(2) pos(2) by (auto simp: abs_mult intro: mult_left_mono)
  have split: "q * (P + 1) + d * (P + 1) + 1 \<le> B" "0 \<le> q * (P + 1)" "0 \<le> d * (P + 1)"
    using bound(1) pos by (simp_all add: algebra_simps)
  have h: "\<bar>h - q * a\<bar> \<le> \<delta>" by (rule near_opsD(4)[OF near mul(1)]) (use qa split in linarith)
  have f: "\<bar>f - d * p\<bar> \<le> \<delta>" by (rule near_opsD(4)[OF near mul(2)]) (use dp split in linarith)
  have t: "\<bar>t - (h + f)\<bar> \<le> \<delta>"
    by (rule near_opsD(2)[OF near sum]) (use h f qa dp split small d0 in linarith)
  have "\<bar>t / (q + d)\<bar> \<le> \<bar>t\<bar>" by (rule quotient_abs_le) (rule pos(3))
  then have c: "\<bar>c - t / (q + d)\<bar> \<le> \<delta>"
    by (intro near_opsD(5)[OF near quot pos(3)]) (use h f t qa dp split small d0 in linarith)
  have "\<bar>t / (q + d) - (q * a + d * p) / (q + d)\<bar> \<le> \<bar>t - (q * a + d * p)\<bar>"
    using quotient_abs_le[OF pos(3), of "t - (q * a + d * p)"] by (simp add: diff_divide_distrib)
  moreover have "\<bar>t - (q * a + d * p)\<bar> \<le> 3 * \<delta>" using h f t by linarith
  ultimately show ?thesis using c by (rule triangle_4)
qed

lemma mean_within:
  fixes q d a p :: rat
  assumes "0 \<le> q" "0 \<le> d" "0 < q + d" "q = 0 \<or> lo \<le> a \<and> a \<le> hi" "d = 0 \<or> lo \<le> p \<and> p \<le> hi"
  shows "lo \<le> (q * a + d * p) / (q + d) \<and> (q * a + d * p) / (q + d) \<le> hi"
proof -
  have "q * lo \<le> q * a \<and> q * a \<le> q * hi" "d * lo \<le> d * p \<and> d * p \<le> d * hi"
    using assms by (auto simp: mult_left_mono)
  then show ?thesis using assms(3) by (simp add: le_divide_eq divide_le_eq algebra_simps)
qed

definition near_prices :: "decimal \<Rightarrow> price set \<Rightarrow> price \<Rightarrow> bool" where
  "near_prices e prices avg \<longleftrightarrow> (\<exists>lo \<in> prices. lo - e \<le> avg) \<and> (\<exists>hi \<in> prices. avg \<le> hi + e)"

lemma near_pricesI: "x \<in> prices \<Longrightarrow> 0 \<le> e \<Longrightarrow> near_prices e prices x"
  by (auto simp: near_prices_def intro!: bexI[of _ x])

lemma near_prices_mono:
  "near_prices e prices avg \<Longrightarrow> prices \<subseteq> prices' \<Longrightarrow> e \<le> e' \<Longrightarrow> near_prices e' prices' avg"
  unfolding near_prices_def by (meson diff_left_mono add_left_mono order_trans subsetD)

lemma near_prices_bound:
  "near_prices e prices avg \<Longrightarrow> \<forall>p \<in> prices. \<bar>p\<bar> \<le> P \<Longrightarrow> e \<le> 1 \<Longrightarrow> \<bar>avg\<bar> \<le> P + 1"
  unfolding near_prices_def by (elim conjE bexE) (force simp: abs_le_iff)

lemma next_avg_near:
  assumes near: "near_ops \<delta> B ops" and small: "4 * \<delta> \<le> 1" and e: "0 \<le> e" "e \<le> 1"
    and avg: "next_avg_price ops q a d p = Some c"
    and whole: "q \<in> \<int>" "d \<in> \<int>" and nz: "d \<noteq> 0" "q + d \<noteq> 0"
    and bound: "(\<bar>q\<bar> + \<bar>d\<bar>) * (P + 1) + 1 \<le> B" "\<forall>p \<in> prices. \<bar>p\<bar> \<le> P" and p: "p \<in> prices"
    and a: "q = 0 \<or> near_prices e prices a"
  shows "near_prices (e + 4 * \<delta>) prices c"
proof -
  note d0 = near_opsD(1)[OF near]
  have P: "0 \<le> P" using bound(2) p abs_ge_zero order_trans by blast
  have "\<bar>q + d\<bar> \<le> B" by (rule whole_sum_in_range[OF bound(1) P])
  then have sum: "ppo_add ops q d = Some z \<Longrightarrow> z = q + d" for z
    using near_opsD(3)[OF near _ _ whole] by blast
  show ?thesis
  proof (cases "same_direction_or_flat q d")
    case True
    note abs = same_direction_abs[OF True]
    obtain h f t where ops: "ppo_mul ops \<bar>q\<bar> a = Some h" "ppo_mul ops \<bar>d\<bar> p = Some f"
      "ppo_add ops h f = Some t" "ppo_div ops t (\<bar>q\<bar> + \<bar>d\<bar>) = Some c"
      using avg nz True abs by (auto simp: next_avg_price_def bind_eq_Some_conv dest!: sum split: if_splits)
    have one: "1 \<le> \<bar>q\<bar> + \<bar>d\<bar>" using whole_abs_ge_1[OF whole(2) nz(1)] by linarith
    have "\<bar>c - (\<bar>q\<bar> * a + \<bar>d\<bar> * p) / (\<bar>q\<bar> + \<bar>d\<bar>)\<bar> \<le> 4 * \<delta>"
      by (rule rounded_mean[OF near small ops _ _ one P bound(1)])
        (use a p bound(2) e near_prices_bound in auto)
    note mean = this
    obtain lo hi where lh: "lo \<in> prices" "hi \<in> prices" "q = 0 \<or> lo - e \<le> a" "q = 0 \<or> a \<le> hi + e"
      using a p by (auto simp: near_prices_def)
    have "min lo p - e \<le> (\<bar>q\<bar> * a + \<bar>d\<bar> * p) / (\<bar>q\<bar> + \<bar>d\<bar>)
        \<and> (\<bar>q\<bar> * a + \<bar>d\<bar> * p) / (\<bar>q\<bar> + \<bar>d\<bar>) \<le> max hi p + e"
      by (rule mean_within) (use lh(3,4) e one in \<open>auto simp: min_def max_def\<close>)
    with mean have "min lo p - (e + 4 * \<delta>) \<le> c \<and> c \<le> max hi p + (e + 4 * \<delta>)"
      by (rule widened)
    moreover have "min lo p \<in> prices" "max hi p \<in> prices" using lh p by (auto simp: min_def max_def)
    ultimately show ?thesis unfolding near_prices_def by blast
  next
    case False
    then have "q \<noteq> 0" by (simp add: same_direction_or_flat_def)
    with a have a: "near_prices e prices a" by simp
    have "c = a \<or> c = p"
      using False avg nz by (auto simp: next_avg_price_def bind_eq_Some_conv dest!: sum split: if_splits)
    then show ?thesis
      using near_prices_mono[OF a subset_refl, of "e + 4 * \<delta>"] near_pricesI[OF p, of "e + 4 * \<delta>"] e d0
      by fastforce
  qed
qed

text \<open>Fills small enough for \<open>near_ops\<close>.\<close>

definition traded_volume :: "paper_trade list \<Rightarrow> quantity" where
  "traded_volume ts = (\<Sum>t\<leftarrow>ts. ptr_qty t)"

definition fills_in_range :: "decimal \<Rightarrow> decimal \<Rightarrow> price \<Rightarrow> paper_trade list \<Rightarrow> bool" where
  "fills_in_range \<delta> B P ts \<longleftrightarrow>
     (\<forall>t \<in> set ts. ptr_qty t \<in> \<int> \<and> \<bar>ptr_price t\<bar> \<le> P)
     \<and> traded_volume ts * (P + 1) + 1 \<le> B \<and> 4 * \<delta> * of_nat (length ts) \<le> 1"

definition near_inv :: "decimal \<Rightarrow> decimal \<Rightarrow> price \<Rightarrow> paper_ledger_snapshot \<Rightarrow> bool" where
  "near_inv \<delta> B P l \<longleftrightarrow>
     (\<forall>t \<in> set (pls_trades l). 0 < ptr_qty t) \<and>
     (fills_in_range \<delta> B P (pls_trades l) \<longrightarrow>
        paper_target_position_qty l \<in> \<int> \<and> \<bar>paper_target_position_qty l\<bar> \<le> traded_volume (pls_trades l) \<and>
        (paper_target_position_qty l \<noteq> 0 \<longrightarrow> pls_positions l \<noteq> [] \<and>
           (\<exists>avg. pps_avg_price (last (pls_positions l)) = Some avg
             \<and> near_prices (4 * \<delta> * of_nat (length (pls_trades l))) (ptr_price ` set (pls_trades l)) avg)))"

lemma near_inv_empty: "near_inv \<delta> B P (paper_ledger_empty config ts)"
  by (simp add: near_inv_def paper_target_position_qty_def paper_ledger_empty_def traded_volume_def)

lemma fills_in_range_snoc:
  assumes "fills_in_range \<delta> B P (ts @ [t])" "0 < ptr_qty t" "\<forall>t \<in> set ts. 0 < ptr_qty t" "0 \<le> \<delta>"
  shows "fills_in_range \<delta> B P ts" and "4 * \<delta> \<le> 1"
    and "(traded_volume ts + ptr_qty t) * (P + 1) + 1 \<le> B"
    and "4 * \<delta> * of_nat (length ts) \<le> 1" and "0 \<le> traded_volume ts"
proof -
  have P: "0 \<le> P" using assms(1) abs_ge_zero order_trans by (auto simp: fills_in_range_def)
  have vol: "traded_volume (ts @ [t]) = traded_volume ts + ptr_qty t" by (simp add: traded_volume_def)
  then show "(traded_volume ts + ptr_qty t) * (P + 1) + 1 \<le> B"
    using assms(1) by (simp add: fills_in_range_def)
  then have v: "traded_volume ts * (P + 1) + 1 \<le> B"
    using mult_pos_pos[OF assms(2), of "P + 1"] P by (simp add: algebra_simps)
  have "4 * \<delta> * (of_nat (length ts) + 1) \<le> 1" using assms(1) by (simp add: fills_in_range_def algebra_simps)
  then have n: "4 * \<delta> * of_nat (length ts) + 4 * \<delta> \<le> 1" by (simp add: algebra_simps)
  moreover have "0 \<le> 4 * \<delta> * of_nat (length ts)" using assms(4) by simp
  ultimately show "4 * \<delta> \<le> 1" "4 * \<delta> * of_nat (length ts) \<le> 1" using assms(4) by linarith+
  then show "fills_in_range \<delta> B P ts" using assms(1) v by (simp add: fills_in_range_def)
  show "0 \<le> traded_volume ts"
    unfolding traded_volume_def by (rule sum_list_nonneg) (use assms(3) in force)
qed

lemma apply_near_inv:
  assumes near: "near_ops \<delta> B ops" and inv: "near_inv \<delta> B P l"
    and call: "apply_next_bar_open_market_intent ops l config intent b = Some (l', r)"
  shows "near_inv \<delta> B P l'"
  using call
proof (cases rule: apply_cases)
  case (pushed side p f)
  note pos = next_position_fields[OF pushed(4)]
  let ?q = "paper_target_position_qty l" and ?d = "paper_signed_qty side (pin_qty intent)"
  let ?ts = "pls_trades l" and ?prices = "ptr_price ` set (pls_trades l')"
  let ?e = "4 * \<delta> * of_nat (length ?ts)"
  have d: "0 < pin_qty intent" using validate_for_fill_ok(4)[OF pushed(1)] .
  have ts: "pls_trades l' = ?ts @ [filled_trade intent side b]" using pushed(5,6) by simp
  have old: "\<forall>t \<in> set ?ts. 0 < ptr_qty t" using inv by (simp add: near_inv_def)
  obtain c where c: "pps_avg_price p = Some c" using pos(5) by auto
  show ?thesis
    unfolding near_inv_def
  proof (intro conjI impI)
    show "\<forall>t \<in> set (pls_trades l'). 0 < ptr_qty t" using old d ts by auto
  next
    assume "fills_in_range \<delta> B P (pls_trades l')"
    note range = this[unfolded ts]
    note less = fills_in_range_snoc[OF range _ old near_opsD(1)[OF near]]
    have before: "?q \<in> \<int>" "\<bar>?q\<bar> \<le> traded_volume ?ts"
      "?q = 0 \<or> near_prices ?e (ptr_price ` set ?ts) (current_avg_price l (rbi_open b))"
      using inv less(1) d by (auto simp: near_inv_def current_avg_price_def or_keep_def split: list.splits)
    have whole: "?d \<in> \<int>" using range by (cases side) (auto simp: fills_in_range_def)
    have P: "0 \<le> P" using range abs_ge_zero order_trans by (auto simp: fills_in_range_def)
    have "(\<bar>?q\<bar> + \<bar>?d\<bar>) * (P + 1) \<le> (traded_volume ?ts + pin_qty intent) * (P + 1)"
      by (rule mult_right_mono) (use before(2) d P in auto)
    then have bound: "(\<bar>?q\<bar> + \<bar>?d\<bar>) * (P + 1) + 1 \<le> B" using less(3) d by simp
    have "\<bar>?q + ?d\<bar> \<le> B" by (rule whole_sum_in_range[OF bound P])
    then have qty: "pps_qty p = ?q + ?d" using near_opsD(3)[OF near pos(3) _ before(1) whole] by blast
    then have now: "paper_target_position_qty l' = ?q + ?d" using pos(1) pushed(5,6) by simp
    show "paper_target_position_qty l' \<in> \<int>" using now before(1) whole by simp
    show "\<bar>paper_target_position_qty l'\<bar> \<le> traded_volume (pls_trades l')"
      using now before(2) d ts abs_triangle_ineq[of ?q ?d] by (simp add: traded_volume_def)
    assume nz: "paper_target_position_qty l' \<noteq> 0"
    show "pls_positions l' \<noteq> []" using pushed(6) by simp
    have "near_prices (?e + 4 * \<delta>) ?prices c"
    proof (rule next_avg_near[OF near _ _ _ pos(4)[unfolded c] before(1) whole])
      show "4 * \<delta> \<le> 1" "0 \<le> ?e" "?e \<le> 1" using less(2,4) d near_opsD(1)[OF near] by simp_all
      show "?d \<noteq> 0" "?q + ?d \<noteq> 0" using d nz now by simp_all
      show "(\<bar>?q\<bar> + \<bar>?d\<bar>) * (P + 1) + 1 \<le> B" by (rule bound)
      show "\<forall>x \<in> ?prices. \<bar>x\<bar> \<le> P" using range ts by (auto simp: fills_in_range_def)
      show "rbi_open b \<in> ?prices" using ts by simp
      have "ptr_price ` set ?ts \<subseteq> ?prices" using ts by auto
      then show "?q = 0 \<or> near_prices ?e ?prices (current_avg_price l (rbi_open b))"
        using before(3) near_prices_mono by blast
    qed
    moreover have "?e + 4 * \<delta> = 4 * \<delta> * of_nat (length (pls_trades l'))" using ts by (simp add: algebra_simps)
    ultimately show "\<exists>avg. pps_avg_price (last (pls_positions l')) = Some avg
        \<and> near_prices (4 * \<delta> * of_nat (length (pls_trades l'))) ?prices avg"
      using c pushed(5,6) by simp
  qed
qed (use inv in simp_all)

lemma run_near_inv:
  assumes "near_ops \<delta> B ops"
    and "paper_run ops config (paper_ledger_empty config ts) calls = Some (l, rs)"
  shows "near_inv \<delta> B P l"
  by (rule paper_run_invariant[where P = "near_inv \<delta> B P", OF _ near_inv_empty assms(2)])
     (rule apply_near_inv[OF assms(1)])

section \<open>Collisions\<close>

fun is_filled :: "paper_ledger_executor_error + paper_execution_outcome \<Rightarrow> bool" where
  "is_filled (Inr (PaperFilledOutcome _ _ _ _)) = True"
| "is_filled _ = False"

text \<open>A ledger with two orders of one identifier never reports a fill again.\<close>

definition order_ids_collide :: "paper_ledger_snapshot \<Rightarrow> bool" where
  "order_ids_collide l \<longleftrightarrow> \<not> distinct (map por_paper_order_id (pls_orders l))"

lemma collide_invalid: "order_ids_collide l \<Longrightarrow> validate_ledger l \<noteq> Inr ()"
  by (simp add: order_ids_collide_def validate_ledger_ok ids_distinct_def)

lemma apply_collided:
  assumes "order_ids_collide l"
    and "apply_next_bar_open_market_intent ops l config intent b = Some (l', r)"
  shows "order_ids_collide l' \<and> \<not> is_filled r"
  using assms(2)
proof (cases rule: apply_cases)
  case (pushed side p f)
  then have "order_ids_collide l'" using assms(1) by (simp add: order_ids_collide_def)
  then show ?thesis
    using pushed(7) collide_invalid by (cases "validate_ledger l'") auto
qed (use assms(1) in auto)

lemma run_collided:
  "order_ids_collide l \<Longrightarrow> paper_run ops config l calls = Some (l', rs) \<Longrightarrow>
     filter is_filled rs = []"
proof (induction calls arbitrary: l rs)
  case (Cons call calls)
  from Cons.prems(2) obtain l1 r rs' where
    step: "apply_next_bar_open_market_intent ops l config (fst call) (snd call) = Some (l1, r)"
    and rest: "paper_run ops config l1 calls = Some (l', rs')" "rs = r # rs'"
    by (rule paper_run_ConsE)
  show ?case using apply_collided[OF Cons.prems(1) step] Cons.IH[OF _ rest(1)] rest(2) by simp
qed simp

lemma trades_grow:
  assumes "apply_next_bar_open_market_intent ops l config intent b = Some (l', r)"
  shows "\<exists>ts. pls_trades l' = pls_trades l @ ts"
  using assms by (cases rule: apply_cases) auto

lemma run_trades_grow:
  "paper_run ops config l calls = Some (l', rs) \<Longrightarrow> \<exists>ts. pls_trades l' = pls_trades l @ ts"
proof (induction calls arbitrary: l rs)
  case (Cons call calls)
  from Cons.prems obtain l1 r rs' where
    step: "apply_next_bar_open_market_intent ops l config (fst call) (snd call) = Some (l1, r)"
    and rest: "paper_run ops config l1 calls = Some (l', rs')"
    by (rule paper_run_ConsE)
  show ?case using trades_grow[OF step] Cons.IH[OF rest] by auto
qed simp

text \<open>The checks that come before the one of the order identifiers hold.\<close>

lemma collision_error:
  assumes "safety_boundary_is_closed (pls_safety_boundary l)"
    and "distinct (map pin_intent_id (pls_intents l))" "order_ids_collide l"
  shows "validate_ledger l = Inl DuplicateOrderId"
  using assms by (simp add: validate_ledger_def require_def order_ids_collide_def)

section \<open>Properties\<close>

text \<open>C35: After any sequence of intents offered to the executor, starting from the empty ledger, and
  whatever the calls answered: no intent is in the ledger twice, the orders, the trades and the
  acknowledgements are those of the intents, one each and in their order, the position is the
  sum of what the trades bought less what they sold, and the ledger's own check passes exactly
  when its boundary is closed and no two intent identifiers agree once upper-cased with every
  other character as an underscore.\<close>

theorem paper_ledger_accounts:
  assumes "exact_sum (ppo_add ops)"
    and "paper_run ops config (paper_ledger_empty config ts) calls = Some (l, rs)"
  shows "ledger_aligned l
    \<and> paper_target_position_qty l = traded_qty (pls_trades l)
    \<and> (validate_ledger l = Inr () \<longleftrightarrow>
         safety_boundary_is_closed (pec_safety_boundary config)
         \<and> distinct (map intent_suffix (pls_intents l)))"
  using run_fill_inv[OF assms] aligned_validate[of l]
  by (simp add: fill_inv_def)

text \<open>C36: While the paper position is not flat, its average price lies between the lowest and the
  highest price of the fills, reductions and reversals included, up to the rounding of the
  decimal library: each fill adds at most four times the error \<open>\<delta>\<close> of one operation. It holds for
  fills of whole lots whose volume and prices stay in the range \<open>B\<close> in which the library is
  accurate to \<open>\<delta>\<close>, and for fewer of them than would add up to an error of 1. Past that a
  decimal rounds as coarsely as it likes: products are not assumed to be exact.\<close>

theorem paper_average_within_fills:
  assumes "near_ops \<delta> B ops"
    and "paper_run ops config (paper_ledger_empty config ts) calls = Some (l, rs)"
    and "fills_in_range \<delta> B P (pls_trades l)" and "\<not> paper_target_is_flat l"
  shows "\<exists>avg lo hi. pps_avg_price (last (pls_positions l)) = Some avg
    \<and> lo \<in> ptr_price ` set (pls_trades l) \<and> hi \<in> ptr_price ` set (pls_trades l)
    \<and> lo - 4 * \<delta> * of_nat (length (pls_trades l)) \<le> avg
    \<and> avg \<le> hi + 4 * \<delta> * of_nat (length (pls_trades l))"
  using run_near_inv[OF assms(1,2), of P] assms(3,4)
  unfolding near_inv_def near_prices_def paper_target_is_flat_def by blast

text \<open>C37: An intent whose identifier is new but agrees with an earlier one once upper-cased with
  every other character as an underscore is filled and refused at once: its trade is in the
  ledger and moves the position, the call answers with the duplicate order identifier, and no
  later call on that ledger reports a fill.\<close>

theorem colliding_intent_poisons_ledger:
  assumes add: "exact_sum (ppo_add ops)"
    and start: "paper_run ops config (paper_ledger_empty config ts) calls = Some (l, rs)"
    and guards: "validate_for_fill l config intent b = Inr ()"
    and side: "market_side intent = Inr side"
    and new: "pin_intent_id intent \<notin> set (map pin_intent_id (pls_intents l))"
    and collides: "intent_suffix intent \<in> set (map intent_suffix (pls_intents l))"
    and run: "paper_run ops config l ((intent, b) # later) = Some (l', r # rs')"
  shows "r = Inl (ExecInvariant DuplicateOrderId) \<and> filter is_filled rs' = []
    \<and> (\<exists>ts'. pls_trades l' = pls_trades l @ filled_trade intent side b # ts')
    \<and> paper_target_position_qty l' = traded_qty (pls_trades l')"
proof -
  from run obtain l1 where
    step: "apply_next_bar_open_market_intent ops l config intent b = Some (l1, r)"
    and rest: "paper_run ops config l1 later = Some (l', rs')"
    by (elim paper_run_ConsE) simp
  have inv: "fill_inv config l" by (rule run_fill_inv[OF add start])
  have qty: "paper_target_position_qty l' = traded_qty (pls_trades l')"
    using paper_run_invariant[where P = "fill_inv config", OF apply_fill_inv[OF add] inv run]
    by (simp add: fill_inv_def)
  show ?thesis
    using step
  proof (cases rule: apply_cases)
    case (refused e)
    then show ?thesis using step guards side new
      by (auto simp: apply_next_bar_open_market_intent_def Let_def split: option.splits sum.splits)
  next
    case duplicate
    then show ?thesis using new by simp
  next
    case (pushed s p f)
    have al: "ledger_aligned l1" using inv pushed(2,5,6) aligned_push by (simp add: fill_inv_def)
    have "\<not> distinct (map intent_suffix (pls_intents l1))" using collides pushed(6) by auto
    then have coll: "order_ids_collide l1"
      using al by (simp add: order_ids_collide_def ledger_aligned_def distinct_ids_by_suffix
        del: map_map)
    have "validate_ledger l1 = Inl DuplicateOrderId"
      using collision_error[OF _ _ coll] al validate_for_fill_ok(1)[OF pushed(1)] pushed(6)
      by (simp add: ledger_aligned_def)
    then show ?thesis
      using pushed(3,5,6,7) side qty run_collided[OF coll rest] run_trades_grow[OF rest] by auto
  qed
qed

section \<open>Witnesses\<close>

definition sample_paper_ops :: paper_ops where
  "sample_paper_ops =
     \<lparr> ppo_add = (\<lambda>x y. Some (x + y)), ppo_sub = (\<lambda>x y. Some (x - y)),
       ppo_mul = (\<lambda>x y. Some (x * y)), ppo_div = (\<lambda>x y. if y = 0 then None else Some (x / y)) \<rparr>"

definition sample_executor_config :: paper_ledger_executor_config where
  "sample_executor_config = executor_config_new ''s'' sample_instrument PaperHistorySim 600"

definition sample_paper_intent :: "string \<Rightarrow> order_side \<Rightarrow> quantity \<Rightarrow> paper_intent" where
  "sample_paper_intent name side qty =
     \<lparr> pin_schema_version = 2, pin_intent_id = RuntimeDecisionId name, pin_kind = PaperEnter,
       pin_strategy_id = ''s'', pin_strategy_owner = None, pin_strategy_cycle_id = None,
       pin_decision_bar_key = ''k'', pin_instrument = sample_instrument, pin_side = Some side,
       pin_order_type = Some Market, pin_qty = qty, pin_limit_price = None,
       pin_fill_policy = NextFinalBarOpen, pin_created_ts = 0 \<rparr>"

definition sample_fill_bar :: "price \<Rightarrow> runtime_bar_input" where
  "sample_fill_bar price =
     \<lparr> rbi_schema_version = 2, rbi_instrument = sample_instrument, rbi_origin = OriginHistory,
       rbi_timeframe_sec = 600, rbi_open_ts = 1, rbi_close_ts = 2, rbi_open = price,
       rbi_high = price, rbi_low = price, rbi_close = price, rbi_volume = 1, rbi_is_final = True,
       rbi_source_stream = ''b'', rbi_provenance = ''FinamDerivedM1ToM10'' \<rparr>"

lemma sample_paper_ops_exact:
  "exact_sum (ppo_add sample_paper_ops)"
  by (simp add: exact_sum_def sample_paper_ops_def)

definition sample_calls :: "(paper_intent \<times> runtime_bar_input) list" where
  "sample_calls =
     [(sample_paper_intent ''a-1'' Buy 2, sample_fill_bar 100),
      (sample_paper_intent ''b'' Buy 2, sample_fill_bar 104),
      (sample_paper_intent ''c'' Sell 1, sample_fill_bar 90)]"

definition sample_ledger_after ::
    "(paper_intent \<times> runtime_bar_input) list
       \<Rightarrow> (paper_ledger_snapshot \<times> (paper_ledger_executor_error + paper_execution_outcome) list) option"
where
  "sample_ledger_after calls =
     paper_run sample_paper_ops sample_executor_config
       (paper_ledger_empty sample_executor_config 0) calls"

lemma sample_run_results:
  "map_option (\<lambda>(l, rs). (paper_target_position_qty l, length (filter is_filled rs),
       map intent_suffix (pls_intents l))) (sample_ledger_after sample_calls)
   = Some (3, 3, [''A_1'', ''B'', ''C''])"
  by code_simp

lemma sample_runE:
  obtains l rs where "sample_ledger_after sample_calls = Some (l, rs)"
    "paper_target_position_qty l = 3" "map intent_suffix (pls_intents l) = [''A_1'', ''B'', ''C'']"
  using sample_run_results by (cases "sample_ledger_after sample_calls") auto

theorem paper_ledger_accounts_witness:
  "\<exists>l rs. sample_ledger_after sample_calls = Some (l, rs) \<and> ledger_aligned l
     \<and> traded_qty (pls_trades l) = 3 \<and> validate_ledger l = Inr ()"
proof -
  obtain l rs where run: "sample_ledger_after sample_calls = Some (l, rs)"
    "paper_target_position_qty l = 3" "map intent_suffix (pls_intents l) = [''A_1'', ''B'', ''C'']"
    by (rule sample_runE)
  have closed: "safety_boundary_is_closed (pec_safety_boundary sample_executor_config)"
    by code_simp
  show ?thesis
    using paper_ledger_accounts[OF sample_paper_ops_exact run(1)[unfolded sample_ledger_after_def]]
      run closed by auto
qed

text \<open>Operations that round down to a hundredth.\<close>

definition cents :: "decimal \<Rightarrow> decimal" where
  "cents x = of_int \<lfloor>100 * x\<rfloor> / 100"

definition coarse_paper_ops :: paper_ops where
  "coarse_paper_ops =
     \<lparr> ppo_add = (\<lambda>x y. Some (x + y)), ppo_sub = (\<lambda>x y. Some (x - y)),
       ppo_mul = (\<lambda>x y. Some (cents (x * y))), ppo_div = (\<lambda>x y. if y = 0 then None else Some (cents (x / y))) \<rparr>"

lemma cents_near: "\<bar>cents x - x\<bar> \<le> 1 / 100"
proof -
  have "of_int \<lfloor>100 * x\<rfloor> \<le> 100 * x" "100 * x < of_int \<lfloor>100 * x\<rfloor> + 1" by linarith+
  then show ?thesis unfolding cents_def by (simp add: abs_le_iff field_simps)
qed

lemma coarse_paper_ops_near: "near_ops (1 / 100) 1000000 coarse_paper_ops"
  unfolding near_ops_def coarse_paper_ops_def using cents_near by (auto split: if_splits)

definition coarse_calls :: "(paper_intent \<times> runtime_bar_input) list" where
  "coarse_calls =
     [(sample_paper_intent ''a'' Buy 2, sample_fill_bar 100),
      (sample_paper_intent ''b'' Buy 1, sample_fill_bar 101),
      (sample_paper_intent ''c'' Sell 1, sample_fill_bar 90)]"

lemma coarse_run_results:
  "map_option (\<lambda>(l, rs). (paper_target_position_qty l, map (\<lambda>t. (ptr_qty t, ptr_price t)) (pls_trades l),
       pps_avg_price (last (pls_positions l))))
     (paper_run coarse_paper_ops sample_executor_config (paper_ledger_empty sample_executor_config 0) coarse_calls)
   = Some (2, [(2, 100), (1, 101), (1, 90)], Some (10033 / 100))"
  by code_simp

theorem paper_average_within_fills_witness:
  "\<exists>l rs lo hi. paper_run coarse_paper_ops sample_executor_config (paper_ledger_empty sample_executor_config 0)
       coarse_calls = Some (l, rs)
     \<and> pps_avg_price (last (pls_positions l)) = Some (10033 / 100)
     \<and> lo \<in> ptr_price ` set (pls_trades l) \<and> hi \<in> ptr_price ` set (pls_trades l)
     \<and> lo - 12 / 100 \<le> 10033 / 100 \<and> 10033 / 100 \<le> hi + 12 / 100"
proof -
  obtain l rs where run: "paper_run coarse_paper_ops sample_executor_config
      (paper_ledger_empty sample_executor_config 0) coarse_calls = Some (l, rs)"
    and qty: "paper_target_position_qty l = 2" and avg: "pps_avg_price (last (pls_positions l)) = Some (10033 / 100)"
    and trades: "map (\<lambda>t. (ptr_qty t, ptr_price t)) (pls_trades l) = [(2, 100), (1, 101), (1, 90)]"
    using coarse_run_results by auto
  have three: "length (pls_trades l) = 3" using arg_cong[OF trades, of length] by simp
  have "map ptr_qty (pls_trades l) = [2, 1, 1]" using arg_cong[OF trades, of "map fst"] by (simp add: comp_def)
  then have "traded_volume (pls_trades l) = 4" by (simp add: traded_volume_def)
  moreover have "ptr_qty t \<in> \<int> \<and> \<bar>ptr_price t\<bar> \<le> 101" if "t \<in> set (pls_trades l)" for t
  proof -
    have "(ptr_qty t, ptr_price t) \<in> set [(2, 100), (1, 101), (1, 90)]"
      using that unfolding trades[symmetric] by simp
    then show ?thesis by auto
  qed
  ultimately have range: "fills_in_range (1 / 100) 1000000 101 (pls_trades l)"
    by (simp add: fills_in_range_def three)
  have "\<not> paper_target_is_flat l" using qty by (simp add: paper_target_is_flat_def)
  from paper_average_within_fills[OF coarse_paper_ops_near run range this] obtain a lo hi
    where found: "pps_avg_price (last (pls_positions l)) = Some a"
      "lo \<in> ptr_price ` set (pls_trades l)" "hi \<in> ptr_price ` set (pls_trades l)"
      "lo - 4 * (1 / 100) * of_nat (length (pls_trades l)) \<le> a"
      "a \<le> hi + 4 * (1 / 100) * of_nat (length (pls_trades l))" by blast
  have a: "a = 10033 / 100" using found(1) unfolding avg by simp
  have "lo - 12 / 100 \<le> 10033 / 100" "10033 / 100 \<le> hi + 12 / 100"
    using found(4,5) unfolding a three by simp_all
  then show ?thesis using run avg found(2,3) by blast
qed

text \<open>The identifiers \<open>a-b\<close> and \<open>A_b\<close> collide.\<close>

definition colliding_call :: "paper_intent \<times> runtime_bar_input" where
  "colliding_call = (sample_paper_intent ''A_b'' Buy 1, sample_fill_bar 101)"

definition later_call :: "paper_intent \<times> runtime_bar_input" where
  "later_call = (sample_paper_intent ''c'' Sell 1, sample_fill_bar 90)"

lemma collision_evaluation:
  "map_option (\<lambda>(l, rs). (validate_for_fill l sample_executor_config (fst colliding_call) (snd colliding_call),
       map pin_intent_id (pls_intents l), map intent_suffix (pls_intents l),
       map_option (length \<circ> snd)
         (paper_run sample_paper_ops sample_executor_config l [colliding_call, later_call])))
     (sample_ledger_after [(sample_paper_intent ''a-b'' Buy 1, sample_fill_bar 100)])
   = Some (Inr (), [RuntimeDecisionId ''a-b''], [''A_B''], Some 2)"
  by code_simp

theorem colliding_intent_poisons_ledger_witness:
  "\<exists>l rs l' r rs'. sample_ledger_after [(sample_paper_intent ''a-b'' Buy 1, sample_fill_bar 100)] = Some (l, rs)
     \<and> paper_run sample_paper_ops sample_executor_config l [colliding_call, later_call]
         = Some (l', r # rs')
     \<and> r = Inl (ExecInvariant DuplicateOrderId) \<and> length rs' = 1 \<and> filter is_filled rs' = []"
proof -
  obtain l rs l' rs2 where
    run: "sample_ledger_after [(sample_paper_intent ''a-b'' Buy 1, sample_fill_bar 100)] = Some (l, rs)"
    and ok: "validate_for_fill l sample_executor_config (fst colliding_call) (snd colliding_call) = Inr ()"
    and ids: "map pin_intent_id (pls_intents l) = [RuntimeDecisionId ''a-b'']"
      "map intent_suffix (pls_intents l) = [''A_B'']"
    and later: "paper_run sample_paper_ops sample_executor_config l [colliding_call, later_call]
      = Some (l', rs2)" "length rs2 = 2"
    using collision_evaluation by (auto split: option.splits prod.splits)
  obtain r rs' where rs2: "rs2 = r # rs'" "length rs' = 1"
    using later(2) by (cases rs2) auto
  have side: "market_side (fst colliding_call) = Inr Buy"
    and suffix: "intent_suffix (fst colliding_call) = ''A_B''" by code_simp+
  have new: "pin_intent_id (fst colliding_call) \<notin> set (map pin_intent_id (pls_intents l))"
    unfolding ids by (simp add: colliding_call_def sample_paper_intent_def)
  have old: "intent_suffix (fst colliding_call) \<in> set (map intent_suffix (pls_intents l))"
    unfolding ids suffix by simp
  show ?thesis
    using colliding_intent_poisons_ledger[OF sample_paper_ops_exact
        run[unfolded sample_ledger_after_def] ok side new old] later(1) run rs2
    by auto
qed

end
