(* ===== verification/PaperRuntime.thy ===== *)
theory PaperRuntime
  imports PaperFills
begin

text \<open>
  The paper runtime of \<open>paper.rs\<close> around the ledger: the features of the day, the projection of
  the ledger to a runtime state, the strategy shadow, the adapter that fills the intents of a
  bar and plans what to publish, the publisher that turns one-minute bars into runtime bars, and
  the loop that joins them to a sink. A \<open>paper_host\<close> holds what comes from outside: the decimal
  operators, the texts of a time (chrono), the floating point value of a price.
\<close>

record 'f paper_host =
  pho_ops :: paper_ops
  pho_rfc3339 :: "timestamp \<Rightarrow> string"
  pho_utc_day :: "timestamp \<Rightarrow> string"
  pho_to_f64 :: "price \<Rightarrow> 'f"

section \<open>The features of the day\<close>

definition runtime_bar_key :: "'f paper_host \<Rightarrow> runtime_bar_input \<Rightarrow> string" where
  "runtime_bar_key h b =
     pho_rfc3339 h (rbi_close_ts b) @ ''/'' @ nat_to_string (unat (rbi_timeframe_sec b))"

text \<open>\<open>(prev - day_before) / day_before\<close>, where both are known and the divisor is not zero.\<close>

definition day_return :: "paper_ops \<Rightarrow> price option \<Rightarrow> price option \<Rightarrow> price option option" where
  "day_return ops prev_close day_before =
     (case (prev_close, day_before) of
        (Some p, Some d) \<Rightarrow>
          if d = 0 then Some None
          else map_option Some (Option.bind (ppo_sub ops p d) (\<lambda>x. ppo_div ops x d))
      | _ \<Rightarrow> Some None)"

definition day_range :: "paper_ops \<Rightarrow> price option \<Rightarrow> price option \<Rightarrow> price option option" where
  "day_range ops high low =
     (case (high, low) of
        (Some hi, Some lo) \<Rightarrow> map_option Some (ppo_sub ops hi lo)
      | _ \<Rightarrow> Some None)"

text \<open>The change of day: nothing is carried over when no day was current.\<close>

definition carry_day ::
    "paper_ops \<Rightarrow> (price, bool) paper_day_features \<Rightarrow> (price, bool) paper_day_features option" where
  "carry_day ops d =
     (if pdf_current_day_utc d = None then Some d
      else
        (let day_before = pdf_prev_day_close d; prev = pdf_current_day_close d in
         Option.bind (day_range ops (pdf_current_day_high d) (pdf_current_day_low d)) (\<lambda>range.
         map_option (\<lambda>ret. d \<lparr> pdf_day_before_close := day_before, pdf_prev_day_close := prev,
                               pdf_prev_day_range := range, pdf_prev_day_return := ret \<rparr>)
           (day_return ops prev day_before))))"

definition start_day ::
    "string \<Rightarrow> (price, bool) paper_day_features \<Rightarrow> (price, bool) paper_day_features" where
  "start_day day d =
     d \<lparr> pdf_current_day_utc := Some day, pdf_current_day_high := None,
         pdf_current_day_low := None, pdf_current_day_close := None,
         pdf_was_long_today := False, pdf_was_short_today := False \<rparr>"

definition add_to_day ::
    "runtime_bar_input \<Rightarrow> (price, bool) paper_day_features \<Rightarrow> (price, bool) paper_day_features" where
  "add_to_day b d =
     d \<lparr> pdf_current_day_high := Some (case pdf_current_day_high d of
           Some v \<Rightarrow> max v (rbi_high b) | None \<Rightarrow> rbi_high b),
         pdf_current_day_low := Some (case pdf_current_day_low d of
           Some v \<Rightarrow> min v (rbi_low b) | None \<Rightarrow> rbi_low b),
         pdf_current_day_close := Some (rbi_close b) \<rparr>"

definition observe_day ::
    "'f paper_host \<Rightarrow> (price, bool) paper_day_features \<Rightarrow> runtime_bar_input
       \<Rightarrow> (price, bool) paper_day_features option" where
  "observe_day h d b =
     (let day = pho_utc_day h (rbi_close_ts b) in
      if pdf_current_day_utc d \<noteq> Some day
      then map_option (\<lambda>d'. add_to_day b (start_day day d')) (carry_day (pho_ops h) d)
      else Some (add_to_day b d))"

definition observe_runtime_bar_features ::
    "'f paper_host \<Rightarrow> paper_ledger_snapshot \<Rightarrow> runtime_bar_input \<Rightarrow> paper_ledger_snapshot option" where
  "observe_runtime_bar_features h l b =
     map_option (\<lambda>d. l \<lparr> pls_day := d, pls_last_bar_close := Some (rbi_close b),
                         pls_received_ts := rbi_close_ts b \<rparr>)
       (observe_day h (pls_day l) b)"

section \<open>The runtime state\<close>

record 'f paper_projection =
  ppj_strategy_kind :: string
  ppj_last_position_qty :: 'f
  ppj_hybrid_cycle :: "u32 paper_hybrid_cycle"
  ppj_hybrid_mode :: "('f, bool) paper_hybrid_mode"
  ppj_entry_ready :: bool
  ppj_last_bar_close :: "'f option"
  ppj_day :: "('f, bool) paper_day_features"
  ppj_today_start_local :: "string option"
  ppj_risk_shadow :: "('f, u32) paper_risk_shadow"
  ppj_mr_enabled_current_session :: "bool option"
  ppj_mr_enabled_next_session :: "bool option"
  ppj_rolling_sum_lb120 :: "'f option"
  ppj_last_finalized_session_date :: "string option"
  ppj_ledger_rows_count :: nat
  ppj_projection_source :: string
  ppj_strategy_invocation_enabled :: bool

record 'f paper_runtime_state =
  prt_schema_version :: u16
  prt_strategy_id :: string
  prt_instrument :: instrument_id
  prt_execution_mode :: paper_execution_mode
  prt_safety_boundary :: paper_safety_boundary
  prt_last_bar_key :: "string option"
  prt_last_decision_id :: "runtime_decision_id option"
  prt_position :: "paper_position option"
  prt_active_orders_count :: nat
  prt_suppressed_count :: nat
  prt_updated_ts :: timestamp
  prt_hybrid_intraday :: "'f paper_projection option"

definition side_label_from_position_qty :: "quantity \<Rightarrow> string option" where
  "side_label_from_position_qty q =
     (if 0 < q then Some ''long'' else if q < 0 then Some ''short'' else None)"

definition or_else :: "'a option \<Rightarrow> 'a option \<Rightarrow> 'a option" where
  "or_else x y = (case x of Some v \<Rightarrow> Some v | None \<Rightarrow> y)"

definition last_opt :: "'a list \<Rightarrow> 'a option" where
  "last_opt xs = (case rev xs of [] \<Rightarrow> None | x # _ \<Rightarrow> Some x)"

definition projected_cycle ::
    "u32 option paper_hybrid_cycle \<Rightarrow> string option \<Rightarrow> u32 paper_hybrid_cycle" where
  "projected_cycle c side =
     \<lparr> phc_active_cycle_id = phc_active_cycle_id c,
       phc_next_cycle_seq = or_keep (phc_next_cycle_seq c) 0,
       phc_current_owner = phc_current_owner c,
       phc_current_side = or_else side (phc_current_side c),
       phc_pending_entry_owner = phc_pending_entry_owner c,
       phc_pending_entry_side = phc_pending_entry_side c,
       phc_pending_entry_cycle_id = phc_pending_entry_cycle_id c,
       phc_pending_entry_request_id = phc_pending_entry_request_id c,
       phc_pending_exit_request_id = phc_pending_exit_request_id c,
       phc_tp_order_id = phc_tp_order_id c, phc_sl_stop_order_id = phc_sl_stop_order_id c \<rparr>"

definition projected_mode ::
    "(price \<Rightarrow> 'f) \<Rightarrow> (price, bool) paper_hybrid_mode \<Rightarrow> ('f, bool) paper_hybrid_mode" where
  "projected_mode f64 m =
     \<lparr> phm_mr_take_price = map_option f64 (phm_mr_take_price m),
       phm_mr_stop_price = map_option f64 (phm_mr_stop_price m),
       phm_safe_mode_close_only = phm_safe_mode_close_only m,
       phm_safe_mode_reason = phm_safe_mode_reason m,
       phm_deferred_entry_state = phm_deferred_entry_state m,
       phm_deferred_exit_state = phm_deferred_exit_state m,
       phm_position_adoption_state = phm_position_adoption_state m,
       phm_dirty_start_marker = phm_dirty_start_marker m,
       phm_manual_intervention_required = phm_manual_intervention_required m,
       phm_manual_intervention_reason = phm_manual_intervention_reason m,
       phm_overnight_exit_armed_date = phm_overnight_exit_armed_date m \<rparr>"

definition projected_day ::
    "(price \<Rightarrow> 'f) \<Rightarrow> (price, bool) paper_day_features \<Rightarrow> price option
       \<Rightarrow> ('f, bool) paper_day_features" where
  "projected_day f64 d ret =
     \<lparr> pdf_current_day_utc = pdf_current_day_utc d,
       pdf_current_day_high = map_option f64 (pdf_current_day_high d),
       pdf_current_day_low = map_option f64 (pdf_current_day_low d),
       pdf_current_day_close = map_option f64 (pdf_current_day_close d),
       pdf_prev_day_close = map_option f64 (pdf_prev_day_close d),
       pdf_prev_day_range = map_option f64 (pdf_prev_day_range d),
       pdf_prev_day_return = map_option f64 ret,
       pdf_day_before_close = map_option f64 (pdf_day_before_close d),
       pdf_was_long_today = pdf_was_long_today d,
       pdf_was_short_today = pdf_was_short_today d \<rparr>"

text \<open>The return of the previous day is computed from the closes when it is not recorded.\<close>

definition projected_return ::
    "paper_ops \<Rightarrow> (price, bool) paper_day_features \<Rightarrow> price option option" where
  "projected_return ops d =
     (case pdf_prev_day_return d of
        Some v \<Rightarrow> Some (Some v)
      | None \<Rightarrow> day_return ops (pdf_prev_day_close d) (pdf_day_before_close d))"

definition to_projection ::
    "'f paper_host \<Rightarrow> paper_ledger_snapshot \<Rightarrow> 'f paper_projection option" where
  "to_projection h l =
     map_option (\<lambda>ret.
       \<lparr> ppj_strategy_kind = ''hybrid_intraday'',
         ppj_last_position_qty = pho_to_f64 h (paper_target_position_qty l),
         ppj_hybrid_cycle = projected_cycle (pls_hybrid_cycle l)
           (side_label_from_position_qty (paper_target_position_qty l)),
         ppj_hybrid_mode = projected_mode (pho_to_f64 h) (pls_hybrid_mode l),
         ppj_entry_ready = False,
         ppj_last_bar_close = map_option (pho_to_f64 h) (pls_last_bar_close l),
         ppj_day = projected_day (pho_to_f64 h) (pls_day l) ret,
         ppj_today_start_local =
           map_option (\<lambda>day. day @ ''T09:00:00'') (pdf_current_day_utc (pls_day l)),
         ppj_risk_shadow =
           \<lparr> prs_session_date = prs_session_date (pls_risk_shadow l),
             prs_pnl_points = pho_to_f64 h (prs_pnl_points (pls_risk_shadow l)),
             prs_trade_count = prs_trade_count (pls_risk_shadow l) \<rparr>,
         ppj_mr_enabled_current_session =
           Option.bind (pls_risk_gate_state l) rgp_mr_enabled_current_session,
         ppj_mr_enabled_next_session =
           Option.bind (pls_risk_gate_state l) rgp_mr_enabled_next_session,
         ppj_rolling_sum_lb120 =
           map_option (pho_to_f64 h) (Option.bind (pls_risk_gate_state l) rgp_rolling_sum_lb120),
         ppj_last_finalized_session_date =
           Option.bind (pls_risk_gate_state l) rgp_last_finalized_session_date,
         ppj_ledger_rows_count =
           (case pls_risk_gate_state l of
              Some s \<Rightarrow> rgp_ledger_rows_count s | None \<Rightarrow> length (pls_risk_gate_ledger l)),
         ppj_projection_source = ''paper_ledger_state_only'',
         ppj_strategy_invocation_enabled = False \<rparr>)
       (projected_return (pho_ops h) (pls_day l))"

definition to_runtime_state_inner ::
    "'f paper_host \<Rightarrow> paper_ledger_snapshot \<Rightarrow> timestamp \<Rightarrow> runtime_bar_input option
       \<Rightarrow> 'f paper_runtime_state option" where
  "to_runtime_state_inner h l updated_ts input =
     map_option (\<lambda>projection.
       \<lparr> prt_schema_version = paper_schema_version, prt_strategy_id = pls_strategy_id l,
         prt_instrument = pls_instrument l, prt_execution_mode = pls_execution_mode l,
         prt_safety_boundary = pls_safety_boundary l,
         prt_last_bar_key = or_else (map_option (runtime_bar_key h) input)
           (map_option pin_decision_bar_key (last_opt (pls_intents l))),
         prt_last_decision_id = map_option pin_intent_id (last_opt (pls_intents l)),
         prt_position = last_opt (pls_positions l),
         prt_active_orders_count = length (active_orders l),
         prt_suppressed_count = length (pls_suppressions l), prt_updated_ts = updated_ts,
         prt_hybrid_intraday = Some projection \<rparr>)
       (to_projection h l)"

definition to_runtime_state ::
    "'f paper_host \<Rightarrow> paper_ledger_snapshot \<Rightarrow> timestamp \<Rightarrow> 'f paper_runtime_state option" where
  "to_runtime_state h l updated_ts = to_runtime_state_inner h l updated_ts None"

definition to_runtime_state_for_bar ::
    "'f paper_host \<Rightarrow> paper_ledger_snapshot \<Rightarrow> runtime_bar_input \<Rightarrow> 'f paper_runtime_state option" where
  "to_runtime_state_for_bar h l b = to_runtime_state_inner h l (rbi_close_ts b) (Some b)"

section \<open>The strategy shadow\<close>

record paper_shadow_config =
  psc_enabled :: bool
  psc_warmup_bars_required :: nat
  psc_projection_source :: string

definition shadow_disabled :: paper_shadow_config where
  "shadow_disabled = \<lparr> psc_enabled = False, psc_warmup_bars_required = 0,
     psc_projection_source = ''paper_ledger_state_only'' \<rparr>"

definition shadow_enabled :: "nat \<Rightarrow> paper_shadow_config" where
  "shadow_enabled n = \<lparr> psc_enabled = True, psc_warmup_bars_required = max n 1,
     psc_projection_source = ''paper_hybrid_strategy_shadow_invocation'' \<rparr>"

record paper_shadow_state =
  pss_config :: paper_shadow_config
  pss_observed_m10_bars :: nat
  pss_entry_ready :: bool
  pss_last_bar_key :: "string option"
  pss_active_cycle_id :: "string option"
  pss_current_owner :: "string option"
  pss_current_side :: "string option"
  pss_pending_entry_request_id :: "string option"

definition shadow_new :: "paper_shadow_config \<Rightarrow> paper_shadow_state option" where
  "shadow_new c =
     (if \<not> psc_enabled c then None
      else Some \<lparr> pss_config = c \<lparr> psc_warmup_bars_required := max (psc_warmup_bars_required c) 1 \<rparr>,
                  pss_observed_m10_bars = 0, pss_entry_ready = False, pss_last_bar_key = None,
                  pss_active_cycle_id = None, pss_current_owner = None, pss_current_side = None,
                  pss_pending_entry_request_id = None \<rparr>)"

definition shadow_observe_bar ::
    "'f paper_host \<Rightarrow> paper_shadow_state \<Rightarrow> runtime_bar_input \<Rightarrow> paper_shadow_state" where
  "shadow_observe_bar h s b =
     (let n = pss_observed_m10_bars s + 1 in
      s \<lparr> pss_observed_m10_bars := n, pss_last_bar_key := Some (runtime_bar_key h b),
          pss_entry_ready := psc_warmup_bars_required (pss_config s) \<le> n \<rparr>)"

definition shadow_observe_ledger ::
    "paper_shadow_state \<Rightarrow> paper_ledger_snapshot \<Rightarrow> paper_shadow_state" where
  "shadow_observe_ledger s l =
     (if paper_target_position_qty l = 0
      then s \<lparr> pss_current_side := None, pss_current_owner := None,
               pss_active_cycle_id := None, pss_pending_entry_request_id := None \<rparr>
      else
        (let s' = s \<lparr> pss_current_side := side_label_from_position_qty (paper_target_position_qty l) \<rparr> in
         case find (\<lambda>i. pin_kind i = PaperEnter) (rev (pls_intents l)) of
           None \<Rightarrow> s'
         | Some i \<Rightarrow> s' \<lparr> pss_current_owner := pin_strategy_owner i,
                          pss_active_cycle_id := pin_strategy_cycle_id i,
                          pss_pending_entry_request_id := None \<rparr>))"

definition shadow_overlay ::
    "paper_shadow_state \<Rightarrow> 'f paper_projection \<Rightarrow> 'f paper_projection" where
  "shadow_overlay s p =
     (let c = ppj_hybrid_cycle p in
      p \<lparr> ppj_entry_ready := pss_entry_ready s,
          ppj_hybrid_cycle :=
            c \<lparr> phc_active_cycle_id := or_else (pss_active_cycle_id s) (phc_active_cycle_id c),
                phc_current_owner := or_else (pss_current_owner s) (phc_current_owner c),
                phc_current_side := or_else (pss_current_side s) (phc_current_side c),
                phc_pending_entry_request_id :=
                  or_else (pss_pending_entry_request_id s) (phc_pending_entry_request_id c) \<rparr>,
          ppj_projection_source := psc_projection_source (pss_config s),
          ppj_strategy_invocation_enabled := True \<rparr>)"

section \<open>The adapter\<close>

record paper_streams =
  pst_runtime_state_stream :: string
  pst_intents_stream :: string
  pst_paper_acks_stream :: string
  pst_orders_stream :: string
  pst_trades_stream :: string
  pst_positions_stream :: string

definition finam_imoexf_streams :: paper_streams where
  "finam_imoexf_streams =
     \<lparr> pst_runtime_state_stream = ''finam_imoexf_paper:runtime:state:hybrid_intraday:imoexf'',
       pst_intents_stream = ''finam_imoexf_paper:runtime:intents'',
       pst_paper_acks_stream = ''finam_imoexf_paper:runtime:paper_acks'',
       pst_orders_stream = ''finam_imoexf_paper:runtime:orders_paper_only'',
       pst_trades_stream = ''finam_imoexf_paper:runtime:trades_paper_only'',
       pst_positions_stream = ''finam_imoexf_paper:runtime:positions_paper_only'' \<rparr>"

record paper_adapter_config =
  pac_ledger :: paper_ledger_executor_config
  pac_streams :: paper_streams
  pac_required_provenance :: string
  pac_safety_boundary :: paper_safety_boundary
  pac_shadow :: paper_shadow_config

definition finam_imoexf_adapter_config ::
    "string \<Rightarrow> instrument_id \<Rightarrow> paper_execution_mode \<Rightarrow> paper_adapter_config" where
  "finam_imoexf_adapter_config strategy_id instrument mode =
     \<lparr> pac_ledger = executor_config_new strategy_id instrument mode 600,
       pac_streams = finam_imoexf_streams, pac_required_provenance = ''FinamDerivedM1ToM10'',
       pac_safety_boundary = safety_boundary_closed, pac_shadow = shadow_disabled \<rparr>"

datatype 'f paper_payload =
    PayloadRuntimeState "'f paper_runtime_state"
  | PayloadIntent paper_intent
  | PayloadAck paper_ack
  | PayloadOrder paper_order
  | PayloadTrade paper_trade
  | PayloadPosition paper_position

record 'f paper_publish_record =
  ppr_stream :: string
  ppr_payload :: "'f paper_payload"

definition publish_on :: "string \<Rightarrow> 'f paper_payload \<Rightarrow> 'f paper_publish_record" where
  "publish_on stream payload = \<lparr> ppr_stream = stream, ppr_payload = payload \<rparr>"

record 'f paper_adapter_outcome =
  pao_publish_plan :: "'f paper_publish_record list"
  pao_filled_count :: nat
  pao_duplicate_count :: nat
  pao_state_only :: bool

record paper_adapter =
  pad_config :: paper_adapter_config
  pad_ledger :: paper_ledger_snapshot
  pad_shadow :: "paper_shadow_state option"

datatype paper_adapter_error =
    AdapterLiveBoundaryOpen | AdapterInstrumentMismatch | AdapterExecutionModeMismatch
  | AdapterInvalidExpectedTimeframe | AdapterRuntimeInputNotEligible
  | AdapterProvenanceMismatch string string
  | AdapterInvariant paper_ledger_invariant_error
  | AdapterExecutor paper_ledger_executor_error

definition validate_adapter_config :: "paper_adapter_config \<Rightarrow> paper_adapter_error + unit" where
  "validate_adapter_config c =
     (if \<not> safety_boundary_is_closed (pac_safety_boundary c)
         \<or> \<not> safety_boundary_is_closed (pec_safety_boundary (pac_ledger c))
      then Inl AdapterLiveBoundaryOpen
      else if pec_expected_timeframe_sec (pac_ledger c) = 0 then Inl AdapterInvalidExpectedTimeframe
      else if pec_expected_timeframe_sec (pac_ledger c) \<noteq> 600
      then Inl AdapterInvalidExpectedTimeframe
      else if trim (pac_required_provenance c) = []
      then Inl (AdapterProvenanceMismatch ''non-empty'' (pac_required_provenance c))
      else Inr ())"

definition adapter_new :: "paper_adapter_config \<Rightarrow> timestamp \<Rightarrow> paper_adapter_error + paper_adapter" where
  "adapter_new c received_ts =
     and_then (validate_adapter_config c) (\<lambda>_.
       Inr \<lparr> pad_config = c, pad_ledger = paper_ledger_empty (pac_ledger c) received_ts,
             pad_shadow = shadow_new (pac_shadow c) \<rparr>)"

definition adapter_apply_oracle_seed ::
    "paper_adapter \<Rightarrow> paper_oracle_seed \<Rightarrow> timestamp \<Rightarrow> paper_adapter \<times> (paper_adapter_error + unit)" where
  "adapter_apply_oracle_seed a seed received_ts =
     (case apply_oracle_seed (pad_ledger a) seed received_ts of
        (l, Inl e) \<Rightarrow> (a \<lparr> pad_ledger := l \<rparr>, Inl (AdapterInvariant e))
      | (l, Inr _) \<Rightarrow>
          (a \<lparr> pad_ledger := l,
               pad_shadow := map_option (\<lambda>s. shadow_observe_ledger s l) (pad_shadow a) \<rparr>, Inr ()))"

definition validate_runtime_input ::
    "paper_adapter \<Rightarrow> runtime_bar_input \<Rightarrow> paper_adapter_error + unit" where
  "validate_runtime_input a b =
     (if \<not> safety_boundary_is_closed (pac_safety_boundary (pad_config a))
         \<or> \<not> safety_boundary_is_closed (pls_safety_boundary (pad_ledger a))
      then Inl AdapterLiveBoundaryOpen
      else if rbi_instrument b \<noteq> pec_instrument (pac_ledger (pad_config a))
      then Inl AdapterInstrumentMismatch
      else if rbi_provenance b \<noteq> pac_required_provenance (pad_config a)
      then Inl (AdapterProvenanceMismatch (pac_required_provenance (pad_config a)) (rbi_provenance b))
      else if \<not> is_live_final_timeframe b (pec_expected_timeframe_sec (pac_ledger (pad_config a)))
      then Inl AdapterRuntimeInputNotEligible
      else Inr ())"

fun records_of_outcome ::
    "paper_streams \<Rightarrow> paper_intent \<Rightarrow> paper_execution_outcome \<Rightarrow> 'f paper_publish_record list" where
  "records_of_outcome st intent (PaperFilledOutcome order trade position ack) =
     [publish_on (pst_intents_stream st) (PayloadIntent intent),
      publish_on (pst_orders_stream st) (PayloadOrder order),
      publish_on (pst_trades_stream st) (PayloadTrade trade),
      publish_on (pst_positions_stream st) (PayloadPosition position),
      publish_on (pst_paper_acks_stream st) (PayloadAck ack)]"
| "records_of_outcome st intent (PaperDuplicateIgnored ack) =
     [publish_on (pst_paper_acks_stream st) (PayloadAck ack)]"

text \<open>The loop over the intents of a bar: plan, fills and duplicates so far; the first error ends it.\<close>

fun fill_intents ::
    "paper_ops \<Rightarrow> paper_adapter_config \<Rightarrow> runtime_bar_input \<Rightarrow> paper_intent list
       \<Rightarrow> paper_ledger_snapshot \<Rightarrow> 'f paper_publish_record list \<times> nat \<times> nat
       \<Rightarrow> (paper_ledger_snapshot
            \<times> (paper_ledger_executor_error + 'f paper_publish_record list \<times> nat \<times> nat)) option"
where
  "fill_intents ops c b [] l acc = Some (l, Inr acc)"
| "fill_intents ops c b (intent # intents) l (plan, filled, dups) =
     Option.bind (apply_next_bar_open_market_intent ops l (pac_ledger c) intent b) (\<lambda>(l', r).
     case r of
       Inl e \<Rightarrow> Some (l', Inl e)
     | Inr out \<Rightarrow>
         fill_intents ops c b intents l'
           (plan @ records_of_outcome (pac_streams c) intent out,
            (if is_filled r then filled + 1 else filled),
            (if is_filled r then dups else dups + 1)))"

definition overlay_state ::
    "paper_shadow_state option \<Rightarrow> 'f paper_runtime_state \<Rightarrow> 'f paper_runtime_state" where
  "overlay_state shadow state =
     (case shadow of
        None \<Rightarrow> state
      | Some s \<Rightarrow> state \<lparr> prt_hybrid_intraday := map_option (shadow_overlay s) (prt_hybrid_intraday state) \<rparr>)"

text \<open>
  One call of the adapter's \<open>observe_runtime_bar\<close>: the adapter after it and its result. An
  error of the executor leaves the fills before it in the ledger and drops the plan.
\<close>

definition adapter_observe_runtime_bar ::
    "'f paper_host \<Rightarrow> paper_adapter \<Rightarrow> runtime_bar_input \<Rightarrow> paper_intent list
       \<Rightarrow> (paper_adapter \<times> (paper_adapter_error + 'f paper_adapter_outcome)) option" where
  "adapter_observe_runtime_bar h a b intents =
     (case validate_runtime_input a b of
        Inl e \<Rightarrow> Some (a, Inl e)
      | Inr _ \<Rightarrow>
      Option.bind (fill_intents (pho_ops h) (pad_config a) b intents (pad_ledger a) ([], 0, 0))
        (\<lambda>(l, r).
      case r of
        Inl e \<Rightarrow> Some (a \<lparr> pad_ledger := l \<rparr>, Inl (AdapterExecutor e))
      | Inr (plan, filled, dups) \<Rightarrow>
          Option.bind (observe_runtime_bar_features h l b) (\<lambda>l'.
          let shadow = map_option (\<lambda>s. shadow_observe_ledger (shadow_observe_bar h s b) l')
                         (pad_shadow a) in
          map_option (\<lambda>state.
            (a \<lparr> pad_ledger := l', pad_shadow := shadow \<rparr>,
             Inr \<lparr> pao_publish_plan = plan @
                     [publish_on (pst_runtime_state_stream (pac_streams (pad_config a)))
                        (PayloadRuntimeState (overlay_state shadow state))],
                   pao_filled_count = filled, pao_duplicate_count = dups,
                   pao_state_only = (filled = 0 \<and> dups = 0) \<rparr>))
            (to_runtime_state_for_bar h l' b))))"

section \<open>The publisher of runtime bars\<close>

record paper_bar_publisher_config =
  pbc_strategy_id :: string
  pbc_instrument :: instrument_id
  pbc_source_stream :: string
  pbc_target_stream :: string
  pbc_source_timeframe_sec :: u32
  pbc_target_timeframe_sec :: u32
  pbc_provenance :: string
  pbc_safety_boundary :: paper_safety_boundary

definition finam_m1_to_m10_paper ::
    "string \<Rightarrow> instrument_id \<Rightarrow> string \<Rightarrow> string \<Rightarrow> paper_bar_publisher_config" where
  "finam_m1_to_m10_paper strategy_id instrument source_stream target_stream =
     \<lparr> pbc_strategy_id = strategy_id, pbc_instrument = instrument,
       pbc_source_stream = source_stream, pbc_target_stream = target_stream,
       pbc_source_timeframe_sec = 60, pbc_target_timeframe_sec = 600,
       pbc_provenance = ''FinamDerivedM1ToM10'', pbc_safety_boundary = safety_boundary_closed \<rparr>"

record paper_bar_publisher =
  pbp_config :: paper_bar_publisher_config
  pbp_aggregator :: canonical_bar_aggregator

datatype paper_bar_reject_reason =
    PublisherLiveBoundaryOpen | PublisherInstrumentMismatch
  | PublisherSourceTimeframeMismatch u32 u32 | PublisherTargetTimeframeMismatch u32
  | PublisherInvalidTimeframe | PublisherNonLiveSourceKind market_data_source_kind
  | PublisherAggregationRejected bar_aggregation_reject_reason

datatype paper_bar_publish_outcome =
    PaperBarBuffered timestamp nat
  | PaperBarPublished string runtime_bar_input
  | PaperBarDroppedIncompleteBucket timestamp nat
  | PaperBarRejected paper_bar_reject_reason

definition validate_publisher_config ::
    "paper_bar_publisher_config \<Rightarrow> paper_bar_reject_reason + unit" where
  "validate_publisher_config c =
     (if \<not> safety_boundary_is_closed (pbc_safety_boundary c) then Inl PublisherLiveBoundaryOpen
      else if pbc_source_timeframe_sec c = 0 \<or> pbc_target_timeframe_sec c = 0
      then Inl PublisherInvalidTimeframe
      else if pbc_target_timeframe_sec c \<le> pbc_source_timeframe_sec c
      then Inl PublisherInvalidTimeframe
      else if pbc_target_timeframe_sec c \<noteq> 600
      then Inl (PublisherTargetTimeframeMismatch (pbc_target_timeframe_sec c))
      else Inr ())"

definition publisher_new ::
    "paper_bar_publisher_config \<Rightarrow> paper_bar_reject_reason + paper_bar_publisher" where
  "publisher_new c =
     and_then (validate_publisher_config c) (\<lambda>_.
       Inr \<lparr> pbp_config = c, pbp_aggregator = aggregator_new (pbc_target_timeframe_sec c) \<rparr>)"

definition runtime_input_of_bar :: "paper_bar_publisher_config \<Rightarrow> bar \<Rightarrow> runtime_bar_input" where
  "runtime_input_of_bar c x =
     \<lparr> rbi_schema_version = paper_schema_version, rbi_instrument = bar_instrument x,
       rbi_origin = OriginLive, rbi_timeframe_sec = bar_timeframe_sec x,
       rbi_open_ts = bar_open_ts x, rbi_close_ts = bar_close_ts x, rbi_open = bar_open x,
       rbi_high = bar_high x, rbi_low = bar_low x, rbi_close = bar_close x,
       rbi_volume = bar_volume x, rbi_is_final = bar_is_final x,
       rbi_source_stream = pbc_target_stream c, rbi_provenance = pbc_provenance c \<rparr>"

definition check_source_bar :: "paper_bar_publisher_config \<Rightarrow> bar \<Rightarrow> paper_bar_reject_reason + unit" where
  "check_source_bar c x =
     (if \<not> safety_boundary_is_closed (pbc_safety_boundary c) then Inl PublisherLiveBoundaryOpen
      else if bar_instrument x \<noteq> pbc_instrument c then Inl PublisherInstrumentMismatch
      else if bar_source_kind x \<noteq> LiveStream
      then Inl (PublisherNonLiveSourceKind (bar_source_kind x))
      else if bar_timeframe_sec x \<noteq> pbc_source_timeframe_sec c
      then Inl (PublisherSourceTimeframeMismatch (pbc_source_timeframe_sec c) (bar_timeframe_sec x))
      else Inr ())"

fun publish_outcome_of_action ::
    "paper_bar_publisher_config \<Rightarrow> bar_aggregation_action \<Rightarrow> paper_bar_publish_outcome" where
  "publish_outcome_of_action c (Buffered t n) = PaperBarBuffered t n"
| "publish_outcome_of_action c (DroppedIncompleteBucket t n) = PaperBarDroppedIncompleteBucket t n"
| "publish_outcome_of_action c (RejectedBar reason) = PaperBarRejected (PublisherAggregationRejected reason)"
| "publish_outcome_of_action c (Emitted x) =
     PaperBarPublished (pbc_target_stream c) (runtime_input_of_bar c x)"

record paper_clock =
  pck_num_seconds :: "duration \<Rightarrow> int"
  pck_timestamp :: "timestamp \<Rightarrow> int"
  pck_from_timestamp :: "int \<Rightarrow> timestamp option"

definition publisher_observe_source_bar ::
    "paper_clock \<Rightarrow> paper_ops \<Rightarrow> paper_bar_publisher \<Rightarrow> bar
       \<Rightarrow> (paper_bar_publisher \<times> paper_bar_publish_outcome) option" where
  "publisher_observe_source_bar k ops p x =
     (case check_source_bar (pbp_config p) x of
        Inl reason \<Rightarrow> Some (p, PaperBarRejected reason)
      | Inr _ \<Rightarrow>
          map_option (\<lambda>(agg, action).
            (p \<lparr> pbp_aggregator := agg \<rparr>, publish_outcome_of_action (pbp_config p) action))
            (observe_final_source_bar (pck_num_seconds k) (pck_timestamp k) (pck_from_timestamp k)
               (ppo_add ops) (pbp_aggregator p) x))"

section \<open>The sink\<close>

text \<open>
  \<open>PaperRuntimePublishSink\<close>: \<open>publish\<close> takes one record or refuses it. What the loop relies
  on: a record that is taken is in the sink after the others, one that is refused is not.
\<close>

locale publish_sink =
  fixes publish :: "'s \<Rightarrow> 'r \<Rightarrow> 's \<times> (string + unit)"
    and contents :: "'s \<Rightarrow> 'r list"
  assumes publish_taken: "publish s x = (s', Inr u) \<Longrightarrow> contents s' = contents s @ [x]"
    and publish_refused: "publish s x = (s', Inl e) \<Longrightarrow> contents s' = contents s"

text \<open>The loop over the plan: \<open>sink.publish(record)?\<close>.\<close>

fun publish_all :: "('s \<Rightarrow> 'r \<Rightarrow> 's \<times> (string + unit)) \<Rightarrow> 's \<Rightarrow> 'r list \<Rightarrow> 's \<times> (string + unit)" where
  "publish_all publish s [] = (s, Inr ())"
| "publish_all publish s (x # xs) =
     (case publish s x of
        (s', Inl e) \<Rightarrow> (s', Inl e)
      | (s', Inr _) \<Rightarrow> publish_all publish s' xs)"

context publish_sink
begin

lemma publish_all_taken:
  "publish_all publish s xs = (s', Inr u) \<Longrightarrow> contents s' = contents s @ xs"
proof (induction xs arbitrary: s)
  case (Cons x xs)
  then obtain s1 v where "publish s x = (s1, Inr v)" "publish_all publish s1 xs = (s', Inr u)"
    by (cases "publish s x") (auto split: sum.splits)
  then show ?case using Cons.IH publish_taken by fastforce
qed simp

lemma publish_all_prefix:
  "publish_all publish s xs = (s', r) \<Longrightarrow> \<exists>n. contents s' = contents s @ take n xs"
proof (induction xs arbitrary: s)
  case (Cons x xs)
  obtain s1 v where p: "publish s x = (s1, v)" by (cases "publish s x")
  show ?case
  proof (cases v)
    case (Inl e)
    then have "contents s' = contents s @ take 0 (x # xs)"
      using Cons.prems p publish_refused by auto
    then show ?thesis by blast
  next
    case (Inr u)
    then obtain n where "contents s' = contents s1 @ take n xs"
      using Cons.prems Cons.IH[of s1] p by auto
    then have "contents s' = contents s @ take (Suc n) (x # xs)"
      using p Inr publish_taken by simp
    then show ?thesis by blast
  qed
qed auto

end

text \<open>\<open>PaperRuntimeInMemorySink\<close>.\<close>

record 'f paper_memory_sink =
  pms_records :: "'f paper_publish_record list"

definition memory_sink_new :: "'f paper_memory_sink" where
  "memory_sink_new = \<lparr> pms_records = [] \<rparr>"

definition memory_publish ::
    "'f paper_memory_sink \<Rightarrow> 'f paper_publish_record \<Rightarrow> 'f paper_memory_sink \<times> (string + unit)" where
  "memory_publish s x = (s \<lparr> pms_records := pms_records s @ [x] \<rparr>, Inr ())"

interpretation memory_sink: publish_sink memory_publish pms_records
  by unfold_locales (auto simp: memory_publish_def)

section \<open>The loop\<close>

record paper_loop =
  plo_bar_publisher :: paper_bar_publisher
  plo_adapter :: paper_adapter

datatype 'f paper_loop_outcome =
    LoopBuffered timestamp nat
  | LoopPublished nat "'f paper_adapter_outcome"
  | LoopDroppedIncompleteBucket timestamp nat
  | LoopSourceRejected paper_bar_reject_reason

datatype paper_loop_error =
    LoopLiveBoundaryOpen | LoopInstrumentMismatch | LoopAdapter paper_adapter_error
  | LoopSink string

definition loop_new ::
    "paper_bar_publisher \<Rightarrow> paper_adapter \<Rightarrow> paper_loop_error + paper_loop" where
  "loop_new p a =
     (if pbc_instrument (pbp_config p) \<noteq> pec_instrument (pac_ledger (pad_config a))
      then Inl LoopInstrumentMismatch
      else if \<not> safety_boundary_is_closed (pbc_safety_boundary (pbp_config p))
              \<or> \<not> safety_boundary_is_closed (pac_safety_boundary (pad_config a))
      then Inl LoopLiveBoundaryOpen
      else Inr \<lparr> plo_bar_publisher = p, plo_adapter = a \<rparr>)"

definition loop_publish ::
    "('s \<Rightarrow> 'f paper_publish_record \<Rightarrow> 's \<times> (string + unit)) \<Rightarrow> 's \<Rightarrow> 'f paper_adapter_outcome
       \<Rightarrow> 's \<times> (paper_loop_error + 'f paper_loop_outcome)" where
  "loop_publish publish sink outcome =
     (case publish_all publish sink (pao_publish_plan outcome) of
        (sink', Inl e) \<Rightarrow> (sink', Inl (LoopSink e))
      | (sink', Inr _) \<Rightarrow> (sink', Inr (LoopPublished (length (pao_publish_plan outcome)) outcome)))"

text \<open>One source bar with the intents decided so far, through the loop and into the sink.\<close>

definition loop_observe_source_bar ::
    "'f paper_host \<Rightarrow> paper_clock \<Rightarrow> ('s \<Rightarrow> 'f paper_publish_record \<Rightarrow> 's \<times> (string + unit))
       \<Rightarrow> paper_loop \<Rightarrow> bar \<Rightarrow> paper_intent list \<Rightarrow> 's
       \<Rightarrow> (paper_loop \<times> 's \<times> (paper_loop_error + 'f paper_loop_outcome)) option" where
  "loop_observe_source_bar h k publish lo x intents sink =
     Option.bind (publisher_observe_source_bar k (pho_ops h) (plo_bar_publisher lo) x) (\<lambda>(p, out).
     let lo' = lo \<lparr> plo_bar_publisher := p \<rparr> in
     case out of
       PaperBarBuffered t n \<Rightarrow> Some (lo', sink, Inr (LoopBuffered t n))
     | PaperBarDroppedIncompleteBucket t n \<Rightarrow> Some (lo', sink, Inr (LoopDroppedIncompleteBucket t n))
     | PaperBarRejected reason \<Rightarrow> Some (lo', sink, Inr (LoopSourceRejected reason))
     | PaperBarPublished stream input \<Rightarrow>
         map_option (\<lambda>(a, r).
           case r of
             Inl e \<Rightarrow> (lo' \<lparr> plo_adapter := a \<rparr>, sink, Inl (LoopAdapter e))
           | Inr outcome \<Rightarrow> (lo' \<lparr> plo_adapter := a \<rparr>, loop_publish publish sink outcome))
           (adapter_observe_runtime_bar h (plo_adapter lo) input intents))"

end
