(* ===== verification/PaperRuntimeFacts.thy ===== *)
theory PaperRuntimeFacts
  imports PaperRuntime
begin

text \<open>
  Facts about the paper runtime: the summary of the previous day, the agreement of what the
  adapter publishes with what the ledger holds, what an error in the middle of a bar leaves
  behind, and how many bars the loop needs for a publication.
\<close>

section \<open>The previous day\<close>

fun observe_days ::
    "'f paper_host \<Rightarrow> (price, bool) paper_day_features \<Rightarrow> runtime_bar_input list
       \<Rightarrow> (price, bool) paper_day_features option" where
  "observe_days h d [] = Some d"
| "observe_days h d (b # bs) = Option.bind (observe_day h d b) (\<lambda>d'. observe_days h d' bs)"

lemma observe_days_append:
  "observe_days h d (bs @ cs) = Option.bind (observe_days h d bs) (\<lambda>d'. observe_days h d' cs)"
  by (induction bs arbitrary: d) (auto split: bind_splits)

text \<open>The day so far, of the bars \<open>bs\<close> of one day.\<close>

definition day_so_far ::
    "string \<Rightarrow> runtime_bar_input list \<Rightarrow> (price, bool) paper_day_features \<Rightarrow> bool" where
  "day_so_far day bs d \<longleftrightarrow>
     pdf_current_day_utc d = Some day
     \<and> pdf_current_day_high d = Some (Max (rbi_high ` set bs))
     \<and> pdf_current_day_low d = Some (Min (rbi_low ` set bs))
     \<and> pdf_current_day_close d = Some (rbi_close (last bs))"

lemma add_to_day_simps [simp]:
  "pdf_current_day_utc (add_to_day b d) = pdf_current_day_utc d"
  "pdf_prev_day_close (add_to_day b d) = pdf_prev_day_close d"
  "pdf_prev_day_range (add_to_day b d) = pdf_prev_day_range d"
  "pdf_prev_day_return (add_to_day b d) = pdf_prev_day_return d"
  "pdf_day_before_close (add_to_day b d) = pdf_day_before_close d"
  "pdf_current_day_close (add_to_day b d) = Some (rbi_close b)"
  by (simp_all add: add_to_day_def)

lemma start_day_simps [simp]:
  "pdf_current_day_utc (start_day day d) = Some day"
  "pdf_prev_day_close (start_day day d) = pdf_prev_day_close d"
  "pdf_prev_day_range (start_day day d) = pdf_prev_day_range d"
  "pdf_prev_day_return (start_day day d) = pdf_prev_day_return d"
  "pdf_day_before_close (start_day day d) = pdf_day_before_close d"
  by (simp_all add: start_day_def)

lemma first_bar_of_day:
  "day_so_far (pho_utc_day h (rbi_close_ts b)) [b] (add_to_day b (start_day (pho_utc_day h (rbi_close_ts b)) d))"
  by (simp add: day_so_far_def add_to_day_def start_day_def)

lemma next_bar_of_day:
  assumes "day_so_far day bs d" "bs \<noteq> []"
  shows "day_so_far day (bs @ [b]) (add_to_day b d)"
  using assms by (simp add: day_so_far_def add_to_day_def max.commute min.commute)

lemma observe_same_day:
  assumes "day_so_far day bs d" "bs \<noteq> []" "\<forall>b \<in> set cs. pho_utc_day h (rbi_close_ts b) = day"
    and "observe_days h d cs = Some d'"
  shows "day_so_far day (bs @ cs) d'"
  using assms
proof (induction cs arbitrary: bs d)
  case (Cons b cs)
  then have "observe_day h d b = Some (add_to_day b d)"
    by (simp add: observe_day_def day_so_far_def)
  then show ?case
    using Cons.IH[of "bs @ [b]" "add_to_day b d"] Cons.prems next_bar_of_day[of day bs d b] by simp
qed simp

lemma observe_whole_day:
  assumes "bs \<noteq> []" "\<forall>b \<in> set bs. pho_utc_day h (rbi_close_ts b) = day"
    and "pdf_current_day_utc d \<noteq> Some day" "observe_days h d bs = Some d'"
  shows "day_so_far day bs d'"
proof -
  obtain b cs where bs: "bs = b # cs" using assms(1) by (cases bs) auto
  obtain d1 where "carry_day (pho_ops h) d = Some d1"
    "observe_days h (add_to_day b (start_day day d1)) cs = Some d'"
    using assms(2-4) unfolding bs by (auto simp: observe_day_def bind_eq_Some_conv)
  then show ?thesis
    using observe_same_day[of day "[b]" "add_to_day b (start_day day d1)" cs h d']
      first_bar_of_day[of h b d1] assms(2) unfolding bs by simp
qed

definition exact_difference :: "(decimal \<Rightarrow> decimal \<Rightarrow> decimal option) \<Rightarrow> bool" where
  "exact_difference sub \<longleftrightarrow> (\<forall>x y z. sub x y = Some z \<longrightarrow> z = x - y)"

lemma carry_day_of_bars:
  assumes "exact_difference (ppo_sub ops)" "day_so_far day bs d" "carry_day ops d = Some d'"
  shows "pdf_prev_day_close d' = Some (rbi_close (last bs))"
    and "pdf_prev_day_range d' = Some (Max (rbi_high ` set bs) - Min (rbi_low ` set bs))"
    and "pdf_day_before_close d' = pdf_prev_day_close d"
  using assms
  by (auto simp: carry_day_def day_so_far_def day_range_def exact_difference_def Let_def
        bind_eq_Some_conv split: if_splits)

text \<open>C38: Once a bar of another day has come, the day of the bars before it is the previous day:
  its close is the close of its last bar, its range the difference of its highest high and its
  lowest low, the close before it is the one that was previous, and the current day has seen
  only the new bar.\<close>

theorem previous_day_summary:
  assumes "exact_difference (ppo_sub (pho_ops h))"
    and "bs \<noteq> []" "\<forall>b \<in> set bs. pho_utc_day h (rbi_close_ts b) = day"
    and "pdf_current_day_utc d \<noteq> Some day"
    and "pho_utc_day h (rbi_close_ts c) \<noteq> day"
    and "observe_days h d bs = Some d1" "observe_day h d1 c = Some d2"
  shows "pdf_prev_day_close d2 = Some (rbi_close (last bs))
    \<and> pdf_prev_day_range d2 = Some (Max (rbi_high ` set bs) - Min (rbi_low ` set bs))
    \<and> pdf_day_before_close d2 = pdf_prev_day_close d1
    \<and> day_so_far (pho_utc_day h (rbi_close_ts c)) [c] d2"
proof -
  have day: "day_so_far day bs d1" by (rule observe_whole_day[OF assms(2-4,6)])
  then obtain d1' where carry: "carry_day (pho_ops h) d1 = Some d1'"
    and d2: "d2 = add_to_day c (start_day (pho_utc_day h (rbi_close_ts c)) d1')"
    using assms(5,7) by (auto simp: observe_day_def day_so_far_def)
  show ?thesis
    using carry_day_of_bars[OF assms(1) day carry] first_bar_of_day[of h c d1'] d2 by simp
qed

section \<open>The plan and the ledger\<close>

text \<open>The records of a plan that carry an intent, an order, a trade or a position.\<close>

fun intent_of_payload :: "'f paper_payload \<Rightarrow> paper_intent list" where
  "intent_of_payload (PayloadIntent i) = [i]"
| "intent_of_payload _ = []"

fun order_of_payload :: "'f paper_payload \<Rightarrow> paper_order list" where
  "order_of_payload (PayloadOrder x) = [x]"
| "order_of_payload _ = []"

fun trade_of_payload :: "'f paper_payload \<Rightarrow> paper_trade list" where
  "trade_of_payload (PayloadTrade t) = [t]"
| "trade_of_payload _ = []"

fun position_of_payload :: "'f paper_payload \<Rightarrow> paper_position list" where
  "position_of_payload (PayloadPosition x) = [x]"
| "position_of_payload _ = []"

definition planned :: "('f paper_payload \<Rightarrow> 'r list) \<Rightarrow> 'f paper_publish_record list \<Rightarrow> 'r list" where
  "planned sel plan = concat (map (\<lambda>x. sel (ppr_payload x)) plan)"

lemma planned_simps [simp]:
  "planned sel [] = []"
  "planned sel (xs @ ys) = planned sel xs @ planned sel ys"
  "planned sel (publish_on s payload # xs) = sel payload @ planned sel xs"
  by (simp_all add: planned_def publish_on_def)

text \<open>The ledger \<open>l'\<close> is \<open>l\<close> with the rows that the records of the plan carry.\<close>

definition ledger_extends ::
    "paper_ledger_snapshot \<Rightarrow> 'f paper_publish_record list \<Rightarrow> paper_ledger_snapshot \<Rightarrow> bool" where
  "ledger_extends l plan l' \<longleftrightarrow>
     pls_intents l' = pls_intents l @ planned intent_of_payload plan
     \<and> pls_orders l' = pls_orders l @ planned order_of_payload plan
     \<and> pls_trades l' = pls_trades l @ planned trade_of_payload plan
     \<and> pls_positions l' = pls_positions l @ planned position_of_payload plan"

lemma ledger_extends_refl [simp]: "ledger_extends l [] l"
  by (simp add: ledger_extends_def)

lemma ledger_extends_trans:
  "ledger_extends l xs l1 \<Longrightarrow> ledger_extends l1 ys l2 \<Longrightarrow> ledger_extends l (xs @ ys) l2"
  by (simp add: ledger_extends_def)

lemma fill_outcome_extends:
  assumes "apply_next_bar_open_market_intent ops l config intent b = Some (l', Inr out)"
  shows "ledger_extends l (records_of_outcome st intent out) l'"
  using assms
proof (cases rule: apply_cases)
  case (pushed side p f)
  then show ?thesis by (cases "validate_ledger l'") (auto simp: ledger_extends_def)
qed (auto simp: ledger_extends_def)

lemma fill_intents_plan:
  assumes "fill_intents ops c b intents l (plan, filled, dups) = Some (l', Inr (plan', filled', dups'))"
  shows "(\<exists>new. plan' = plan @ new \<and> ledger_extends l new l')
    \<and> filled' + dups' = filled + dups + length intents"
  using assms
proof (induction intents arbitrary: l plan filled dups)
  case (Cons intent intents)
  obtain l1 r where
    call: "apply_next_bar_open_market_intent ops l (pac_ledger c) intent b = Some (l1, r)"
    using Cons.prems by (auto simp: bind_eq_Some_conv)
  obtain out where r: "r = Inr out"
    using Cons.prems call by (cases r) auto
  note step = call[unfolded r]
  have rest: "fill_intents ops c b intents l1
        (plan @ records_of_outcome (pac_streams c) intent out,
         (if is_filled (Inr out) then filled + 1 else filled),
         (if is_filled (Inr out) then dups else dups + 1)) = Some (l', Inr (plan', filled', dups'))"
    using Cons.prems step by simp
  show ?case
    using Cons.IH[OF rest] ledger_extends_trans[OF fill_outcome_extends[OF step, of "pac_streams c"]]
    by auto
qed simp

lemma observe_features_extends:
  "observe_runtime_bar_features h l b = Some l' \<Longrightarrow>
     ledger_extends l [publish_on s (PayloadRuntimeState st)] l'"
  by (auto simp: observe_runtime_bar_features_def ledger_extends_def)

lemma adapter_observe_ok:
  fixes h :: "'f paper_host"
  assumes "adapter_observe_runtime_bar h a b intents = Some (a', Inr out)"
  obtains l plan filled dups st where
    "validate_runtime_input a b = Inr ()"
    "fill_intents (pho_ops h) (pad_config a) b intents (pad_ledger a) ([], 0, 0)
       = Some (l, Inr (plan, filled, dups))"
    "observe_runtime_bar_features h l b = Some (pad_ledger a')"
    "to_runtime_state_for_bar h (pad_ledger a') b = Some st"
    "pao_publish_plan out = plan @ [publish_on (pst_runtime_state_stream (pac_streams (pad_config a)))
       (PayloadRuntimeState (overlay_state (pad_shadow a') st))]"
    "pao_filled_count out = filled" "pao_duplicate_count out = dups"
    "pad_config a' = pad_config a"
proof -
  have ok: "validate_runtime_input a b = Inr ()"
    using assms by (cases "validate_runtime_input a b") (auto simp: adapter_observe_runtime_bar_def)
  obtain l and r :: "paper_ledger_executor_error + 'f paper_publish_record list \<times> nat \<times> nat" where
    fill: "fill_intents (pho_ops h) (pad_config a) b intents (pad_ledger a) ([], 0, 0) = Some (l, r)"
    using assms ok by (auto simp: adapter_observe_runtime_bar_def bind_eq_Some_conv)
  obtain plan filled dups where r: "r = Inr (plan, filled, dups)"
    using assms ok fill by (cases r) (auto simp: adapter_observe_runtime_bar_def)
  show thesis
    using assms ok fill r
    by (auto intro!: that simp: adapter_observe_runtime_bar_def bind_eq_Some_conv Let_def)
qed

text \<open>What a call of the adapter that succeeds adds to the ledger is what its plan publishes.\<close>

lemma adapter_plan_extends:
  assumes "adapter_observe_runtime_bar h a b intents = Some (a', Inr out)"
  shows "ledger_extends (pad_ledger a) (pao_publish_plan out) (pad_ledger a')"
  using assms
proof (rule adapter_observe_ok)
  fix l plan filled dups st
  assume fill: "fill_intents (pho_ops h) (pad_config a) b intents (pad_ledger a) ([], 0, 0)
      = Some (l, Inr (plan, filled, dups))"
    and day: "observe_runtime_bar_features h l b = Some (pad_ledger a')"
    and plan: "pao_publish_plan out = plan @ [publish_on
      (pst_runtime_state_stream (pac_streams (pad_config a)))
      (PayloadRuntimeState (overlay_state (pad_shadow a') st))]"
  show ?thesis
    unfolding plan using fill_intents_plan[OF fill]
    by (auto intro: ledger_extends_trans observe_features_extends[OF day])
qed

lemma adapter_counts:
  assumes "adapter_observe_runtime_bar h a b intents = Some (a', Inr out)"
  shows "pao_filled_count out + pao_duplicate_count out = length intents"
  using assms by (rule adapter_observe_ok) (auto dest!: fill_intents_plan)

section \<open>Runs of the loop\<close>

fun loop_run ::
    "'f paper_host \<Rightarrow> paper_clock \<Rightarrow> ('s \<Rightarrow> 'f paper_publish_record \<Rightarrow> 's \<times> (string + unit))
       \<Rightarrow> paper_loop \<Rightarrow> (bar \<times> paper_intent list) list \<Rightarrow> 's
       \<Rightarrow> (paper_loop \<times> 's \<times> (paper_loop_error + 'f paper_loop_outcome) list) option" where
  "loop_run h k publish lo [] sink = Some (lo, sink, [])"
| "loop_run h k publish lo ((x, intents) # calls) sink =
     Option.bind (loop_observe_source_bar h k publish lo x intents sink) (\<lambda>(lo', sink', r).
     map_option (\<lambda>(lo'', sink'', rs). (lo'', sink'', r # rs))
       (loop_run h k publish lo' calls sink'))"

lemma loop_run_ConsE:
  assumes "loop_run h k publish lo (call # calls) sink = Some (lo'', sink'', rs)"
  obtains lo' sink' r rs' where
    "loop_observe_source_bar h k publish lo (fst call) (snd call) sink = Some (lo', sink', r)"
    "loop_run h k publish lo' calls sink' = Some (lo'', sink'', rs')" "rs = r # rs'"
  using assms by (cases call) (auto simp: bind_eq_Some_conv)

text \<open>How a bar goes through the loop: nothing reaches the adapter, or the bar of a full bucket.\<close>

lemma loop_cases:
  assumes "loop_observe_source_bar h k publish lo x intents sink = Some (lo', sink', r)"
  obtains (held) p out where
    "publisher_observe_source_bar k (pho_ops h) (plo_bar_publisher lo) x = Some (p, out)"
    "\<And>s i. out \<noteq> PaperBarPublished s i"
    "lo' = lo \<lparr> plo_bar_publisher := p \<rparr>" "sink' = sink" "\<And>n o'. r \<noteq> Inr (LoopPublished n o')"
    "is_ok r"
  | (failed) p stream input a e where
    "publisher_observe_source_bar k (pho_ops h) (plo_bar_publisher lo) x
       = Some (p, PaperBarPublished stream input)"
    "adapter_observe_runtime_bar h (plo_adapter lo) input intents = Some (a, Inl e)"
    "lo' = lo \<lparr> plo_bar_publisher := p, plo_adapter := a \<rparr>" "sink' = sink"
    "r = Inl (LoopAdapter e)"
  | (published) p stream input a out where
    "publisher_observe_source_bar k (pho_ops h) (plo_bar_publisher lo) x
       = Some (p, PaperBarPublished stream input)"
    "adapter_observe_runtime_bar h (plo_adapter lo) input intents = Some (a, Inr out)"
    "lo' = lo \<lparr> plo_bar_publisher := p, plo_adapter := a \<rparr>"
    "loop_publish publish sink out = (sink', r)"
proof -
  obtain p out where p: "publisher_observe_source_bar k (pho_ops h) (plo_bar_publisher lo) x = Some (p, out)"
    using assms by (auto simp: loop_observe_source_bar_def bind_eq_Some_conv)
  show thesis
  proof (cases out)
    case (PaperBarPublished stream input)
    then obtain a u where
      a: "adapter_observe_runtime_bar h (plo_adapter lo) input intents = Some (a, u)"
      using assms p by (auto simp: loop_observe_source_bar_def Let_def)
    then show thesis
      using assms p PaperBarPublished failed published
      by (cases u) (auto simp: loop_observe_source_bar_def Let_def)
  qed (use assms p held in \<open>auto simp: loop_observe_source_bar_def Let_def is_ok_def\<close>)
qed

lemma loop_publish_ok:
  assumes "loop_publish memory_publish sink out = (sink', r)"
  shows "pms_records sink' = pms_records sink @ pao_publish_plan out
    \<and> r = Inr (LoopPublished (length (pao_publish_plan out)) out)"
proof -
  obtain s u where s: "publish_all memory_publish sink (pao_publish_plan out) = (s, u)"
    by (cases "publish_all memory_publish sink (pao_publish_plan out)")
  have ok: "\<exists>s'. publish_all memory_publish t xs = (s', Inr ())" for t :: "'a paper_memory_sink" and xs
    by (induction xs arbitrary: t) (auto simp: memory_publish_def)
  then have "u = Inr ()" using s by (metis prod.inject)
  then show ?thesis
    using assms s memory_sink.publish_all_taken[of sink _ s "()"]
    by (auto simp: loop_publish_def)
qed

lemma loop_step_published:
  assumes "loop_observe_source_bar h k memory_publish lo x intents sink = Some (lo', sink', r)"
    and "is_ok r" and "ledger_extends l (pms_records sink) (pad_ledger (plo_adapter lo))"
  shows "ledger_extends l (pms_records sink') (pad_ledger (plo_adapter lo'))"
  using assms(1)
proof (cases rule: loop_cases)
  case (published p stream input a out)
  then show ?thesis
    using loop_publish_ok[OF published(4)] adapter_plan_extends[OF published(2)] assms(3)
    by (simp add: ledger_extends_trans)
qed (use assms(2,3) in \<open>simp_all add: is_ok_def\<close>)

lemma loop_run_published:
  assumes "loop_run h k memory_publish lo calls sink = Some (lo', sink', rs)"
    and "filter (\<lambda>r. \<not> is_ok r) rs = []"
    and "ledger_extends l (pms_records sink) (pad_ledger (plo_adapter lo))"
  shows "ledger_extends l (pms_records sink') (pad_ledger (plo_adapter lo'))"
  using assms
proof (induction calls arbitrary: lo sink rs)
  case (Cons call calls)
  from Cons.prems(1) obtain lo1 sink1 r rs' where
    step: "loop_observe_source_bar h k memory_publish lo (fst call) (snd call) sink
      = Some (lo1, sink1, r)"
    and rest: "loop_run h k memory_publish lo1 calls sink1 = Some (lo', sink', rs')" "rs = r # rs'"
    by (rule loop_run_ConsE)
  show ?case
    using Cons.IH[OF rest(1)] loop_step_published[OF step _ Cons.prems(3)] Cons.prems(2) rest(2)
    by (simp split: if_splits)
qed simp

text \<open>C39: As long as no call of the loop answers with an error, the sink has, in order and once,
  every intent, order, trade and position that the calls added to the ledger, and nothing else
  of these kinds: what is published is the ledger.\<close>

theorem sink_mirrors_ledger:
  assumes "loop_run h k memory_publish lo calls memory_sink_new = Some (lo', sink', rs)"
    and "filter (\<lambda>r. \<not> is_ok r) rs = []"
  shows "ledger_extends (pad_ledger (plo_adapter lo)) (pms_records sink') (pad_ledger (plo_adapter lo'))"
  by (rule loop_run_published[OF assms]) (simp add: memory_sink_new_def)

section \<open>An error in the middle of a bar\<close>

lemma fill_intents_new_ids:
  assumes "fill_intents ops c b intents l (plan, filled, dups) = Some (l', Inr (plan', filled', dups'))"
    and "i \<in> pin_intent_id ` set (pls_intents l)"
  shows "\<exists>new. plan' = plan @ new \<and> i \<notin> ptr_intent_id ` set (planned trade_of_payload new)"
  using assms
proof (induction intents arbitrary: l plan filled dups)
  case (Cons intent intents)
  obtain l1 r where
    call: "apply_next_bar_open_market_intent ops l (pac_ledger c) intent b = Some (l1, r)"
    using Cons.prems by (auto simp: bind_eq_Some_conv)
  obtain out where r: "r = Inr out"
    using Cons.prems call by (cases r) auto
  have "i \<in> pin_intent_id ` set (pls_intents l1)
    \<and> i \<notin> ptr_intent_id ` set (planned trade_of_payload (records_of_outcome (pac_streams c) intent out))"
    using call Cons.prems(2) unfolding r
  proof (cases rule: apply_cases)
    case (pushed side p f)
    have "i \<noteq> pin_intent_id intent" using Cons.prems(2) pushed(2) by (metis list.set_map)
    then show ?thesis
      using Cons.prems(2) pushed(5,6,7) by (cases "validate_ledger l1") simp_all
  qed auto
  then show ?case
    using Cons.IH Cons.prems(1) call r by (simp add: bind_eq_Some_conv) fastforce
qed simp

lemma adapter_new_ids:
  assumes "adapter_observe_runtime_bar h a b intents = Some (a', Inr out)"
    and "i \<in> pin_intent_id ` set (pls_intents (pad_ledger a))"
  shows "i \<notin> ptr_intent_id ` set (planned trade_of_payload (pao_publish_plan out))"
  using assms(1) by (rule adapter_observe_ok) (auto dest!: fill_intents_new_ids[OF _ assms(2)])

lemma filled_rows:
  assumes "apply_next_bar_open_market_intent ops l config intent b
      = Some (l1, Inr (PaperFilledOutcome ord trade position ack))"
  shows "trade \<in> set (pls_trades l1)" "ptr_intent_id trade = pin_intent_id intent"
    "intent \<in> set (pls_intents l1)"
  using assms by (cases rule: apply_cases; cases "validate_ledger l1"; auto)+

lemma intents_grow:
  assumes "apply_next_bar_open_market_intent ops l config intent b = Some (l', r)"
  shows "set (pls_intents l) \<subseteq> set (pls_intents l')" "set (pls_trades l) \<subseteq> set (pls_trades l')"
  using assms by (cases rule: apply_cases; auto)+

text \<open>Calls of the adapter one after another, whatever they answer; a panic ends the run.\<close>

fun adapter_run ::
    "'f paper_host \<Rightarrow> paper_adapter \<Rightarrow> (runtime_bar_input \<times> paper_intent list) list
       \<Rightarrow> (paper_adapter \<times> (paper_adapter_error + 'f paper_adapter_outcome) list) option" where
  "adapter_run h a [] = Some (a, [])"
| "adapter_run h a ((b, intents) # calls) =
     Option.bind (adapter_observe_runtime_bar h a b intents) (\<lambda>(a', r).
     map_option (\<lambda>(a'', rs). (a'', r # rs)) (adapter_run h a' calls))"

lemma adapter_run_ConsE:
  assumes "adapter_run h a (call # calls) = Some (a'', rs)"
  obtains a' r rs' where "adapter_observe_runtime_bar h a (fst call) (snd call) = Some (a', r)"
    "adapter_run h a' calls = Some (a'', rs')" "rs = r # rs'"
  using assms by (cases call) (auto simp: bind_eq_Some_conv)

definition rows_kept :: "paper_ledger_snapshot \<Rightarrow> paper_ledger_snapshot \<Rightarrow> bool" where
  "rows_kept l l' \<longleftrightarrow> set (pls_intents l) \<subseteq> set (pls_intents l') \<and> set (pls_trades l) \<subseteq> set (pls_trades l')"

lemma rows_kept_trans: "rows_kept l l' \<Longrightarrow> rows_kept l' l'' \<Longrightarrow> rows_kept l l''"
  by (auto simp: rows_kept_def)

lemma fill_intents_keep:
  "fill_intents ops c b intents l acc = Some (l', r) \<Longrightarrow> rows_kept l l'"
proof (induction intents arbitrary: l acc)
  case (Cons intent intents)
  obtain plan filled dups where acc: "acc = (plan, filled, dups)" by (cases acc)
  obtain l1 r1 where
    call: "apply_next_bar_open_market_intent ops l (pac_ledger c) intent b = Some (l1, r1)"
    using Cons.prems unfolding acc by (auto simp: bind_eq_Some_conv)
  have "rows_kept l l1" using intents_grow[OF call] by (simp add: rows_kept_def)
  moreover have "rows_kept l1 l'"
    using Cons.prems call Cons.IH unfolding acc
    by (cases r1) (auto simp: rows_kept_def)
  ultimately show ?case by (rule rows_kept_trans)
qed (simp add: rows_kept_def)

lemma adapter_keeps:
  fixes h :: "'f paper_host"
  assumes "adapter_observe_runtime_bar h a b intents = Some (a', r)"
  shows "rows_kept (pad_ledger a) (pad_ledger a')"
proof (cases r)
  case (Inl e)
  show ?thesis
  proof (cases "validate_runtime_input a b")
    case (Inl e')
    then show ?thesis using assms by (simp add: adapter_observe_runtime_bar_def rows_kept_def)
  next
    case (Inr u)
    obtain l and r1 :: "paper_ledger_executor_error + 'f paper_publish_record list \<times> nat \<times> nat"
      where fill: "fill_intents (pho_ops h) (pad_config a) b intents (pad_ledger a) ([], 0, 0) = Some (l, r1)"
      using assms Inr by (auto simp: adapter_observe_runtime_bar_def bind_eq_Some_conv)
    have "pad_ledger a' = l"
      using assms \<open>r = Inl e\<close> Inr fill
      by (cases r1) (auto simp: adapter_observe_runtime_bar_def bind_eq_Some_conv Let_def)
    then show ?thesis using fill_intents_keep[OF fill] by simp
  qed
next
  case (Inr out)
  show ?thesis
    using adapter_plan_extends[OF assms[unfolded Inr]] by (auto simp: ledger_extends_def rows_kept_def)
qed

text \<open>An intent of the ledger is never in the plan of a later call.\<close>

lemma adapter_run_silent:
  assumes "adapter_run h a calls = Some (a', rs)" and "i \<in> pin_intent_id ` set (pls_intents (pad_ledger a))"
  shows "rows_kept (pad_ledger a) (pad_ledger a')
    \<and> (\<forall>out. Inr out \<in> set rs \<longrightarrow> i \<notin> ptr_intent_id ` set (planned trade_of_payload (pao_publish_plan out)))"
  using assms
proof (induction calls arbitrary: a rs)
  case (Cons call calls)
  from Cons.prems(1) obtain a1 r rs' where
    step: "adapter_observe_runtime_bar h a (fst call) (snd call) = Some (a1, r)"
    and rest: "adapter_run h a1 calls = Some (a', rs')" "rs = r # rs'"
    by (rule adapter_run_ConsE)
  have kept: "rows_kept (pad_ledger a) (pad_ledger a1)" by (rule adapter_keeps[OF step])
  then have "i \<in> pin_intent_id ` set (pls_intents (pad_ledger a1))"
    using Cons.prems(2) by (auto simp: rows_kept_def)
  note later = Cons.IH[OF rest(1) this]
  have "i \<notin> ptr_intent_id ` set (planned trade_of_payload (pao_publish_plan out))" if "r = Inr out" for out
    using adapter_new_ids[OF step[unfolded that] Cons.prems(2)] .
  then show ?case using later rows_kept_trans[OF kept] rest(2) by auto
qed (simp add: rows_kept_def)

text \<open>Offered alone to a ledger that knows it, an intent is a duplicate or refused.\<close>

lemma known_intent_duplicate:
  assumes "adapter_observe_runtime_bar h a b [intent] = Some (a', Inr out)"
    and "pin_intent_id intent \<in> pin_intent_id ` set (pls_intents (pad_ledger a))"
  shows "pao_filled_count out = 0 \<and> pao_duplicate_count out = 1"
  using assms(1)
proof (rule adapter_observe_ok)
  fix l plan filled dups
  assume fill: "fill_intents (pho_ops h) (pad_config a) b [intent] (pad_ledger a) ([], 0, 0)
      = Some (l, Inr (plan, filled, dups))"
    and counts: "pao_filled_count out = filled" "pao_duplicate_count out = dups"
  obtain l1 r where
    call: "apply_next_bar_open_market_intent (pho_ops h) (pad_ledger a) (pac_ledger (pad_config a)) intent b
      = Some (l1, r)"
    using fill by (auto simp: bind_eq_Some_conv)
  from call show ?thesis
  proof (cases rule: apply_cases)
    case duplicate
    then show ?thesis using fill call counts by simp
  next
    case (pushed side p f)
    then show ?thesis using assms(2) by simp
  qed (use fill call in simp)
qed

text \<open>C40: When a bar comes with intents of which the first is filled and the second is refused,
  the call answers with the refusal and plans nothing, but the fill of the first stays in the
  ledger for good. Whatever bars and intents come later, and whatever those calls answer, none
  that succeeds ever plans to publish a trade of that intent, and offering it again alone, at
  any later time, is either an error or counted as a duplicate and not as a fill.\<close>

theorem refused_intent_hides_fill:
  assumes "validate_runtime_input a b = Inr ()"
    and "apply_next_bar_open_market_intent (pho_ops h) (pad_ledger a) (pac_ledger (pad_config a)) first b
      = Some (l1, Inr (PaperFilledOutcome ord trade position ack))"
    and "apply_next_bar_open_market_intent (pho_ops h) l1 (pac_ledger (pad_config a)) second b
      = Some (l2, Inl e)"
    and "adapter_observe_runtime_bar h a b (first # second # others) = Some (a', r)"
    and "adapter_run h a' calls = Some (a'', rs)"
  shows "r = Inl (AdapterExecutor e) \<and> trade \<in> set (pls_trades (pad_ledger a''))
    \<and> (\<forall>out. Inr out \<in> set rs \<longrightarrow>
          ptr_intent_id trade \<notin> ptr_intent_id ` set (planned trade_of_payload (pao_publish_plan out)))
    \<and> (\<forall>c a3 out. adapter_observe_runtime_bar h a'' c [first] = Some (a3, Inr out) \<longrightarrow>
          pao_filled_count out = 0 \<and> pao_duplicate_count out = 1)"
proof -
  have r: "r = Inl (AdapterExecutor e)" and a': "pad_ledger a' = l2"
    using assms(1-4) by (auto simp: adapter_observe_runtime_bar_def)
  have rows: "trade \<in> set (pls_trades l2)" "first \<in> set (pls_intents l2)"
    using filled_rows[OF assms(2)] intents_grow[OF assms(3)] by auto
  then have "pin_intent_id first \<in> pin_intent_id ` set (pls_intents (pad_ledger a'))" by (simp add: a')
  note silent = adapter_run_silent[OF assms(5) this]
  then have "trade \<in> set (pls_trades (pad_ledger a''))"
    "pin_intent_id first \<in> pin_intent_id ` set (pls_intents (pad_ledger a''))"
    using rows by (auto simp: rows_kept_def a')
  then show ?thesis using r silent known_intent_duplicate filled_rows(2)[OF assms(2)] by metis
qed

section \<open>Witnesses\<close>

definition sample_paper_host :: "rat paper_host" where
  "sample_paper_host =
     \<lparr> pho_ops = sample_paper_ops, pho_rfc3339 = (\<lambda>t. ''2026-01-01T09:00:00+00:00''),
       pho_utc_day = (\<lambda>t. nat_to_string (nat (t div 86400000000000))), pho_to_f64 = (\<lambda>x. x) \<rparr>"

definition sample_day_bar :: "int \<Rightarrow> price \<Rightarrow> price \<Rightarrow> price \<Rightarrow> runtime_bar_input" where
  "sample_day_bar day high low close =
     (sample_fill_bar close) \<lparr> rbi_high := high, rbi_low := low,
        rbi_close_ts := day * 86400000000000 \<rparr>"

definition sample_days :: "(price, bool) paper_day_features" where
  "sample_days = pls_day (paper_ledger_empty sample_executor_config 0)"

lemma sample_host_exact: "exact_difference (ppo_sub (pho_ops sample_paper_host))"
  by (simp add: exact_difference_def sample_paper_host_def sample_paper_ops_def)

lemma sample_days_run:
  "Option.bind (observe_days sample_paper_host sample_days
       [sample_day_bar 1 12 9 10, sample_day_bar 1 11 7 8])
     (\<lambda>d1. observe_day sample_paper_host d1 (sample_day_bar 2 20 19 20)) \<noteq> None"
  by code_simp

theorem previous_day_summary_witness:
  "\<exists>d1 d2. observe_days sample_paper_host sample_days
       [sample_day_bar 1 12 9 10, sample_day_bar 1 11 7 8] = Some d1
     \<and> observe_day sample_paper_host d1 (sample_day_bar 2 20 19 20) = Some d2
     \<and> pdf_prev_day_close d2 = Some 8 \<and> pdf_prev_day_range d2 = Some 5"
proof -
  obtain d1 d2 where run: "observe_days sample_paper_host sample_days
       [sample_day_bar 1 12 9 10, sample_day_bar 1 11 7 8] = Some d1"
    "observe_day sample_paper_host d1 (sample_day_bar 2 20 19 20) = Some d2"
    using sample_days_run by (auto simp: bind_eq_Some_conv)
  have days: "\<forall>b \<in> set [sample_day_bar 1 12 9 10, sample_day_bar 1 11 7 8].
      pho_utc_day sample_paper_host (rbi_close_ts b) = nat_to_string 1"
    and other: "pho_utc_day sample_paper_host (rbi_close_ts (sample_day_bar 2 20 19 20)) \<noteq> nat_to_string 1"
    and start: "pdf_current_day_utc sample_days \<noteq> Some (nat_to_string 1)"
    by code_simp+
  show ?thesis
    using previous_day_summary[OF sample_host_exact _ days start other run] run
    by (simp add: sample_day_bar_def sample_fill_bar_def)
qed

definition sample_clock :: paper_clock where
  "sample_clock = \<lparr> pck_num_seconds = trunc_units 1000000000, pck_timestamp = sample_secs,
     pck_from_timestamp = sample_of_secs \<rparr>"

definition sample_adapter :: paper_adapter where
  "sample_adapter =
     \<lparr> pad_config = finam_imoexf_adapter_config ''s'' sample_instrument PaperLiveOnly,
       pad_ledger = paper_ledger_empty (executor_config_new ''s'' sample_instrument PaperLiveOnly 600) 0,
       pad_shadow = None \<rparr>"

definition sample_loop :: paper_loop where
  "sample_loop =
     \<lparr> plo_bar_publisher =
         \<lparr> pbp_config = (finam_m1_to_m10_paper ''s'' sample_instrument ''m5'' ''m10'')
             \<lparr> pbc_source_timeframe_sec := 300 \<rparr>,
           pbp_aggregator = aggregator_new 600 \<rparr>,
       plo_adapter = sample_adapter \<rparr>"

text \<open>Two five-minute bars, an intent with the second.\<close>

definition sample_source_bars :: "(bar \<times> paper_intent list) list" where
  "sample_source_bars =
     [(sample_bar 300 600, []), (sample_bar 300 900, [sample_paper_intent ''a'' Buy 1])]"

lemma sample_loop_run:
  "map_option (\<lambda>(lo, sink, rs). (length (pls_trades (pad_ledger (plo_adapter lo))),
       length (pms_records sink), map is_ok rs))
     (loop_run sample_paper_host sample_clock memory_publish sample_loop sample_source_bars memory_sink_new)
   = Some (1, 6, [True, True])"
  by code_simp

theorem sink_mirrors_ledger_witness:
  "\<exists>lo sink rs. loop_run sample_paper_host sample_clock memory_publish sample_loop sample_source_bars
       memory_sink_new = Some (lo, sink, rs)
     \<and> length (pls_trades (pad_ledger (plo_adapter lo))) = 1
     \<and> ledger_extends (pad_ledger (plo_adapter sample_loop)) (pms_records sink)
         (pad_ledger (plo_adapter lo))"
proof -
  obtain lo sink rs where run: "loop_run sample_paper_host sample_clock memory_publish sample_loop
      sample_source_bars memory_sink_new = Some (lo, sink, rs)"
    and trades: "length (pls_trades (pad_ledger (plo_adapter lo))) = 1"
    and answers: "map is_ok rs = [True, True]"
    using sample_loop_run by (auto split: option.splits prod.splits)
  have "filter (\<lambda>r. \<not> is_ok r) rs = []" using answers by auto
  then show ?thesis using sink_mirrors_ledger[OF run] run trades by blast
qed

definition sample_live_bar :: "timestamp \<Rightarrow> runtime_bar_input" where
  "sample_live_bar t =
     (sample_fill_bar 100) \<lparr> rbi_origin := OriginLive, rbi_open_ts := t, rbi_close_ts := t + 1 \<rparr>"

lemma sample_refusal:
  "Option.bind (apply_next_bar_open_market_intent sample_paper_ops (pad_ledger sample_adapter)
       (pac_ledger (pad_config sample_adapter)) (sample_paper_intent ''a'' Buy 1) (sample_live_bar 1))
     (\<lambda>(l, r). map_option (\<lambda>(l', r'). (is_filled r, r'))
       (apply_next_bar_open_market_intent sample_paper_ops l
         (pac_ledger (pad_config sample_adapter)) (sample_paper_intent ''b'' Buy 0) (sample_live_bar 1)))
   = Some (True, Inl ExecNonPositiveQuantity)"
  by code_simp

abbreviation retry_calls :: "(runtime_bar_input \<times> paper_intent list) list" where
  "retry_calls \<equiv> [(sample_live_bar 2, [sample_paper_intent ''a'' Buy 1]),
     (sample_live_bar 3, [sample_paper_intent ''c'' Buy 1, sample_paper_intent ''a'' Buy 1])]"

lemma sample_retry:
  "Option.bind (adapter_observe_runtime_bar sample_paper_host sample_adapter (sample_live_bar 1)
       [sample_paper_intent ''a'' Buy 1, sample_paper_intent ''b'' Buy 0])
     (\<lambda>(a, r). Option.bind (adapter_run sample_paper_host a retry_calls) (\<lambda>(a', rs).
       map_option (\<lambda>(a'', r'). (map is_ok rs, is_ok r'))
         (adapter_observe_runtime_bar sample_paper_host a' (sample_live_bar 4) [sample_paper_intent ''a'' Buy 1])))
   = Some ([True, True], True)"
  by code_simp

theorem refused_intent_hides_fill_witness:
  "\<exists>a r a' rs a'' out trade. adapter_observe_runtime_bar sample_paper_host sample_adapter (sample_live_bar 1)
       [sample_paper_intent ''a'' Buy 1, sample_paper_intent ''b'' Buy 0] = Some (a, r)
     \<and> adapter_run sample_paper_host a retry_calls = Some (a', rs) \<and> map is_ok rs = [True, True]
     \<and> adapter_observe_runtime_bar sample_paper_host a' (sample_live_bar 4) [sample_paper_intent ''a'' Buy 1]
         = Some (a'', Inr out)
     \<and> r = Inl (AdapterExecutor ExecNonPositiveQuantity)
     \<and> trade \<in> set (pls_trades (pad_ledger a'))
     \<and> pao_filled_count out = 0 \<and> pao_duplicate_count out = 1"
proof -
  have ops: "pho_ops sample_paper_host = sample_paper_ops" by (simp add: sample_paper_host_def)
  have valid: "validate_runtime_input sample_adapter (sample_live_bar 1) = Inr ()" by code_simp
  obtain l1 r1 l2 where first: "apply_next_bar_open_market_intent (pho_ops sample_paper_host)
      (pad_ledger sample_adapter) (pac_ledger (pad_config sample_adapter))
      (sample_paper_intent ''a'' Buy 1) (sample_live_bar 1) = Some (l1, r1)" "is_filled r1"
    and second: "apply_next_bar_open_market_intent (pho_ops sample_paper_host) l1
      (pac_ledger (pad_config sample_adapter)) (sample_paper_intent ''b'' Buy 0) (sample_live_bar 1)
      = Some (l2, Inl ExecNonPositiveQuantity)"
    using sample_refusal unfolding ops by (auto simp: bind_eq_Some_conv)
  obtain ord trade position ack where r1: "r1 = Inr (PaperFilledOutcome ord trade position ack)"
    using first(2) by (cases r1 rule: is_filled.cases) auto
  obtain a r a' rs a'' r2 where calls: "adapter_observe_runtime_bar sample_paper_host sample_adapter
      (sample_live_bar 1) [sample_paper_intent ''a'' Buy 1, sample_paper_intent ''b'' Buy 0] = Some (a, r)"
    "adapter_run sample_paper_host a retry_calls = Some (a', rs)" "map is_ok rs = [True, True]"
    "adapter_observe_runtime_bar sample_paper_host a' (sample_live_bar 4) [sample_paper_intent ''a'' Buy 1]
       = Some (a'', r2)" "is_ok r2"
    using sample_retry by (auto simp: bind_eq_Some_conv simp del: adapter_run.simps)
  obtain out where retry: "r2 = Inr out" using calls(5) by (cases r2) (auto simp: is_ok_def)
  note hidden = refused_intent_hides_fill[OF valid first(1)[unfolded r1] second calls(1,2)]
  have again: "adapter_observe_runtime_bar sample_paper_host a' (sample_live_bar 4)
      [sample_paper_intent ''a'' Buy 1] = Some (a'', Inr out)" using calls(4) unfolding retry .
  have "pao_filled_count out = 0" "pao_duplicate_count out = 1" using hidden again by blast+
  moreover have "r = Inl (AdapterExecutor ExecNonPositiveQuantity)" "trade \<in> set (pls_trades (pad_ledger a'))"
    using hidden by blast+
  ultimately show ?thesis using calls(1,2,3) again
    by (intro exI[of _ a] exI[of _ r] exI[of _ a'] exI[of _ rs] exI[of _ a''] exI[of _ out]
      exI[of _ trade] conjI)
qed

end
