(* ===== verification/Spec2Isabelle.thy ===== *)
theory Spec2Isabelle
  imports JsonOrderStore SqliteStore Preflight MarketBars MarketRecovery RuntimeState OperationalConfig
    Journal RuntimeHost HybridBoundary Stage6 TradeLedgerFacts OrderTransportFacts
    PaperRuntimeFacts
begin

text \<open>
  Verification development of the MOEX trading gateway (\<open>src/crates\<close>, Rust).

  The gateway connects strategies to a broker. A strategy intent becomes a durable order-path
  record before anything is sent; the record moves through a state machine as the broker
  answers, times out or is reconciled; several stores keep the records across restarts;
  preflight checks, an operator arm and rate limits stand before every send; market data is
  finalised, aggregated and recovered before a strategy may act on it; the runtime keeps
  caches of orders, trades and pending commands and restores them; and a hash-chained journal
  is the durable truth of the later runtime stages.

  \<^bold>\<open>Theories and the code they model\<close>
  (paths under \<open>src/crates/broker-core/src\<close> unless another crate is named)
  \<^item> \<open>Prelude\<close>, \<open>RustStrings\<close>: machine words, time, results, the iteration order of a hash
    set, and the Rust string operations the code uses.
  \<^item> \<open>Identifiers\<close> (\<open>ids.rs\<close>): checked identifiers and the client order id derived from a
    request id (20 characters of base 32 over 96 bits: collisions are characterised exactly).
  \<^item> \<open>Contracts\<close> (\<open>instrument.rs\<close>, \<open>order.rs\<close>, \<open>event.rs\<close>, \<open>command.rs\<close>, \<open>readiness.rs\<close>):
    the broker-neutral data.
  \<^item> \<open>CommentPolicy\<close>, \<open>OrderPath\<close>, \<open>OrderStore\<close>, \<open>JsonOrderStore\<close>, \<open>SqliteStore\<close>, \<open>Preflight\<close>
    (\<open>order_path.rs\<close>): outgoing comments; the state machine of one record; the three stores;
    preflight, arm and rate limits. \<open>OrderStore\<close> declares the contract of a store as a locale
    with its history lemmas; the in-memory model interprets it. \<open>SqliteStore\<close> adds the locale
    of a store whose calls are atomic and interprets it on the SQLite model.
  \<^item> \<open>MarketBars\<close> (\<open>bar_aggregation.rs\<close>, \<open>bar_finalizer.rs\<close>) and \<open>MarketRecovery\<close>
    (\<open>market_data_lifecycle.rs\<close>, \<open>market_data_recovery.rs\<close>): bars and the readiness of a feed.
  \<^item> \<open>BrokerTruth\<close> (\<open>operational_snapshot.rs\<close>, \<open>account.rs\<close>) and \<open>OperationalConfig\<close>
    (\<open>operational_config.rs\<close>): the account as the broker reports it, and the decision
    whether a live entry is allowed.
  \<^item> \<open>RuntimeState\<close> (\<open>runtime_state.rs\<close>): saved state, its validation, the caches.
  \<^item> \<open>RuntimeHost\<close> (\<open>runtime_host.rs\<close>, \<open>hybrid_runtime_ids.rs\<close>, \<open>request_id.rs\<close>): startup
    sequence, event clock, live guard, owned orders and request ids.
  \<^item> \<open>HybridBoundary\<close> (\<open>hybrid_strategy_boundary.rs\<close>): acknowledgements and attributions as a
    strategy sees them, and the validation of its bootstrap.
  \<^item> \<open>TradeLedger\<close>, \<open>TradeLedgerFacts\<close> (\<open>trade_ledger.rs\<close>): attribution of fills to orders, the
    position, closed trades and their summary.
  \<^item> \<open>Journal\<close> (\<open>strategy-runtime-core/src/stage6_journal_backend.rs\<close>): frames, scan,
    checkpoints, memory and file backends; the locale of a journal backend is interpreted on both.
  \<^item> \<open>DurableIdentity\<close>, \<open>DurableRecords\<close>
    (\<open>strategy-runtime-core/src/stage6_durable_identity.rs\<close>): the identity of a request, the
    snapshot of its command, the records of its life, their codec.
  \<^item> \<open>BTreeMaps\<close>, \<open>Replay\<close>, \<open>ReplayFacts\<close> (\<open>strategy-runtime-core/src/stage6_replay.rs\<close>): the
    recovery of every request from the records of a journal. \<open>Stage6\<close> composes records,
    journal and replay.

  \<^item> \<open>FinamOrders\<close> (\<open>broker-finam/src/order_request.rs\<close>): the REST request of an approved
    order and the classification of the endpoint's answer.
  \<^item> \<open>OrderTransport\<close>, \<open>OrderTransportFacts\<close>
    (\<open>finam-gateway/src/m3d2_real_order_transport.rs\<close>, \<open>m3d2_real_transport_lifecycle.rs\<close>): the
    endpoint firewall, what is sent and what its answer does to the stored record. The locale
    \<open>lifecycle_store\<close> extends the contract of an atomic store; it is interpreted on the SQLite
    store under a schedule of faults and on the in-memory store.
  \<^item> \<open>PaperLedger\<close>, \<open>PaperFills\<close>, \<open>PaperRuntime\<close>, \<open>PaperRuntimeFacts\<close> (\<open>paper.rs\<close>): the paper
    ledger with its fills and its check; the features of the day, runtime state and strategy
    shadow; the adapter that fills the intents of a bar, the publisher of runtime bars (over the
    aggregator of \<open>MarketBars\<close>), the loop that joins them, and the sink, whose trait is the
    locale \<open>publish_sink\<close>, interpreted on the in-memory sink.

  A Rust struct is a record whose fields carry a short prefix, an enum is a datatype, \<open>Result\<close>
  is a sum with the error on the left, a method that mutates \<open>self\<close> returns the new value, and
  a possible panic is a value (\<open>None\<close> or an error of its own).

  \<^bold>\<open>What the lemmas show\<close>
  \<^item> Order path: attempt counters are exact and at most one on every run, only finitely many
    events are ever accepted, a restart never leaves a submission in flight, and under the guard
    of the gateway's cancel reconciliation (\<open>finam-gateway/src/lib.rs\<close>) exactly the records under
    manual intervention for anything but an uncertain cancel can no longer be closed, the others
    within two events.
  \<^item> Stores: the three indices of a store agree over any history; the file store survives a
    fault at every step of its write; the SQLite store has a single writer whatever fails, its
    memory agrees with the database as long as no permission change fails after a commit, its
    calls are atomic, and that one fault after the commit is characterised.
  \<^item> Preflight: whatever passes satisfies every bound of the policy; a used or disarmed arm
    refuses until it is rearmed; the window limiter never grants more than its capacity,
    except through the cast of a huge window, which is shown as it is.
  \<^item> Market data: emitted bars are complete, in order and exact aggregates; the finalizer hands
    over exactly the bars a stateless reference closes, in a stream that does not go back; a feed is declared
    ready only under the stated facts.
  \<^item> Runtime: caches equal what the event history determines; restored state is consistent;
    the canonical preflight admits a clean account only.
  \<^item> Journal: what is appended is read back; a crash in the middle of an append leaves the old
    journal, the new one or an error; a checkpoint detects any change before it.
  \<^item> Records and replay: a snapshot gives back exactly the command it was taken of; a record that
    was built is stored and read back; no second dispatch of a request replays without a
    reconciliation that found no broker order; replay depends neither on the interleaving of
    requests nor on repetitions; and a dispatch attempt that reached the file keeps every later
    one from replaying without such a reconciliation.
  \<^item> Order endpoint: a request determines the order it was built of; acceptance and rejection are
    reported on exactly the listed answers; an order is submitted, and cancelled, at most once
    whatever the store and the broker do in between; and the stored record says what the
    answer said.
  \<^item> Paper trading: intents, orders, trades and acknowledgements stay aligned and the position is
    the sum of the trades; the average price lies within the fills up to the rounding of the
    decimals; the summary of the previous
    day is exact; what the sink has is the ledger as long as no call errs. An identifier that
    collides and a refusal in the middle of a bar break this, as two theorems show.
  \<^item> Trade ledger: every fill is accounted for once, and the books are those of applying the
    attributed fills in order, for any floating point arithmetic; the summary of closed trades misses partial closes, which is shown on an example.

  \<^bold>\<open>Bounds and termination\<close>
  Every definition is total. \<open>nat_to_string\<close> and \<open>scan_frames\<close> recurse on shrinking arguments
  with proofs of termination; no definition runs on fuel. Words keep their width (\<open>u8\<close> to
  \<open>u64\<close>), with the casts \<open>u64 as i64\<close> of the code written out; offsets and counts into data
  held in memory are \<open>nat\<close>.

  \<^bold>\<open>Parameters\<close>
  SHA-256, UUID-v5 and UUID display, the serde codecs (of records, rows, lock metadata, frontiers
  and recovered requests), the operations on \<open>f64\<close>,
  the text of a decimal, the JSON parser, the URL library, the HTTP client and the network,
  \<open>rust_decimal\<close> arithmetic (\<open>None\<close> is its panic), chrono's whole-unit readers and
  time display, the floating point value of a price, the iteration order of hash collections, the wall clock, and the faults of the
  file system and of SQLite. The hypotheses about them state documented behaviour:
  \<open>whole_units\<close>, \<open>codec_roundtrip\<close>, \<open>sqlite_codec_ok\<close>, \<open>hash_iteration\<close>, \<open>digest_length\<close>,
  \<open>canonical_decoder\<close>, \<open>record_env_ok\<close>, \<open>exact_sum\<close>, \<open>exact_difference\<close> (a
  decimal sum or difference that returns is exact, which holds as long as it fits 28 digits),
  \<open>near_ops\<close> (decimal operations are accurate to \<open>\<delta>\<close> within a range), and the absence of a collision among the named hash inputs.

  \<^bold>\<open>Not modelled\<close>
  The rest of the gateway and of the broker adapter (\<open>finam-gateway\<close>, \<open>broker-finam\<close>): market
  data, accounts, authentication, the review and evidence reports;
  the Redis and systemd services (\<open>runtime-command-bridge\<close>, \<open>runtime-durable-service\<close>), the
  staged hosts of \<open>strategy-runtime-core\<close> other than the journal, its records of version 1 and
  their replay, the strategies on floating
  point, parity and paper compatibility reports of \<open>broker-core\<close>, and the command line. Within the
  modelled files: serde derivations and wire formats, Display texts that nothing reads, file
  permissions and file identity checks of the operating system.
\<close>

end
